(* ===== verification/Go_Prelude.thy ===== *)
theory Go_Prelude
  imports Complex_Main "HOL-Library.AList" "HOL-Library.Sublist"
begin

text \<open>
  The shared vocabulary of the development: the fragments of the Go language and of its
  standard library that the AccessGate sources use.

  \<^item> A Go \<open>string\<close> or \<open>[]byte\<close> is a \<^typ>\<open>string\<close>: a list of 8-bit characters, so
    \<open>length\<close> counts bytes as \<open>len\<close> does.
  \<^item> A Go map with string keys is an association list whose order stands for the (unspecified)
    iteration order of \<open>range\<close>; \<open>map_of\<close> reads it, \<open>AList.update\<close> writes it. Where the source
    distinguishes a nil map from an empty one, the model uses an option.
  \<^item> A dynamically typed value (\<open>any\<close>) is a \<open>gany\<close>; a type assertion is a case distinction.
  \<^item> An error is a \<open>goerr\<close>; a function that returns \<open>(T, error)\<close> returns \<open>goerr + T\<close>.
  \<^item> An \<open>int64\<close> is an \<^typ>\<open>int\<close>, with \<open>wrap64\<close> at every addition and subtraction that the
    source performs on values it does not control.
\<close>

section \<open>Collections of rules\<close>

named_theorems go_string "rules on the Go string functions"
named_theorems go_map "rules on Go maps as association lists"

section \<open>Types\<close>

type_synonym bytes = string
type_synonym 'v gomap = "(string \<times> 'v) list"

text \<open>Dynamic values: the cases the type switches of the sources distinguish.\<close>

datatype gany =
    ANil
  | AStr string
  | ABool bool
  | AFloat rat
  | AInt int
  | AInt64 int
  | ANumber string
  | AStrs "string list"
  | AList "gany list"
  | AMap "(string \<times> gany) list"

text \<open>Errors: \<open>fmt.Errorf\<close> and \<open>errors.New\<close>, package-level sentinels, \<open>%w\<close> wrapping, \<open>errors.Join\<close>.\<close>

datatype goerr =
    Err string
  | Sentinel string
  | Wrap string goerr
  | WrapS goerr string
  | Join goerr goerr

type_synonym 'a result = "goerr + 'a"

section \<open>Strings\<close>

definition NL :: char where "NL = CHR 0x0A"
definition CR :: char where "CR = CHR 0x0D"
definition DQ :: char where "DQ = CHR 0x22"
definition BSL :: char where "BSL = CHR 0x5C"

definition HasPrefix :: "string \<Rightarrow> string \<Rightarrow> bool" where
  "HasPrefix s p = prefix p s"

definition TrimPrefix :: "string \<Rightarrow> string \<Rightarrow> string" where
  "TrimPrefix s p = (if prefix p s then drop (length p) s else s)"

definition TrimSuffix :: "string \<Rightarrow> string \<Rightarrow> string" where
  "TrimSuffix s p = (if suffix p s then take (length s - length p) s else s)"

text \<open>\<open>strings.Contains\<close>, \<open>strings.Split\<close> with a one-character separator, \<open>strings.Join\<close>.\<close>

fun Contains :: "string \<Rightarrow> string \<Rightarrow> bool" where
  "Contains [] p = (p = [])"
| "Contains (c # s) p = (prefix p (c # s) \<or> Contains s p)"

fun Split :: "char \<Rightarrow> string \<Rightarrow> string list" where
  "Split c [] = [[]]"
| "Split c (x # xs) =
     (if x = c then [] # Split c xs
      else (case Split c xs of [] \<Rightarrow> [[x]] | y # ys \<Rightarrow> (x # y) # ys))"

fun StrJoin :: "string \<Rightarrow> string list \<Rightarrow> string" where
  "StrJoin sep [] = []"
| "StrJoin sep [x] = x"
| "StrJoin sep (x # y # ys) = x @ sep @ StrJoin sep (y # ys)"

text \<open>\<open>strings.SplitN(s, c, 2)\<close> when it yields two parts; \<open>None\<close> when the separator is absent.\<close>

definition SplitN2 :: "char \<Rightarrow> string \<Rightarrow> (string \<times> string) option" where
  "SplitN2 c s =
     (if c \<in> set s then Some (takeWhile (\<lambda>x. x \<noteq> c) s, tl (dropWhile (\<lambda>x. x \<noteq> c) s)) else None)"

text \<open>\<open>strings.LastIndex(s, c)\<close>: the parts before and after the last occurrence.\<close>

definition SplitLast :: "char \<Rightarrow> string \<Rightarrow> (string \<times> string) option" where
  "SplitLast c s =
     (if c \<in> set s
      then Some (rev (tl (dropWhile (\<lambda>x. x \<noteq> c) (rev s))), rev (takeWhile (\<lambda>x. x \<noteq> c) (rev s)))
      else None)"

text \<open>
  \<open>strings.TrimSpace\<close> trims the runes of \<open>unicode.White_Space\<close>. On bytes: the UTF-8 encodings of
  U+0009 to U+000D, U+0020, U+0085, U+00A0, U+1680, U+2000 to U+200A, U+2028, U+2029, U+202F,
  U+205F and U+3000.
\<close>

definition space_runes :: "string list" where
  "space_runes =
     [[CHR 0x20], [CHR 0x09], [CHR 0x0A], [CHR 0x0B], [CHR 0x0C], [CHR 0x0D],
      [CHR 0xC2, CHR 0x85], [CHR 0xC2, CHR 0xA0], [CHR 0xE1, CHR 0x9A, CHR 0x80],
      [CHR 0xE2, CHR 0x80, CHR 0x80], [CHR 0xE2, CHR 0x80, CHR 0x81],
      [CHR 0xE2, CHR 0x80, CHR 0x82], [CHR 0xE2, CHR 0x80, CHR 0x83],
      [CHR 0xE2, CHR 0x80, CHR 0x84], [CHR 0xE2, CHR 0x80, CHR 0x85],
      [CHR 0xE2, CHR 0x80, CHR 0x86], [CHR 0xE2, CHR 0x80, CHR 0x87],
      [CHR 0xE2, CHR 0x80, CHR 0x88], [CHR 0xE2, CHR 0x80, CHR 0x89],
      [CHR 0xE2, CHR 0x80, CHR 0x8A], [CHR 0xE2, CHR 0x80, CHR 0xA8],
      [CHR 0xE2, CHR 0x80, CHR 0xA9], [CHR 0xE2, CHR 0x80, CHR 0xAF],
      [CHR 0xE2, CHR 0x81, CHR 0x9F], [CHR 0xE3, CHR 0x80, CHR 0x80]]"

definition lead_space :: "string \<Rightarrow> nat" where
  "lead_space s = (case find (\<lambda>e. prefix e s) space_runes of None \<Rightarrow> 0 | Some e \<Rightarrow> length e)"

definition trail_space :: "string \<Rightarrow> nat" where
  "trail_space s = (case find (\<lambda>e. suffix e s) space_runes of None \<Rightarrow> 0 | Some e \<Rightarrow> length e)"

function TrimLeftSpace :: "string \<Rightarrow> string" where
  "TrimLeftSpace s = (if s = [] \<or> lead_space s = 0 then s else TrimLeftSpace (drop (lead_space s) s))"
  by pat_completeness auto
termination
  by (relation "measure length") auto

function TrimRightSpace :: "string \<Rightarrow> string" where
  "TrimRightSpace s =
     (if s = [] \<or> trail_space s = 0 then s else TrimRightSpace (take (length s - trail_space s) s))"
  by pat_completeness auto
termination
  by (relation "measure length") auto

declare TrimLeftSpace.simps [simp del] TrimRightSpace.simps [simp del]

definition TrimSpace :: "string \<Rightarrow> string" where
  "TrimSpace s = TrimRightSpace (TrimLeftSpace s)"

text \<open>
  \<open>strings.ToLower\<close> on ASCII, bytes from 0x80 on unchanged. The sources compare its result with
  ASCII constants without the letter k and use it on HTTP header names, which are ASCII tokens:
  on these it is the library function. (Outside ASCII only U+212A KELVIN SIGN maps to an ASCII
  letter, and that letter is k.)
\<close>

definition lower_char :: "char \<Rightarrow> char" where
  "lower_char c = (if 65 \<le> (of_char c :: nat) \<and> (of_char c :: nat) \<le> 90 then char_of (of_char c + 32 :: nat) else c)"

definition ToLower :: "string \<Rightarrow> string" where
  "ToLower = map lower_char"

definition EqualFold :: "string \<Rightarrow> string \<Rightarrow> bool" where
  "EqualFold a b = (ToLower a = ToLower b)"

text \<open>\<open>strings.ReplaceAll\<close> of one character by a string; \<open>strings.Map\<close> dropping CR and LF.\<close>

definition ReplaceChar :: "char \<Rightarrow> string \<Rightarrow> string \<Rightarrow> string" where
  "ReplaceChar c r s = concat (map (\<lambda>x. if x = c then r else [x]) s)"

definition strip_crlf :: "string \<Rightarrow> string" where
  "strip_crlf s = filter (\<lambda>c. c \<noteq> CR \<and> c \<noteq> NL) s"

text \<open>Decimal and hexadecimal digits; \<open>strconv.Itoa\<close>; \<open>%q\<close> on bytes (bytes from 0x80 on unchanged).\<close>

fun nat_digits :: "nat \<Rightarrow> string" where
  "nat_digits n =
     (if n < 10 then [char_of (48 + n)] else nat_digits (n div 10) @ [char_of (48 + n mod 10)])"

declare nat_digits.simps [simp del]

definition Itoa :: "int \<Rightarrow> string" where
  "Itoa i = (if i < 0 then CHR ''-'' # nat_digits (nat (- i)) else nat_digits (nat i))"

definition hex_digit :: "nat \<Rightarrow> char" where
  "hex_digit n = (if n < 10 then char_of (48 + n) else char_of (87 + n))"

definition hex_byte :: "char \<Rightarrow> string" where
  "hex_byte c = [hex_digit (of_char c div 16), hex_digit (of_char c mod 16)]"

definition quote_char :: "char \<Rightarrow> string" where
  "quote_char c =
     (if c = DQ \<or> c = BSL then [BSL, c]
      else if c = CHR 0x07 then [BSL, CHR ''a''] else if c = CHR 0x08 then [BSL, CHR ''b'']
      else if c = CHR 0x0C then [BSL, CHR ''f''] else if c = NL then [BSL, CHR ''n'']
      else if c = CR then [BSL, CHR ''r''] else if c = CHR 0x09 then [BSL, CHR ''t'']
      else if c = CHR 0x0B then [BSL, CHR ''v'']
      else if of_char c < (32 :: nat) \<or> of_char c = (127 :: nat) then [BSL, CHR ''x''] @ hex_byte c
      else [c])"

definition Quote :: "string \<Rightarrow> string" where
  "Quote s = [DQ] @ concat (map quote_char s) @ [DQ]"

section \<open>Errors, integers, dynamic values\<close>

fun err_msg :: "goerr \<Rightarrow> string" where
  "err_msg (Err s) = s"
| "err_msg (Sentinel s) = s"
| "err_msg (Wrap p e) = p @ err_msg e"
| "err_msg (WrapS e s) = err_msg e @ s"
| "err_msg (Join a b) = err_msg a @ [NL] @ err_msg b"

text \<open>\<open>errors.Is\<close>: the target itself, or found through wrapping and joining.\<close>

fun err_is :: "goerr \<Rightarrow> goerr \<Rightarrow> bool" where
  "err_is (Err s) t = False"
| "err_is (Sentinel s) t = (Sentinel s = t)"
| "err_is (Wrap p e) t = err_is e t"
| "err_is (WrapS e s) t = err_is e t"
| "err_is (Join a b) t = (err_is a t \<or> err_is b t)"

definition wrap64 :: "int \<Rightarrow> int" where
  "wrap64 x = (x + 2 ^ 63) mod 2 ^ 64 - 2 ^ 63"

definition in_int64 :: "int \<Rightarrow> bool" where
  "in_int64 x \<longleftrightarrow> - (2 ^ 63) \<le> x \<and> x < 2 ^ 63"

text \<open>Conversion of a float to an integer truncates towards zero.\<close>

definition trunc_rat :: "rat \<Rightarrow> int" where
  "trunc_rat q = (if q < 0 then - \<lfloor>- q\<rfloor> else \<lfloor>q\<rfloor>)"

text \<open>
  \<open>int64(f)\<close> for a float: exact when the truncated value fits; otherwise the value the amd64
  conversion instruction yields.
\<close>

definition float_to_int64 :: "rat \<Rightarrow> int" where
  "float_to_int64 q = (if in_int64 (trunc_rat q) then trunc_rat q else - (2 ^ 63))"

text \<open>
  \<open>strconv.ParseInt(s, 10, 64)\<close>: the value and whether the error is nil. A syntax error gives 0, a
  range error the nearest bound.
\<close>

definition is_digit :: "char \<Rightarrow> bool" where
  "is_digit c \<longleftrightarrow> 48 \<le> (of_char c :: nat) \<and> (of_char c :: nat) \<le> 57"

definition digits_val :: "string \<Rightarrow> int" where
  "digits_val s = fold (\<lambda>c n. n * 10 + (of_char c - 48)) s 0"

definition ParseInt64 :: "string \<Rightarrow> int \<times> bool" where
  "ParseInt64 s =
     (let neg = (s \<noteq> [] \<and> hd s = CHR ''-'');
          ds = (if s \<noteq> [] \<and> (hd s = CHR ''-'' \<or> hd s = CHR ''+'') then tl s else s);
          v = (if neg then - digits_val ds else digits_val ds)
      in if ds = [] \<or> \<not> list_all is_digit ds then (0, False)
         else if v < - (2 ^ 63) then (- (2 ^ 63), False)
         else if 2 ^ 63 - 1 < v then (2 ^ 63 - 1, False)
         else (v, True))"

definition mget :: "'v gomap \<Rightarrow> string \<Rightarrow> 'v option" where
  "mget m k = map_of m k"

text \<open>\<open>m[k].(string)\<close> with the comma-ok idiom; a missing key is the nil interface.\<close>

definition any_get :: "gany gomap \<Rightarrow> string \<Rightarrow> gany" where
  "any_get m k = (case map_of m k of None \<Rightarrow> ANil | Some v \<Rightarrow> v)"

fun as_str :: "gany \<Rightarrow> string option" where
  "as_str (AStr s) = Some s"
| "as_str _ = None"

fun as_map :: "gany \<Rightarrow> gany gomap option" where
  "as_map (AMap m) = Some m"
| "as_map _ = None"

text \<open>\<open>v, _ := x.(string)\<close>: the zero value where the assertion fails.\<close>

definition str_or_empty :: "gany \<Rightarrow> string" where
  "str_or_empty v = (case as_str v of None \<Rightarrow> '''' | Some s \<Rightarrow> s)"

text \<open>A map value: distinct keys.\<close>

definition wf_map :: "'v gomap \<Rightarrow> bool" where
  "wf_map m \<longleftrightarrow> distinct (map fst m)"

section \<open>Decoded configuration values\<close>

definition or_default :: "string \<Rightarrow> string \<Rightarrow> string" where
  "or_default v d = (if v = '''' then d else v)"

text \<open>\<open>json data\<close> is the decoded JSON value; a null decodes into every type, as its zero value.\<close>

type_synonym json_decoder = "bytes \<Rightarrow> gany result"

fun string_slice :: "gany list \<Rightarrow> string list result" where
  "string_slice [] = Inr []"
| "string_slice (x # xs) = (case x of
     AStr s \<Rightarrow> (case string_slice xs of Inl e \<Rightarrow> Inl e | Inr ys \<Rightarrow> Inr (s # ys))
   | ANil \<Rightarrow> (case string_slice xs of Inl e \<Rightarrow> Inl e | Inr ys \<Rightarrow> Inr ('''' # ys))
   | _ \<Rightarrow> Inl (Err ''json: cannot unmarshal into string''))"

section \<open>Lemmas on strings\<close>

lemma HasPrefix_append [simp, go_string]: "HasPrefix (p @ s) p"
  by (simp add: HasPrefix_def)

lemma HasPrefix_iff [go_string]: "HasPrefix s p \<longleftrightarrow> (\<exists>t. s = p @ t)"
  by (auto simp: HasPrefix_def prefix_def)

lemma TrimPrefix_append [simp, go_string]: "TrimPrefix (p @ s) p = s"
  by (simp add: TrimPrefix_def)

lemma TrimSuffix_append [simp, go_string]: "TrimSuffix (s @ p) p = s"
  by (simp add: TrimSuffix_def suffix_def)

lemma SplitN2_append [simp, go_string]:
  assumes "c \<notin> set a"
  shows "SplitN2 c (a @ c # b) = Some (a, b)"
proof -
  have "takeWhile (\<lambda>x. x \<noteq> c) (a @ c # b) = a" and "dropWhile (\<lambda>x. x \<noteq> c) (a @ c # b) = c # b"
    using assms by (induction a) auto
  then show ?thesis by (simp add: SplitN2_def)
qed

lemma SplitN2_Some [go_string]:
  assumes "SplitN2 c s = Some (a, b)"
  shows "s = a @ c # b" and "c \<notin> set a"
proof -
  from assms have c: "c \<in> set s" and a: "a = takeWhile (\<lambda>x. x \<noteq> c) s"
    and b: "b = tl (dropWhile (\<lambda>x. x \<noteq> c) s)"
    by (auto simp: SplitN2_def split: if_splits)
  from c have "dropWhile (\<lambda>x. x \<noteq> c) s \<noteq> []" by (simp add: dropWhile_eq_Nil_conv)
  moreover from this have "hd (dropWhile (\<lambda>x. x \<noteq> c) s) = c"
    using hd_dropWhile [of "\<lambda>x. x \<noteq> c" s] by simp
  ultimately have "dropWhile (\<lambda>x. x \<noteq> c) s = c # b"
    using b by (metis list.collapse)
  then show "s = a @ c # b"
    using a by (metis takeWhile_dropWhile_id)
  show "c \<notin> set a" using a by (auto dest: set_takeWhileD)
qed

lemma SplitLast_append [simp, go_string]:
  assumes "c \<notin> set b"
  shows "SplitLast c (a @ c # b) = Some (a, b)"
proof -
  have "takeWhile (\<lambda>x. x \<noteq> c) (rev b @ c # rev a) = rev b"
    and "dropWhile (\<lambda>x. x \<noteq> c) (rev b @ c # rev a) = c # rev a"
    using assms by (auto simp: takeWhile_append dropWhile_append)
  then show ?thesis by (simp add: SplitLast_def)
qed

lemma SplitLast_Some [go_string]:
  assumes "SplitLast c s = Some (a, b)"
  shows "s = a @ c # b" and "c \<notin> set b"
proof -
  have "SplitN2 c (rev s) = Some (rev b, rev a)"
    using assms by (auto simp: SplitLast_def SplitN2_def split: if_splits)
  from SplitN2_Some [OF this] show "s = a @ c # b" and "c \<notin> set b"
    by (auto simp: rev_eq_append_conv)
qed

lemma SplitLast_None [go_string]: "SplitLast c s = None \<longleftrightarrow> c \<notin> set s"
  by (simp add: SplitLast_def)

lemma Split_nonempty [simp]: "Split c s \<noteq> []"
  by (induction s) (auto split: list.splits)

lemma TrimSpace_Nil [simp, go_string]: "TrimSpace [] = []"
  by (simp add: TrimSpace_def TrimLeftSpace.simps TrimRightSpace.simps)

text \<open>Visible ASCII text with a trailing newline trims to the text.\<close>

definition graph_char :: "char \<Rightarrow> bool" where
  "graph_char c \<longleftrightarrow> 33 \<le> (of_char c :: nat) \<and> (of_char c :: nat) \<le> 126"

lemma space_runes_ends: "e \<in> set space_runes \<Longrightarrow> e \<noteq> [] \<and> \<not> graph_char (hd e) \<and> \<not> graph_char (last e)"
  by (auto simp: space_runes_def graph_char_def)

lemma lead_space_graph: "graph_char c \<Longrightarrow> lead_space (c # s) = 0"
proof -
  assume c: "graph_char c"
  have "\<not> prefix e (c # s)" if "e \<in> set space_runes" for e
    using space_runes_ends [OF that] c by (cases e) auto
  then have "find (\<lambda>e. prefix e (c # s)) space_runes = None" by (simp add: find_None_iff)
  then show ?thesis by (simp add: lead_space_def)
qed

lemma trail_space_graph: "graph_char c \<Longrightarrow> trail_space (s @ [c]) = 0"
proof -
  assume c: "graph_char c"
  have "\<not> suffix e (s @ [c])" if "e \<in> set space_runes" for e
    using space_runes_ends [OF that] c by (auto simp: suffix_def) (metis last_append last_snoc)
  then have "find (\<lambda>e. suffix e (s @ [c])) space_runes = None" by (simp add: find_None_iff)
  then show ?thesis by (simp add: trail_space_def)
qed

lemma trail_space_NL: "trail_space (s @ [NL]) = 1"
  by (simp add: trail_space_def space_runes_def NL_def suffix_def)

lemma TrimSpace_graph_NL:
  assumes "s \<noteq> []" and "\<forall>c \<in> set s. graph_char c"
  shows "TrimSpace (s @ [NL]) = s"
proof -
  obtain c t where s: "s = c # t" using assms(1) by (cases s) auto
  obtain t' d where s': "s = t' @ [d]" using assms(1) by (cases s rule: rev_cases) auto
  have "TrimLeftSpace (s @ [NL]) = s @ [NL]"
    using assms(2) lead_space_graph [of c "t @ [NL]"] s by (subst TrimLeftSpace.simps) simp
  moreover have "TrimRightSpace s = s"
    using assms(2) trail_space_graph [of d t'] s' by (subst TrimRightSpace.simps) simp
  then have "TrimRightSpace (s @ [NL]) = s"
    using trail_space_NL [of s] by (subst TrimRightSpace.simps) simp
  ultimately show ?thesis by (simp add: TrimSpace_def)
qed

lemma strip_crlf_clean [simp, go_string]:
  "CR \<notin> set (strip_crlf s)" "NL \<notin> set (strip_crlf s)"
  by (auto simp: strip_crlf_def)

lemma nat_digits_nonempty [simp]: "nat_digits n \<noteq> []"
  by (subst nat_digits.simps) simp

lemma nat_digits_digits: "c \<in> set (nat_digits n) \<Longrightarrow> 48 \<le> (of_char c :: nat) \<and> (of_char c :: nat) \<le> 57"
proof (induction n rule: nat_digits.induct)
  case (1 n)
  have small: "48 \<le> (of_char (char_of (48 + m) :: char) :: nat) \<and> (of_char (char_of (48 + m) :: char) :: nat) \<le> 57"
    if "m < 10" for m :: nat
    using that by simp
  show ?case
  proof (cases "n < 10")
    case True
    with 1(2) small show ?thesis by (subst (asm) nat_digits.simps) auto
  next
    case False
    with 1 small [of "n mod 10"] show ?thesis by (subst (asm) (2) nat_digits.simps) auto
  qed
qed

lemma lower_char_idem [simp]: "lower_char (lower_char c) = lower_char c"
  by (simp add: lower_char_def)

lemma ToLower_idem [simp, go_string]: "ToLower (ToLower s) = ToLower s"
  by (simp add: ToLower_def)

lemma EqualFold_refl [simp, go_string]: "EqualFold s s"
  by (simp add: EqualFold_def)

section \<open>Lemmas on integers and maps\<close>

lemma wrap64_range: "in_int64 (wrap64 x)"
  by (simp add: in_int64_def wrap64_def)

lemma wrap64_id [simp]: "in_int64 x \<Longrightarrow> wrap64 x = x"
  by (simp add: in_int64_def wrap64_def)

lemma wrap64_idem [simp]: "wrap64 (wrap64 x) = wrap64 x"
  by (simp add: wrap64_range)

lemma any_get_update [simp, go_map]:
  "any_get (AList.update k v m) k' = (if k' = k then v else any_get m k')"
  by (simp add: any_get_def update_conv')

lemma any_get_Nil [simp, go_map]: "any_get [] k = ANil"
  by (simp add: any_get_def)

lemma str_or_empty_simps [simp]: "str_or_empty (AStr s) = s" "str_or_empty ANil = ''''"
  by (simp_all add: str_or_empty_def)

lemma wf_map_update [simp, go_map]: "wf_map m \<Longrightarrow> wf_map (AList.update k v m)"
  by (simp add: wf_map_def distinct_update)

lemma map_of_update_eq [go_map]: "map_of (AList.update k v m) = (map_of m)(k \<mapsto> v)"
  by (rule update_conv')

lemma map_of_rev_wf [go_map]: "wf_map m \<Longrightarrow> map_of (rev m) k = map_of m k"
  unfolding wf_map_def by (rule fun_cong [OF map_of_inject_set [THEN iffD2]]) (simp_all add: rev_map [symmetric])

end
