(* ===== verification/Go_Base64.thy ===== *)
theory Go_Base64
  imports Go_Prelude
begin

text \<open>
  Go's \<open>encoding/base64\<close>, as cookies, handoff tickets, JWTs and signatures use it: the URL alphabet
  with padding (\<open>URLEncoding\<close>) and without (\<open>RawURLEncoding\<close>), and the standard alphabet
  (\<open>StdEncoding\<close>). The decoder is the library's non-strict one: it skips CR and LF anywhere and
  ignores the unused low bits of the last symbol. The round trip and the character set of the
  encoder are what the ticket and cookie formats rest on.
\<close>

section \<open>Definitions\<close>

datatype b64kind = URLEnc | RawURLEnc | StdEnc

fun sym62 :: "b64kind \<Rightarrow> char" where
  "sym62 StdEnc = CHR ''+''"
| "sym62 _ = CHR ''-''"

fun sym63 :: "b64kind \<Rightarrow> char" where
  "sym63 StdEnc = CHR ''/''"
| "sym63 _ = CHR ''_''"

fun padded :: "b64kind \<Rightarrow> bool" where
  "padded RawURLEnc = False"
| "padded _ = True"

definition enc6 :: "b64kind \<Rightarrow> nat \<Rightarrow> char" where
  "enc6 k i =
     (if i < 26 then char_of (65 + i) else if i < 52 then char_of (71 + i)
      else if i < 62 then char_of (i - 4) else if i = 62 then sym62 k else sym63 k)"

definition dec6 :: "b64kind \<Rightarrow> char \<Rightarrow> nat option" where
  "dec6 k c = (let n = of_char c :: nat in
     if 65 \<le> n \<and> n \<le> 90 then Some (n - 65) else if 97 \<le> n \<and> n \<le> 122 then Some (n - 71)
     else if 48 \<le> n \<and> n \<le> 57 then Some (n + 4) else if c = sym62 k then Some 62
     else if c = sym63 k then Some 63 else None)"

abbreviation byte_of :: "char \<Rightarrow> nat" where
  "byte_of c \<equiv> of_char c"

fun EncodeToString :: "b64kind \<Rightarrow> bytes \<Rightarrow> string" where
  "EncodeToString k [] = []"
| "EncodeToString k [a] =
     [enc6 k (byte_of a div 4), enc6 k (byte_of a mod 4 * 16)] @ (if padded k then ''=='' else [])"
| "EncodeToString k [a, b] =
     [enc6 k (byte_of a div 4), enc6 k (byte_of a mod 4 * 16 + byte_of b div 16),
      enc6 k (byte_of b mod 16 * 4)] @ (if padded k then ''='' else [])"
| "EncodeToString k (a # b # c # s) =
     [enc6 k (byte_of a div 4), enc6 k (byte_of a mod 4 * 16 + byte_of b div 16),
      enc6 k (byte_of b mod 16 * 4 + byte_of c div 64), enc6 k (byte_of c mod 64)]
     @ EncodeToString k s"

text \<open>The bytes of two, three and four symbols.\<close>

definition dec_two :: "b64kind \<Rightarrow> char \<Rightarrow> char \<Rightarrow> bytes option" where
  "dec_two k w x = (case (dec6 k w, dec6 k x) of
       (Some i, Some j) \<Rightarrow> Some [char_of (i * 4 + j div 16)] | _ \<Rightarrow> None)"

definition dec_three :: "b64kind \<Rightarrow> char \<Rightarrow> char \<Rightarrow> char \<Rightarrow> bytes option" where
  "dec_three k w x y = (case (dec6 k w, dec6 k x, dec6 k y) of
       (Some i, Some j, Some l) \<Rightarrow>
         Some [char_of (i * 4 + j div 16), char_of (j mod 16 * 16 + l div 4)] | _ \<Rightarrow> None)"

definition dec_four :: "b64kind \<Rightarrow> char \<Rightarrow> char \<Rightarrow> char \<Rightarrow> char \<Rightarrow> bytes option" where
  "dec_four k w x y z = (case (dec6 k w, dec6 k x, dec6 k y, dec6 k z) of
       (Some i, Some j, Some l, Some m) \<Rightarrow>
         Some [char_of (i * 4 + j div 16), char_of (j mod 16 * 16 + l div 4),
               char_of (l mod 4 * 64 + m)] | _ \<Rightarrow> None)"

fun decode_quads :: "b64kind \<Rightarrow> string \<Rightarrow> bytes option" where
  "decode_quads k [] = Some []"
| "decode_quads k [w] = None"
| "decode_quads k [w, x] = (if padded k then None else dec_two k w x)"
| "decode_quads k [w, x, y] = (if padded k then None else dec_three k w x y)"
| "decode_quads k (w # x # y # z # s) =
     (if padded k \<and> s = [] \<and> y = CHR ''='' \<and> z = CHR ''='' then dec_two k w x
      else if padded k \<and> s = [] \<and> z = CHR ''='' then dec_three k w x y
      else (case dec_four k w x y z of None \<Rightarrow> None
            | Some q \<Rightarrow> (case decode_quads k s of None \<Rightarrow> None | Some t \<Rightarrow> Some (q @ t))))"

definition DecodeString :: "b64kind \<Rightarrow> string \<Rightarrow> bytes option" where
  "DecodeString k s = decode_quads k (strip_crlf s)"

section \<open>Lemmas\<close>

lemma byte_div [simp]:
  "byte_of b div 16 div 16 = 0" "byte_of b div 16 mod 16 = byte_of b div 16"
  "byte_of c div 64 div 4 = 0" "byte_of c div 64 mod 4 = byte_of c div 64"
  using nat_of_char_less_256 [of b] nat_of_char_less_256 [of c]
  by (simp_all add: div_less_iff_less_mult less_mult_imp_div_less mod_less flip: div_mult2_eq)

lemma dec6_enc6 [simp]:
  assumes "i < 64"
  shows "dec6 k (enc6 k i) = Some i"
proof -
  consider "i < 26" | "26 \<le> i" "i < 52" | "52 \<le> i" "i < 62" | "i = 62" | "i = 63"
    using assms by linarith
  then show ?thesis
  proof cases
    case 4
    then show ?thesis by (cases k) (simp_all add: dec6_def enc6_def)
  next
    case 5
    then show ?thesis by (cases k) (simp_all add: dec6_def enc6_def)
  next
    case 3
    define j where "j = i - 4"
    with 3 have "i = j + 4" and "48 \<le> j" and "j \<le> 57" by linarith+
    then show ?thesis by (simp add: dec6_def enc6_def)
  qed (simp_all add: dec6_def enc6_def)
qed

lemma dec6_enc6_ne:
  assumes "i < 64" and "dec6 k c = None"
  shows "enc6 k i \<noteq> c"
  using assms dec6_enc6 [of i k] by auto

lemma dec6_None [simp]:
  "dec6 k CR = None" "dec6 k NL = None" "dec6 k (CHR ''='') = None" "dec6 k (CHR ''.'') = None"
  by (cases k; simp add: dec6_def CR_def NL_def)+

lemma enc6_ne [simp]:
  assumes "i < 64"
  shows "enc6 k i \<noteq> CR" "enc6 k i \<noteq> NL" "enc6 k i \<noteq> CHR ''=''" "enc6 k i \<noteq> CHR ''.''"
  using assms by (simp_all add: dec6_enc6_ne)

lemma sextets [simp]:
  "byte_of a div 4 < 64" "byte_of a mod 4 * 16 < 64"
  "byte_of a mod 4 * 16 + byte_of b div 16 < 64" "byte_of b mod 16 * 4 < 64"
  "byte_of b mod 16 * 4 + byte_of c div 64 < 64" "byte_of c mod 64 < 64"
  using nat_of_char_less_256 [of a] nat_of_char_less_256 [of b] nat_of_char_less_256 [of c] by linarith+

lemma encode_clean_char:
  assumes "dec6 k x = None" and "x \<noteq> CHR ''=''"
  shows "x \<notin> set (EncodeToString k s)"
  using assms by (induction k s rule: EncodeToString.induct) (auto simp: dec6_enc6_ne)

lemma encode_clean:
  "CR \<notin> set (EncodeToString k s)" "NL \<notin> set (EncodeToString k s)" "CHR ''.'' \<notin> set (EncodeToString k s)"
  by (rule encode_clean_char; simp add: CR_def NL_def dec6_None [unfolded CR_def NL_def])+

lemma strip_crlf_encode [simp]: "strip_crlf (EncodeToString k s) = EncodeToString k s"
  using encode_clean [of k s] by (auto simp: strip_crlf_def filter_id_conv)

lemma decode_quads_encode: "decode_quads k (EncodeToString k s) = Some s"
  by (induction k s rule: EncodeToString.induct)
     (simp_all add: dec_two_def dec_three_def dec_four_def)

text \<open>The round trip, and the character set that keeps the dot free as a separator.\<close>

theorem DecodeString_EncodeToString [simp]: "DecodeString k (EncodeToString k s) = Some s"
  by (simp add: DecodeString_def decode_quads_encode)

lemma EncodeToString_no_dot [simp]: "CHR ''.'' \<notin> set (EncodeToString k s)"
  by (rule encode_clean)

lemma EncodeToString_Nil_iff [simp]: "EncodeToString k s = [] \<longleftrightarrow> s = []"
  by (cases "(k, s)" rule: EncodeToString.cases) auto

lemma EncodeToString_inj: "EncodeToString k s = EncodeToString k t \<longleftrightarrow> s = t"
  by (metis DecodeString_EncodeToString option.inject)

lemma enc6_graph: "i < 64 \<Longrightarrow> graph_char (enc6 k i)"
  by (cases k) (auto simp: enc6_def graph_char_def)

lemma graph_eq: "graph_char (CHR ''='')"
  by (simp add: graph_char_def)

lemma EncodeToString_graph: "c \<in> set (EncodeToString k s) \<Longrightarrow> graph_char c"
proof (induction k s rule: EncodeToString.induct)
  case (2 k a)
  then show ?case by (auto simp: enc6_graph graph_eq split: if_splits)
next
  case (3 k a b)
  then show ?case by (auto simp: enc6_graph graph_eq split: if_splits)
next
  case (4 k a b c' s)
  then show ?case by (auto simp: enc6_graph)
qed simp

lemma EncodeToString_std_length: "length (EncodeToString StdEnc s) = 4 * ((length s + 2) div 3)"
  by (induction StdEnc s rule: EncodeToString.induct) (auto, presburger)

end
