(* ===== verification/Token.thy ===== *)
theory Token
  imports Go_Base64
begin

text \<open>
  \<open>pkg/token\<close>: the principal, claim normalisation (\<open>claims.go\<close>), ID-token validation and key
  selection (\<open>validate_idtoken.go\<close>), the caching JWKS source (\<open>jwks_http.go\<close>) and the JWT splitter
  (\<open>parser.go\<close>).

  The JWT library, the JSON decoder of key sets, the elliptic-curve point decoder and the HTTP client
  are arguments. \<open>jwt_contract\<close> states what the code relies on of the JWT library: a token it reports
  as valid has a signature that verifies under the key the key function chose for its header, carries
  the expected issuer and has an expiry in the future. Times are nanoseconds, as \<open>time.Time\<close> keeps
  them; claims carry seconds.
\<close>

section \<open>Principal and claims (claims.go)\<close>

record principal =
  pr_Subject :: string
  pr_Scopes :: "string list"
  pr_Roles :: "string list"
  pr_Claims :: "gany gomap option"
  pr_ExpiresAt :: int
  pr_AccessToken :: string
  pr_TenantContext :: "gany gomap option"

text \<open>The strings of a \<open>[]interface{}\<close>.\<close>

definition strs_of :: "gany list \<Rightarrow> string list" where
  "strs_of xs = List.map_filter as_str xs"

definition realm_roles :: "gany gomap \<Rightarrow> string list" where
  "realm_roles claims = (case any_get claims ''realm_access'' of
     AMap r \<Rightarrow> (case any_get r ''roles'' of AList arr \<Rightarrow> strs_of arr | _ \<Rightarrow> [])
   | _ \<Rightarrow> [])"

definition top_roles :: "gany gomap \<Rightarrow> string list" where
  "top_roles claims = (case any_get claims ''roles'' of AList arr \<Rightarrow> strs_of arr | _ \<Rightarrow> [])"

definition claim_roles :: "gany gomap \<Rightarrow> string list" where
  "claim_roles claims = (if realm_roles claims = [] then top_roles claims else realm_roles claims)"

definition NormalizeClaims :: "gany gomap option \<Rightarrow> gany gomap option" where
  "NormalizeClaims claims = (case claims of
     None \<Rightarrow> None
   | Some m \<Rightarrow> (let roles = claim_roles m in
       Some (if roles \<noteq> [] then AList.update ''roles'' (AStrs roles) m else m)))"

section \<open>Keys (validate_idtoken.go)\<close>

record jwkKey =
  jk_Kid :: string
  jk_Kty :: string
  jk_N :: string
  jk_E :: string
  jk_Crv :: string
  jk_X :: string
  jk_Y :: string

datatype pubkey = RSAKey nat nat | ECKey string nat nat

text \<open>\<open>big.Int\<close>: big-endian bytes and the bit length.\<close>

definition SetBytes :: "bytes \<Rightarrow> nat" where
  "SetBytes bs = fold (\<lambda>c n. n * 256 + of_char c) bs 0"

fun BitLen :: "nat \<Rightarrow> nat" where
  "BitLen n = (if n = 0 then 0 else Suc (BitLen (n div 2)))"

declare BitLen.simps [simp del]

definition curve_bytes :: "string \<Rightarrow> nat option" where
  "curve_bytes crv =
     (if crv = ''P-256'' then Some 32 else if crv = ''P-384'' then Some 48
      else if crv = ''P-521'' then Some 66 else None)"

definition pad_left :: "nat \<Rightarrow> bytes \<Rightarrow> bytes" where
  "pad_left n bs = replicate (n - length bs) (CHR 0x00) @ bs"

definition b64_err :: goerr where
  "b64_err = Err ''illegal base64 data''"

text \<open>\<open>new_pub\<close> is \<open>ecdh.Curve.NewPublicKey\<close> followed by \<open>Bytes\<close>.\<close>

type_synonym new_pub = "string \<Rightarrow> bytes \<Rightarrow> bytes result"

definition ecPubKeyFromJWK :: "new_pub \<Rightarrow> string \<Rightarrow> string \<Rightarrow> string \<Rightarrow> pubkey result" where
  "ecPubKeyFromJWK newPub crv xB64 yB64 = (case curve_bytes crv of
     None \<Rightarrow> Inl (Err (''token: unsupported EC curve '' @ crv))
   | Some fieldBytes \<Rightarrow> (case DecodeString RawURLEnc xB64 of
       None \<Rightarrow> Inl b64_err
     | Some xBytes \<Rightarrow> (case DecodeString RawURLEnc yB64 of
         None \<Rightarrow> Inl b64_err
       | Some yBytes \<Rightarrow>
           (if length xBytes > fieldBytes \<or> length yBytes > fieldBytes
            then Inl (Err (''token: EC coordinate too large for '' @ crv))
            else let sec1 = CHR 0x04 # pad_left fieldBytes xBytes @ pad_left fieldBytes yBytes in
              (case newPub crv sec1 of
                 Inl e \<Rightarrow> Inl (Wrap (''token: EC public key point is not on curve '' @ crv @ '': '') e)
               | Inr raw \<Rightarrow>
                   (if length raw \<noteq> length sec1 \<or> hd raw \<noteq> CHR 0x04
                    then Inl (Err (''token: unexpected EC public key encoding for '' @ crv))
                    else Inr (ECKey crv (SetBytes (take fieldBytes (drop 1 raw))) (SetBytes (drop (1 + fieldBytes) raw)))))))))"

definition rsaKey :: "jwkKey \<Rightarrow> pubkey result" where
  "rsaKey k = (case DecodeString RawURLEnc (jk_N k) of
     None \<Rightarrow> Inl b64_err
   | Some nBytes \<Rightarrow> (case DecodeString RawURLEnc (jk_E k) of
       None \<Rightarrow> Inl b64_err
     | Some eBytes \<Rightarrow> (let n = SetBytes nBytes; e = SetBytes eBytes in
         if BitLen n < 2048
         then Inl (Err (''token: RSA key too small: '' @ Itoa (int (BitLen n)) @ '' bits (minimum 2048)''))
         else if \<not> e < 2 ^ 63 \<or> e > 2 ^ 31 - 1 then Inl (Err ''token: exponent too large'')
         else Inr (RSAKey n e))))"

text \<open>The loop over the keys of the set: keys of another id, incomplete keys and other types are skipped.\<close>

fun find_key :: "new_pub \<Rightarrow> string \<Rightarrow> jwkKey list \<Rightarrow> pubkey result" where
  "find_key newPub kid [] = Inl (Err (''token: no key found for kid '' @ kid))"
| "find_key newPub kid (k # ks) =
     (if jk_Kid k \<noteq> kid then find_key newPub kid ks
      else if jk_Kty k = ''RSA'' then
        (if jk_N k = '''' \<or> jk_E k = '''' then find_key newPub kid ks else rsaKey k)
      else if jk_Kty k = ''EC'' then
        (if jk_Crv k = '''' \<or> jk_X k = '''' \<or> jk_Y k = '''' then find_key newPub kid ks
         else ecPubKeyFromJWK newPub (jk_Crv k) (jk_X k) (jk_Y k))
      else find_key newPub kid ks)"

type_synonym keyfunc = "gany gomap \<Rightarrow> pubkey result"

definition keyFuncFromJWKS :: "new_pub \<Rightarrow> (bytes \<Rightarrow> jwkKey list result) \<Rightarrow> bytes \<Rightarrow> keyfunc" where
  "keyFuncFromJWKS newPub unmarshal jwksData = (case unmarshal jwksData of
     Inl e \<Rightarrow> (\<lambda>hdr. Inl e)
   | Inr keys \<Rightarrow> (\<lambda>hdr. case as_str (any_get hdr ''kid'') of
       None \<Rightarrow> Inl (Err ''token: missing kid in header'')
     | Some kid \<Rightarrow> find_key newPub kid keys))"

section \<open>ID tokens\<close>

text \<open>
  \<open>jwt_parse now raw keyfunc issuer\<close> is \<open>jwt.Parse\<close> with the three options the code passes: an
  error, or the claims (\<open>None\<close> when they are not a \<open>MapClaims\<close>) and the \<open>Valid\<close> flag.
\<close>

type_synonym jwt_parser = "int \<Rightarrow> string \<Rightarrow> keyfunc \<Rightarrow> string \<Rightarrow> (gany gomap option \<times> bool) result"

record 'n token_env =
  te_now :: "'n \<Rightarrow> int"
  te_new_pub :: new_pub
  te_unmarshal_jwks :: "bytes \<Rightarrow> jwkKey list result"
  te_jwt_parse :: jwt_parser

type_synonym 'n jwks_getter = "'n \<Rightarrow> string \<Rightarrow> bytes result \<times> 'n"

definition aud_valid :: "gany \<Rightarrow> string \<Rightarrow> bool" where
  "aud_valid aud audience = (case aud of
     AStr v \<Rightarrow> v = audience
   | AList v \<Rightarrow> list_ex (\<lambda>a. as_str a = Some audience) v
   | _ \<Rightarrow> False)"

text \<open>The zero \<open>time.Time\<close> is the first second of year 1.\<close>

definition zero_time :: int where
  "zero_time = - 62135596800 * 1000000000"

definition exp_time :: "gany \<Rightarrow> int" where
  "exp_time v = (case v of
     AFloat t \<Rightarrow> float_to_int64 t * 1000000000
   | ANumber t \<Rightarrow> fst (ParseInt64 t) * 1000000000
   | _ \<Rightarrow> zero_time)"

definition ValidateIDToken :: "'n token_env \<Rightarrow> 'n \<Rightarrow> string \<Rightarrow> 'n jwks_getter option \<Rightarrow> string \<Rightarrow> string \<Rightarrow> string \<Rightarrow> principal result \<times> 'n" where
  "ValidateIDToken te n raw jwksSource issuer audience expectedNonce = (case jwksSource of
     None \<Rightarrow> (Inl (Err ''token: JWKSSource is nil''), n)
   | Some getJWKS \<Rightarrow> (case getJWKS n issuer of
       (Inl e, n1) \<Rightarrow> (Inl (Wrap ''token: get jwks: '' e), n1)
     | (Inr jwksData, n1) \<Rightarrow>
         (case te_jwt_parse te (te_now te n1) raw (keyFuncFromJWKS (te_new_pub te) (te_unmarshal_jwks te) jwksData) issuer of
            Inl e \<Rightarrow> (Inl (Wrap ''token: parse: '' e), n1)
          | Inr (None, _) \<Rightarrow> (Inl (Err ''token: invalid claims''), n1)
          | Inr (Some claims, valid) \<Rightarrow>
              (if \<not> valid then (Inl (Err ''token: invalid claims''), n1)
               else if audience \<noteq> '''' \<and> \<not> aud_valid (any_get claims ''aud'') audience
               then (Inl (Err ''token: audience mismatch''), n1)
               else if expectedNonce \<noteq> '''' \<and> str_or_empty (any_get claims ''nonce'') \<noteq> expectedNonce
               then (Inl (Err ''token: nonce mismatch''), n1)
               else (Inr \<lparr>pr_Subject = str_or_empty (any_get claims ''sub''), pr_Scopes = [],
                       pr_Roles = claim_roles claims, pr_Claims = Some claims,
                       pr_ExpiresAt = exp_time (any_get claims ''exp''), pr_AccessToken = '''',
                       pr_TenantContext = None\<rparr>, n1)))))"

record 'n jwt_validator =
  jv_JWKSSource :: "'n jwks_getter option"
  jv_Issuer :: string
  jv_Audience :: string

definition ValidateJWT :: "'n token_env \<Rightarrow> 'n jwt_validator \<Rightarrow> 'n \<Rightarrow> string \<Rightarrow> principal result \<times> 'n" where
  "ValidateJWT te v n raw = ValidateIDToken te n raw (jv_JWKSSource v) (jv_Issuer v) (jv_Audience v) ''''"

definition ParseJWT :: "string \<Rightarrow> (bytes \<times> bytes \<times> bytes) option result" where
  "ParseJWT raw = (case Split (CHR ''.'') raw of
     [h, p, s] \<Rightarrow> (case (DecodeString RawURLEnc h, DecodeString RawURLEnc p, DecodeString RawURLEnc s) of
         (Some header, Some payload, Some signature) \<Rightarrow> Inr (Some (header, payload, signature))
       | _ \<Rightarrow> Inl b64_err)
   | _ \<Rightarrow> Inr None)"

section \<open>The JWKS cache (jwks_http.go)\<close>

text \<open>
  The source's own state is the cache; the world \<open>'n\<close> holds the clock and the network. \<open>http_get\<close>
  returns the status and the body the server would send.
\<close>

record jwks_state =
  jw_cache :: "(bytes \<times> int) gomap"
  jw_ttl :: int
  jw_metrics :: "(bool \<times> string) list"

record 'n http_env =
  he_now :: "'n \<Rightarrow> int"
  he_get :: "'n \<Rightarrow> string \<Rightarrow> (int \<times> bytes) result \<times> 'n"
  he_jwks_uri :: "bytes \<Rightarrow> string result"

definition maxJWKSBytes :: nat where
  "maxJWKSBytes = 512 * 1024"

definition NewHTTPJWKSSource :: "int \<Rightarrow> jwks_state" where
  "NewHTTPJWKSSource cacheTTL =
     \<lparr>jw_cache = [], jw_ttl = (if cacheTTL \<le> 0 then 300 * 1000000000 else cacheTTL), jw_metrics = []\<rparr>"

definition fetchURL :: "'n http_env \<Rightarrow> 'n \<Rightarrow> string \<Rightarrow> bytes result \<times> 'n" where
  "fetchURL he n url = (case he_get he n url of
     (Inl e, n1) \<Rightarrow> (Inl e, n1)
   | (Inr (status, body), n1) \<Rightarrow>
       (if status \<noteq> 200 then (Inl (Err (''get '' @ url @ '': status '' @ Itoa status)), n1)
        else (Inr (take maxJWKSBytes body), n1)))"

definition fetchJWKSURI :: "'n http_env \<Rightarrow> 'n \<Rightarrow> string \<Rightarrow> string result \<times> 'n" where
  "fetchJWKSURI he n issuer = (case fetchURL he n (issuer @ ''/.well-known/openid-configuration'') of
     (Inl e, n1) \<Rightarrow> (Inl (Wrap ''oidc discovery: '' e), n1)
   | (Inr data, n1) \<Rightarrow> (case he_jwks_uri he data of
       Inl e \<Rightarrow> (Inl (Wrap ''oidc discovery parse: '' e), n1)
     | Inr uri \<Rightarrow> (if uri = '''' then (Inl (Err ''oidc discovery: missing jwks_uri''), n1) else (Inr uri, n1))))"

definition GetJWKS :: "'n http_env \<Rightarrow> jwks_state \<times> 'n \<Rightarrow> string \<Rightarrow> bytes result \<times> jwks_state \<times> 'n" where
  "GetJWKS he sn issuer0 = (case sn of (s, n) \<Rightarrow>
     let issuer = TrimSuffix issuer0 ''/''; miss = s\<lparr>jw_metrics := jw_metrics s @ [(False, issuer)]\<rparr>;
         fetch = (case fetchJWKSURI he n issuer of
             (Inl e, n1) \<Rightarrow> (Inl e, miss, n1)
           | (Inr uri, n1) \<Rightarrow> (case fetchURL he n1 uri of
               (Inl e, n2) \<Rightarrow> (Inl e, miss, n2)
             | (Inr data, n2) \<Rightarrow>
                 (Inr data, miss\<lparr>jw_cache := AList.update issuer (data, he_now he n2 + jw_ttl s) (jw_cache s)\<rparr>, n2)))
     in (case map_of (jw_cache s) issuer of
           Some (data, until) \<Rightarrow>
             (if he_now he n < until then (Inr data, s\<lparr>jw_metrics := jw_metrics s @ [(True, issuer)]\<rparr>, n) else fetch)
         | None \<Rightarrow> fetch))"

section \<open>The JWT library's contract\<close>

text \<open>
  \<open>header_of\<close> reads the header segment of a token, \<open>sig_ok\<close> says that its signature verifies under
  a public key.
\<close>

definition jwt_contract :: "jwt_parser \<Rightarrow> (string \<Rightarrow> gany gomap option) \<Rightarrow> (pubkey \<Rightarrow> string \<Rightarrow> bool) \<Rightarrow> bool" where
  "jwt_contract parse header_of sig_ok \<longleftrightarrow>
     (\<forall>now raw kf iss claims. parse now raw kf iss = Inr (Some claims, True) \<longrightarrow>
        (\<exists>hdr key. header_of raw = Some hdr \<and> kf hdr = Inr key \<and> sig_ok key raw)
        \<and> (iss \<noteq> '''' \<longrightarrow> any_get claims ''iss'' = AStr iss)
        \<and> (\<exists>q. any_get claims ''exp'' = AFloat q \<and> now < float_to_int64 q * 1000000000))"

section \<open>Lemmas\<close>

lemma find_key_Inr:
  assumes "find_key newPub kid ks = Inr key"
  shows "\<exists>k \<in> set ks. jk_Kid k = kid
    \<and> (jk_Kty k = ''RSA'' \<and> rsaKey k = Inr key
       \<or> jk_Kty k = ''EC'' \<and> ecPubKeyFromJWK newPub (jk_Crv k) (jk_X k) (jk_Y k) = Inr key)"
  using assms by (induction ks) (auto split: if_splits)

text \<open>Key strength: a usable key is an RSA key of at least 2048 bits or a point on a known curve.\<close>

fun strong_key :: "new_pub \<Rightarrow> pubkey \<Rightarrow> bool" where
  "strong_key newPub (RSAKey n e) = (2048 \<le> BitLen n \<and> e < 2 ^ 31)"
| "strong_key newPub (ECKey crv x y) =
     (\<exists>fb sec1 raw. curve_bytes crv = Some fb \<and> length sec1 = 1 + 2 * fb \<and> newPub crv sec1 = Inr raw
        \<and> x = SetBytes (take fb (drop 1 raw)) \<and> y = SetBytes (drop (1 + fb) raw))"

lemma rsaKey_strong: "rsaKey k = Inr key \<Longrightarrow> strong_key newPub key"
  by (auto simp: rsaKey_def Let_def split: option.splits if_splits)

lemma pad_left_length [simp]: "length bs \<le> n \<Longrightarrow> length (pad_left n bs) = n"
  by (simp add: pad_left_def)

lemma ecKey_strong:
  assumes "ecPubKeyFromJWK newPub crv x y = Inr key"
  shows "strong_key newPub key"
proof -
  from assms obtain fb xb yb raw where "curve_bytes crv = Some fb" "length xb \<le> fb" "length yb \<le> fb"
    "newPub crv (CHR 0x04 # pad_left fb xb @ pad_left fb yb) = Inr raw"
    "key = ECKey crv (SetBytes (take fb (drop 1 raw))) (SetBytes (drop (1 + fb) raw))"
    by (auto simp: ecPubKeyFromJWK_def Let_def not_less split: option.splits if_splits sum.splits)
  then show ?thesis
    by (simp, intro exI [of _ "CHR 0x04 # pad_left fb xb @ pad_left fb yb"] exI [of _ raw]) simp
qed

lemma str_or_empty_AStr: "str_or_empty v \<noteq> '''' \<Longrightarrow> v = AStr (str_or_empty v)"
  by (cases v) (auto simp: str_or_empty_def)

lemma find_key_strong: "find_key newPub kid ks = Inr key \<Longrightarrow> strong_key newPub key"
  using find_key_Inr [of newPub kid ks key] rsaKey_strong ecKey_strong by blast

lemma ValidateIDToken_Inr:
  assumes "ValidateIDToken te n raw src issuer audience nonce = (Inr p, n')"
  obtains get data claims where "src = Some get" and "get n issuer = (Inr data, n')"
    and "te_jwt_parse te (te_now te n') raw (keyFuncFromJWKS (te_new_pub te) (te_unmarshal_jwks te) data) issuer
           = Inr (Some claims, True)"
    and "audience \<noteq> '''' \<longrightarrow> aud_valid (any_get claims ''aud'') audience"
    and "nonce \<noteq> '''' \<longrightarrow> any_get claims ''nonce'' = AStr nonce"
    and "pr_Claims p = Some claims" and "pr_Subject p = str_or_empty (any_get claims ''sub'')"
    and "pr_ExpiresAt p = exp_time (any_get claims ''exp'')" and "pr_Roles p = claim_roles claims"
  using assms
  by (auto simp: ValidateIDToken_def intro!: that dest: str_or_empty_AStr split: option.splits prod.splits sum.splits if_splits)

lemma strs_of_simps [simp]: "strs_of [] = []"
  by (simp add: strs_of_def map_filter_def)

lemma any_get_realm_update [simp]: "realm_roles (AList.update ''roles'' v m) = realm_roles m"
  by (simp add: realm_roles_def)

lemma update_present: "map_of m k = Some v \<Longrightarrow> AList.update k v m = m"
  by (induction m) (auto split: if_splits)

lemma ValidateIDToken_sound:
  assumes lib: "jwt_contract (te_jwt_parse te) header_of sig_ok"
    and ok: "ValidateIDToken te n raw (Some get) issuer audience nonce = (Inr p, n')"
    and cfg: "issuer \<noteq> ''''" "audience \<noteq> ''''" "nonce \<noteq> ''''"
  shows "\<exists>data keys hdr kid key claims q. get n issuer = (Inr data, n') \<and> te_unmarshal_jwks te data = Inr keys
     \<and> header_of raw = Some hdr \<and> any_get hdr ''kid'' = AStr kid \<and> (\<exists>k \<in> set keys. jk_Kid k = kid)
     \<and> find_key (te_new_pub te) kid keys = Inr key \<and> strong_key (te_new_pub te) key \<and> sig_ok key raw
     \<and> pr_Claims p = Some claims \<and> any_get claims ''iss'' = AStr issuer
     \<and> aud_valid (any_get claims ''aud'') audience \<and> any_get claims ''nonce'' = AStr nonce
     \<and> any_get claims ''exp'' = AFloat q \<and> pr_ExpiresAt p = float_to_int64 q * 1000000000 \<and> te_now te n' < pr_ExpiresAt p
     \<and> pr_Subject p = str_or_empty (any_get claims ''sub'') \<and> pr_Roles p = claim_roles claims"
proof -
  from ok obtain data claims where d: "get n issuer = (Inr data, n')"
    and j: "te_jwt_parse te (te_now te n') raw (keyFuncFromJWKS (te_new_pub te) (te_unmarshal_jwks te) data) issuer
           = Inr (Some claims, True)"
    and a: "aud_valid (any_get claims ''aud'') audience" "any_get claims ''nonce'' = AStr nonce"
    and p: "pr_Claims p = Some claims" "pr_Subject p = str_or_empty (any_get claims ''sub'')"
      "pr_ExpiresAt p = exp_time (any_get claims ''exp'')" "pr_Roles p = claim_roles claims"
    using cfg by (elim ValidateIDToken_Inr) auto
  from lib j cfg(1) obtain hdr key q where h: "header_of raw = Some hdr"
    and k: "keyFuncFromJWKS (te_new_pub te) (te_unmarshal_jwks te) data hdr = Inr key" and s: "sig_ok key raw"
    and i: "any_get claims ''iss'' = AStr issuer" "any_get claims ''exp'' = AFloat q"
      "te_now te n' < float_to_int64 q * 1000000000"
    unfolding jwt_contract_def by blast
  from k obtain keys kid where ks: "te_unmarshal_jwks te data = Inr keys" "as_str (any_get hdr ''kid'') = Some kid"
    "find_key (te_new_pub te) kid keys = Inr key"
    by (auto simp: keyFuncFromJWKS_def split: sum.splits option.splits)
  then have "any_get hdr ''kid'' = AStr kid" by (cases "any_get hdr ''kid''") auto
  moreover have "\<exists>k \<in> set keys. jk_Kid k = kid" using find_key_Inr [OF ks(3)] by blast
  moreover have "pr_ExpiresAt p = float_to_int64 q * 1000000000" using p(3) i(2) by (simp add: exp_time_def)
  ultimately show ?thesis
    using d h s i a p ks find_key_strong [OF ks(3)] by auto
qed

text \<open>A token that the issuer's key set vouches for, with the expected issuer, audience and nonce.\<close>

definition vouched_token :: "'n token_env \<Rightarrow> 'n jwks_getter \<Rightarrow> (string \<Rightarrow> gany gomap option) \<Rightarrow> (pubkey \<Rightarrow> string \<Rightarrow> bool) \<Rightarrow> 'n \<Rightarrow> string \<Rightarrow> string \<Rightarrow> string \<Rightarrow> string \<Rightarrow> gany gomap \<Rightarrow> bool" where
  "vouched_token te get header_of sig_ok n raw issuer audience nonce claims \<longleftrightarrow>
     (\<exists>data n' keys hdr kid key. get n issuer = (Inr data, n') \<and> te_unmarshal_jwks te data = Inr keys
        \<and> header_of raw = Some hdr \<and> any_get hdr ''kid'' = AStr kid \<and> find_key (te_new_pub te) kid keys = Inr key
        \<and> strong_key (te_new_pub te) key \<and> sig_ok key raw
        \<and> any_get claims ''iss'' = AStr issuer \<and> aud_valid (any_get claims ''aud'') audience \<and> any_get claims ''nonce'' = AStr nonce)"

lemma ValidateIDToken_vouched:
  assumes "jwt_contract (te_jwt_parse te) header_of sig_ok"
    and "ValidateIDToken te n raw (Some get) issuer audience nonce = (Inr p, n')"
    and "issuer \<noteq> ''''" "audience \<noteq> ''''" "nonce \<noteq> ''''"
  shows "\<exists>claims. pr_Claims p = Some claims \<and> pr_Subject p = str_or_empty (any_get claims ''sub'')
    \<and> vouched_token te get header_of sig_ok n raw issuer audience nonce claims"
  using ValidateIDToken_sound [OF assms] unfolding vouched_token_def by blast

section \<open>Properties\<close>


definition sample_hdr :: "gany gomap" where
  "sample_hdr = [(''kid'', AStr ''k1''), (''alg'', AStr ''ES256'')]"

definition sample_claims :: "gany gomap" where
  "sample_claims = [(''iss'', AStr ''https://idp''), (''aud'', AList [AStr ''web'']), (''nonce'', AStr ''n1''),
     (''sub'', AStr ''u1''), (''exp'', AFloat 2000), (''roles'', AList [AStr ''admin'', ABool True])]"

definition sample_parse :: jwt_parser where
  "sample_parse now raw kf iss = (case kf sample_hdr of
     Inl e \<Rightarrow> Inl e
   | Inr key \<Rightarrow> (if raw = ''tok'' \<and> iss = ''https://idp'' \<and> now < 2000 * 1000000000
       then Inr (Some sample_claims, True) else Inl (Err ''token is unverifiable'')))"

definition sample_te :: "int token_env" where
  "sample_te = \<lparr>te_now = (\<lambda>n. n), te_new_pub = (\<lambda>crv s. Inr s),
     te_unmarshal_jwks = (\<lambda>d. Inr [\<lparr>jk_Kid = ''k1'', jk_Kty = ''EC'', jk_N = '''', jk_E = '''', jk_Crv = ''P-256'',
        jk_X = ''AQ'', jk_Y = ''Ag''\<rparr>]),
     te_jwt_parse = sample_parse\<rparr>"

definition sample_principal :: principal where
  "sample_principal = \<lparr>pr_Subject = ''u1'', pr_Scopes = [], pr_Roles = [''admin''], pr_Claims = Some sample_claims,
     pr_ExpiresAt = 2000 * 1000000000, pr_AccessToken = '''', pr_TenantContext = None\<rparr>"

lemma sample_contract: "jwt_contract sample_parse (\<lambda>raw. Some sample_hdr) (\<lambda>key raw. raw = ''tok'')"
  by (auto simp: jwt_contract_def sample_parse_def sample_claims_def any_get_def float_to_int64_def in_int64_def trunc_rat_def
      intro!: exI [of _ "2000 :: rat"] split: sum.splits if_splits)

lemma sample_key: "find_key (\<lambda>crv. Inr) ''k1'' [\<lparr>jk_Kid = ''k1'', jk_Kty = ''EC'', jk_N = '''', jk_E = '''',
    jk_Crv = ''P-256'', jk_X = ''AQ'', jk_Y = ''Ag''\<rparr>] = Inr (ECKey ''P-256'' 1 2)"
  by code_simp

lemma sample_validate:
  "ValidateIDToken sample_te 5 ''tok'' (Some (\<lambda>n i. (Inr ''jwks'', n))) ''https://idp'' ''web'' ''n1'' = (Inr sample_principal, 5)"
  by (simp add: ValidateIDToken_def sample_te_def sample_parse_def keyFuncFromJWKS_def sample_hdr_def any_get_def
      sample_key sample_claims_def aud_valid_def str_or_empty_def sample_principal_def exp_time_def float_to_int64_def in_int64_def trunc_rat_def
      claim_roles_def realm_roles_def top_roles_def strs_of_def map_filter_def del: find_key.simps)


text \<open>
  Claim normalisation is idempotent and only touches the roles: applying \<open>NormalizeClaims\<close> twice
  reads the same as applying it once, and every other claim is kept as it was.
\<close>

theorem normalize_claims_idempotent:
  "(\<forall>k. any_get (the (NormalizeClaims (Some m))) k =
      (if k = ''roles'' \<and> claim_roles m \<noteq> [] then AStrs (claim_roles m) else any_get m k))
   \<and> NormalizeClaims (NormalizeClaims (Some m)) = NormalizeClaims (Some m)"
proof
  show "\<forall>k. any_get (the (NormalizeClaims (Some m))) k =
      (if k = ''roles'' \<and> claim_roles m \<noteq> [] then AStrs (claim_roles m) else any_get m k)"
    by (simp add: NormalizeClaims_def Let_def)
  show "NormalizeClaims (NormalizeClaims (Some m)) = NormalizeClaims (Some m)"
  proof (cases "claim_roles m = []")
    case False
    let ?m = "AList.update ''roles'' (AStrs (claim_roles m)) m"
    have "claim_roles ?m = (if realm_roles m = [] then [] else claim_roles m)"
      by (simp add: claim_roles_def top_roles_def)
    moreover have "AList.update ''roles'' (AStrs (claim_roles m)) ?m = ?m"
      by (rule update_present) (simp add: update_conv')
    ultimately show ?thesis using False by (simp add: NormalizeClaims_def Let_def)
  qed (simp add: NormalizeClaims_def)
qed

text \<open>
  The key-set cache: a source answers from its cache, without touching the network, exactly while
  the cached entry has not expired; a failed fetch leaves the cache as it was; a successful one caches
  what it returns for the configured time under the issuer it was fetched for and nothing else.
\<close>

theorem jwks_cache_correct:
  assumes "GetJWKS he (s, n) issuer = (res, s', n')"
  shows "(case map_of (jw_cache s) (TrimSuffix issuer ''/'') of
      Some (data, until) \<Rightarrow> he_now he n < until \<longrightarrow> res = Inr data \<and> n' = n \<and> jw_cache s' = jw_cache s
    | None \<Rightarrow> True)
    \<and> (\<forall>e. res = Inl e \<longrightarrow> jw_cache s' = jw_cache s)
    \<and> (\<forall>data. res = Inr data \<longrightarrow> jw_cache s' = jw_cache s
         \<or> map_of (jw_cache s') = (map_of (jw_cache s))(TrimSuffix issuer ''/'' \<mapsto> (data, he_now he n' + jw_ttl s)))"
  using assms
  by (auto simp: GetJWKS_def Let_def update_conv' split: option.splits prod.splits sum.splits if_splits)

definition sample_he :: "int http_env" where
  "sample_he = \<lparr>he_now = (\<lambda>n. n), he_get = (\<lambda>n u. (Inr (200, ''body''), n + 1)), he_jwks_uri = (\<lambda>d. Inr ''u'')\<rparr>"

theorem jwks_cache_correct_witness:
  "GetJWKS sample_he (\<lparr>jw_cache = [(''i'', (''keys'', 10))], jw_ttl = 7, jw_metrics = []\<rparr>, 5) ''i/'' =
     (Inr ''keys'', \<lparr>jw_cache = [(''i'', (''keys'', 10))], jw_ttl = 7, jw_metrics = [(True, ''i'')]\<rparr>, 5)"
proof -
  let ?s = "\<lparr>jw_cache = [(''i'', (''keys'', 10))], jw_ttl = 7, jw_metrics = []\<rparr>"
  have t: "TrimSuffix ''i/'' ''/'' = ''i''" by (simp add: TrimSuffix_def suffix_def)
  have "GetJWKS sample_he (?s, 5) ''i/'' = (fst (GetJWKS sample_he (?s, 5) ''i/''),
      fst (snd (GetJWKS sample_he (?s, 5) ''i/'')), snd (snd (GetJWKS sample_he (?s, 5) ''i/'')))" by simp
  from jwks_cache_correct [OF this] t
  have "fst (GetJWKS sample_he (?s, 5) ''i/'') = Inr ''keys''" by (simp add: sample_he_def)
  then show ?thesis by (simp add: GetJWKS_def Let_def t sample_he_def)
qed

end
