(* ===== verification/Policy.thy ===== *)
theory Policy
  imports Token
begin

text \<open>
  \<open>internal/policy\<close>: the decision type, the Rego engine's result decoding (\<open>rego.go\<close>), the WASM
  runtime (\<open>wasm.go\<close>), the signed bundle loader (\<open>bundle.go\<close>, \<open>signature.go\<close>), the hot watcher
  (\<open>hotwatcher.go\<close>) and the signing tool that produces what the loader verifies
  (\<open>cmd/bundle-sign/sign.go\<close>).

  The Rego compiler, the WASM host, the file system, PEM/PKIX decoding, Ed25519 and JSON are arguments.
  A file-system operation takes and returns the world \<open>'n\<close>, so files may change between any two calls.
\<close>

section \<open>Inputs and decisions (input.go, result.go)\<close>

record policy_input =
  in_Protocol :: string
  in_Method :: string
  in_Path :: string
  in_GraphQLOperation :: string
  in_GRPCService :: string
  in_GRPCMethod :: string
  in_Principal :: "principal option"
  in_Headers :: "string gomap"

record decision =
  dc_Allow :: bool
  dc_StatusCode :: int
  dc_Headers :: "string gomap option"
  dc_Reason :: string
  dc_Obligations :: "gany gomap option"

text \<open>\<open>Engine.Evaluate\<close> over the state \<open>'w\<close> of the engine; the returned pointer may be nil.\<close>

type_synonym 'w policy_engine = "'w \<Rightarrow> policy_input \<Rightarrow> decision option result \<times> 'w"

text \<open>\<open>FallbackConfig.Allow\<close> selects the decision when nothing is loaded or evaluation fails.\<close>

definition fallbackDecision :: "bool \<Rightarrow> decision" where
  "fallbackDecision allow =
     (if allow then \<lparr>dc_Allow = True, dc_StatusCode = 200, dc_Headers = None, dc_Reason = '''', dc_Obligations = None\<rparr>
      else \<lparr>dc_Allow = False, dc_StatusCode = 503, dc_Headers = None, dc_Reason = ''policy unavailable'',
            dc_Obligations = None\<rparr>)"

section \<open>Rego (rego.go)\<close>

text \<open>
  The numeric cases of the type switch: \<open>int\<close> and \<open>int32\<close> are \<open>AInt\<close>, \<open>float32\<close> and \<open>float64\<close> are
  \<open>AFloat\<close>.
\<close>

definition asInt :: "gany \<Rightarrow> int option" where
  "asInt v = (case v of
     AInt t \<Rightarrow> Some t
   | AInt64 t \<Rightarrow> Some t
   | AFloat t \<Rightarrow> Some (float_to_int64 t)
   | ANumber t \<Rightarrow> (case ParseInt64 t of (i, ok) \<Rightarrow> if ok then Some i else None)
   | AStr t \<Rightarrow> (case ParseInt64 t of (i, ok) \<Rightarrow> if ok then Some i else None)
   | _ \<Rightarrow> None)"

definition string_entries :: "gany gomap \<Rightarrow> string gomap \<Rightarrow> string gomap" where
  "string_entries raw h = fold (\<lambda>(k, v) h. case as_str v of Some s \<Rightarrow> AList.update k s h | None \<Rightarrow> h) raw h"

definition decisionFromAny :: "gany gomap \<Rightarrow> decision \<Rightarrow> decision" where
  "decisionFromAny m fallback =
     (let o1 = (case any_get m ''allow'' of ABool v \<Rightarrow> fallback\<lparr>dc_Allow := v\<rparr> | _ \<Rightarrow> fallback);
          o2 = (case asInt (any_get m ''status_code'') of Some v \<Rightarrow> o1\<lparr>dc_StatusCode := v\<rparr> | None \<Rightarrow> o1);
          o3 = (case as_str (any_get m ''reason'') of Some v \<Rightarrow> o2\<lparr>dc_Reason := v\<rparr> | None \<Rightarrow> o2);
          o4 = (case as_map (any_get m ''headers'') of
                  Some raw \<Rightarrow> o3\<lparr>dc_Headers := Some (string_entries raw (case dc_Headers o3 of None \<Rightarrow> [] | Some h \<Rightarrow> h))\<rparr>
                | None \<Rightarrow> o3)
      in (case as_map (any_get m ''obligations'') of Some raw \<Rightarrow> o4\<lparr>dc_Obligations := Some raw\<rparr> | None \<Rightarrow> o4))"

text \<open>
  A prepared query is a function from the input to the values of the first result set's expressions
  (\<open>None\<close> when the result set is empty).
\<close>

type_synonym prepared = "policy_input \<Rightarrow> gany list option result"

record rego_engine =
  re_fallback :: bool
  re_bundlePath :: string
  re_prepared :: "prepared option"

definition NewRegoEngine :: "bool \<Rightarrow> rego_engine" where
  "NewRegoEngine fallback = \<lparr>re_fallback = fallback, re_bundlePath = '''', re_prepared = None\<rparr>"

record 'n file_env =
  fo_stat :: "'n \<Rightarrow> string \<Rightarrow> int result \<times> 'n"
  fo_read :: "'n \<Rightarrow> string \<Rightarrow> bytes result \<times> 'n"
  fo_write :: "'n \<Rightarrow> string \<Rightarrow> bytes \<Rightarrow> goerr option \<times> 'n"
  fo_not_exist :: "goerr \<Rightarrow> bool"

definition rego_Load :: "'n file_env \<Rightarrow> (bytes \<Rightarrow> prepared result) \<Rightarrow> rego_engine \<Rightarrow> 'n \<Rightarrow> string \<Rightarrow> goerr option \<times> rego_engine \<times> 'n" where
  "rego_Load fo prepare r n path = (case fo_read fo n path of
     (Inl e, n1) \<Rightarrow> (Some (Wrap ''policy: read rego: '' e), r, n1)
   | (Inr src, n1) \<Rightarrow> (case prepare src of
       Inl e \<Rightarrow> (Some (Wrap ''policy: compile rego: '' e), r, n1)
     | Inr q \<Rightarrow> (None, r\<lparr>re_bundlePath := path, re_prepared := Some q\<rparr>, n1)))"

definition rego_Evaluate :: "rego_engine policy_engine" where
  "rego_Evaluate r input =
     (let fb = fallbackDecision (re_fallback r) in
      (Inr (Some (case re_prepared r of
          None \<Rightarrow> fb
        | Some q \<Rightarrow> (case q input of
            Inr (Some (AMap m # _)) \<Rightarrow> decisionFromAny m fb
          | _ \<Rightarrow> fb))), r))"

section \<open>WASM (wasm.go)\<close>

text \<open>The host's view of an instantiated module \<open>'m\<close>; results of a call are 64-bit.\<close>

record ('c, 'm) wasm_host =
  wh_compile :: "bytes \<Rightarrow> 'c result"
  wh_instantiate :: "'c \<Rightarrow> 'm result"
  wh_memory :: "'m \<Rightarrow> bool"
  wh_func :: "'m \<Rightarrow> bool"
  wh_write :: "'m \<Rightarrow> nat \<Rightarrow> bytes \<Rightarrow> 'm option"
  wh_call :: "'m \<Rightarrow> nat \<Rightarrow> nat \<Rightarrow> nat list result \<times> 'm"
  wh_read :: "'m \<Rightarrow> nat \<Rightarrow> nat \<Rightarrow> bytes option"
  wh_marshal :: "policy_input \<Rightarrow> bytes result"
  wh_unmarshal :: "bytes \<Rightarrow> decision result"

record 'm wasm_runtime =
  wr_module :: "'m option"
  wr_fallback :: bool
  wr_bundlePath :: string

definition NewWASMRuntime :: "bool \<Rightarrow> 'm wasm_runtime" where
  "NewWASMRuntime fallback = \<lparr>wr_module = None, wr_fallback = fallback, wr_bundlePath = ''''\<rparr>"

definition loadCompiled :: "('c, 'm) wasm_host \<Rightarrow> 'm wasm_runtime \<Rightarrow> 'c \<Rightarrow> goerr option \<times> 'm wasm_runtime" where
  "loadCompiled wh w compiled = (case wh_instantiate wh compiled of
     Inl e \<Rightarrow> (Some (Wrap ''policy: instantiate wasm: '' e), w)
   | Inr mdl \<Rightarrow>
       (if \<not> wh_func wh mdl then (Some (Err (''policy: wasm module must export '' @ Quote ''evaluate'')), w)
        else if \<not> wh_memory wh mdl then (Some (Err (''policy: wasm module must export '' @ Quote ''memory'')), w)
        else (None, w\<lparr>wr_module := Some mdl\<rparr>)))"

definition wasm_Load :: "'n file_env \<Rightarrow> ('c, 'm) wasm_host \<Rightarrow> 'm wasm_runtime \<Rightarrow> 'n \<Rightarrow> string \<Rightarrow> goerr option \<times> 'm wasm_runtime \<times> 'n" where
  "wasm_Load fo wh w n path = (case fo_read fo n path of
     (Inl e, n1) \<Rightarrow> (Some (Wrap ''policy: read wasm: '' e), w, n1)
   | (Inr wasm, n1) \<Rightarrow> (case wh_compile wh wasm of
       Inl e \<Rightarrow> (Some (Wrap ''policy: compile wasm: '' e), w, n1)
     | Inr compiled \<Rightarrow> (case loadCompiled wh (w\<lparr>wr_bundlePath := path\<rparr>) compiled of (e, w1) \<Rightarrow> (e, w1, n1))))"

definition wasm_Evaluate :: "('c, 'm) wasm_host \<Rightarrow> 'm wasm_runtime policy_engine" where
  "wasm_Evaluate wh w input =
     (let fb = fallbackDecision (wr_fallback w) in
      case wr_module w of
        None \<Rightarrow> (Inr (Some fb), w)
      | Some m \<Rightarrow> (case wh_marshal wh input of
          Inl _ \<Rightarrow> (Inr (Some fb), w)
        | Inr inputJSON \<Rightarrow>
            (if \<not> wh_memory wh m then (Inr (Some fb), w)
             else (case wh_write wh m 0 inputJSON of
                None \<Rightarrow> (Inr (Some fb), w)
              | Some m1 \<Rightarrow>
                  (if \<not> wh_func wh m1 then (Inr (Some fb), w\<lparr>wr_module := Some m1\<rparr>)
                   else (case wh_call wh m1 0 (length inputJSON) of (res, m2) \<Rightarrow>
                     let w2 = w\<lparr>wr_module := Some m2\<rparr> in
                     (case res of
                        Inr [r0, r1] \<Rightarrow>
                          (let outPtr = r0 mod 2 ^ 32; outLen = r1 mod 2 ^ 32 in
                           if outLen = 0 then (Inr (Some fb), w2)
                           else (case wh_read wh m2 outPtr outLen of
                              None \<Rightarrow> (Inr (Some fb), w2)
                            | Some outBuf \<Rightarrow> (case wh_unmarshal wh outBuf of
                                Inl _ \<Rightarrow> (Inr (Some fb), w2)
                              | Inr d \<Rightarrow> (Inr (Some d), w2))))
                      | _ \<Rightarrow> (Inr (Some fb), w2)))))))) "

section \<open>Signatures (signature.go)\<close>

text \<open>\<open>se_pkix\<close> gives the Go type name of a key that is not an Ed25519 key.\<close>

record sig_env =
  se_pem :: "bytes \<Rightarrow> bytes option"
  se_pkix :: "bytes \<Rightarrow> (string + bytes) result"
  se_verify :: "bytes \<Rightarrow> bytes \<Rightarrow> bytes \<Rightarrow> bool"

definition SignatureSuffix :: string where "SignatureSuffix = ''.sig''"

definition ErrSignatureMissing :: goerr where
  "ErrSignatureMissing = Sentinel ''policy: bundle signature file is missing''"

definition signaturePath :: "string \<Rightarrow> string" where
  "signaturePath bundlePath = bundlePath @ SignatureSuffix"

definition parseEd25519PublicKey :: "sig_env \<Rightarrow> bytes \<Rightarrow> bytes result" where
  "parseEd25519PublicKey se pemBytes = (let trimmed = TrimSpace pemBytes in
     if trimmed = '''' then Inl (Err ''policy: empty public key'')
     else (case se_pem se trimmed of
         Some block \<Rightarrow> (case se_pkix se block of
             Inl e \<Rightarrow> Inl (Wrap ''policy: parse PKIX public key: '' e)
           | Inr (Inl t) \<Rightarrow> Inl (Err (''policy: public key is not Ed25519 (got '' @ t @ '')''))
           | Inr (Inr edPub) \<Rightarrow> Inr edPub)
       | None \<Rightarrow> (case DecodeString StdEnc trimmed of
             Some raw \<Rightarrow> (if length raw = 32 then Inr raw
                else Inl (Err ''policy: public key is not a valid PEM-encoded Ed25519 key''))
           | None \<Rightarrow> Inl (Err ''policy: public key is not a valid PEM-encoded Ed25519 key''))))"

definition decodeSignature :: "bytes \<Rightarrow> bytes result" where
  "decodeSignature sig =
     (if length sig = 64 then Inr sig
      else (case DecodeString StdEnc (TrimSpace sig) of
          None \<Rightarrow> Inl (Wrap ''policy: signature is neither raw 64 bytes nor valid base64: '' b64_err)
        | Some decoded \<Rightarrow>
            (if length decoded \<noteq> 64
             then Inl (Err (''policy: signature has wrong length: got '' @ Itoa (int (length decoded)) @ '', want 64''))
             else Inr decoded)))"

definition verifyBundleSignature :: "sig_env \<Rightarrow> string \<Rightarrow> bytes \<Rightarrow> bytes \<Rightarrow> goerr option" where
  "verifyBundleSignature se publicKeyPEM bundle signature = (case parseEd25519PublicKey se publicKeyPEM of
     Inl e \<Rightarrow> Some e
   | Inr pub \<Rightarrow> (case decodeSignature signature of
       Inl e \<Rightarrow> Some e
     | Inr sig \<Rightarrow> (if se_verify se pub bundle sig then None
         else Some (Err ''policy: bundle signature verification failed''))))"

definition verifyBundleFile :: "'n file_env \<Rightarrow> sig_env \<Rightarrow> 'n \<Rightarrow> string \<Rightarrow> string \<Rightarrow> bytes \<Rightarrow> goerr option \<times> 'n" where
  "verifyBundleFile fo se n publicKeyPEM bundlePath bundle =
     (let sigPath = signaturePath bundlePath in
      case fo_read fo n sigPath of
        (Inl e, n1) \<Rightarrow>
          (Some (if fo_not_exist fo e then WrapS ErrSignatureMissing ('': expected '' @ Quote sigPath)
                 else Wrap ''policy: read bundle signature: '' e), n1)
      | (Inr sig, n1) \<Rightarrow> (verifyBundleSignature se publicKeyPEM bundle sig, n1))"

section \<open>The bundle loader (bundle.go)\<close>

record 'c bundle_loader =
  bl_cache :: "('c \<times> int) gomap"
  bl_fallback :: bool
  bl_publicKeyPEM :: string

definition NewBundleLoader :: "bool \<Rightarrow> string \<Rightarrow> 'c bundle_loader" where
  "NewBundleLoader fallback publicKeyPEM = \<lparr>bl_cache = [], bl_fallback = fallback, bl_publicKeyPEM = publicKeyPEM\<rparr>"

definition instantiateEngine :: "('c, 'm) wasm_host \<Rightarrow> 'c bundle_loader \<Rightarrow> 'c \<Rightarrow> 'm wasm_runtime result" where
  "instantiateEngine wh b compiled = (case loadCompiled wh (NewWASMRuntime (bl_fallback b)) compiled of
     (Some e, w) \<Rightarrow> Inl e | (None, w) \<Rightarrow> Inr w)"

text \<open>The part of \<open>LoadBundle\<close> after a cache miss: verify, compile, cache, instantiate.\<close>

definition compileBundle :: "'n file_env \<Rightarrow> sig_env \<Rightarrow> ('c, 'm) wasm_host \<Rightarrow> 'c bundle_loader \<Rightarrow> 'n \<Rightarrow> string \<Rightarrow> int \<Rightarrow> bytes \<Rightarrow> 'm wasm_runtime result \<times> 'c bundle_loader \<times> 'n" where
  "compileBundle fo se wh b n path modTime wasm =
     (case (if bl_publicKeyPEM b \<noteq> '''' then verifyBundleFile fo se n (bl_publicKeyPEM b) path wasm else (None, n)) of
        (Some e, n1) \<Rightarrow> (Inl (Wrap (''policy: bundle '' @ Quote path @ '' failed signature verification: '') e), b, n1)
      | (None, n1) \<Rightarrow> (case wh_compile wh wasm of
          Inl e \<Rightarrow> (Inl e, b, n1)
        | Inr compiled \<Rightarrow>
            (let b1 = b\<lparr>bl_cache := AList.update path (compiled, modTime) (bl_cache b)\<rparr>
             in (instantiateEngine wh b1 compiled, b1, n1))))"

definition LoadBundle :: "'n file_env \<Rightarrow> sig_env \<Rightarrow> ('c, 'm) wasm_host \<Rightarrow> 'c bundle_loader \<Rightarrow> 'n \<Rightarrow> string \<Rightarrow> 'm wasm_runtime result \<times> 'c bundle_loader \<times> 'n" where
  "LoadBundle fo se wh b n path = (case fo_stat fo n path of
     (Inl e, n1) \<Rightarrow> (Inl e, b, n1)
   | (Inr modTime, n1) \<Rightarrow> (case fo_read fo n1 path of
       (Inl e, n2) \<Rightarrow> (Inl e, b, n2)
     | (Inr wasm, n2) \<Rightarrow>
         (case map_of (bl_cache b) path of
            Some (compiled, t) \<Rightarrow>
              (if t = modTime then (instantiateEngine wh b compiled, b, n2)
               else compileBundle fo se wh b n2 path modTime wasm)
          | None \<Rightarrow> compileBundle fo se wh b n2 path modTime wasm)))"

section \<open>Hot reload (hotwatcher.go)\<close>

text \<open>\<open>reload\<close> returns an engine (\<open>None\<close> for a nil one) or an error and may change the world.\<close>

record 'e hot_watcher =
  hw_path :: string
  hw_interval :: int
  hw_current :: 'e
  hw_lastMod :: int
  hw_stopped :: bool

definition NewHotWatcher :: "('n \<Rightarrow> string \<Rightarrow> int result \<times> 'n) \<Rightarrow> 'n \<Rightarrow> string \<Rightarrow> int \<Rightarrow> 'e \<Rightarrow> 'e hot_watcher \<times> 'n" where
  "NewHotWatcher stat n path interval initial =
     (let w = \<lparr>hw_path = path, hw_interval = (if interval \<le> 0 then 1000000000 else interval), hw_current = initial,
               hw_lastMod = zero_time, hw_stopped = False\<rparr>
      in (case stat n path of
            (Inr m, n1) \<Rightarrow> (w\<lparr>hw_lastMod := m\<rparr>, n1)
          | (Inl e, n1) \<Rightarrow> (w, n1)))"

definition checkAndReload :: "('n \<Rightarrow> string \<Rightarrow> int result \<times> 'n) \<Rightarrow> ('n \<Rightarrow> 'e option result \<times> 'n) \<Rightarrow> 'e hot_watcher \<Rightarrow> 'n \<Rightarrow> bool \<times> 'e hot_watcher \<times> 'n" where
  "checkAndReload stat reload w n = (case stat n (hw_path w) of
     (Inl e, n1) \<Rightarrow> (False, w, n1)
   | (Inr m, n1) \<Rightarrow>
       (if m = hw_lastMod w then (False, w, n1)
        else (case reload n1 of
            (Inl e, n2) \<Rightarrow> (False, w, n2)
          | (Inr None, n2) \<Rightarrow> (False, w, n2)
          | (Inr (Some newEng), n2) \<Rightarrow> (True, w\<lparr>hw_current := newEng, hw_lastMod := m\<rparr>, n2))))"

definition hw_Stop :: "'e hot_watcher \<Rightarrow> 'e hot_watcher" where
  "hw_Stop w = w\<lparr>hw_stopped := True\<rparr>"

text \<open>\<open>Evaluate\<close> delegates to the current engine, whose state it may advance.\<close>

definition hw_Evaluate :: "'e policy_engine \<Rightarrow> 'e hot_watcher policy_engine" where
  "hw_Evaluate ev w input = (case ev (hw_current w) input of (d, e) \<Rightarrow> (d, w\<lparr>hw_current := e\<rparr>))"

text \<open>
  The polling loop and its surroundings as a transition system: a tick runs \<open>checkAndReload\<close> unless
  the watcher is stopped, a request evaluates, \<open>Stop\<close> stops, and the world changes on its own
  (\<open>env\<close>).
\<close>

inductive hw_step :: "('n \<Rightarrow> string \<Rightarrow> int result \<times> 'n) \<Rightarrow> ('n \<Rightarrow> 'e option result \<times> 'n) \<Rightarrow> 'e policy_engine \<Rightarrow> ('n \<Rightarrow> 'n \<Rightarrow> bool) \<Rightarrow> 'e hot_watcher \<times> 'n \<Rightarrow> 'e hot_watcher \<times> 'n \<Rightarrow> bool"
  for stat reload ev env where
  tick: "\<not> hw_stopped w \<Longrightarrow> checkAndReload stat reload w n = (r, w', n') \<Longrightarrow> hw_step stat reload ev env (w, n) (w', n')"
| request: "hw_Evaluate ev w input = (d, w') \<Longrightarrow> hw_step stat reload ev env (w, n) (w', n)"
| stop: "hw_step stat reload ev env (w, n) (hw_Stop w, n)"
| world: "env n n' \<Longrightarrow> hw_step stat reload ev env (w, n) (w, n')"

section \<open>The signing tool (cmd/bundle-sign/sign.go)\<close>

record key_env =
  ke_pem :: "bytes \<Rightarrow> bytes option"
  ke_pkcs8 :: "bytes \<Rightarrow> (string + bytes) result"
  ke_sign :: "bytes \<Rightarrow> bytes \<Rightarrow> bytes"

definition defaultSignaturePath :: "string \<Rightarrow> string" where
  "defaultSignaturePath bundlePath = bundlePath @ ''.sig''"

definition loadPrivateKey :: "'n file_env \<Rightarrow> key_env \<Rightarrow> 'n \<Rightarrow> string \<Rightarrow> bytes result \<times> 'n" where
  "loadPrivateKey fo ke n path = (case fo_read fo n path of
     (Inl e, n1) \<Rightarrow> (Inl (Wrap ''read private key: '' e), n1)
   | (Inr data, n1) \<Rightarrow> (case ke_pem ke data of
       None \<Rightarrow> (Inl (Err ''private key is not valid PEM''), n1)
     | Some block \<Rightarrow> (case ke_pkcs8 ke block of
         Inl e \<Rightarrow> (Inl (Wrap ''parse PKCS#8 private key: '' e), n1)
       | Inr (Inl t) \<Rightarrow> (Inl (Err (''private key is not Ed25519 (got '' @ t @ '')'')), n1)
       | Inr (Inr key) \<Rightarrow> (Inr key, n1))))"

definition signBundle :: "'n file_env \<Rightarrow> key_env \<Rightarrow> 'n \<Rightarrow> string \<Rightarrow> string \<Rightarrow> string \<Rightarrow> goerr option \<times> 'n" where
  "signBundle fo ke n privPath bundlePath sigPath = (case loadPrivateKey fo ke n privPath of
     (Inl e, n1) \<Rightarrow> (Some e, n1)
   | (Inr key, n1) \<Rightarrow> (case fo_read fo n1 bundlePath of
       (Inl e, n2) \<Rightarrow> (Some (Wrap ''read bundle: '' e), n2)
     | (Inr bundle, n2) \<Rightarrow>
         (case fo_write fo n2 sigPath (EncodeToString StdEnc (ke_sign ke key bundle) @ [NL]) of
            (Some e, n3) \<Rightarrow> (Some (Wrap ''write signature: '' e), n3)
          | (None, n3) \<Rightarrow> (None, n3))))"

section \<open>Lemmas\<close>

lemma set_update_subset: "set (AList.update k v m) \<subseteq> insert (k, v) (set m)"
  by (induction m) auto

lemma decisionFromAny_allow:
  "dc_Allow (decisionFromAny m fb) = (case any_get m ''allow'' of ABool v \<Rightarrow> v | _ \<Rightarrow> dc_Allow fb)"
  by (simp add: decisionFromAny_def Let_def split: gany.splits option.splits)

lemma fallback_deny [simp]: "\<not> dc_Allow (fallbackDecision False)" "dc_Allow (fallbackDecision True)"
  by (simp_all add: fallbackDecision_def)

text \<open>A compiled module that comes from bytes with a valid signature.\<close>

definition verified_module :: "sig_env \<Rightarrow> ('c, 'm) wasm_host \<Rightarrow> string \<Rightarrow> 'c \<Rightarrow> bool" where
  "verified_module se wh pk c \<longleftrightarrow>
     (\<exists>wasm sigfile. wh_compile wh wasm = Inr c \<and> verifyBundleSignature se pk wasm sigfile = None)"

definition loader_inv :: "sig_env \<Rightarrow> ('c, 'm) wasm_host \<Rightarrow> 'c bundle_loader \<Rightarrow> bool" where
  "loader_inv se wh b \<longleftrightarrow> (\<forall>(p, c, t) \<in> set (bl_cache b). verified_module se wh (bl_publicKeyPEM b) c)"

text \<open>An engine that was instantiated from a verified module, and what evaluation makes of it.\<close>

inductive verified_engine :: "sig_env \<Rightarrow> ('c, 'm) wasm_host \<Rightarrow> string \<Rightarrow> 'm wasm_runtime \<Rightarrow> bool"
  for se wh pk where
  inst: "verified_module se wh pk c \<Longrightarrow> wh_instantiate wh c = Inr m \<Longrightarrow> wr_module w = Some m \<Longrightarrow> verified_engine se wh pk w"
| eval: "verified_engine se wh pk w \<Longrightarrow> wasm_Evaluate wh w i = (d, w') \<Longrightarrow> verified_engine se wh pk w'"

lemma verifyBundleFile_None:
  "verifyBundleFile fo se n pk path wasm = (None, n') \<Longrightarrow> \<exists>sig. verifyBundleSignature se pk wasm sig = None"
  by (auto simp: verifyBundleFile_def Let_def split: prod.splits sum.splits)

lemma instantiateEngine_verified:
  assumes "instantiateEngine wh b c = Inr w" and "verified_module se wh pk c"
  shows "verified_engine se wh pk w"
  using assms
  by (auto simp: instantiateEngine_def loadCompiled_def NewWASMRuntime_def
      intro!: verified_engine.inst split: sum.splits if_splits)

lemma compileBundle_verified:
  assumes "compileBundle fo se wh b n path t wasm = (r, b', n')" and "loader_inv se wh b" and "bl_publicKeyPEM b \<noteq> ''''"
  shows "loader_inv se wh b' \<and> bl_publicKeyPEM b' = bl_publicKeyPEM b
    \<and> (\<forall>w. r = Inr w \<longrightarrow> verified_engine se wh (bl_publicKeyPEM b) w)"
proof (cases "\<exists>n1. verifyBundleFile fo se n (bl_publicKeyPEM b) path wasm = (None, n1)")
  case False
  then obtain e n1 where "verifyBundleFile fo se n (bl_publicKeyPEM b) path wasm = (Some e, n1)"
    by (metis option.exhaust prod.exhaust)
  with assms show ?thesis by (auto simp: compileBundle_def)
next
  case True
  then obtain n1 where v: "verifyBundleFile fo se n (bl_publicKeyPEM b) path wasm = (None, n1)" by blast
  show ?thesis
  proof (cases "wh_compile wh wasm")
    case (Inl e)
    with v assms show ?thesis by (auto simp: compileBundle_def)
  next
    case (Inr c)
    with v have m: "verified_module se wh (bl_publicKeyPEM b) c"
      by (auto simp: verified_module_def dest: verifyBundleFile_None)
    have b': "b' = b\<lparr>bl_cache := AList.update path (c, t) (bl_cache b)\<rparr>" and r: "r = instantiateEngine wh b' c"
      using v Inr assms(1,3) by (auto simp: compileBundle_def Let_def)
    have "loader_inv se wh b'"
      using m b' assms(2) set_update_subset [of path "(c, t)" "bl_cache b"] by (auto simp: loader_inv_def)
    with m b' r show ?thesis by (auto dest: instantiateEngine_verified)
  qed
qed

lemma LoadBundle_verified:
  assumes "LoadBundle fo se wh b n path = (r, b', n')" and "loader_inv se wh b" and "bl_publicKeyPEM b \<noteq> ''''"
  shows "loader_inv se wh b' \<and> bl_publicKeyPEM b' = bl_publicKeyPEM b
    \<and> (\<forall>w. r = Inr w \<longrightarrow> verified_engine se wh (bl_publicKeyPEM b) w)"
proof -
  obtain m n1 where st: "fo_stat fo n path = (m, n1)" by fastforce
  obtain x n2 where rd: "fo_read fo n1 path = (x, n2)" by fastforce
  show ?thesis
  proof (cases "(\<exists>e. m = Inl e) \<or> (\<exists>e. x = Inl e)")
    case True
    then show ?thesis using assms st rd by (cases m; cases x) (auto simp: LoadBundle_def)
  next
    case False
    then obtain t wasm where m: "m = Inr t" and x: "x = Inr wasm" by (metis sum.exhaust_sel)
    show ?thesis
    proof (cases "\<exists>c. map_of (bl_cache b) path = Some (c, t)")
      case True
      then obtain c where c: "map_of (bl_cache b) path = Some (c, t)" by blast
      then have "verified_module se wh (bl_publicKeyPEM b) c"
        using assms(2) by (auto simp: loader_inv_def dest: map_of_SomeD)
      moreover have "b' = b" "r = instantiateEngine wh b c"
        using assms(1) st rd m x c by (auto simp: LoadBundle_def)
      ultimately show ?thesis using assms(2) by (auto dest: instantiateEngine_verified)
    next
      case False
      then have "compileBundle fo se wh b n2 path t wasm = (r, b', n')"
        using assms(1) st rd m x by (auto simp: LoadBundle_def split: option.splits)
      with assms(2,3) show ?thesis by (rule compileBundle_verified [rotated])
    qed
  qed
qed

section \<open>Last-good serving as an interface\<close>

text \<open>
  What the hot watcher needs of its surroundings: reloading yields only good engines, evaluation keeps
  an engine good, and neither the stat call nor the world's own steps break what reloading needs.
\<close>

locale hot_reload =
  fixes stat :: "'n \<Rightarrow> string \<Rightarrow> int result \<times> 'n"
    and reload :: "'n \<Rightarrow> 'e option result \<times> 'n"
    and ev :: "'e policy_engine"
    and env :: "'n \<Rightarrow> 'n \<Rightarrow> bool"
    and good :: "'e \<Rightarrow> bool"
    and wok :: "'n \<Rightarrow> bool"
  assumes reload_good: "wok n \<Longrightarrow> reload n = (r, n') \<Longrightarrow> wok n' \<and> (\<forall>e. r = Inr (Some e) \<longrightarrow> good e)"
    and stat_ok: "wok n \<Longrightarrow> stat n p = (m, n') \<Longrightarrow> wok n'"
    and ev_good: "good e \<Longrightarrow> ev e i = (d, e') \<Longrightarrow> good e'"
    and env_ok: "wok n \<Longrightarrow> env n n' \<Longrightarrow> wok n'"
begin

lemma checkAndReload_good:
  assumes "checkAndReload stat reload w n = (b, w', n')" and "good (hw_current w)" and "wok n"
  shows "good (hw_current w') \<and> wok n'"
proof -
  obtain m n1 where st: "stat n (hw_path w) = (m, n1)" by fastforce
  with assms(3) have w1: "wok n1" by (rule stat_ok)
  obtain x n2 where rl: "reload n1 = (x, n2)" by fastforce
  from reload_good [OF w1 rl] have "wok n2" and "\<And>e. x = Inr (Some e) \<Longrightarrow> good e" by auto
  with assms st rl w1 show ?thesis
    by (auto simp: checkAndReload_def split: sum.splits option.splits if_splits)
qed

lemma step_good:
  assumes "hw_step stat reload ev env (w, n) (w', n')" and "good (hw_current w)" and "wok n"
  shows "good (hw_current w') \<and> wok n'"
  using assms(1)
proof cases
  case (tick r)
  then show ?thesis using checkAndReload_good assms(2,3) by blast
next
  case (request input d)
  then show ?thesis using assms(2,3) ev_good by (auto simp: hw_Evaluate_def split: prod.splits)
next
  case stop
  then show ?thesis using assms(2,3) by (simp add: hw_Stop_def)
next
  case world
  then show ?thesis using assms(2,3) env_ok by simp
qed

lemma reachable_good:
  assumes "(hw_step stat reload ev env)\<^sup>*\<^sup>* s s'" and "good (hw_current (fst s))" and "wok (snd s)"
  shows "good (hw_current (fst s')) \<and> wok (snd s')"
  using assms
proof (induction rule: rtranclp_induct)
  case (step y z)
  then show ?case using step_good [of "fst y" "snd y" "fst z" "snd z"] by simp
qed simp

end

text \<open>
  The proxy's instance: the world holds the bundle loader beside the file system, reloading is
  \<open>LoadBundle\<close>, and the world's own steps leave the loader alone.
\<close>

definition loader_stat :: "'n file_env \<Rightarrow> 'c bundle_loader \<times> 'n \<Rightarrow> string \<Rightarrow> int result \<times> 'c bundle_loader \<times> 'n" where
  "loader_stat fo bn p = (case fo_stat fo (snd bn) p of (m, n1) \<Rightarrow> (m, fst bn, n1))"

definition loader_reload :: "'n file_env \<Rightarrow> sig_env \<Rightarrow> ('c, 'm) wasm_host \<Rightarrow> string \<Rightarrow> 'c bundle_loader \<times> 'n \<Rightarrow> 'm wasm_runtime option result \<times> 'c bundle_loader \<times> 'n" where
  "loader_reload fo se wh path bn = (case LoadBundle fo se wh (fst bn) (snd bn) path of
     (Inl e, b1, n1) \<Rightarrow> (Inl e, b1, n1) | (Inr w, b1, n1) \<Rightarrow> (Inr (Some w), b1, n1))"

definition files_change :: "'c bundle_loader \<times> 'n \<Rightarrow> 'c bundle_loader \<times> 'n \<Rightarrow> bool" where
  "files_change s s' \<longleftrightarrow> fst s' = fst s"

interpretation bundles: hot_reload "loader_stat fo" "loader_reload fo se wh path" "wasm_Evaluate wh" files_change
    "verified_engine se wh pk" "\<lambda>bn. pk \<noteq> '''' \<and> bl_publicKeyPEM (fst bn) = pk \<and> loader_inv se wh (fst bn)"
  for fo se wh path pk
proof
  fix n r n'
  assume w: "pk \<noteq> '''' \<and> bl_publicKeyPEM (fst n) = pk \<and> loader_inv se wh (fst n)"
    and r: "loader_reload fo se wh path n = (r, n')"
  obtain x b1 n1 where x: "LoadBundle fo se wh (fst n) (snd n) path = (x, b1, n1)" by (metis prod.collapse)
  from r x have "fst n' = b1" and "\<And>e. r = Inr (Some e) \<Longrightarrow> x = Inr e"
    by (auto simp: loader_reload_def split: sum.splits)
  with LoadBundle_verified [OF x] w
  show "(pk \<noteq> '''' \<and> bl_publicKeyPEM (fst n') = pk \<and> loader_inv se wh (fst n'))
      \<and> (\<forall>e. r = Inr (Some e) \<longrightarrow> verified_engine se wh pk e)" by auto
next
  show "pk \<noteq> '''' \<and> bl_publicKeyPEM (fst n') = pk \<and> loader_inv se wh (fst n')"
    if "pk \<noteq> '''' \<and> bl_publicKeyPEM (fst n) = pk \<and> loader_inv se wh (fst n)" and "loader_stat fo n p = (m, n')" for n p m n'
    using that by (auto simp: loader_stat_def split: prod.splits)
  show "verified_engine se wh pk e'" if "verified_engine se wh pk e" and "wasm_Evaluate wh e i = (d, e')" for e i d e'
    using that by (rule verified_engine.eval)
  show "pk \<noteq> '''' \<and> bl_publicKeyPEM (fst n') = pk \<and> loader_inv se wh (fst n')"
    if "pk \<noteq> '''' \<and> bl_publicKeyPEM (fst n) = pk \<and> loader_inv se wh (fst n)" and "files_change n n'" for n n'
    using that by (simp add: files_change_def)
qed

section \<open>Properties\<close>


definition sample_se :: sig_env where
  "sample_se = \<lparr>se_pem = (\<lambda>p. Some p), se_pkix = (\<lambda>d. Inr (Inr d)), se_verify = (\<lambda>k b s. s = replicate 64 (hd b))\<rparr>"

definition sample_wh :: "(bytes, bytes) wasm_host" where
  "sample_wh = \<lparr>wh_compile = (\<lambda>w. Inr w), wh_instantiate = (\<lambda>c. Inr c), wh_memory = (\<lambda>m. True), wh_func = (\<lambda>m. True),
     wh_write = (\<lambda>m p d. Some m), wh_call = (\<lambda>m p l. (Inr [0, 1], m)), wh_read = (\<lambda>m p l. Some m),
     wh_marshal = (\<lambda>i. Inr ''{}''), wh_unmarshal = (\<lambda>b. Inr (fallbackDecision (b = ''allow'')))\<rparr>"

text \<open>A file system of two files, bundle and signature, with a version as mtime.\<close>

definition sample_fo :: "(int \<times> bytes \<times> bytes) file_env" where
  "sample_fo = \<lparr>fo_stat = (\<lambda>n p. (Inr (fst n), n)),
     fo_read = (\<lambda>n p. (Inr (if p = ''b.sig'' then snd (snd n) else fst (snd n)), n)),
     fo_write = (\<lambda>n p d. (None, if p = ''b.sig'' then (fst n, fst (snd n), d) else (fst n, d, snd (snd n)))),
     fo_not_exist = (\<lambda>e. False)\<rparr>"

definition sample_engine :: "bytes wasm_runtime" where
  "sample_engine = \<lparr>wr_module = Some ''wasm'', wr_fallback = False, wr_bundlePath = ''''\<rparr>"

lemma sample_engine_verified: "verified_engine sample_se sample_wh ''k'' sample_engine"
proof (rule verified_engine.inst)
  have "TrimSpace ''k'' = ''k''" by code_simp
  then show "verified_module sample_se sample_wh ''k'' ''wasm''"
    by (auto simp: verified_module_def sample_wh_def verifyBundleSignature_def parseEd25519PublicKey_def sample_se_def
        decodeSignature_def intro!: exI [of _ "replicate 64 (CHR ''w'')"])
qed (simp_all add: sample_wh_def sample_engine_def)




text \<open>
  What the signing tool signs, the loader accepts: if \<open>signBundle\<close> succeeds and nobody changes the
  files afterwards, \<open>verifyBundleFile\<close> accepts the bundle bytes that were signed, provided the public
  key belongs to the private key.
\<close>

theorem signed_bundle_verifies:
  assumes fs: "\<And>n p d n'. fo_write fo n p d = (None, n') \<Longrightarrow> fst (fo_read fo n' p) = Inr d"
    and key: "\<And>b. length (ke_sign ke priv b) = 64" "\<And>b. se_verify se pub b (ke_sign ke priv b)"
    and pk: "parseEd25519PublicKey se pk = Inr pub"
    and run: "loadPrivateKey fo ke n privPath = (Inr priv, n1)" "fo_read fo n1 path = (Inr bundle, n2)"
      "signBundle fo ke n privPath path (defaultSignaturePath path) = (None, n')"
  shows "fst (verifyBundleFile fo se n' pk path bundle) = None"
proof -
  let ?sig = "ke_sign ke priv bundle"
  let ?enc = "EncodeToString StdEnc ?sig"
  have w: "fo_write fo n2 (path @ ''.sig'') (?enc @ [NL]) = (None, n')"
    using run by (auto simp: signBundle_def defaultSignaturePath_def split: prod.splits option.splits)
  have "?sig \<noteq> []" using key(1) [of "bundle"] by auto
  then have t: "TrimSpace (?enc @ [NL]) = ?enc"
    using EncodeToString_graph by (intro TrimSpace_graph_NL) auto
  have "length (?enc @ [NL]) \<noteq> 64"
    using key(1) [of "bundle"] by (simp add: EncodeToString_std_length)
  then have "decodeSignature (?enc @ [NL]) = Inr ?sig"
    using t key(1) [of "bundle"] by (simp add: decodeSignature_def)
  then show ?thesis
    using fs [OF w] key(2) pk
    by (auto simp: verifyBundleFile_def signaturePath_def SignatureSuffix_def verifyBundleSignature_def Let_def
        split: prod.splits sum.splits)
qed

definition sample_ke :: key_env where
  "sample_ke = \<lparr>ke_pem = (\<lambda>p. Some p), ke_pkcs8 = (\<lambda>d. Inr (Inr d)), ke_sign = (\<lambda>k b. replicate 64 (hd b))\<rparr>"

theorem signed_bundle_verifies_witness:
  "\<exists>n'. signBundle sample_fo sample_ke (1, ''wasm'', '''') ''priv'' ''b'' (defaultSignaturePath ''b'') = (None, n')
     \<and> fst (verifyBundleFile sample_fo sample_se n' ''k'' ''b'' ''wasm'') = None"
proof -
  let ?n = "(1 :: int, ''wasm'', '''' :: string)"
  have pk: "parseEd25519PublicKey sample_se ''k'' = Inr ''k''" by code_simp
  have l: "loadPrivateKey sample_fo sample_ke ?n ''priv'' = (Inr ''wasm'', ?n)"
    by (simp add: loadPrivateKey_def sample_fo_def sample_ke_def)
  have r: "fo_read sample_fo ?n ''b'' = (Inr ''wasm'', ?n)" by (simp add: sample_fo_def)
  obtain n' where s: "signBundle sample_fo sample_ke ?n ''priv'' ''b'' (defaultSignaturePath ''b'') = (None, n')"
    using l r by (auto simp: signBundle_def sample_fo_def)
  have "fst (verifyBundleFile sample_fo sample_se n' ''k'' ''b'' ''wasm'') = None"
  proof (rule signed_bundle_verifies [OF _ _ _ pk l r s])
    show "fst (fo_read sample_fo m' p) = Inr d" if "fo_write sample_fo m p d = (None, m')" for m p d m'
      using that by (auto simp: sample_fo_def)
  qed (simp_all add: sample_ke_def sample_se_def)
  with s show ?thesis by blast
qed

text \<open>
  \<open>WASMRuntime.Load\<close> records the new path before the module is instantiated: when instantiation
  fails, the old module keeps serving while \<open>BundlePath\<close> already names the bundle that was refused.
\<close>

theorem wasm_load_path_before_module:
  assumes "fo_read fo n path = (Inr wasm, n1)" and "wh_compile wh wasm = Inr c" and "wh_instantiate wh c = Inl e"
  shows "\<exists>w' e'. wasm_Load fo wh w n path = (Some e', w', n1) \<and> wr_module w' = wr_module w \<and> wr_bundlePath w' = path"
  using assms by (simp add: wasm_Load_def loadCompiled_def)

theorem wasm_load_path_before_module_witness:
  "\<exists>w' e'. wasm_Load sample_fo (sample_wh\<lparr>wh_instantiate := (\<lambda>c. Inl (Err ''trap''))\<rparr>)
       sample_engine (1, ''wasm'', '''') ''new'' = (Some e', w', (1, ''wasm'', ''''))
     \<and> wr_module w' = Some ''wasm'' \<and> wr_bundlePath w' = ''new''"
  using wasm_load_path_before_module [of sample_fo "(1, ''wasm'', '''')" "''new''" "''wasm''" "(1, ''wasm'', '''')"
      "sample_wh\<lparr>wh_instantiate := (\<lambda>c. Inl (Err ''trap''))\<rparr>" "''wasm''" "Err ''trap''" sample_engine]
  by (simp add: sample_fo_def sample_wh_def sample_engine_def)

end
