(* ===== verification/Go_Utf8.thy ===== *)
theory Go_Utf8
  imports Go_Prelude
begin

text \<open>
  Go's UTF-8 decoding and encoding of runes, as \<open>range\<close> over a string and \<open>ReadRune\<close> perform it: an
  invalid byte decodes to U+FFFD and takes one byte. On top of it the string escaping of
  \<open>encoding/json\<close>.
\<close>

section \<open>Runes\<close>

type_synonym rune = nat

definition cont :: "nat \<Rightarrow> nat \<Rightarrow> char \<Rightarrow> bool" where
  "cont lo hi c \<longleftrightarrow> lo \<le> (of_char c :: nat) \<and> (of_char c :: nat) \<le> hi"

definition low6 :: "char \<Rightarrow> nat" where
  "low6 c = of_char c mod 64"

text \<open>The rune at the head of a non-empty byte string and the bytes after the first that it takes.\<close>

definition rune_at :: "char \<Rightarrow> string \<Rightarrow> rune \<times> nat" where
  "rune_at c s = (let b = of_char c :: nat in
     if b < 128 then (b, 0)
     else if 194 \<le> b \<and> b \<le> 223 then
       (case s of x # _ \<Rightarrow> if cont 128 191 x then (b mod 32 * 64 + low6 x, 1) else (65533, 0) | _ \<Rightarrow> (65533, 0))
     else if 224 \<le> b \<and> b \<le> 239 then
       (case s of x # y # _ \<Rightarrow>
          if cont (if b = 224 then 160 else 128) (if b = 237 then 159 else 191) x \<and> cont 128 191 y
          then (b mod 16 * 4096 + low6 x * 64 + low6 y, 2) else (65533, 0)
        | _ \<Rightarrow> (65533, 0))
     else if 240 \<le> b \<and> b \<le> 244 then
       (case s of x # y # z # _ \<Rightarrow>
          if cont (if b = 240 then 144 else 128) (if b = 244 then 143 else 191) x \<and> cont 128 191 y \<and> cont 128 191 z
          then (b mod 8 * 262144 + low6 x * 4096 + low6 y * 64 + low6 z, 3) else (65533, 0)
        | _ \<Rightarrow> (65533, 0))
     else (65533, 0))"

function runes :: "string \<Rightarrow> rune list" where
  "runes [] = []"
| "runes (c # s) = fst (rune_at c s) # runes (drop (snd (rune_at c s)) s)"
  by pat_completeness auto
termination
  by (relation "measure length") auto

definition utf8 :: "rune \<Rightarrow> string" where
  "utf8 r =
     (if r < 128 then [char_of r]
      else if r < 2048 then [char_of (192 + r div 64), char_of (128 + r mod 64)]
      else if r < 65536 then [char_of (224 + r div 4096), char_of (128 + r div 64 mod 64), char_of (128 + r mod 64)]
      else [char_of (240 + r div 262144), char_of (128 + r div 4096 mod 64), char_of (128 + r div 64 mod 64), char_of (128 + r mod 64)])"

definition utf8s :: "rune list \<Rightarrow> string" where
  "utf8s rs = concat (map utf8 rs)"

section \<open>Lemmas on runes\<close>

definition ascii :: "string \<Rightarrow> bool" where
  "ascii s \<longleftrightarrow> (\<forall>c \<in> set s. (of_char c :: nat) < 128)"

lemma ascii_simps [simp]: "ascii []" "ascii (c # s) \<longleftrightarrow> (of_char c :: nat) < 128 \<and> ascii s"
  "ascii (s @ t) \<longleftrightarrow> ascii s \<and> ascii t"
  by (auto simp: ascii_def)

lemma runes_ascii [simp]: "ascii s \<Longrightarrow> runes (s @ t) = map of_char s @ runes t"
  by (induction s) (auto simp: rune_at_def)

lemma runes_ascii_only [simp]: "ascii s \<Longrightarrow> runes s = map of_char s"
  using runes_ascii [of s "[]"] by simp

lemma utf8s_of_char: "ascii s \<Longrightarrow> utf8s (map of_char s) = s"
  by (induction s) (auto simp: utf8s_def utf8_def)

text \<open>A byte string whose runes are all ASCII is ASCII itself, so a name is a plain ASCII word.\<close>

lemma mod_lower: "a \<le> (b :: nat) \<Longrightarrow> b < a + k \<Longrightarrow> k dvd a - c \<Longrightarrow> c < k \<Longrightarrow> c \<le> a \<Longrightarrow> b - a + c < k \<Longrightarrow> c \<le> b mod k"
proof -
  assume "a \<le> b" "b < a + k" "k dvd a - c" "c < k" "c \<le> a" "b - a + c < k"
  then obtain q where "a - c = k * q" by (auto elim: dvdE)
  with \<open>a \<le> b\<close> \<open>c \<le> a\<close> have "b = k * q + (b - a + c)" by simp
  then have "b mod k = (b - a + c) mod k" by (metis mod_mult_self4)
  with \<open>b - a + c < k\<close> show ?thesis by simp
qed

lemma rune_at_ascii:
  assumes "fst (rune_at c s) < 128"
  shows "(of_char c :: nat) < 128 \<and> snd (rune_at c s) = 0"
proof (rule ccontr)
  let ?b = "of_char c :: nat"
  assume "\<not> ?thesis"
  then have b: "128 \<le> ?b" by (auto simp: rune_at_def Let_def)
  have m: "194 \<le> ?b \<and> ?b \<le> 223 \<Longrightarrow> 2 \<le> ?b mod 32" "225 \<le> ?b \<and> ?b \<le> 239 \<Longrightarrow> 1 \<le> ?b mod 16"
    "241 \<le> ?b \<and> ?b \<le> 244 \<Longrightarrow> 1 \<le> ?b mod 8"
    using mod_lower [of 194 ?b 32 2] mod_lower [of 225 ?b 16 1] mod_lower [of 241 ?b 8 1] by auto
  have l: "160 \<le> (of_char x :: nat) \<and> (of_char x :: nat) \<le> 191 \<Longrightarrow> 32 \<le> low6 x"
    "144 \<le> (of_char x :: nat) \<and> (of_char x :: nat) \<le> 191 \<Longrightarrow> 16 \<le> low6 x" for x
    using mod_lower [of 160 "of_char x" 64 32] mod_lower [of 144 "of_char x" 64 16] by (auto simp: low6_def)
  show False
    using assms b m l by (auto simp: rune_at_def Let_def cont_def split: if_splits list.splits) fastforce+
qed

lemma runes_small_ascii: "list_all (\<lambda>r. r < 128) (runes s) \<Longrightarrow> ascii s"
proof (induction s rule: runes.induct)
  case (2 c s)
  then have "(of_char c :: nat) < 128" "snd (rune_at c s) = 0"
    using rune_at_ascii [of c s] by simp_all
  with 2 show ?case by simp
qed simp

section \<open>JSON string escaping\<close>

definition json_esc_char :: "char \<Rightarrow> string" where
  "json_esc_char c =
     (if c = DQ \<or> c = BSL then [BSL, c]
      else if c = CHR 0x08 then [BSL, CHR ''b''] else if c = CHR 0x0C then [BSL, CHR ''f'']
      else if c = NL then [BSL, CHR ''n''] else if c = CR then [BSL, CHR ''r'']
      else if c = CHR 0x09 then [BSL, CHR ''t'']
      else if of_char c < (32 :: nat) \<or> c = CHR ''<'' \<or> c = CHR ''>'' \<or> c = CHR ''&''
      then BSL # ''u00'' @ hex_byte c
      else [c])"

text \<open>\<open>json.Marshal\<close> of a string, without the surrounding quotes.\<close>

function json_escape :: "string \<Rightarrow> string" where
  "json_escape [] = []"
| "json_escape (c # s) =
     (if (of_char c :: nat) < 128 then json_esc_char c @ json_escape s
      else if snd (rune_at c s) = 0 then BSL # ''ufffd'' @ json_escape s
      else if fst (rune_at c s) = 8232 then BSL # ''u2028'' @ json_escape (drop (snd (rune_at c s)) s)
      else if fst (rune_at c s) = 8233 then BSL # ''u2029'' @ json_escape (drop (snd (rune_at c s)) s)
      else c # take (snd (rune_at c s)) s @ json_escape (drop (snd (rune_at c s)) s))"
  by pat_completeness auto
termination
  by (relation "measure length") auto

text \<open>A JSON reader at the inside of a string: what follows the closing quote.\<close>

fun skip_string :: "string \<Rightarrow> string option" where
  "skip_string [] = None"
| "skip_string (c # s) =
     (if c = DQ then Some s
      else if c = BSL then (case s of [] \<Rightarrow> None | _ # t \<Rightarrow> skip_string t)
      else skip_string s)"

definition plain_char :: "char \<Rightarrow> bool" where
  "plain_char c \<longleftrightarrow> c \<noteq> DQ \<and> c \<noteq> BSL"

lemma skip_string_plain: "\<forall>c \<in> set p. plain_char c \<Longrightarrow> skip_string (p @ s) = skip_string s"
  by (induction p) (auto simp: plain_char_def)

lemma skip_string_esc: "\<forall>c \<in> set p. plain_char c \<Longrightarrow> skip_string (BSL # e # p @ s) = skip_string s"
  by (simp add: skip_string_plain BSL_def DQ_def)

lemma high_plain: "128 \<le> (of_char c :: nat) \<Longrightarrow> plain_char c"
  by (auto simp: plain_char_def DQ_def BSL_def)

lemma rune_at_high:
  assumes "128 \<le> (of_char c :: nat)" and "x \<in> set (take (snd (rune_at c s)) s)"
  shows "128 \<le> (of_char x :: nat)"
  using assms
  by (auto simp: rune_at_def Let_def cont_def take_Cons' split: if_splits list.splits)

lemma special_codes: "(of_char DQ :: nat) = 34" "(of_char BSL :: nat) = 92"
  by (simp_all add: DQ_def BSL_def)

lemma plain_char_code: "(of_char c :: nat) \<noteq> 34 \<Longrightarrow> (of_char c :: nat) \<noteq> 92 \<Longrightarrow> plain_char c"
  using special_codes by (auto simp: plain_char_def)

lemma hex_byte_plain: "\<forall>x \<in> set (hex_byte c). plain_char x \<and> 32 \<le> (of_char x :: nat)"
proof -
  have "plain_char (hex_digit n) \<and> 32 \<le> (of_char (hex_digit n) :: nat)" if "n < 16" for n
  proof -
    have "(of_char (hex_digit n) :: nat) = (if n < 10 then 48 + n else 87 + n)"
      using that by (simp add: hex_digit_def)
    then show ?thesis using that by (auto intro!: plain_char_code split: if_splits)
  qed
  moreover have "(of_char c :: nat) div 16 < 16"
    using nat_of_char_less_256 [of c] by linarith
  ultimately show ?thesis by (simp add: hex_byte_def)
qed

lemma esc_char_skip: "skip_string (json_esc_char c @ s) = skip_string s"
proof -
  have "skip_string (BSL # CHR ''u'' # (''00'' @ hex_byte c) @ s) = skip_string s"
    by (rule skip_string_esc) (use hex_byte_plain [of c] in \<open>auto simp: plain_char_def DQ_def BSL_def\<close>)
  then show ?thesis
    using skip_string_esc [of "[]" _ s] by (auto simp: json_esc_char_def)
qed

lemma esc_char_printable: "\<forall>x \<in> set (json_esc_char c). 32 \<le> (of_char x :: nat)"
proof -
  have "\<forall>x \<in> set (BSL # ''u00'' @ hex_byte c). 32 \<le> (of_char x :: nat)"
    using hex_byte_plain [of c] special_codes by simp
  then show ?thesis
    unfolding json_esc_char_def using special_codes by (simp split: if_split)
qed

lemma skip_string_uXXXX:
  "skip_string (BSL # ''ufffd'' @ s) = skip_string s" "skip_string (BSL # ''u2028'' @ s) = skip_string s"
  "skip_string (BSL # ''u2029'' @ s) = skip_string s"
  by (simp_all add: BSL_def DQ_def)

text \<open>An escaped string cannot end the literal it is put into and holds no control characters.\<close>

lemma json_escape_contained: "skip_string (json_escape s @ DQ # rest) = Some rest"
proof (induction s rule: json_escape.induct)
  case (2 c s)
  show ?case
  proof (cases "(of_char c :: nat) < 128")
    case True
    then show ?thesis using 2(1) by (simp add: esc_char_skip)
  next
    case False
    then have p: "\<forall>x \<in> set (c # take (snd (rune_at c s)) s). plain_char x"
      using rune_at_high [of c _ s] high_plain by auto
    show ?thesis
      using False 2(2-5) skip_string_plain [OF p] by (simp add: skip_string_uXXXX [simplified])
  qed
qed simp

lemma json_escape_printable: "\<forall>x \<in> set (json_escape s). 32 \<le> (of_char x :: nat)"
proof (induction s rule: json_escape.induct)
  case (2 c s)
  show ?case
  proof (cases "(of_char c :: nat) < 128")
    case True
    then show ?thesis using 2(1) esc_char_printable [of c] by auto
  next
    case False
    then have p: "\<forall>x \<in> set (take (snd (rune_at c s)) s). 32 \<le> (of_char x :: nat)"
      using rune_at_high [of c _ s] by fastforce
    show ?thesis using False 2(2-5) p special_codes by (simp add: ball_Un split: if_split)
  qed
qed simp

end
