(* ===== verification/Graphql.thy ===== *)
theory Graphql
  imports Go_Utf8
begin

text \<open>
  \<open>internal/graphql\<close>: extraction of the operation name and type from a request body, on which the
  request normaliser and so the policy input rest.

  The parser reads runes (\<open>Go_Utf8\<close>). The JSON
  decoder of the request envelope is an argument \<open>unmarshal_env\<close> (the operationName and query
  fields, \<open>None\<close> on a decoding error); \<open>nd\<close> is the table of decimal digits outside ASCII that
  \<open>unicode.IsDigit\<close> consults.
\<close>

section \<open>The parser (parser.go)\<close>

definition isIgnored :: "rune \<Rightarrow> bool" where
  "isIgnored r \<longleftrightarrow> r = 32 \<or> r = 9 \<or> r = 10 \<or> r = 13 \<or> r = 44 \<or> r = 65279"

definition isNameStart :: "rune \<Rightarrow> bool" where
  "isNameStart r \<longleftrightarrow> r = 95 \<or> (65 \<le> r \<and> r \<le> 90) \<or> (97 \<le> r \<and> r \<le> 122)"

definition isNameChar :: "rune \<Rightarrow> bool" where
  "isNameChar r \<longleftrightarrow> isNameStart r \<or> (48 \<le> r \<and> r \<le> 57)"

definition isName :: "string \<Rightarrow> bool" where
  "isName tok = (case runes tok of [] \<Rightarrow> False | r # rs \<Rightarrow> isNameStart r \<and> list_all isNameChar rs)"

definition IsDigit :: "(rune \<Rightarrow> bool) \<Rightarrow> rune \<Rightarrow> bool" where
  "IsDigit nd r = (if r < 128 then 48 \<le> r \<and> r \<le> 57 else nd r)"

fun skip_line :: "rune list \<Rightarrow> rune list option" where
  "skip_line [] = None"
| "skip_line (c # r) = (if c = 10 then Some r else skip_line r)"

lemma skip_line_length: "skip_line r = Some r' \<Longrightarrow> length r' < length r"
  by (induction r) (auto split: if_splits)

function nextToken :: "(rune \<Rightarrow> bool) \<Rightarrow> rune list \<Rightarrow> (string \<times> rune list) option" where
  "nextToken nd [] = None"
| "nextToken nd (ch # r) =
     (if ch = 35 then (case skip_line r of None \<Rightarrow> None | Some r' \<Rightarrow> nextToken nd r')
      else if isIgnored ch then nextToken nd r
      else if isNameStart ch \<or> IsDigit nd ch
      then Some (utf8s (ch # takeWhile isNameChar r), dropWhile isNameChar r)
      else Some (utf8 ch, r))"
  by pat_completeness auto
termination
  by (relation "measure (length \<circ> snd)") (auto dest: skip_line_length)

definition parseDocument :: "(rune \<Rightarrow> bool) \<Rightarrow> string \<Rightarrow> string \<times> string" where
  "parseDocument nd doc = (case nextToken nd (runes doc) of
     None \<Rightarrow> ('''', '''')
   | Some (tok, r) \<Rightarrow>
       (if tok = ''{'' then ('''', ''query'')
        else if tok = ''query'' \<or> tok = ''mutation'' \<or> tok = ''subscription'' then
          (case nextToken nd r of
             None \<Rightarrow> ('''', tok)
           | Some (nxt, _) \<Rightarrow> if isName nxt then (nxt, tok) else ('''', tok))
        else ('''', '''')))"

type_synonym env_decoder = "string \<Rightarrow> (string \<times> string) option"

definition parse :: "(rune \<Rightarrow> bool) \<Rightarrow> env_decoder \<Rightarrow> bytes \<Rightarrow> string \<times> string" where
  "parse nd unmarshal_env body = (let trimmed = TrimSpace body in
     if trimmed = '''' then ('''', '''')
     else (case (if hd trimmed = CHR ''{'' then unmarshal_env trimmed else None) of
         Some (operationName, query) \<Rightarrow>
           (if operationName \<noteq> '''' then (operationName, snd (parseDocument nd query))
            else if query \<noteq> '''' then parseDocument nd query
            else ('''', ''query''))
       | None \<Rightarrow> parseDocument nd trimmed))"

definition ExtractOperation :: "(rune \<Rightarrow> bool) \<Rightarrow> env_decoder \<Rightarrow> bytes \<Rightarrow> string \<times> string" where
  "ExtractOperation nd unmarshal_env body = parse nd unmarshal_env body"

definition ExtractOperationName :: "(rune \<Rightarrow> bool) \<Rightarrow> env_decoder \<Rightarrow> bytes \<Rightarrow> string" where
  "ExtractOperationName nd unmarshal_env body = fst (parse nd unmarshal_env body)"

section \<open>Lemmas\<close>

lemma nameChar_ascii: "isNameChar r \<Longrightarrow> r < 128"
  by (auto simp: isNameChar_def isNameStart_def)

lemma isNameStart_char: "isNameStart r \<Longrightarrow> isNameChar r \<and> r \<noteq> 35 \<and> \<not> isIgnored r"
  by (auto simp: isNameChar_def isNameStart_def isIgnored_def)

text \<open>Layout: white space, commas and comment lines.\<close>

inductive layout :: "string \<Rightarrow> bool" where
  layout_nil: "layout []"
| layout_ws: "c \<in> {CHR '' '', CHR 0x09, NL, CR, CHR '',''} \<Longrightarrow> layout l \<Longrightarrow> layout (c # l)"
| layout_comment: "ascii t \<Longrightarrow> NL \<notin> set t \<Longrightarrow> layout l \<Longrightarrow> layout (CHR ''#'' # t @ NL # l)"

lemma skip_line_comment:
  "(10 :: nat) \<notin> set t \<Longrightarrow> skip_line (t @ 10 # r) = Some r"
  by (induction t) auto

lemma of_char_NL: "(of_char c :: nat) = 10 \<longleftrightarrow> c = NL"
proof -
  have "(of_char NL :: nat) = 10" by (simp add: NL_def)
  then show ?thesis using of_char_eq_iff [of c NL, where 'a = nat] by simp
qed

lemma nextToken_layout:
  "layout l \<Longrightarrow> nextToken nd (map of_char l @ rs) = nextToken nd rs"
proof (induction rule: layout.induct)
  case (layout_ws c l)
  then show ?case by (auto simp: isIgnored_def NL_def CR_def)
next
  case (layout_comment t l)
  then have "(10 :: nat) \<notin> set (map of_char t)" by (auto simp: of_char_NL image_iff)
  then have "skip_line (map of_char t @ 10 # (map of_char l @ rs)) = Some (map of_char l @ rs)"
    by (rule skip_line_comment)
  with layout_comment.IH show ?case by (simp add: NL_def)
qed simp

lemma layout_ascii: "layout l \<Longrightarrow> ascii l"
  by (induction rule: layout.induct) (auto simp: NL_def CR_def)

definition name_end :: "string \<Rightarrow> bool" where
  "name_end s = (case runes s of [] \<Rightarrow> True | r # _ \<Rightarrow> \<not> isNameChar r)"

lemma takeWhile_name:
  assumes "list_all isNameChar n" and "case rs of [] \<Rightarrow> True | r # _ \<Rightarrow> \<not> isNameChar r"
  shows "takeWhile isNameChar (n @ rs) = n" and "dropWhile isNameChar (n @ rs) = rs"
  using assms by (induction n) (auto split: list.splits)

text \<open>A name, followed by something that cannot continue it, is read as one token.\<close>

lemma nextToken_name:
  assumes n: "isName n" "ascii n" and e: "case rs of [] \<Rightarrow> True | r # _ \<Rightarrow> \<not> isNameChar r"
  shows "nextToken nd (map of_char n @ rs) = Some (n, rs)"
proof -
  from n(2) have "runes n = map of_char n" by simp
  with n(1) obtain c cs where c: "n = c # cs" and s: "isNameStart (of_char c)"
    and a: "list_all isNameChar (map of_char cs)"
    by (cases n) (auto simp: isName_def simp del: runes.simps)
  from a e have tw: "takeWhile isNameChar (map of_char cs @ rs) = map of_char cs"
    "dropWhile isNameChar (map of_char cs @ rs) = rs"
    by (rule takeWhile_name)+
  have u: "utf8s (of_char c # map of_char cs) = c # cs"
    using utf8s_of_char [of "c # cs"] n(2) c by simp
  show ?thesis using c s tw u isNameStart_char [OF s] by simp
qed

lemma isName_ascii: "isName n \<Longrightarrow> ascii n"
  by (rule runes_small_ascii)
    (auto simp: isName_def isNameChar_def isNameStart_def list_all_iff split: list.splits)

lemma layout_ends_name:
  assumes "layout l" and "l \<noteq> []"
  shows "case map of_char l @ rs of [] \<Rightarrow> True | r # _ \<Rightarrow> \<not> isNameChar r"
  using assms by (cases rule: layout.cases) (auto simp: isNameChar_def isNameStart_def NL_def CR_def)

definition op_keywords :: "string list" where
  "op_keywords = [''query'', ''mutation'', ''subscription'']"

lemma keyword_name: "kw \<in> set op_keywords \<Longrightarrow> isName kw \<and> ascii kw \<and> kw \<noteq> ''{''"
  by (auto simp: op_keywords_def isName_def rune_at_def isNameChar_def isNameStart_def)

lemma parseDocument_range:
  "snd (parseDocument nd doc) \<in> set ('''' # op_keywords)
    \<and> (fst (parseDocument nd doc) = '''' \<or> isName (fst (parseDocument nd doc)))"
  by (auto simp: parseDocument_def op_keywords_def split: option.splits prod.splits)

section \<open>Properties\<close>

text \<open>
  C37. Parsing inverts printing: a document that starts with an operation keyword and a name, with any
  layout (blanks, commas, comment lines) before and between them and any text after the name that
  does not continue it, yields exactly that name and that operation type.
\<close>

theorem graphql_document_roundtrip:
  assumes "layout l1" and "layout l2" and "l2 \<noteq> []" and "kw \<in> set op_keywords"
    and "isName n" and "name_end rest"
  shows "parseDocument nd (l1 @ kw @ l2 @ n @ rest) = (n, kw)"
proof -
  have a: "ascii l1" "ascii kw" "ascii l2" "ascii n"
    using assms keyword_name layout_ascii isName_ascii by auto
  then have r: "runes (l1 @ kw @ l2 @ n @ rest) =
      map of_char l1 @ map of_char kw @ map of_char l2 @ map of_char n @ runes rest"
    by simp
  have t1: "nextToken nd (map of_char l1 @ map of_char kw @ map of_char l2 @ map of_char n @ runes rest) =
      Some (kw, map of_char l2 @ map of_char n @ runes rest)"
    unfolding nextToken_layout [OF assms(1)]
    using keyword_name [OF assms(4)] layout_ends_name [OF assms(2,3)] by (intro nextToken_name) auto
  have t2: "nextToken nd (map of_char l2 @ map of_char n @ runes rest) = Some (n, runes rest)"
    unfolding nextToken_layout [OF assms(2)]
    using assms(5,6) a by (intro nextToken_name) (auto simp: name_end_def)
  show ?thesis
    using r t1 t2 assms(4,5) keyword_name [OF assms(4)] by (auto simp: parseDocument_def op_keywords_def)
qed

theorem graphql_document_roundtrip_witness:
  "parseDocument (\<lambda>_. False) (''  '' @ ''query'' @ '' '' @ ''GetUser'' @ ''($id: ID!) { user }'') = (''GetUser'', ''query'')"
proof (rule graphql_document_roundtrip)
  show "layout ''  ''" and "layout '' ''"
    by (auto intro!: layout.intros)
  show "isName ''GetUser''"
    by (simp add: isName_def rune_at_def isNameChar_def isNameStart_def)
  show "name_end ''($id: ID!) { user }''"
    by (simp add: name_end_def rune_at_def isNameChar_def isNameStart_def)
qed (simp_all add: op_keywords_def)

text \<open>
  What the policy can be told: the operation type is empty or one of the three keywords, and the
  operation name is empty, a well-formed GraphQL name, or the operationName of the JSON envelope.
\<close>

theorem extract_operation_range:
  "snd (ExtractOperation nd dec body) \<in> set ('''' # op_keywords)
   \<and> (fst (ExtractOperation nd dec body) = '''' \<or> isName (fst (ExtractOperation nd dec body))
      \<or> (\<exists>q. dec (TrimSpace body) = Some (fst (ExtractOperation nd dec body), q)))"
  using parseDocument_range [of nd]
  by (auto simp: ExtractOperation_def parse_def Let_def op_keywords_def split: option.splits if_splits prod.splits)

end
