(* ===== verification/Go_Http.thy ===== *)
theory Go_Http
  imports Go_Utf8
begin

text \<open>
  The parts of \<open>net/http\<close>, \<open>net/url\<close> and \<open>net/http/httputil\<close> that the proxy and the auth server rely
  on: URLs (parsed by an argument of the definitions), header maps with canonical keys, incoming
  requests, and what \<open>NewSingleHostReverseProxy\<close> does to the path and the headers of a request.
\<close>

section \<open>URLs and requests\<close>

record url =
  u_Scheme :: string
  u_Host :: string
  u_Path :: string
  u_RawQuery :: string

type_synonym url_parser = "string \<Rightarrow> url result"

type_synonym header = "string list gomap"

record http_request =
  r_Method :: string
  r_Host :: string
  r_Path :: string
  r_RawQuery :: string
  r_Header :: header
  r_Cookies :: "(string \<times> string) list"
  r_Body :: "bytes option"
  r_TLS :: bool
  r_RemoteAddr :: string

section \<open>Header keys\<close>

definition token_char :: "char \<Rightarrow> bool" where
  "token_char c \<longleftrightarrow> (let n = of_char c :: nat in
     (48 \<le> n \<and> n \<le> 57) \<or> (65 \<le> n \<and> n \<le> 90) \<or> (97 \<le> n \<and> n \<le> 122)
     \<or> n \<in> {33, 35, 36, 37, 38, 39, 42, 43, 45, 46, 94, 95, 96, 124, 126})"

definition upper_char :: "char \<Rightarrow> char" where
  "upper_char c = (if 97 \<le> (of_char c :: nat) \<and> (of_char c :: nat) \<le> 122 then char_of (of_char c - 32 :: nat) else c)"

fun canon_chars :: "bool \<Rightarrow> string \<Rightarrow> string" where
  "canon_chars up [] = []"
| "canon_chars up (c # s) = (if up then upper_char c else lower_char c) # canon_chars (c = CHR ''-'') s"

definition CanonicalHeaderKey :: "string \<Rightarrow> string" where
  "CanonicalHeaderKey k = (if list_all token_char k then canon_chars True k else k)"

definition hdr_Get :: "header \<Rightarrow> string \<Rightarrow> string" where
  "hdr_Get h k = (case map_of h (CanonicalHeaderKey k) of Some (v # _) \<Rightarrow> v | _ \<Rightarrow> '''')"

definition hdr_Set :: "string \<Rightarrow> string \<Rightarrow> header \<Rightarrow> header" where
  "hdr_Set k v h = AList.update (CanonicalHeaderKey k) [v] h"

definition hdr_Del :: "string \<Rightarrow> header \<Rightarrow> header" where
  "hdr_Del k h = AList.delete (CanonicalHeaderKey k) h"

text \<open>The request line and headers of an outgoing request.\<close>

record out_request =
  or_Method :: string
  or_URL :: url
  or_Host :: string
  or_Header :: header
  or_Body :: bytes

section \<open>Query strings\<close>

text \<open>\<open>url.QueryEscape\<close>: unreserved bytes are kept, a space is a plus sign, the rest is percent-encoded.\<close>

definition unreserved :: "char \<Rightarrow> bool" where
  "unreserved c \<longleftrightarrow> (let n = of_char c :: nat in (48 \<le> n \<and> n \<le> 57) \<or> (65 \<le> n \<and> n \<le> 90) \<or> (97 \<le> n \<and> n \<le> 122)
     \<or> n \<in> {45, 46, 95, 126})"

definition QueryEscape :: "string \<Rightarrow> string" where
  "QueryEscape s = concat (map (\<lambda>c. if unreserved c then [c] else if c = CHR '' '' then ''+''
     else CHR ''%'' # map upper_char (hex_byte c)) s)"

text \<open>
  \<open>url.QueryUnescape\<close> and \<open>url.ParseQuery\<close> as a list of pairs: a part with a semicolon or a malformed escape
  is skipped (its error is dropped by \<open>URL.Query\<close>), a part without an equals sign has an empty value.
\<close>

definition hex_value :: "char \<Rightarrow> nat option" where
  "hex_value c = (let n = of_char c :: nat in
     if 48 \<le> n \<and> n \<le> 57 then Some (n - 48) else if 97 \<le> n \<and> n \<le> 102 then Some (n - 87)
     else if 65 \<le> n \<and> n \<le> 70 then Some (n - 55) else None)"

fun QueryUnescape :: "string \<Rightarrow> string option" where
  "QueryUnescape [] = Some []"
| "QueryUnescape (c # s) =
     (if c = CHR ''%'' then (case s of
          a # b # t \<Rightarrow> (case (hex_value a, hex_value b) of
              (Some x, Some y) \<Rightarrow> map_option (Cons (char_of (x * 16 + y))) (QueryUnescape t)
            | _ \<Rightarrow> None)
        | _ \<Rightarrow> None)
      else map_option (Cons (if c = CHR ''+'' then CHR '' '' else c)) (QueryUnescape s))"

definition parse_pair :: "string \<Rightarrow> (string \<times> string) option" where
  "parse_pair p =
     (if p = [] \<or> CHR '';'' \<in> set p then None
      else (case (case SplitN2 (CHR ''='') p of None \<Rightarrow> (p, []) | Some kv \<Rightarrow> kv) of (k, v) \<Rightarrow>
        (case (QueryUnescape k, QueryUnescape v) of (Some k', Some v') \<Rightarrow> Some (k', v') | _ \<Rightarrow> None)))"

definition query_pairs :: "string \<Rightarrow> (string \<times> string) list" where
  "query_pairs q = List.map_filter parse_pair (Split (CHR ''&'') q)"

definition encode_pairs :: "(string \<times> string) list \<Rightarrow> string" where
  "encode_pairs ps = StrJoin ''&'' (map (\<lambda>(k, v). QueryEscape k @ ''='' @ QueryEscape v) ps)"

section \<open>The reverse proxy\<close>

text \<open>\<open>httputil\<close>'s own path join, and the removal of hop-by-hop headers: those named by the values of
  \<open>Connection\<close> and the standard ones.\<close>

definition rp_join :: "string \<Rightarrow> string \<Rightarrow> string" where
  "rp_join a b =
     (if suffix ''/'' a \<and> prefix ''/'' b then a @ drop 1 b
      else if \<not> suffix ''/'' a \<and> \<not> prefix ''/'' b then a @ ''/'' @ b
      else a @ b)"

definition ascii_space :: "char \<Rightarrow> bool" where
  "ascii_space c \<longleftrightarrow> c = CHR '' '' \<or> c = CHR 0x09 \<or> c = NL \<or> c = CR"

definition TrimString :: "string \<Rightarrow> string" where
  "TrimString s = rev (dropWhile ascii_space (rev (dropWhile ascii_space s)))"

definition connection_names :: "header \<Rightarrow> string list" where
  "connection_names h = (case map_of h ''Connection'' of
     None \<Rightarrow> []
   | Some vs \<Rightarrow> filter (\<lambda>n. n \<noteq> '''') (map TrimString (concat (map (Split (CHR '','')) vs))))"

definition hopHeaders :: "string list" where
  "hopHeaders = [''Connection'', ''Proxy-Connection'', ''Keep-Alive'', ''Proxy-Authenticate'', ''Proxy-Authorization'',
     ''Te'', ''Trailer'', ''Transfer-Encoding'', ''Upgrade'']"

definition removeHopByHop :: "header \<Rightarrow> header" where
  "removeHopByHop h = fold hdr_Del (connection_names h @ hopHeaders) h"

text \<open>
  \<open>NewSingleHostReverseProxy(target).ServeHTTP\<close> on a request: the URL is rerouted to the target's
  scheme, host and base path, the query strings are joined, hop-by-hop headers are dropped. (The
  library also re-adds \<open>Te\<close> and \<open>Upgrade\<close> in their protocol-switching forms and sets an empty
  \<open>User-Agent\<close> if there is none; these headers carry no identity.)
\<close>

definition reverseProxy :: "url \<Rightarrow> out_request \<Rightarrow> out_request" where
  "reverseProxy target rq =
     rq\<lparr>or_URL := \<lparr>u_Scheme = u_Scheme target, u_Host = u_Host target,
           u_Path = rp_join (u_Path target) (u_Path (or_URL rq)),
           u_RawQuery = (if u_RawQuery target = '''' \<or> u_RawQuery (or_URL rq) = ''''
             then u_RawQuery target @ u_RawQuery (or_URL rq)
             else u_RawQuery target @ ''&'' @ u_RawQuery (or_URL rq))\<rparr>,
        or_Header := removeHopByHop (or_Header rq)\<rparr>"

section \<open>Lemmas\<close>

lemma lower_upper [simp]: "lower_char (upper_char c) = lower_char c"
  by (auto simp: lower_char_def upper_char_def)

lemma lower_canon_chars: "ToLower (canon_chars up k) = ToLower k"
  by (induction up k rule: canon_chars.induct) (simp_all add: ToLower_def)

lemma ToLower_Canonical [simp, go_string]: "ToLower (CanonicalHeaderKey k) = ToLower k"
  by (simp add: CanonicalHeaderKey_def lower_canon_chars)

lemma of_char_upper: "(of_char (upper_char c) :: nat) = (if 97 \<le> (of_char c :: nat) \<and> (of_char c :: nat) \<le> 122 then of_char c - 32 else of_char c)"
  by (auto simp: upper_char_def)

lemma of_char_lower: "(of_char (lower_char c) :: nat) = (if 65 \<le> (of_char c :: nat) \<and> (of_char c :: nat) \<le> 90 then of_char c + 32 else of_char c)"
  by (auto simp: lower_char_def)

lemma char_eq_code: "c = d \<longleftrightarrow> (of_char c :: nat) = of_char d"
  by (simp add: of_char_eq_iff)

lemma upper_char_idem [simp]: "upper_char (upper_char c) = upper_char c"
  unfolding char_eq_code of_char_upper by auto

lemma canon_dash: "upper_char c = CHR ''-'' \<longleftrightarrow> c = CHR ''-''" "lower_char c = CHR ''-'' \<longleftrightarrow> c = CHR ''-''"
proof -
  have e: "c = CHR ''-'' \<longleftrightarrow> (of_char c :: nat) = 45" for c
    using of_char_eq_iff [of c "CHR ''-''", where 'a = nat] by simp
  show "upper_char c = CHR ''-'' \<longleftrightarrow> c = CHR ''-''" "lower_char c = CHR ''-'' \<longleftrightarrow> c = CHR ''-''"
    unfolding e of_char_upper of_char_lower by auto
qed

lemma canon_chars_idem [simp]: "canon_chars up (canon_chars up k) = canon_chars up k"
  by (induction up k rule: canon_chars.induct) (simp_all add: canon_dash)

lemma token_case [simp]: "token_char (upper_char c) = token_char c" "token_char (lower_char c) = token_char c"
  unfolding token_char_def of_char_upper of_char_lower Let_def by (simp_all split: if_split) linarith+

lemma list_all_token_canon [simp]: "list_all token_char (canon_chars up k) = list_all token_char k"
  by (induction up k rule: canon_chars.induct) simp_all

lemma Canonical_idem [simp, go_string]: "CanonicalHeaderKey (CanonicalHeaderKey k) = CanonicalHeaderKey k"
  by (simp add: CanonicalHeaderKey_def)

text \<open>Two header names that differ only in case have the same canonical form.\<close>

lemma token_lower: "token_char c = token_char (lower_char c)"
  by simp

lemma canon_chars_fold: "map lower_char a = map lower_char b \<Longrightarrow> canon_chars up a = canon_chars up b"
proof (induction a arbitrary: b up)
  case (Cons c a)
  then obtain d b' where b: "b = d # b'" and l: "lower_char c = lower_char d" "map lower_char a = map lower_char b'"
    by (cases b) auto
  have u: "upper_char c = upper_char (lower_char c)" for c
    unfolding char_eq_code of_char_upper of_char_lower by auto
  have "upper_char c = upper_char d" using l(1) u by metis
  moreover have "(c = CHR ''-'') = (d = CHR ''-'')" using l(1) canon_dash(2) by metis
  ultimately show ?case using b l Cons.IH [of b'] by simp
qed simp

lemma Canonical_fold:
  assumes "EqualFold a b"
  shows "list_all token_char a \<Longrightarrow> CanonicalHeaderKey a = CanonicalHeaderKey b"
proof -
  assume a: "list_all token_char a"
  from assms have m: "map lower_char a = map lower_char b" by (simp add: EqualFold_def ToLower_def)
  have "list_all token_char b"
    using a m by (metis (no_types, lifting) list_all_length length_map nth_map token_lower)
  with a canon_chars_fold [OF m] show ?thesis by (simp add: CanonicalHeaderKey_def)
qed

lemma map_of_hdr_Set: "map_of (hdr_Set k v h) = (map_of h)(CanonicalHeaderKey k \<mapsto> [v])"
  by (simp add: hdr_Set_def update_conv')

lemma map_of_hdr_Del: "map_of (hdr_Del k h) = (map_of h)(CanonicalHeaderKey k := None)"
  by (simp add: hdr_Del_def delete_conv')

lemma map_of_fold_Del:
  "map_of (fold hdr_Del ks h) k = (if k \<in> CanonicalHeaderKey ` set ks then None else map_of h k)"
  by (induction ks arbitrary: h) (auto simp: map_of_hdr_Del)

lemma removeHopByHop_only_drops: "map_of (removeHopByHop h) k = Some v \<Longrightarrow> map_of h k = Some v"
  by (auto simp: removeHopByHop_def map_of_fold_Del split: if_splits)

section \<open>Round trip of query strings\<close>

lemma hex_value_digit: "n < 16 \<Longrightarrow> hex_value (upper_char (hex_digit n)) = Some n"
  by (auto simp: hex_value_def of_char_upper hex_digit_def Let_def)

lemma byte_hex: "hex_byte c = [hex_digit (of_char c div 16), hex_digit (of_char c mod 16)]" "of_char c div 16 < (16 :: nat)" "of_char c mod 16 < (16 :: nat)"
  using nat_of_char_less_256 [of c] by (simp_all add: hex_byte_def less_mult_imp_div_less)

lemma unreserved_ne: "unreserved c \<Longrightarrow> c \<noteq> CHR ''%'' \<and> c \<noteq> CHR ''+'' \<and> c \<noteq> CHR ''&'' \<and> c \<noteq> CHR ''='' \<and> c \<noteq> CHR '';''"
  by (auto simp: unreserved_def)

lemma QueryEscape_Cons: "QueryEscape (c # s) = (if unreserved c then [c] else if c = CHR '' '' then ''+''
     else CHR ''%'' # map upper_char (hex_byte c)) @ QueryEscape s"
  by (simp add: QueryEscape_def)

lemma QueryEscape_Nil [simp]: "QueryEscape [] = []"
  by (simp add: QueryEscape_def)

lemma QueryUnescape_Escape [simp]: "QueryUnescape (QueryEscape s) = Some s"
proof (induction s)
  case (Cons c s)
  have b: "char_of (of_char c div 16 * 16 + of_char c mod (16 :: nat)) = c" by (simp add: mult.commute)
  show ?case
    using Cons unreserved_ne [of c] b byte_hex [of c] hex_value_digit
    by (simp add: QueryEscape_Cons)
qed simp

lemma upper_hex_safe: "n < 16 \<Longrightarrow> upper_char (hex_digit n) \<notin> {CHR ''&'', CHR ''='', CHR '';''}"
  by (auto simp: char_eq_code of_char_upper hex_digit_def)

lemma QueryEscape_safe: "x \<in> {CHR ''&'', CHR ''='', CHR '';''} \<Longrightarrow> x \<notin> set (QueryEscape s)"
proof (induction s)
  case (Cons c s)
  have "x \<noteq> upper_char (hex_digit (of_char c div 16))" "x \<noteq> upper_char (hex_digit (of_char c mod 16))"
    using Cons.prems upper_hex_safe [OF byte_hex(2), of c] upper_hex_safe [OF byte_hex(3), of c] by blast+
  with Cons unreserved_ne [of c] byte_hex(1) [of c] show ?case by (auto simp: QueryEscape_Cons)
qed simp

lemma Split_StrJoin:
  assumes "xs \<noteq> []" and "\<forall>x \<in> set xs. c \<notin> set x"
  shows "Split c (StrJoin [c] xs) = xs"
proof -
  have one: "Split c x = [x]" if "c \<notin> set x" for x using that by (induction x) auto
  have app: "Split c (x @ c # y) = x # Split c y" if "c \<notin> set x" for x y using that by (induction x) auto
  from assms show ?thesis by (induction "[c]" xs rule: StrJoin.induct) (auto simp: one app)
qed

lemma parse_pair_encode: "parse_pair (QueryEscape k @ ''='' @ QueryEscape v) = Some (k, v)"
  using QueryEscape_safe [of "CHR ''=''" k] QueryEscape_safe [of "CHR '';''" k] QueryEscape_safe [of "CHR '';''" v]
  by (simp add: parse_pair_def)

lemma query_pairs_encode [simp]: "query_pairs (encode_pairs ps) = ps"
proof (cases "ps = []")
  case False
  let ?xs = "map (\<lambda>(k, v). QueryEscape k @ ''='' @ QueryEscape v) ps"
  have "\<forall>x \<in> set ?xs. CHR ''&'' \<notin> set x" using QueryEscape_safe [of "CHR ''&''"] by auto
  with False have "Split (CHR ''&'') (encode_pairs ps) = ?xs" by (simp add: encode_pairs_def Split_StrJoin)
  moreover have "List.map_filter parse_pair (map (\<lambda>(k, v). QueryEscape k @ ''='' @ QueryEscape v) qs) = qs" for qs
    by (induction qs) (use parse_pair_encode in \<open>auto simp: List.map_filter_simps\<close>)
  ultimately show ?thesis by (simp add: query_pairs_def)
qed (simp add: query_pairs_def encode_pairs_def parse_pair_def List.map_filter_simps)

end
