(* ===== verification/Cookie.thy ===== *)
theory Cookie
  imports Go_Base64
begin

text \<open>
  \<open>pkg/cookie\<close>: the signed session-id cookie (\<open>signed.go\<close>), the JSON cookie value codec and its
  AES-GCM layer (\<open>codec.go\<close>, \<open>encrypt.go\<close>) and the cookie attributes (\<open>model.go\<close>, \<open>options.go\<close>).

  HMAC-SHA256, SHA-256 and the AEAD are arguments of the definitions (\<open>mac\<close>, \<open>sha\<close>, \<open>seal\<close>,
  \<open>open\<close>): the theorems on the signed cookie hold for every function in the place of the MAC.
  The interface locale \<open>cookie_codec\<close> states what the session layer relies on.
\<close>

section \<open>Attributes (options.go, model.go)\<close>

datatype samesite = SameSiteDefault | SameSiteLax | SameSiteStrict | SameSiteNone

record cookie_options =
  co_Path :: string
  co_Domain :: string
  co_Secure :: bool
  co_HTTPOnly :: bool
  co_SameSite :: samesite
  co_MaxAge :: int

record session_cookie_config =
  scc_Name :: string
  scc_Domain :: string
  scc_Path :: string
  scc_MaxAge :: int
  scc_Secure :: bool
  scc_HTTPOnly :: bool
  scc_SameSite :: samesite

record out_cookie =
  oc_Name :: string
  oc_Value :: string
  oc_Options :: cookie_options

text \<open>The \<open>http.Cookie\<close> that \<open>http.SetCookie\<close> appends to the response.\<close>

record http_cookie =
  hc_Name :: string
  hc_Value :: string
  hc_Path :: string
  hc_Domain :: string
  hc_MaxAge :: int
  hc_Secure :: bool
  hc_HttpOnly :: bool
  hc_SameSite :: samesite

definition scc_options :: "session_cookie_config \<Rightarrow> cookie_options" where
  "scc_options c = \<lparr>co_Path = (if scc_Path c = '''' then ''/'' else scc_Path c), co_Domain = scc_Domain c,
     co_Secure = scc_Secure c, co_HTTPOnly = scc_HTTPOnly c, co_SameSite = scc_SameSite c,
     co_MaxAge = scc_MaxAge c\<rparr>"

definition DefaultSessionCookieConfig :: "string \<Rightarrow> session_cookie_config" where
  "DefaultSessionCookieConfig name = \<lparr>scc_Name = name, scc_Domain = '''', scc_Path = ''/'', scc_MaxAge = 0,
     scc_Secure = True, scc_HTTPOnly = True, scc_SameSite = SameSiteLax\<rparr>"

definition WriteOutCookie :: "http_cookie list \<Rightarrow> out_cookie \<Rightarrow> http_cookie list" where
  "WriteOutCookie w c = (let o1 = oc_Options c in w @
     [\<lparr>hc_Name = oc_Name c, hc_Value = oc_Value c,
       hc_Path = (if co_Path o1 = '''' then ''/'' else co_Path o1), hc_Domain = co_Domain o1,
       hc_MaxAge = co_MaxAge o1, hc_Secure = co_Secure o1, hc_HttpOnly = co_HTTPOnly o1,
       hc_SameSite = co_SameSite o1\<rparr>])"

section \<open>Signed cookies (signed.go)\<close>

definition ErrInvalidSignature :: goerr where
  "ErrInvalidSignature = Sentinel ''cookie: invalid signature''"

definition signedSep :: char where
  "signedSep = CHR ''.''"

record signed_manager =
  sm_primary :: bytes
  sm_older :: "bytes list"

definition NewSignedManager :: "string \<Rightarrow> signed_manager" where
  "NewSignedManager secret = \<lparr>sm_primary = secret, sm_older = []\<rparr>"

definition NewSignedManagerWithKeys :: "string \<Rightarrow> string list \<Rightarrow> signed_manager" where
  "NewSignedManagerWithKeys primary older = \<lparr>sm_primary = primary, sm_older = older\<rparr>"

type_synonym macfun = "bytes \<Rightarrow> bytes \<Rightarrow> bytes"

definition sm_Encode :: "macfun \<Rightarrow> signed_manager \<Rightarrow> gany \<Rightarrow> string result" where
  "sm_Encode mac m v = (case as_str v of
     None \<Rightarrow> Inr ''''
   | Some s \<Rightarrow> (let payload = EncodeToString URLEnc s; sig = mac (sm_primary m) payload
       in Inr (payload @ [signedSep] @ EncodeToString URLEnc sig)))"

text \<open>\<open>decodePayload\<close> with a \<open>*string\<close> destination: the decoded session id is the result.\<close>

definition decodePayload :: "string \<Rightarrow> string result" where
  "decodePayload payload = (case DecodeString URLEnc payload of
     None \<Rightarrow> Inl ErrInvalidSignature | Some dec \<Rightarrow> Inr dec)"

fun verify_older :: "macfun \<Rightarrow> bytes list \<Rightarrow> bytes \<Rightarrow> string \<Rightarrow> string result" where
  "verify_older mac [] sig payload = Inl ErrInvalidSignature"
| "verify_older mac (old # olds) sig payload =
     (if sig = mac old payload then decodePayload payload else verify_older mac olds sig payload)"

definition sm_Decode :: "macfun \<Rightarrow> signed_manager \<Rightarrow> string \<Rightarrow> string result" where
  "sm_Decode mac m raw = (case SplitN2 signedSep raw of
     None \<Rightarrow> Inl ErrInvalidSignature
   | Some (payload, sigB64) \<Rightarrow> (case DecodeString URLEnc sigB64 of
       None \<Rightarrow> Inl ErrInvalidSignature
     | Some sig \<Rightarrow>
         (if sig = mac (sm_primary m) payload then decodePayload payload
          else verify_older mac (sm_older m) sig payload)))"

definition sm_Set :: "http_cookie list \<Rightarrow> string \<Rightarrow> string \<Rightarrow> cookie_options \<Rightarrow> http_cookie list" where
  "sm_Set w name value opts = w @
     [\<lparr>hc_Name = name, hc_Value = value, hc_Path = (if co_Path opts = '''' then ''/'' else co_Path opts),
       hc_Domain = co_Domain opts, hc_MaxAge = co_MaxAge opts, hc_Secure = co_Secure opts,
       hc_HttpOnly = co_HTTPOnly opts, hc_SameSite = co_SameSite opts\<rparr>]"

definition sm_Clear :: "http_cookie list \<Rightarrow> string \<Rightarrow> cookie_options \<Rightarrow> http_cookie list" where
  "sm_Clear w name opts = w @
     [\<lparr>hc_Name = name, hc_Value = '''', hc_Path = (if co_Path opts = '''' then ''/'' else co_Path opts),
       hc_Domain = co_Domain opts, hc_MaxAge = -1, hc_Secure = co_Secure opts,
       hc_HttpOnly = co_HTTPOnly opts, hc_SameSite = co_SameSite opts\<rparr>]"

text \<open>\<open>SignedCodec\<close>: the manager restricted to session ids.\<close>

definition codec_Encode :: "macfun \<Rightarrow> signed_manager \<Rightarrow> string \<Rightarrow> string result" where
  "codec_Encode mac m sessionID = sm_Encode mac m (AStr sessionID)"

definition codec_Decode :: "macfun \<Rightarrow> signed_manager \<Rightarrow> string \<Rightarrow> string result" where
  "codec_Decode mac m raw = (case sm_Decode mac m raw of Inl e \<Rightarrow> Inl e | Inr sid \<Rightarrow> Inr sid)"

section \<open>Encrypted values (encrypt.go, codec.go)\<close>

definition aesGCMNonceSize :: nat where "aesGCMNonceSize = 12"
definition aesGCMTagSize :: nat where "aesGCMTagSize = 16"
definition aesKeySize :: nat where "aesKeySize = 32"

definition ErrDecrypt :: goerr where
  "ErrDecrypt = Sentinel ''cookie: decrypt failed''"

definition ErrCodecDecode :: goerr where
  "ErrCodecDecode = Sentinel ''cookie: decode failed''"

definition deriveKey :: "(bytes \<Rightarrow> bytes) \<Rightarrow> bytes \<Rightarrow> bytes" where
  "deriveKey sha key = (if length key = aesKeySize then key else sha key)"

text \<open>\<open>aes.NewCipher\<close> refuses keys of any length but 16, 24 and 32.\<close>

definition aes_key_ok :: "bytes \<Rightarrow> bool" where
  "aes_key_ok k \<longleftrightarrow> length k \<in> {16, 24, 32}"

definition encrypt :: "(bytes \<Rightarrow> bytes) \<Rightarrow> (bytes \<Rightarrow> bytes \<Rightarrow> bytes \<Rightarrow> bytes) \<Rightarrow> bytes result \<Rightarrow> bytes \<Rightarrow> bytes \<Rightarrow> bytes result" where
  "encrypt sha seal rnd plaintext key =
     (if plaintext = [] then Inr []
      else let k = deriveKey sha key in
        if \<not> aes_key_ok k then Inl (Err ''crypto/aes: invalid key size'')
        else (case rnd of Inl e \<Rightarrow> Inl e | Inr nonce \<Rightarrow> Inr (nonce @ seal k nonce plaintext)))"

definition decrypt :: "(bytes \<Rightarrow> bytes) \<Rightarrow> (bytes \<Rightarrow> bytes \<Rightarrow> bytes \<Rightarrow> bytes option) \<Rightarrow> bytes \<Rightarrow> bytes \<Rightarrow> bytes result" where
  "decrypt sha opn ciphertext key =
     (if length ciphertext \<le> aesGCMNonceSize + aesGCMTagSize then Inl ErrDecrypt
      else let k = deriveKey sha key in
        if \<not> aes_key_ok k then Inl (Err ''crypto/aes: invalid key size'')
        else (case opn k (take aesGCMNonceSize ciphertext) (drop aesGCMNonceSize ciphertext) of
          None \<Rightarrow> Inl ErrDecrypt | Some plain \<Rightarrow> Inr plain))"

definition EncodeValue :: "(bytes \<Rightarrow> bytes) \<Rightarrow> (bytes \<Rightarrow> bytes \<Rightarrow> bytes \<Rightarrow> bytes) \<Rightarrow> ('a \<Rightarrow> bytes result) \<Rightarrow> bytes result \<Rightarrow> 'a \<Rightarrow> bytes \<Rightarrow> string result" where
  "EncodeValue sha seal marshal rnd v key = (case marshal v of
     Inl e \<Rightarrow> Inl e
   | Inr data \<Rightarrow>
       (if key \<noteq> []
        then (case encrypt sha seal rnd data key of Inl e \<Rightarrow> Inl e | Inr d \<Rightarrow> Inr (EncodeToString URLEnc d))
        else Inr (EncodeToString URLEnc (EncodeToString URLEnc data))))"

definition DecodeValue :: "(bytes \<Rightarrow> bytes) \<Rightarrow> (bytes \<Rightarrow> bytes \<Rightarrow> bytes \<Rightarrow> bytes option) \<Rightarrow> (bytes \<Rightarrow> 'a result) \<Rightarrow> string \<Rightarrow> bytes \<Rightarrow> 'a result" where
  "DecodeValue sha opn unmarshal raw key = (case DecodeString URLEnc raw of
     None \<Rightarrow> Inl ErrCodecDecode
   | Some data \<Rightarrow>
       (case (if key \<noteq> [] then decrypt sha opn data key
              else (case DecodeString URLEnc data of None \<Rightarrow> Inl ErrCodecDecode | Some d \<Rightarrow> Inr d)) of
          Inl e \<Rightarrow> Inl e
        | Inr d \<Rightarrow> (case unmarshal d of Inl _ \<Rightarrow> Inl ErrCodecDecode | Inr v \<Rightarrow> Inr v)))"

section \<open>The codec interface\<close>

text \<open>
  What the session layer relies on (\<open>cookie.Codec\<close>, \<open>cookie.Manager\<close> on strings): an issued value
  decodes to the session id it was issued for.
\<close>

locale cookie_codec =
  fixes enc :: "string \<Rightarrow> string result"
    and dec :: "string \<Rightarrow> string result"
  assumes enc_total: "\<exists>v. enc sid = Inr v"
    and dec_enc: "enc sid = Inr v \<Longrightarrow> dec v = Inr sid"
begin

lemma enc_inj: "enc s = Inr v \<Longrightarrow> enc t = Inr v \<Longrightarrow> s = t"
  using dec_enc [of s v] dec_enc [of t v] by simp

lemma enc_dec_value: obtains v where "enc sid = Inr v" and "dec v = Inr sid"
  using enc_total dec_enc by blast

end

section \<open>Lemmas\<close>

lemma decodePayload_encode [simp]: "decodePayload (EncodeToString URLEnc s) = Inr s"
  by (simp add: decodePayload_def)

lemma sm_Encode_str:
  "sm_Encode mac m (AStr s) =
     Inr (EncodeToString URLEnc s @ signedSep # EncodeToString URLEnc (mac (sm_primary m) (EncodeToString URLEnc s)))"
  by (simp add: sm_Encode_def Let_def)

lemma verify_older_Inr:
  "verify_older mac olds sig payload = Inr sid \<longleftrightarrow>
     (\<exists>old \<in> set olds. sig = mac old payload) \<and> decodePayload payload = Inr sid"
  by (induction olds) auto

lemma SplitN2_signed [simp]:
  "SplitN2 signedSep (EncodeToString k s @ signedSep # t) = Some (EncodeToString k s, t)"
  by (simp add: signedSep_def)

text \<open>
  Every accepted cookie carries a valid signature: the value is \<open>payload.signature\<close>, the
  signature decodes to the MAC of the payload under the primary or an older secret, and the
  payload decodes to the session id.
\<close>

lemma sm_Decode_Inr:
  "sm_Decode mac m raw = Inr sid \<longleftrightarrow>
     (\<exists>payload sigB64 sig. raw = payload @ signedSep # sigB64 \<and> signedSep \<notin> set payload
        \<and> DecodeString URLEnc sigB64 = Some sig
        \<and> (\<exists>key \<in> insert (sm_primary m) (set (sm_older m)). sig = mac key payload)
        \<and> DecodeString URLEnc payload = Some sid)" (is "?L = ?R")
proof
  assume ?L
  then obtain payload sigB64 sig where s: "SplitN2 signedSep raw = Some (payload, sigB64)"
    and d: "DecodeString URLEnc sigB64 = Some sig"
    and v: "(\<exists>key \<in> insert (sm_primary m) (set (sm_older m)). sig = mac key payload)"
    and p: "decodePayload payload = Inr sid"
    by (auto simp: sm_Decode_def verify_older_Inr split: option.splits prod.splits if_splits)
  from p have "DecodeString URLEnc payload = Some sid"
    by (simp add: decodePayload_def split: option.splits)
  with SplitN2_Some [OF s] d v show ?R by blast
next
  assume ?R
  then show ?L
    by (auto simp: sm_Decode_def decodePayload_def verify_older_Inr)
qed

text \<open>A value signed with any accepted secret decodes: key rotation keeps old cookies alive.\<close>

lemma sm_Decode_Encode_key:
  assumes "sm_primary m' \<in> insert (sm_primary m) (set (sm_older m))"
    and "sm_Encode mac m' (AStr sid) = Inr v"
  shows "sm_Decode mac m v = Inr sid"
proof -
  let ?p = "EncodeToString URLEnc sid"
  from assms(2) have "v = ?p @ signedSep # EncodeToString URLEnc (mac (sm_primary m') ?p)"
    by (simp add: sm_Encode_str)
  then show ?thesis
    unfolding sm_Decode_Inr using assms(1)
    by (intro exI [of _ ?p] exI [of _ "EncodeToString URLEnc (mac (sm_primary m') ?p)"]
          exI [of _ "mac (sm_primary m') ?p"]) (auto simp: signedSep_def)
qed

interpretation signed: cookie_codec "codec_Encode mac m" "codec_Decode mac m" for mac m
proof
  show "\<exists>v. codec_Encode mac m sid = Inr v" for sid
    by (simp add: codec_Encode_def sm_Encode_str)
  show "codec_Decode mac m v = Inr sid" if "codec_Encode mac m sid = Inr v" for sid v
    using sm_Decode_Encode_key [of m m mac sid v] that
    by (simp add: codec_Encode_def codec_Decode_def)
qed

text \<open>The same for the \<open>Manager\<close> the auth service holds.\<close>

interpretation manager: cookie_codec "\<lambda>sid. sm_Encode mac m (AStr sid)" "sm_Decode mac m" for mac m
proof
  show "\<exists>v. sm_Encode mac m (AStr sid) = Inr v" for sid
    by (simp add: sm_Encode_str)
  show "sm_Decode mac m v = Inr sid" if "sm_Encode mac m (AStr sid) = Inr v" for sid v
    using sm_Decode_Encode_key [of m m mac sid v] that by simp
qed

lemma encrypt_decrypt:
  assumes "\<And>k n p. opn k n (seal k n p) = Some p" and "\<And>k n p. length (seal k n p) = length p + aesGCMTagSize"
    and "\<And>x. length (sha x) = aesKeySize" and "length nonce = aesGCMNonceSize" and "p \<noteq> []"
  shows "\<exists>c. encrypt sha seal (Inr nonce) p key = Inr c \<and> decrypt sha opn c key = Inr p"
proof -
  have k: "aes_key_ok (deriveKey sha key)"
    using assms(3) by (simp add: aes_key_ok_def deriveKey_def aesKeySize_def)
  let ?c = "nonce @ seal (deriveKey sha key) nonce p"
  have "\<not> length ?c \<le> aesGCMNonceSize + aesGCMTagSize"
    using assms(2,4,5) by simp
  then have "decrypt sha opn ?c key = Inr p"
    using k assms(1,4) by (simp add: decrypt_def Let_def)
  moreover have "encrypt sha seal (Inr nonce) p key = Inr ?c"
    using k assms(5) by (simp add: encrypt_def Let_def)
  ultimately show ?thesis by blast
qed

section \<open>Properties\<close>

text \<open>
  C17. Authenticity of session cookies: \<open>SignedManager.Decode\<close> accepts a cookie value exactly when it
  has the form payload, dot, signature, the signature decodes to the MAC of the payload under the
  primary secret or one of the older secrets, and the payload decodes to the returned session id.
  Nothing else is accepted.
\<close>

theorem signed_cookie_authentic:
  "sm_Decode mac m raw = Inr sid \<longleftrightarrow>
     (\<exists>payload sigB64. raw = payload @ signedSep # sigB64 \<and> signedSep \<notin> set payload
        \<and> (\<exists>key \<in> insert (sm_primary m) (set (sm_older m)). DecodeString URLEnc sigB64 = Some (mac key payload))
        \<and> DecodeString URLEnc payload = Some sid)"
  unfolding sm_Decode_Inr by blast

text \<open>
  Key rotation: a cookie issued under a secret that is now the primary or an older secret
  decodes to the session id it was issued for, whatever the MAC function is.
\<close>

theorem signed_cookie_rotation:
  assumes "old = primary \<or> old \<in> set older"
    and "sm_Encode mac (NewSignedManager old) (AStr sid) = Inr v"
  shows "sm_Decode mac (NewSignedManagerWithKeys primary older) v = Inr sid"
  using assms by (intro sm_Decode_Encode_key [of "NewSignedManager old"])
    (auto simp: NewSignedManager_def NewSignedManagerWithKeys_def)

theorem signed_cookie_rotation_witness:
  "\<exists>v. sm_Encode (\<lambda>k d. k @ d) (NewSignedManager ''old'') (AStr ''s1'') = Inr v
     \<and> sm_Decode (\<lambda>k d. k @ d) (NewSignedManagerWithKeys ''new'' [''old'']) v = Inr ''s1''"
proof -
  obtain v where "sm_Encode (\<lambda>k d. k @ d) (NewSignedManager ''old'') (AStr ''s1'') = Inr v"
    using manager.enc_total by blast
  with signed_cookie_rotation [of "''old''" "''new''" "[''old'']" "\<lambda>k d. k @ d" "''s1''" v]
  show ?thesis by simp
qed

text \<open>
  Encrypted cookie values round-trip: with an AEAD that opens what it sealed and adds a 16-byte
  tag, a hash of 32 bytes and a fresh 12-byte nonce, \<open>DecodeValue\<close> returns the value that
  \<open>EncodeValue\<close> encoded, for every key (the empty key selects the unencrypted form), provided the
  JSON encoding is not empty and decodes back.
\<close>

theorem cookie_value_roundtrip:
  assumes open_seal: "\<And>k n p. opn k n (seal k n p) = Some p"
    and tag: "\<And>k n p. length (seal k n p) = length p + aesGCMTagSize"
    and hash: "\<And>x. length (sha x) = aesKeySize" and nonce: "length nonce = aesGCMNonceSize"
    and json: "marshal v = Inr d" "d \<noteq> []" "unmarshal d = Inr v"
  shows "\<exists>raw. EncodeValue sha seal marshal (Inr nonce) v key = Inr raw \<and> DecodeValue sha opn unmarshal raw key = Inr v"
proof (cases "key = []")
  case True
  then show ?thesis using json by (simp add: EncodeValue_def DecodeValue_def)
next
  case False
  from encrypt_decrypt [of opn seal sha nonce d key] open_seal tag hash nonce json(2)
  obtain c where "encrypt sha seal (Inr nonce) d key = Inr c" and "decrypt sha opn c key = Inr d"
    by blast
  then show ?thesis using json False by (simp add: EncodeValue_def DecodeValue_def)
qed

theorem cookie_value_roundtrip_witness:
  "\<exists>raw. EncodeValue (\<lambda>_. replicate 32 CR) (\<lambda>k n p. p @ replicate 16 NL) (\<lambda>v. Inr v) (Inr (replicate 12 CR)) ''ab'' ''key'' = Inr raw
     \<and> DecodeValue (\<lambda>_. replicate 32 CR) (\<lambda>k n c. Some (take (length c - 16) c)) (\<lambda>d. Inr d) raw ''key'' = Inr ''ab''"
  by (rule cookie_value_roundtrip [where d = "''ab''"])
    (simp_all add: aesGCMTagSize_def aesKeySize_def aesGCMNonceSize_def)

end
