(* ===== verification/Authz.thy ===== *)
theory Authz
  imports Policy Graphql Go_Http Cookie "HOL-Library.Word"
begin

text \<open>
  \<open>internal/authz\<close>: the request-time enforcement core of the proxy. \<open>normalize.go\<close> and \<open>http.go\<close>
  turn an HTTP request into a \<open>request\<close>, \<open>engine.go\<close> resolves the principal, runs the pipeline plugins
  and the policy and builds the upstream headers, \<open>http.go\<close> and \<open>middleware.go\<close> write the answer or
  forward to the upstream.

  The resolver, the plugins and the policy are functions over a state \<open>'w\<close>, called in the order of the
  code; the metrics the engine records are a list. Maps are association lists, so every result holds for
  every iteration order of the maps involved.
\<close>

section \<open>Requests and responses (request.go, decision.go)\<close>

record request =
  rq_Protocol :: string
  rq_Method :: string
  rq_Path :: string
  rq_Headers :: "string gomap"
  rq_Cookies :: "string gomap"
  rq_Body :: bytes
  rq_GraphQLOperation :: string
  rq_GraphQLOperationType :: string
  rq_GRPCService :: string
  rq_GRPCMethod :: string
  rq_RemoteAddr :: string

record response =
  rs_Allow :: bool
  rs_UpstreamHeaders :: "string gomap option"
  rs_SetCookies :: "out_cookie list"
  rs_StatusCode :: int
  rs_Body :: bytes
  rs_RedirectTo :: string

section \<open>Normalisation (normalize.go)\<close>

text \<open>
  \<open>je_opname body\<close> is the operationName field after \<open>json.Unmarshal\<close> of the body, empty when it is
  absent, not a string or the body is not JSON; the other two are the arguments of the GraphQL parser.
\<close>

record json_env =
  je_nd :: "rune \<Rightarrow> bool"
  je_env :: env_decoder
  je_opname :: "bytes \<Rightarrow> string"

text \<open>\<open>headers[k]\<close> on a map of strings: the empty string when absent.\<close>

definition str_get :: "string gomap \<Rightarrow> string \<Rightarrow> string" where
  "str_get m k = (case map_of m k of None \<Rightarrow> '''' | Some v \<Rightarrow> v)"

definition graphql_fields :: "json_env \<Rightarrow> string gomap \<Rightarrow> bytes \<Rightarrow> string \<times> string" where
  "graphql_fields je headers body =
     (let n1 = str_get headers ''X-Apollo-Operation-Name'';
          n2 = (if n1 = '''' \<and> body \<noteq> [] then je_opname je body else n1)
      in if n2 = '''' \<and> body \<noteq> [] then ExtractOperation (je_nd je) (je_env je) body else (n2, ''''))"

definition grpc_fields :: "string gomap \<Rightarrow> string \<times> string" where
  "grpc_fields headers =
     (let svc = str_get headers ''X-Grpc-Service''; meth = str_get headers ''X-Grpc-Method''
      in if svc = '''' \<and> meth = '''' \<and> str_get headers '':path'' \<noteq> ''''
         then (case SplitLast (CHR ''/'') (TrimPrefix (str_get headers '':path'') ''/'') of
             Some (s, m) \<Rightarrow> (s, m) | None \<Rightarrow> (svc, meth))
         else (svc, meth))"

definition NormalizeRequest :: "json_env \<Rightarrow> string \<Rightarrow> string \<Rightarrow> string \<Rightarrow> string gomap \<Rightarrow> string gomap \<Rightarrow> bytes \<Rightarrow> request" where
  "NormalizeRequest je protocol mth path headers cookies body =
     (let (op, opType) = graphql_fields je headers body; (svc, gm) = grpc_fields headers in
      \<lparr>rq_Protocol = protocol, rq_Method = mth, rq_Path = path, rq_Headers = headers, rq_Cookies = cookies,
       rq_Body = body, rq_GraphQLOperation = op, rq_GraphQLOperationType = opType, rq_GRPCService = svc,
       rq_GRPCMethod = gm, rq_RemoteAddr = ''''\<rparr>)"

definition maxBodyBytes :: nat where
  "maxBodyBytes = 32 * 1024 * 1024"

definition first_values :: "header \<Rightarrow> string gomap" where
  "first_values h = fold (\<lambda>(k, v) m. case v of [] \<Rightarrow> m | x # _ \<Rightarrow> AList.update k x m) h []"

definition cookie_map :: "(string \<times> string) list \<Rightarrow> string gomap" where
  "cookie_map cs = fold (\<lambda>(n, v) m. AList.update n v m) cs []"

definition RequestFromHTTP :: "json_env \<Rightarrow> http_request \<Rightarrow> request result" where
  "RequestFromHTTP je r =
     (let body = (case r_Body r of None \<Rightarrow> [] | Some b \<Rightarrow> take maxBodyBytes b);
          protocol = (if r_TLS r then ''https'' else ''http'');
          path = (if r_RawQuery r \<noteq> '''' then r_Path r @ ''?'' @ r_RawQuery r else r_Path r)
      in Inr ((NormalizeRequest je protocol (r_Method r) path (first_values (r_Header r)) (cookie_map (r_Cookies r)) body)
           \<lparr>rq_RemoteAddr := r_RemoteAddr r\<rparr>))"

text \<open>The GraphQL adapter (\<open>graphql/adapter\<close>) fills in what the normaliser left empty.\<close>

definition NormalizeHTTPRequest :: "json_env \<Rightarrow> http_request \<Rightarrow> request result" where
  "NormalizeHTTPRequest je r = (case RequestFromHTTP je r of
     Inl e \<Rightarrow> Inl e
   | Inr rq \<Rightarrow> (let (name, opType) = ExtractOperation (je_nd je) (je_env je) (rq_Body rq);
         rq1 = (if rq_GraphQLOperation rq = '''' then rq\<lparr>rq_GraphQLOperation := name\<rparr> else rq)
       in Inr (if rq_GraphQLOperationType rq1 = '''' then rq1\<lparr>rq_GraphQLOperationType := opType\<rparr> else rq1)))"

section \<open>The engine (engine.go)\<close>

type_synonym 'w resolver = "'w \<Rightarrow> request \<Rightarrow> principal option result \<times> 'w"
type_synonym 'w pipeline_plugin = "'w \<Rightarrow> request \<Rightarrow> principal option \<Rightarrow> decision option result \<times> 'w"
type_synonym header_builder = "principal \<Rightarrow> gany gomap option \<Rightarrow> string gomap"

record 'w default_engine =
  e_Resolver :: "'w resolver"
  e_Policy :: "'w policy_engine"
  e_PipelinePlugins :: "'w pipeline_plugin option list"
  e_UpstreamURL :: string
  e_RequireAuth :: bool
  e_HeaderBuilder :: "header_builder option"
  e_UnauthenticatedMode :: string
  e_LoginRedirectURL :: string
  e_Metrics :: bool

definition escapeJSON :: "string \<Rightarrow> string" where
  "escapeJSON s = json_escape s"

definition error_prefix :: string where
  "error_prefix = ''{'' @ [DQ] @ ''errors'' @ [DQ] @ '':[{'' @ [DQ] @ ''message'' @ [DQ] @ '':'' @ [DQ]"

definition error_body :: "string \<Rightarrow> bytes" where
  "error_body msg = error_prefix @ msg @ [DQ] @ ''}]}''"

definition deny :: "int \<Rightarrow> bytes \<Rightarrow> response" where
  "deny status body = \<lparr>rs_Allow = False, rs_UpstreamHeaders = None, rs_SetCookies = [], rs_StatusCode = status,
     rs_Body = body, rs_RedirectTo = ''''\<rparr>"

definition set_str_claim :: "gany gomap option \<Rightarrow> string \<Rightarrow> string \<Rightarrow> string gomap \<Rightarrow> string gomap" where
  "set_str_claim claims key hdr h = (case claims of
     None \<Rightarrow> h
   | Some m \<Rightarrow> (let v = str_or_empty (any_get m key) in if v \<noteq> '''' then AList.update hdr v h else h))"

definition defaultHeaderBuilder :: header_builder where
  "defaultHeaderBuilder p obligations =
     (let h0 = (if pr_AccessToken p \<noteq> '''' then AList.update ''Authorization'' (''Bearer '' @ pr_AccessToken p) [] else []);
          h1 = (if pr_Subject p \<noteq> '''' then AList.update ''X-User-Id'' (pr_Subject p) h0 else h0);
          h2 = (if pr_Roles p \<noteq> [] then AList.update ''X-Roles'' (StrJoin '','' (pr_Roles p)) h1 else h1);
          h3 = set_str_claim (pr_Claims p) ''email'' ''X-User-Email'' h2;
          h4 = set_str_claim (pr_Claims p) ''name'' ''X-User-Full-Name'' h3;
          h5 = set_str_claim (pr_Claims p) ''preferred_username'' ''X-User-Preferred-Username'' h4
      in set_str_claim (pr_TenantContext p) ''tenant_id'' ''X-Tenant-Id'' h5)"

text \<open>The loop over the plugins: nil entries are skipped, the first decision or error ends it.\<close>

fun run_plugins :: "'w pipeline_plugin option list \<Rightarrow> 'w \<Rightarrow> request \<Rightarrow> principal option \<Rightarrow> decision option result \<times> 'w" where
  "run_plugins [] w rq p = (Inr None, w)"
| "run_plugins (None # ps) w rq p = run_plugins ps w rq p"
| "run_plugins (Some h # ps) w rq p = (case h w rq p of
     (Inl e, w1) \<Rightarrow> (Inl e, w1)
   | (Inr (Some d), w1) \<Rightarrow> (Inr (Some d), w1)
   | (Inr None, w1) \<Rightarrow> run_plugins ps w1 rq p)"

definition obligationPrefix :: string where
  "obligationPrefix = ''set_header_''"

definition obligation_header :: "string \<Rightarrow> string" where
  "obligation_header k = strip_crlf (ReplaceChar (CHR ''_'') ''-'' (TrimPrefix k obligationPrefix))"

definition add_obligation :: "string \<times> gany \<Rightarrow> string gomap \<Rightarrow> string gomap" where
  "add_obligation kv h = (case as_str (snd kv) of
     Some s \<Rightarrow> (if HasPrefix (fst kv) obligationPrefix then AList.update (obligation_header (fst kv)) (strip_crlf s) h else h)
   | None \<Rightarrow> h)"

definition merge_headers :: "string gomap \<Rightarrow> string gomap \<Rightarrow> string gomap" where
  "merge_headers built h = fold (\<lambda>(k, v) h. AList.update k v h) built h"

text \<open>The response for a decision: body, policy headers, obligations, principal headers.\<close>

definition policy_headers :: "decision \<Rightarrow> string gomap option" where
  "policy_headers d =
     (let h1 = (case dc_Headers d of None \<Rightarrow> None | Some hs \<Rightarrow> Some (merge_headers hs []))
      in (case dc_Obligations d of
            None \<Rightarrow> h1
          | Some os \<Rightarrow> Some (fold add_obligation os (case h1 of None \<Rightarrow> [] | Some h \<Rightarrow> h))))"

definition built_headers :: "'w default_engine \<Rightarrow> principal \<Rightarrow> decision \<Rightarrow> string gomap" where
  "built_headers e pr d = (case e_HeaderBuilder e of None \<Rightarrow> defaultHeaderBuilder | Some hb \<Rightarrow> hb) pr (dc_Obligations d)"

definition upstream_build :: "'w default_engine \<Rightarrow> principal option \<Rightarrow> decision \<Rightarrow> response" where
  "upstream_build e p d =
     (let body = (if dc_Reason d \<noteq> '''' \<and> \<not> dc_Allow d then error_body (escapeJSON (dc_Reason d)) else []);
          hdrs = (case p of
                  None \<Rightarrow> policy_headers d
                | Some pr \<Rightarrow>
                    (if dc_Allow d
                     then (case policy_headers d of
                             None \<Rightarrow> Some (built_headers e pr d)
                           | Some h \<Rightarrow> Some (merge_headers (built_headers e pr d) h))
                     else policy_headers d))
      in \<lparr>rs_Allow = dc_Allow d, rs_UpstreamHeaders = hdrs, rs_SetCookies = [], rs_StatusCode = dc_StatusCode d,
          rs_Body = body, rs_RedirectTo = ''''\<rparr>)"

definition policy_input_of :: "request \<Rightarrow> principal option \<Rightarrow> policy_input" where
  "policy_input_of rq p = \<lparr>in_Protocol = rq_Protocol rq, in_Method = rq_Method rq, in_Path = rq_Path rq,
     in_GraphQLOperation = rq_GraphQLOperation rq, in_GRPCService = rq_GRPCService rq,
     in_GRPCMethod = rq_GRPCMethod rq, in_Principal = p, in_Headers = rq_Headers rq\<rparr>"

text \<open>The decision of a request after the principal is resolved.\<close>

definition decide :: "'w default_engine \<Rightarrow> 'w \<Rightarrow> request \<Rightarrow> principal option \<Rightarrow> (response + decision) \<times> 'w" where
  "decide e w rq p = (case run_plugins (e_PipelinePlugins e) w rq p of
     (Inl err, w1) \<Rightarrow> (Inl (deny 503 (error_body ''pipeline plugin error'')), w1)
   | (Inr (Some d), w1) \<Rightarrow> (Inr d, w1)
   | (Inr None, w1) \<Rightarrow> (case e_Policy e w1 (policy_input_of rq p) of
       (Inl err, w2) \<Rightarrow> (Inl (deny 500 (error_body ''policy error'')), w2)
     | (Inr (Some d), w2) \<Rightarrow> (Inr d, w2)
     | (Inr None, w2) \<Rightarrow> (Inr \<lparr>dc_Allow = False, dc_StatusCode = 503, dc_Headers = None, dc_Reason = '''',
           dc_Obligations = None\<rparr>, w2)))"

text \<open>\<open>Handle\<close> never returns an error; the list are the \<open>AuthDecision\<close> metrics.\<close>

definition Handle :: "'w default_engine \<Rightarrow> 'w \<Rightarrow> request \<Rightarrow> response result \<times> 'w \<times> (bool \<times> int) list" where
  "Handle e w rq = (case e_Resolver e w rq of
     (Inl err, w1) \<Rightarrow> (Inr (deny 502 (error_body ''auth resolution failed'')), w1, [])
   | (Inr p, w1) \<Rightarrow>
       (if p = None \<and> e_RequireAuth e
        then (if e_UnauthenticatedMode e = ''html_redirect'' \<and> e_LoginRedirectURL e \<noteq> ''''
              then (Inr ((deny 302 [])\<lparr>rs_RedirectTo := e_LoginRedirectURL e\<rparr>), w1, if e_Metrics e then [(False, 302)] else [])
              else (Inr (deny 401 (error_body ''unauthorized'')), w1, []))
        else (case decide e w1 rq p of
            (Inl resp, w2) \<Rightarrow> (Inr resp, w2, [])
          | (Inr d, w2) \<Rightarrow> (let resp = upstream_build e p d in
              (Inr resp, w2, if e_Metrics e then [(rs_Allow resp, rs_StatusCode resp)] else [])))))"

section \<open>Writing and forwarding (http.go, middleware.go)\<close>

text \<open>What the client receives: cookies, an optional content type, the status and the body; or a redirect.\<close>

record http_response =
  hr_Cookies :: "http_cookie list"
  hr_ContentType :: string
  hr_Location :: string
  hr_Status :: int
  hr_Body :: bytes

definition WriteResponse :: "response \<Rightarrow> http_response" where
  "WriteResponse resp = \<lparr>hr_Cookies = foldl WriteOutCookie [] (rs_SetCookies resp),
     hr_ContentType = (if rs_Body resp \<noteq> [] then ''application/json'' else ''''), hr_Location = '''',
     hr_Status = (if rs_StatusCode resp = 0 then 200 else rs_StatusCode resp), hr_Body = rs_Body resp\<rparr>"

definition reservedIdentityHeaders :: "string list" where
  "reservedIdentityHeaders = [''authorization'', ''x-user-id'', ''x-roles'', ''x-user-email'', ''x-user-full-name'',
     ''x-user-preferred-username'', ''x-is-admin'', ''x-tenant-id'']"

definition singleJoiningSlash :: "string \<Rightarrow> string \<Rightarrow> string" where
  "singleJoiningSlash a0 b0 = (let a = TrimSuffix a0 ''/''; b = TrimPrefix b0 ''/'' in
     if a = '''' then ''/'' @ b else if b = '''' then a else a @ ''/'' @ b)"

definition copy_header :: "string \<times> string list \<Rightarrow> header \<Rightarrow> header" where
  "copy_header kv out =
     (if EqualFold (fst kv) ''Cookie'' then out
      else if ToLower (fst kv) \<in> set reservedIdentityHeaders then out
      else AList.update (fst kv) (snd kv) out)"

definition copied_headers :: "header \<Rightarrow> header" where
  "copied_headers h = fold copy_header h []"

definition set_upstream :: "string gomap \<Rightarrow> header \<Rightarrow> header" where
  "set_upstream uh h = fold (\<lambda>(k, v) out. hdr_Set k v out) uh h"

definition target_url :: "url \<Rightarrow> http_request \<Rightarrow> string" where
  "target_url upstream r =
     (let path = singleJoiningSlash (u_Path upstream) (r_Path r);
          path1 = (if path \<noteq> '''' \<and> hd path \<noteq> CHR ''/'' then ''/'' @ path else path);
          path2 = (if r_RawQuery r \<noteq> '''' then path1 @ ''?'' @ r_RawQuery r else path1)
      in u_Scheme upstream @ ''://'' @ u_Host upstream @ path2)"

text \<open>The request handed to the reverse proxy, with the parsed upstream.\<close>

definition buildUpstream :: "url_parser \<Rightarrow> http_request \<Rightarrow> string \<Rightarrow> string gomap option \<Rightarrow> bytes \<Rightarrow> (url \<times> out_request) result" where
  "buildUpstream url_parse r upstreamURL upstreamHeaders body = (case url_parse upstreamURL of
     Inl e \<Rightarrow> Inl e
   | Inr upstream \<Rightarrow>
       (if u_Scheme upstream \<noteq> ''http'' \<and> u_Scheme upstream \<noteq> ''https''
        then Inl (Err (''proxy: upstream scheme '' @ Quote (u_Scheme upstream) @ '' not allowed (must be http or https)''))
        else (case url_parse (target_url upstream r) of
            Inl e \<Rightarrow> Inl e
          | Inr u \<Rightarrow> Inr (upstream, \<lparr>or_Method = r_Method r, or_URL = u, or_Host = u_Host upstream,
                or_Header = set_upstream (case upstreamHeaders of None \<Rightarrow> [] | Some h \<Rightarrow> h) (copied_headers (r_Header r)),
                or_Body = body\<rparr>))))"

text \<open>\<open>ProxyToUpstream\<close>: what the upstream receives.\<close>

definition ProxyToUpstream :: "url_parser \<Rightarrow> http_request \<Rightarrow> string \<Rightarrow> string gomap option \<Rightarrow> bytes \<Rightarrow> out_request result" where
  "ProxyToUpstream url_parse r upstreamURL upstreamHeaders body =
     (case buildUpstream url_parse r upstreamURL upstreamHeaders body of
        Inl e \<Rightarrow> Inl e | Inr (upstream, outReq) \<Rightarrow> Inr (reverseProxy upstream outReq))"

text \<open>The outcome of a request: forwarded (or the forwarding failed) or answered.\<close>

datatype outcome = Forward "out_request result" | Answer http_response

definition http_Error :: "string \<Rightarrow> int \<Rightarrow> http_response" where
  "http_Error msg code = \<lparr>hr_Cookies = [], hr_ContentType = ''text/plain; charset=utf-8'', hr_Location = '''',
     hr_Status = code, hr_Body = msg @ [NL]\<rparr>"

definition Middleware :: "json_env \<Rightarrow> url_parser \<Rightarrow> 'w default_engine \<Rightarrow> string \<Rightarrow> 'w \<Rightarrow> http_request \<Rightarrow> outcome \<times> 'w" where
  "Middleware je url_parse e upstreamURL w r = (case RequestFromHTTP je r of
     Inl err \<Rightarrow> (Answer (http_Error (err_msg err) 400), w)
   | Inr rq \<Rightarrow> (case Handle e w rq of
       (Inl err, w1, _) \<Rightarrow> (Answer (http_Error (err_msg err) 500), w1)
     | (Inr resp, w1, _) \<Rightarrow>
         (if rs_Allow resp \<and> upstreamURL \<noteq> ''''
          then (Forward (ProxyToUpstream url_parse r upstreamURL (rs_UpstreamHeaders resp) (rq_Body rq)), w1)
          else (Answer (WriteResponse resp), w1))))"

section \<open>Upstream addresses\<close>

datatype ip_addr = IPv4 "32 word" | IPv6 "128 word"
datatype ip_net = Net4 "32 word" nat | Net6 "128 word" nat

definition quad :: "nat \<Rightarrow> nat \<Rightarrow> nat \<Rightarrow> nat \<Rightarrow> 32 word" where
  "quad a b c d = word_of_nat (((a * 256 + b) * 256 + c) * 256 + d)"

definition blockedCIDRs :: "ip_net list" where
  "blockedCIDRs = [Net4 (quad 127 0 0 0) 8, Net6 1 128, Net4 (quad 10 0 0 0) 8, Net4 (quad 172 16 0 0) 12,
     Net4 (quad 192 168 0 0) 16, Net4 (quad 169 254 0 0) 16, Net6 (word_of_nat (0xfe80 * 2 ^ 112)) 10,
     Net6 (word_of_nat (0xfc00 * 2 ^ 112)) 7, Net4 0 8]"

text \<open>\<open>IPNet.Contains\<close>: the same address family and the same leading bits.\<close>

fun net_contains :: "ip_net \<Rightarrow> ip_addr \<Rightarrow> bool" where
  "net_contains (Net4 b n) (IPv4 a) = (drop_bit (32 - n) a = drop_bit (32 - n) b)"
| "net_contains (Net6 b n) (IPv6 a) = (drop_bit (128 - n) a = drop_bit (128 - n) b)"
| "net_contains _ _ = False"

text \<open>
  The resolver, \<open>net.ParseIP\<close> (IPv4-mapped addresses are IPv4), \<open>IP.String\<close> and \<open>URL.Hostname\<close> are
  arguments.
\<close>

record net_env =
  ne_lookup :: "string \<Rightarrow> string list result"
  ne_parse :: "string \<Rightarrow> ip_addr option"
  ne_show :: "ip_addr \<Rightarrow> string"
  ne_hostname :: "url \<Rightarrow> string"

fun check_ips :: "net_env \<Rightarrow> string \<Rightarrow> string list \<Rightarrow> goerr option" where
  "check_ips ne hostname [] = None"
| "check_ips ne hostname (s # ss) = (case ne_parse ne s of
     None \<Rightarrow> check_ips ne hostname ss
   | Some ip \<Rightarrow>
       (if list_ex (\<lambda>b. net_contains b ip) blockedCIDRs
        then Some (Err (''proxy: upstream host '' @ Quote hostname @ '' resolves to blocked address '' @ ne_show ne ip))
        else check_ips ne hostname ss))"

definition validateUpstreamURL :: "net_env \<Rightarrow> url \<Rightarrow> goerr option" where
  "validateUpstreamURL ne u =
     (if u_Scheme u \<noteq> ''http'' \<and> u_Scheme u \<noteq> ''https''
      then Some (Err (''proxy: upstream scheme '' @ Quote (u_Scheme u) @ '' not allowed (must be http or https)''))
      else let hostname = ne_hostname ne u in
        if hostname = '''' then Some (Err ''proxy: upstream URL has no host'')
        else (case ne_lookup ne hostname of
            Inr ips \<Rightarrow> check_ips ne hostname ips
          | Inl e \<Rightarrow> (case ne_parse ne hostname of
              Some ip \<Rightarrow> check_ips ne hostname [ne_show ne ip]
            | None \<Rightarrow> Some (Wrap (''proxy: upstream host '' @ Quote hostname @ '' could not be resolved: '') e))))"

section \<open>Lemmas\<close>

text \<open>
  The specification side of the plugin loop: \<open>pass_plugins ps w rq p = Some w'\<close> says that every
  plugin of \<open>ps\<close> abstains, leaving the state \<open>w'\<close>.
\<close>

fun pass_plugins :: "'w pipeline_plugin option list \<Rightarrow> 'w \<Rightarrow> request \<Rightarrow> principal option \<Rightarrow> 'w option" where
  "pass_plugins [] w rq p = Some w"
| "pass_plugins (None # ps) w rq p = pass_plugins ps w rq p"
| "pass_plugins (Some h # ps) w rq p = (case h w rq p of (Inr None, w1) \<Rightarrow> pass_plugins ps w1 rq p | _ \<Rightarrow> None)"

lemma run_plugins_None:
  "run_plugins ps w rq p = (Inr None, w') \<longleftrightarrow> pass_plugins ps w rq p = Some w'"
  by (induction ps w rq p rule: run_plugins.induct) (auto split: prod.splits sum.splits option.splits)

lemma run_plugins_decided:
  assumes "run_plugins ps w rq p = (x, w')" and "x \<noteq> Inr None"
  shows "\<exists>pre h post w1. ps = pre @ Some h # post \<and> pass_plugins pre w rq p = Some w1 \<and> h w1 rq p = (x, w')"
  using assms
proof (induction ps arbitrary: w)
  case (Cons a ps)
  show ?case
  proof (cases a)
    case None
    with Cons obtain pre h post w1 where "ps = pre @ Some h # post" "pass_plugins pre w rq p = Some w1" "h w1 rq p = (x, w')"
      by (metis run_plugins.simps(2))
    with None show ?thesis by (intro exI [of _ "None # pre"]) auto
  next
    case (Some g)
    obtain y w2 where g: "g w rq p = (y, w2)" by fastforce
    show ?thesis
    proof (cases "y = Inr None")
      case True
      with Cons.prems Some g have "run_plugins ps w2 rq p = (x, w')" by simp
      from Cons.IH [OF this Cons.prems(2)]
      obtain pre h post w1 where "ps = pre @ Some h # post" "pass_plugins pre w2 rq p = Some w1" "h w1 rq p = (x, w')"
        by blast
      with g True Some show ?thesis by (intro exI [of _ "Some g # pre"]) auto
    next
      case False
      with Cons.prems Some g have "y = x \<and> w2 = w'" by (auto split: sum.splits option.splits)
      with g Some show ?thesis by (intro exI [of _ "[]"]) auto
    qed
  qed
qed simp

text \<open>The decision on an allowed request comes from a plugin or from the policy on the full input.\<close>

definition decided_by :: "'w default_engine \<Rightarrow> 'w \<Rightarrow> request \<Rightarrow> principal option \<Rightarrow> decision \<Rightarrow> bool" where
  "decided_by e w rq p d \<longleftrightarrow>
     (\<exists>pre h post w1 w2. e_PipelinePlugins e = pre @ Some h # post \<and> pass_plugins pre w rq p = Some w1
        \<and> h w1 rq p = (Inr (Some d), w2))
   \<or> (\<exists>w1 w2. pass_plugins (e_PipelinePlugins e) w rq p = Some w1 \<and> e_Policy e w1 (policy_input_of rq p) = (Inr (Some d), w2))"

lemma decide_allow:
  assumes "decide e w rq p = (Inr d, w')" and "dc_Allow d"
  shows "decided_by e w rq p d"
proof -
  obtain x w1 where r: "run_plugins (e_PipelinePlugins e) w rq p = (x, w1)" by fastforce
  show ?thesis
  proof (cases "x = Inr None")
    case True
    with r have "pass_plugins (e_PipelinePlugins e) w rq p = Some w1" by (simp add: run_plugins_None)
    moreover have "\<exists>w2. e_Policy e w1 (policy_input_of rq p) = (Inr (Some d), w2)"
      using assms r True by (auto simp: decide_def split: prod.splits sum.splits option.splits)
    ultimately show ?thesis by (auto simp: decided_by_def)
  next
    case False
    with assms r have "x = Inr (Some d)" by (auto simp: decide_def split: sum.splits option.splits)
    with run_plugins_decided [OF r False] show ?thesis by (auto simp: decided_by_def)
  qed
qed

lemma decide_error: "decide e w rq p = (Inl resp, w') \<Longrightarrow> \<not> rs_Allow resp \<and> rs_StatusCode resp \<in> {500, 503}"
  by (auto simp: decide_def deny_def split: prod.splits sum.splits option.splits)

lemma upstream_build_simps [simp]:
  "rs_Allow (upstream_build e p d) = dc_Allow d" "rs_StatusCode (upstream_build e p d) = dc_StatusCode d"
  "rs_RedirectTo (upstream_build e p d) = ''''"
  by (simp_all add: upstream_build_def Let_def)

lemma Handle_total: "\<exists>resp w' ms. Handle e w rq = (Inr resp, w', ms)"
  by (auto simp: Handle_def Let_def split: prod.splits sum.splits)

lemma Handle_allow:
  assumes "Handle e w rq = (Inr resp, w', ms)" and "rs_Allow resp"
  obtains p w1 d where "e_Resolver e w rq = (Inr p, w1)" and "e_RequireAuth e \<Longrightarrow> p \<noteq> None"
    and "decide e w1 rq p = (Inr d, w')" and "dc_Allow d" and "resp = upstream_build e p d"
  using assms
  by (auto simp: Handle_def deny_def Let_def intro!: that dest: decide_error split: prod.splits sum.splits if_splits)

text \<open>Header maps: where an entry can come from.\<close>

lemma map_of_merge: "map_of (merge_headers built h) k = (case map_of (rev built) k of Some v \<Rightarrow> Some v | None \<Rightarrow> map_of h k)"
  by (induction built arbitrary: h)
    (auto simp: merge_headers_def update_conv' map_add_def split: option.splits)

lemma add_obligation_origin:
  "map_of (add_obligation kv h) k = Some v \<Longrightarrow> map_of h k = Some v
     \<or> (\<exists>s. as_str (snd kv) = Some s \<and> HasPrefix (fst kv) obligationPrefix \<and> k = obligation_header (fst kv) \<and> v = strip_crlf s)"
  by (auto simp: add_obligation_def update_conv' split: option.splits if_splits)

lemma fold_obligation_origin:
  "map_of (fold add_obligation os h) k = Some v \<Longrightarrow> map_of h k = Some v
     \<or> (\<exists>kv \<in> set os. \<exists>s. as_str (snd kv) = Some s \<and> HasPrefix (fst kv) obligationPrefix
          \<and> k = obligation_header (fst kv) \<and> v = strip_crlf s)"
proof (induction os arbitrary: h)
  case (Cons kv os)
  then have "map_of (add_obligation kv h) k = Some v
     \<or> (\<exists>kv \<in> set os. \<exists>s. as_str (snd kv) = Some s \<and> HasPrefix (fst kv) obligationPrefix
          \<and> k = obligation_header (fst kv) \<and> v = strip_crlf s)"
    by simp
  then show ?case using add_obligation_origin [of kv h k v] by auto
qed simp

definition from_policy :: "decision \<Rightarrow> string \<Rightarrow> string \<Rightarrow> bool" where
  "from_policy d k v \<longleftrightarrow> (\<exists>hs. dc_Headers d = Some hs \<and> (k, v) \<in> set hs)"

definition from_obligation :: "decision \<Rightarrow> string \<Rightarrow> string \<Rightarrow> bool" where
  "from_obligation d k v \<longleftrightarrow> (\<exists>os kv s. dc_Obligations d = Some os \<and> kv \<in> set os \<and> as_str (snd kv) = Some s
     \<and> HasPrefix (fst kv) obligationPrefix \<and> k = obligation_header (fst kv) \<and> v = strip_crlf s)"

lemma policy_header_origin:
  assumes "policy_headers d = Some h" and "map_of h k = Some v"
  shows "from_policy d k v \<or> from_obligation d k v"
proof -
  have o1: "from_policy d k v" if "dc_Headers d = Some hs" "map_of (merge_headers hs []) k = Some v" for hs
    using that map_of_SomeD [of "rev hs" k v] by (auto simp: from_policy_def map_of_merge split: option.splits)
  show ?thesis
  proof (cases "dc_Obligations d")
    case None
    then show ?thesis using assms o1 by (auto simp: policy_headers_def split: option.splits)
  next
    case (Some os)
    then have "map_of (fold add_obligation os (case dc_Headers d of None \<Rightarrow> [] | Some hs \<Rightarrow> merge_headers hs [])) k = Some v"
      using assms by (auto simp: policy_headers_def split: option.splits)
    from fold_obligation_origin [OF this] Some o1 show ?thesis
      by (fastforce simp: from_obligation_def split: option.splits)
  qed
qed

lemma upstream_header_origin:
  assumes "rs_UpstreamHeaders (upstream_build e p d) = Some h" and "map_of h k = Some v"
  shows "from_policy d k v \<or> from_obligation d k v
    \<or> (\<exists>pr. p = Some pr \<and> dc_Allow d \<and> (k, v) \<in> set (built_headers e pr d))"
proof (cases "\<exists>pr. p = Some pr \<and> dc_Allow d")
  case True
  then obtain pr where pr: "p = Some pr" "dc_Allow d" by blast
  then have h: "h = (case policy_headers d of None \<Rightarrow> built_headers e pr d | Some g \<Rightarrow> merge_headers (built_headers e pr d) g)"
    using assms(1) by (auto simp: upstream_build_def Let_def split: option.splits)
  show ?thesis
  proof (cases "policy_headers d")
    case None
    then show ?thesis using h pr assms(2) by (auto dest: map_of_SomeD)
  next
    case (Some g)
    then show ?thesis
      using h pr assms(2) policy_header_origin [OF Some, of k v] map_of_SomeD [of "rev (built_headers e pr d)" k v]
      by (auto simp: map_of_merge split: option.splits)
  qed
next
  case False
  then have "policy_headers d = Some h"
    using assms(1) by (auto simp: upstream_build_def Let_def split: option.splits)
  from policy_header_origin [OF this assms(2)] show ?thesis by blast
qed

lemma upstream_built_wins:
  assumes "dc_Allow d" and "wf_map (built_headers e pr d)" and "map_of (built_headers e pr d) k = Some v"
  shows "\<exists>h. rs_UpstreamHeaders (upstream_build e (Some pr) d) = Some h \<and> map_of h k = Some v"
proof -
  have "map_of (rev (built_headers e pr d)) k = Some v"
    using assms(2,3) by (simp add: map_of_rev_wf)
  then show ?thesis
    using assms(1,3) by (auto simp: upstream_build_def Let_def map_of_merge split: option.splits)
qed

text \<open>Forwarded headers.\<close>

definition clean_header :: "header \<Rightarrow> bool" where
  "clean_header h \<longleftrightarrow> (\<forall>k v. map_of h k = Some v \<longrightarrow> ToLower k \<notin> set reservedIdentityHeaders \<and> \<not> EqualFold k ''Cookie'')"

lemma copy_header_clean: "clean_header h \<Longrightarrow> clean_header (copy_header kv h)"
  unfolding copy_header_def clean_header_def by (simp add: update_conv')

lemma copied_headers_no_reserved: "clean_header (copied_headers h)"
proof -
  have "clean_header a \<Longrightarrow> clean_header (fold copy_header h a)" for a
    by (induction h arbitrary: a) (simp_all add: copy_header_clean)
  from this [of "[]"] show ?thesis by (simp add: copied_headers_def clean_header_def)
qed

lemma set_upstream_origin:
  "map_of (set_upstream uh h) k = Some vs \<Longrightarrow>
     map_of h k = Some vs \<or> (\<exists>(k', v) \<in> set uh. k = CanonicalHeaderKey k' \<and> vs = [v])"
proof (induction uh arbitrary: h)
  case (Cons a uh)
  obtain k' v where a: "a = (k', v)" by fastforce
  with Cons.prems have "map_of (set_upstream uh (hdr_Set k' v h)) k = Some vs" by (simp add: set_upstream_def)
  from Cons.IH [OF this] a show ?case by (auto simp: map_of_hdr_Set split: if_splits)
qed (simp add: set_upstream_def)

lemma ProxyToUpstream_Inr:
  assumes "ProxyToUpstream up r u uh body = Inr rq"
  obtains upstream outReq where "buildUpstream up r u uh body = Inr (upstream, outReq)" and "rq = reverseProxy upstream outReq"
    and "or_Header outReq = set_upstream (case uh of None \<Rightarrow> [] | Some h \<Rightarrow> h) (copied_headers (r_Header r))"
    and "u_Scheme upstream = ''http'' \<or> u_Scheme upstream = ''https''"
  using assms
  by (auto simp: ProxyToUpstream_def buildUpstream_def intro!: that split: sum.splits if_splits)

section \<open>Properties\<close>

text \<open>
  C1. The engine fails closed: \<open>Handle\<close> always answers, and it allows a request only if the principal
  was resolved without an error, a principal is present whenever the route requires authentication, and
  an allowing decision was made either by a plugin after all plugins before it abstained, or by the policy
  on the request's own input after all plugins abstained.
\<close>

theorem engine_fail_closed:
  "\<exists>resp w' ms. Handle e w rq = (Inr resp, w', ms)
    \<and> (rs_Allow resp \<longrightarrow>
        (\<exists>p w1 d. e_Resolver e w rq = (Inr p, w1) \<and> (e_RequireAuth e \<longrightarrow> p \<noteq> None)
           \<and> decided_by e w1 rq p d \<and> dc_Allow d \<and> resp = upstream_build e p d))"
proof -
  obtain resp w' ms where h: "Handle e w rq = (Inr resp, w', ms)" using Handle_total [of e w rq] by blast
  moreover have "\<exists>p w1 d. e_Resolver e w rq = (Inr p, w1) \<and> (e_RequireAuth e \<longrightarrow> p \<noteq> None)
           \<and> decided_by e w1 rq p d \<and> dc_Allow d \<and> resp = upstream_build e p d" if "rs_Allow resp"
    using Handle_allow [OF h that] decide_allow by metis
  ultimately show ?thesis by blast
qed

definition sample_engine0 :: "nat default_engine" where
  "sample_engine0 = \<lparr>e_Resolver = (\<lambda>w rq. (Inr (Some sample_principal), Suc w)),
     e_Policy = (\<lambda>w i. (Inr (Some (fallbackDecision (in_Path i = ''/ok''))), w)),
     e_PipelinePlugins = [None, Some (\<lambda>w rq p. (Inr None, w))], e_UpstreamURL = '''', e_RequireAuth = True,
     e_HeaderBuilder = None, e_UnauthenticatedMode = '''', e_LoginRedirectURL = '''', e_Metrics = True\<rparr>"

definition sample_request :: "string \<Rightarrow> request" where
  "sample_request path = \<lparr>rq_Protocol = ''http'', rq_Method = ''GET'', rq_Path = path, rq_Headers = [], rq_Cookies = [],
     rq_Body = [], rq_GraphQLOperation = '''', rq_GraphQLOperationType = '''', rq_GRPCService = '''', rq_GRPCMethod = '''',
     rq_RemoteAddr = ''''\<rparr>"

theorem engine_fail_closed_witness:
  "\<exists>resp w' ms. Handle sample_engine0 0 (sample_request ''/ok'') = (Inr resp, w', ms) \<and> rs_Allow resp
     \<and> (\<exists>p w1 d. e_Resolver sample_engine0 0 (sample_request ''/ok'') = (Inr (Some p), w1)
          \<and> decided_by sample_engine0 w1 (sample_request ''/ok'') (Some p) d)"
proof -
  obtain resp w' ms where h: "Handle sample_engine0 0 (sample_request ''/ok'') = (Inr resp, w', ms)"
    and i: "rs_Allow resp \<longrightarrow> (\<exists>p w1 d. e_Resolver sample_engine0 0 (sample_request ''/ok'') = (Inr p, w1)
       \<and> (e_RequireAuth sample_engine0 \<longrightarrow> p \<noteq> None) \<and> decided_by sample_engine0 w1 (sample_request ''/ok'') p d
       \<and> dc_Allow d \<and> resp = upstream_build sample_engine0 p d)"
    using engine_fail_closed [of sample_engine0 0 "sample_request ''/ok''"] by blast
  moreover have "rs_Allow resp"
    using h by (auto simp: Handle_def sample_engine0_def decide_def policy_input_of_def sample_request_def Let_def)
  moreover have "e_RequireAuth sample_engine0" by (simp add: sample_engine0_def)
  ultimately show ?thesis by blast
qed

text \<open>
  C31. Every way to refuse has its status: a resolver error is a 502, a missing principal on a protected
  route is a 401 or, in redirect mode, a 302 to the login URL, a plugin error is a 503 and a policy error a
  500, in this order of precedence, and none of these responses carries upstream headers.
\<close>

theorem engine_error_statuses:
  "(\<forall>err w1. e_Resolver e w rq = (Inl err, w1) \<longrightarrow>
      Handle e w rq = (Inr (deny 502 (error_body ''auth resolution failed'')), w1, []))
   \<and> (\<forall>w1. e_Resolver e w rq = (Inr None, w1) \<and> e_RequireAuth e \<longrightarrow>
      (\<exists>resp ms. Handle e w rq = (Inr resp, w1, ms) \<and> \<not> rs_Allow resp \<and> rs_UpstreamHeaders resp = None
         \<and> (if e_UnauthenticatedMode e = ''html_redirect'' \<and> e_LoginRedirectURL e \<noteq> ''''
            then rs_StatusCode resp = 302 \<and> rs_RedirectTo resp = e_LoginRedirectURL e
            else rs_StatusCode resp = 401 \<and> rs_RedirectTo resp = '''')))
   \<and> (\<forall>p w1 err w2. e_Resolver e w rq = (Inr p, w1) \<and> (e_RequireAuth e \<longrightarrow> p \<noteq> None)
        \<and> run_plugins (e_PipelinePlugins e) w1 rq p = (Inl err, w2) \<longrightarrow>
      Handle e w rq = (Inr (deny 503 (error_body ''pipeline plugin error'')), w2, []))
   \<and> (\<forall>p w1 w2 err w3. e_Resolver e w rq = (Inr p, w1) \<and> (e_RequireAuth e \<longrightarrow> p \<noteq> None)
        \<and> pass_plugins (e_PipelinePlugins e) w1 rq p = Some w2 \<and> e_Policy e w2 (policy_input_of rq p) = (Inl err, w3) \<longrightarrow>
      Handle e w rq = (Inr (deny 500 (error_body ''policy error'')), w3, []))"
  by (auto simp: Handle_def decide_def deny_def run_plugins_None [symmetric])

theorem engine_error_statuses_witness:
  "Handle (sample_engine0\<lparr>e_Resolver := (\<lambda>w rq. (Inl (Err ''down''), w))\<rparr>) 0 (sample_request ''/ok'')
     = (Inr (deny 502 (error_body ''auth resolution failed'')), 0, [])
   \<and> Handle (sample_engine0\<lparr>e_Policy := (\<lambda>w i. (Inl (Err ''bad''), w))\<rparr>) 0 (sample_request ''/ok'')
     = (Inr (deny 500 (error_body ''policy error'')), 1, [])"
proof
  show "Handle (sample_engine0\<lparr>e_Resolver := (\<lambda>w rq. (Inl (Err ''down''), w))\<rparr>) 0 (sample_request ''/ok'')
     = (Inr (deny 502 (error_body ''auth resolution failed'')), 0, [])"
    by (rule engine_error_statuses [THEN conjunct1, rule_format]) simp
  show "Handle (sample_engine0\<lparr>e_Policy := (\<lambda>w i. (Inl (Err ''bad''), w))\<rparr>) 0 (sample_request ''/ok'')
     = (Inr (deny 500 (error_body ''policy error'')), 1, [])"
    by (rule engine_error_statuses [THEN conjunct2, THEN conjunct2, THEN conjunct2, rule_format, where p = "Some sample_principal" and ?w1.0 = 1 and ?w2.0 = 1 and err = "Err ''bad''"])
      (simp add: sample_engine0_def)
qed

text \<open>
  Upstream headers come from three sources only, and the principal wins: an upstream header is a
  verbatim policy header, an obligation whose name and value are free of CR and LF, or, on an allowed
  request, one that the header builder derived from the principal; and the builder's headers replace
  policy headers and obligations of the same name.
\<close>

theorem upstream_header_sources:
  "(\<forall>h k v. rs_UpstreamHeaders (upstream_build e p d) = Some h \<and> map_of h k = Some v \<longrightarrow>
      from_policy d k v
      \<or> (from_obligation d k v \<and> CR \<notin> set k \<and> NL \<notin> set k \<and> CR \<notin> set v \<and> NL \<notin> set v)
      \<or> (\<exists>pr. p = Some pr \<and> dc_Allow d \<and> (k, v) \<in> set (built_headers e pr d)))
   \<and> (\<forall>pr k v. p = Some pr \<and> dc_Allow d \<and> wf_map (built_headers e pr d) \<and> map_of (built_headers e pr d) k = Some v \<longrightarrow>
      (\<exists>h. rs_UpstreamHeaders (upstream_build e p d) = Some h \<and> map_of h k = Some v))"
proof (intro conjI allI impI)
  fix h k v
  assume a: "rs_UpstreamHeaders (upstream_build e p d) = Some h \<and> map_of h k = Some v"
  have c: "from_obligation d k v \<Longrightarrow> CR \<notin> set k \<and> NL \<notin> set k \<and> CR \<notin> set v \<and> NL \<notin> set v"
    by (auto simp: from_obligation_def obligation_header_def)
  show "from_policy d k v \<or> (from_obligation d k v \<and> CR \<notin> set k \<and> NL \<notin> set k \<and> CR \<notin> set v \<and> NL \<notin> set v)
      \<or> (\<exists>pr. p = Some pr \<and> dc_Allow d \<and> (k, v) \<in> set (built_headers e pr d))"
    using upstream_header_origin [of e p d h k v] a c by blast
next
  fix pr k v
  assume "p = Some pr \<and> dc_Allow d \<and> wf_map (built_headers e pr d) \<and> map_of (built_headers e pr d) k = Some v"
  then show "\<exists>h. rs_UpstreamHeaders (upstream_build e p d) = Some h \<and> map_of h k = Some v"
    using upstream_built_wins [of d e pr k v] by blast
qed

definition sample_decision :: decision where
  "sample_decision = \<lparr>dc_Allow = True, dc_StatusCode = 200, dc_Headers = Some [(''X-User-Id'', ''policy'')], dc_Reason = '''',
     dc_Obligations = Some [(''set_header_X_Plan'', AStr (''gold'' @ [CR, NL] @ ''Evil: 1''))]\<rparr>"

theorem upstream_header_sources_witness:
  "\<exists>h. rs_UpstreamHeaders (upstream_build sample_engine0 (Some sample_principal) sample_decision) = Some h
     \<and> map_of h ''X-User-Id'' = Some ''u1'' \<and> from_obligation sample_decision ''X-Plan'' ''goldEvil: 1''"
proof -
  have b: "built_headers sample_engine0 sample_principal sample_decision = [(''X-User-Id'', ''u1''), (''X-Roles'', ''admin'')]"
    by (simp add: built_headers_def sample_engine0_def defaultHeaderBuilder_def sample_principal_def set_str_claim_def
        sample_claims_def any_get_def Let_def)
  have "from_obligation sample_decision ''X-Plan'' ''goldEvil: 1''"
    unfolding from_obligation_def sample_decision_def
    by (intro exI [of _ "[(''set_header_X_Plan'', AStr (''gold'' @ [CR, NL] @ ''Evil: 1''))]"])
      (simp add: obligationPrefix_def HasPrefix_def obligation_header_def TrimPrefix_def ReplaceChar_def strip_crlf_def CR_def NL_def)
  moreover have "\<exists>h. rs_UpstreamHeaders (upstream_build sample_engine0 (Some sample_principal) sample_decision) = Some h
     \<and> map_of h ''X-User-Id'' = Some ''u1''"
    by (rule upstream_header_sources [THEN conjunct2, rule_format, of "Some sample_principal" sample_principal])
      (use b in \<open>simp add: wf_map_def\<close>, simp add: sample_decision_def)
  ultimately show ?thesis by blast
qed

text \<open>
  C5. A client cannot spoof its identity to the upstream: in every request that \<open>ProxyToUpstream\<close>
  sends, a header whose name is, in any capitalisation, one of the reserved identity headers or Cookie
  carries exactly a value of the verified upstream headers, whatever headers the client sent.
\<close>

theorem identity_headers_unspoofable:
  assumes "ProxyToUpstream url_parse r u uh body = Inr rq"
    and "map_of (or_Header rq) k = Some vs" and "ToLower k \<in> set reservedIdentityHeaders \<or> EqualFold k ''Cookie''"
  shows "\<exists>h k' v. uh = Some h \<and> (k', v) \<in> set h \<and> k = CanonicalHeaderKey k' \<and> vs = [v]"
proof -
  from assms(1) obtain upstream outReq where rq: "rq = reverseProxy upstream outReq"
    and h: "or_Header outReq = set_upstream (case uh of None \<Rightarrow> [] | Some h \<Rightarrow> h) (copied_headers (r_Header r))"
    by (rule ProxyToUpstream_Inr)
  from assms(2) have "map_of (removeHopByHop (or_Header outReq)) k = Some vs" by (simp add: rq reverseProxy_def)
  then have "map_of (or_Header outReq) k = Some vs" by (rule removeHopByHop_only_drops)
  from set_upstream_origin [OF this [unfolded h]]
  have "map_of (copied_headers (r_Header r)) k = Some vs
     \<or> (\<exists>(k', v) \<in> set (case uh of None \<Rightarrow> [] | Some h \<Rightarrow> h). k = CanonicalHeaderKey k' \<and> vs = [v])" .
  moreover have "map_of (copied_headers (r_Header r)) k \<noteq> Some vs"
    using copied_headers_no_reserved [of "r_Header r"] assms(3) unfolding clean_header_def by blast
  ultimately obtain k' v where "(k', v) \<in> set (case uh of None \<Rightarrow> [] | Some h \<Rightarrow> h)" "k = CanonicalHeaderKey k'" "vs = [v]"
    by blast
  then show ?thesis by (cases uh) auto
qed

definition sample_url_parse :: url_parser where
  "sample_url_parse s =
     (if s = ''http://b/api'' then Inr \<lparr>u_Scheme = ''http'', u_Host = ''b'', u_Path = ''/api'', u_RawQuery = ''''\<rparr>
      else if s = ''http://b/api/x'' then Inr \<lparr>u_Scheme = ''http'', u_Host = ''b'', u_Path = ''/api/x'', u_RawQuery = ''''\<rparr>
      else if s = ''http://b'' then Inr \<lparr>u_Scheme = ''http'', u_Host = ''b'', u_Path = '''', u_RawQuery = ''''\<rparr>
      else if s = ''http://b/x'' then Inr \<lparr>u_Scheme = ''http'', u_Host = ''b'', u_Path = ''/x'', u_RawQuery = ''''\<rparr>
      else Inl (Err ''parse''))"

definition sample_http :: "header \<Rightarrow> http_request" where
  "sample_http h = \<lparr>r_Method = ''GET'', r_Host = ''gate'', r_Path = ''/x'', r_RawQuery = '''', r_Header = h, r_Cookies = [],
     r_Body = None, r_TLS = True, r_RemoteAddr = ''''\<rparr>"

lemma sample_forward:
  "map_option or_Header (case ProxyToUpstream sample_url_parse (sample_http [(''X-User-Id'', [''root'']), (''Accept'', [''*''])]) ''http://b''
      (Some [(''x-user-id'', ''u1'')]) [] of Inl _ \<Rightarrow> None | Inr rq \<Rightarrow> Some rq) = Some [(''Accept'', [''*'']), (''X-User-Id'', [''u1''])]"
  by code_simp

theorem identity_headers_unspoofable_witness:
  "\<exists>rq v. ProxyToUpstream sample_url_parse (sample_http [(''X-User-Id'', [''root'']), (''Accept'', [''*''])]) ''http://b''
      (Some [(''x-user-id'', ''u1'')]) [] = Inr rq \<and> map_of (or_Header rq) ''X-User-Id'' = Some [v] \<and> v = ''u1''"
proof -
  obtain rq where rq: "ProxyToUpstream sample_url_parse (sample_http [(''X-User-Id'', [''root'']), (''Accept'', [''*''])]) ''http://b''
      (Some [(''x-user-id'', ''u1'')]) [] = Inr rq" and h: "or_Header rq = [(''Accept'', [''*'']), (''X-User-Id'', [''u1''])]"
    using sample_forward by (auto split: sum.splits)
  have "map_of (or_Header rq) ''X-User-Id'' = Some [''u1'']" using h by simp
  moreover have "ToLower ''X-User-Id'' \<in> set reservedIdentityHeaders" by code_simp
  ultimately show ?thesis
    using identity_headers_unspoofable [OF rq, of "''X-User-Id''" "[''u1'']"] rq by auto
qed

text \<open>
  A client can make identity headers disappear: the client's Connection header is copied to the
  outgoing request, and the reverse proxy deletes every header it names, the proxy's own identity headers
  included.
\<close>

theorem connection_header_drops_identity:
  assumes "ProxyToUpstream url_parse r u uh body = Inr rq"
    and "map_of (set_upstream (case uh of None \<Rightarrow> [] | Some h \<Rightarrow> h) (copied_headers (r_Header r))) ''Connection'' = Some vs"
    and "n \<in> set (concat (map (Split (CHR '','')) vs))" and "TrimString n \<noteq> ''''"
  shows "map_of (or_Header rq) (CanonicalHeaderKey (TrimString n)) = None"
proof -
  from assms(1) obtain upstream outReq where rq: "rq = reverseProxy upstream outReq"
    and h: "or_Header outReq = set_upstream (case uh of None \<Rightarrow> [] | Some h \<Rightarrow> h) (copied_headers (r_Header r))"
    by (rule ProxyToUpstream_Inr)
  have "TrimString n \<in> set (connection_names (or_Header outReq))"
    using assms(2-4) h by (auto simp: connection_names_def)
  then have "CanonicalHeaderKey (TrimString n) \<in> CanonicalHeaderKey ` set (connection_names (or_Header outReq) @ hopHeaders)"
    by simp
  then have "map_of (removeHopByHop (or_Header outReq)) (CanonicalHeaderKey (TrimString n)) = None"
    unfolding removeHopByHop_def map_of_fold_Del by (rule if_P)
  then show ?thesis by (simp add: rq reverseProxy_def)
qed

lemma sample_drop:
  "(case ProxyToUpstream sample_url_parse (sample_http [(''Connection'', [''close, X-User-Id''])]) ''http://b''
      (Some [(''X-User-Id'', ''u1'')]) [] of Inl _ \<Rightarrow> False | Inr rq \<Rightarrow> True)
   \<and> map_of (set_upstream [(''X-User-Id'', ''u1'')] (copied_headers [(''Connection'', [''close, X-User-Id''])])) ''Connection'' = Some [''close, X-User-Id'']
   \<and> set (concat (map (Split (CHR '','')) [''close, X-User-Id''])) = {''close'', '' X-User-Id''}
   \<and> TrimString '' X-User-Id'' = ''X-User-Id'' \<and> CanonicalHeaderKey ''X-User-Id'' = ''X-User-Id''"
  by code_simp

theorem connection_header_drops_identity_witness:
  "\<exists>rq. ProxyToUpstream sample_url_parse (sample_http [(''Connection'', [''close, X-User-Id''])]) ''http://b''
      (Some [(''X-User-Id'', ''u1'')]) [] = Inr rq \<and> map_of (or_Header rq) ''X-User-Id'' = None"
proof -
  obtain rq where rq: "ProxyToUpstream sample_url_parse (sample_http [(''Connection'', [''close, X-User-Id''])]) ''http://b''
      (Some [(''X-User-Id'', ''u1'')]) [] = Inr rq" using sample_drop by (auto split: sum.splits)
  from connection_header_drops_identity [OF rq, of "[''close, X-User-Id'']" "'' X-User-Id''"] rq show ?thesis
    using sample_drop by (auto simp: sample_http_def)
qed

text \<open>
  The base path of an upstream URL is applied twice: \<open>ProxyToUpstream\<close> joins it to the request path,
  and the reverse proxy for the same upstream joins it again, so with an upstream of http://b/api a request
  for /x is sent to /api/api/x.
\<close>

theorem upstream_base_path_doubled:
  assumes "url_parse u = Inr upstream" and "u_Scheme upstream = ''http''" and "u_Path upstream = ''/api''"
    and "url_parse (target_url upstream r) = Inr t" and "u_Path t = singleJoiningSlash ''/api'' (r_Path r)" and "r_Path r = ''/x''"
  shows "\<exists>rq. ProxyToUpstream url_parse r u uh body = Inr rq \<and> u_Path (or_URL rq) = ''/api/api/x''"
  using assms
  by (simp add: ProxyToUpstream_def buildUpstream_def reverseProxy_def rp_join_def singleJoiningSlash_def TrimSuffix_def
      TrimPrefix_def suffix_def)

theorem upstream_base_path_doubled_witness:
  "\<exists>rq. ProxyToUpstream sample_url_parse (sample_http []) ''http://b/api'' None [] = Inr rq \<and> u_Path (or_URL rq) = ''/api/api/x''"
  by (rule upstream_base_path_doubled [where upstream = "\<lparr>u_Scheme = ''http'', u_Host = ''b'', u_Path = ''/api'', u_RawQuery = ''''\<rparr>"
        and t = "\<lparr>u_Scheme = ''http'', u_Host = ''b'', u_Path = ''/api/x'', u_RawQuery = ''''\<rparr>"])
    (simp_all add: sample_url_parse_def sample_http_def target_url_def singleJoiningSlash_def TrimSuffix_def TrimPrefix_def suffix_def)

text \<open>
  The path the policy judges is not always the path the upstream receives: the already decoded
  request path is pasted into a URL that is parsed, and so decoded, again. The request path /%61dmin is
  judged as /%61dmin and sent as /admin.
\<close>

theorem path_decoded_twice:
  assumes "url_parse ''http://b'' = Inr \<lparr>u_Scheme = ''http'', u_Host = ''b'', u_Path = '''', u_RawQuery = ''''\<rparr>"
    and "url_parse ''http://b/%61dmin'' = Inr \<lparr>u_Scheme = ''http'', u_Host = ''b'', u_Path = ''/admin'', u_RawQuery = ''''\<rparr>"
    and "r_Path r = ''/%61dmin''" and "r_RawQuery r = ''''"
  shows "\<exists>rq out. RequestFromHTTP je r = Inr rq \<and> in_Path (policy_input_of rq p) = ''/%61dmin''
     \<and> ProxyToUpstream url_parse r ''http://b'' uh body = Inr out \<and> u_Path (or_URL out) = ''/admin''"
  using assms
  by (simp add: RequestFromHTTP_def NormalizeRequest_def policy_input_of_def ProxyToUpstream_def buildUpstream_def reverseProxy_def
      target_url_def singleJoiningSlash_def TrimSuffix_def TrimPrefix_def suffix_def rp_join_def Let_def split: prod.splits)

definition unescaping_parse :: url_parser where
  "unescaping_parse s =
     (if s = ''http://b'' then Inr \<lparr>u_Scheme = ''http'', u_Host = ''b'', u_Path = '''', u_RawQuery = ''''\<rparr>
      else if s = ''http://b/%61dmin'' then Inr \<lparr>u_Scheme = ''http'', u_Host = ''b'', u_Path = ''/admin'', u_RawQuery = ''''\<rparr>
      else Inl (Err ''parse''))"

theorem path_decoded_twice_witness:
  "\<exists>rq out. RequestFromHTTP \<lparr>je_nd = (\<lambda>r. False), je_env = (\<lambda>s. None), je_opname = (\<lambda>b. '''')\<rparr>
       ((sample_http [])\<lparr>r_Path := ''/%61dmin''\<rparr>) = Inr rq
     \<and> in_Path (policy_input_of rq None) = ''/%61dmin''
     \<and> ProxyToUpstream unescaping_parse ((sample_http [])\<lparr>r_Path := ''/%61dmin''\<rparr>) ''http://b'' None [] = Inr out
     \<and> u_Path (or_URL out) = ''/admin''"
  by (rule path_decoded_twice) (simp_all add: unescaping_parse_def sample_http_def)

text \<open>
  A deny reason cannot break out of the JSON body: after the fixed opening of the error body, a JSON
  reader consumes the escaped reason as one string literal and is left with exactly the fixed closing,
  and the body holds no control characters.
\<close>

theorem deny_body_contained:
  assumes "\<not> dc_Allow d" and "dc_Reason d \<noteq> ''''"
  shows "rs_Body (upstream_build e p d) = error_prefix @ escapeJSON (dc_Reason d) @ [DQ] @ ''}]}''
     \<and> skip_string (drop (length error_prefix) (rs_Body (upstream_build e p d))) = Some ''}]}''
     \<and> (\<forall>c \<in> set (rs_Body (upstream_build e p d)). 32 \<le> (of_char c :: nat))"
proof -
  have b: "rs_Body (upstream_build e p d) = error_prefix @ escapeJSON (dc_Reason d) @ [DQ] @ ''}]}''"
    using assms by (simp add: upstream_build_def error_body_def Let_def)
  have s: "skip_string (escapeJSON (dc_Reason d) @ DQ # ''}]}'') = Some ''}]}''"
    unfolding escapeJSON_def by (rule json_escape_contained)
  have "\<forall>c \<in> set error_prefix. 32 \<le> (of_char c :: nat)" "32 \<le> (of_char DQ :: nat)"
    using special_codes by (simp_all add: error_prefix_def)
  moreover have "\<forall>c \<in> set (escapeJSON (dc_Reason d)). 32 \<le> (of_char c :: nat)"
    unfolding escapeJSON_def by (rule json_escape_printable)
  ultimately have "\<forall>c \<in> set (rs_Body (upstream_build e p d)). 32 \<le> (of_char c :: nat)"
    unfolding b by (simp add: ball_Un)
  moreover have "skip_string (drop (length error_prefix) (rs_Body (upstream_build e p d))) = Some ''}]}''"
    unfolding b using s by simp
  ultimately show ?thesis using b by blast
qed

theorem deny_body_contained_witness:
  "skip_string (drop (length error_prefix) (rs_Body (upstream_build sample_engine0 None
      ((fallbackDecision False)\<lparr>dc_Reason := [DQ, CHR ''}'']\<rparr>)))) = Some ''}]}''"
  by (rule deny_body_contained [THEN conjunct2, THEN conjunct1]) simp_all

lemma check_ips_None: "check_ips ne h ss = None \<longleftrightarrow>
    (\<forall>s \<in> set ss. \<forall>ip. ne_parse ne s = Some ip \<longrightarrow> (\<forall>b \<in> set blockedCIDRs. \<not> net_contains b ip))"
  by (induction ss) (auto simp: list_ex_iff split: option.splits)

lemma net4_div: "net_contains (Net4 b n) (IPv4 a) \<longleftrightarrow> unat a div 2 ^ (32 - n) = unat b div 2 ^ (32 - n)"
  unfolding net_contains.simps word_unat_eq_iff unat_drop_bit_eq by (simp add: drop_bit_eq_div)

lemma net6_div: "net_contains (Net6 b n) (IPv6 a) \<longleftrightarrow> unat a div 2 ^ (128 - n) = unat b div 2 ^ (128 - n)"
  unfolding net_contains.simps word_unat_eq_iff unat_drop_bit_eq by (simp add: drop_bit_eq_div)

text \<open>
  Upstream addresses: \<open>validateUpstreamURL\<close> accepts only http and https URLs with a host none of whose
  resolved addresses lies in a blocked range: 0/8, 10/8, 127/8, 172.16/12, 192.168/16 and 169.254/16, the
  IPv6 loopback, fe80::/10 and fc00::/7.
\<close>

theorem accepted_upstream_is_public:
  assumes "validateUpstreamURL ne u = None" and "ne_lookup ne (ne_hostname ne u) = Inr ips" and "s \<in> set ips"
  shows "u_Scheme u \<in> {''http'', ''https''} \<and> ne_hostname ne u \<noteq> ''''
    \<and> (\<forall>a. ne_parse ne s = Some (IPv4 a) \<longrightarrow>
         unat a div 2 ^ 24 \<notin> {0, 10, 127} \<and> unat a div 2 ^ 20 \<noteq> 172 * 16 + 1
         \<and> unat a div 2 ^ 16 \<notin> {192 * 256 + 168, 169 * 256 + 254})
    \<and> (\<forall>a. ne_parse ne s = Some (IPv6 a) \<longrightarrow>
         unat a \<noteq> 1 \<and> unat a div 2 ^ 118 \<noteq> 0x3fa \<and> unat a div 2 ^ 121 \<noteq> 0x7e)"
proof -
  have h: "u_Scheme u \<in> {''http'', ''https''} \<and> ne_hostname ne u \<noteq> ''''" and c: "check_ips ne (ne_hostname ne u) ips = None"
    using assms(1,2) by (auto simp: validateUpstreamURL_def Let_def split: if_splits)
  have n: "\<forall>b \<in> set blockedCIDRs. \<not> net_contains b ip" if "ne_parse ne s = Some ip" for ip
    using c assms(3) that unfolding check_ips_None by blast
  have v4: "unat a div 2 ^ 24 \<notin> {0, 10, 127} \<and> unat a div 2 ^ 20 \<noteq> 172 * 16 + 1
         \<and> unat a div 2 ^ 16 \<notin> {192 * 256 + 168, 169 * 256 + 254}" if "ne_parse ne s = Some (IPv4 a)" for a
    using n [OF that] by (simp add: blockedCIDRs_def net4_div quad_def del: net_contains.simps(1))
  have v6: "unat a \<noteq> 1 \<and> unat a div 2 ^ 118 \<noteq> 0x3fa \<and> unat a div 2 ^ 121 \<noteq> 0x7e" if "ne_parse ne s = Some (IPv6 a)" for a
    using n [OF that] by (simp add: blockedCIDRs_def net6_div del: net_contains.simps(2))
  show ?thesis using h v4 v6 by blast
qed

definition sample_ne :: net_env where
  "sample_ne = \<lparr>ne_lookup = (\<lambda>h. Inr [''8.8.8.8'']), ne_parse = (\<lambda>s. Some (IPv4 (quad 8 8 8 8))),
     ne_show = (\<lambda>ip. ''8.8.8.8''), ne_hostname = u_Host\<rparr>"

theorem accepted_upstream_is_public_witness:
  "validateUpstreamURL sample_ne \<lparr>u_Scheme = ''https'', u_Host = ''dns'', u_Path = '''', u_RawQuery = ''''\<rparr> = None
   \<and> unat (quad 8 8 8 8) div 2 ^ 24 \<notin> {0, 10, 127}"
proof -
  have v: "validateUpstreamURL sample_ne \<lparr>u_Scheme = ''https'', u_Host = ''dns'', u_Path = '''', u_RawQuery = ''''\<rparr> = None"
    by (simp add: validateUpstreamURL_def sample_ne_def check_ips_None blockedCIDRs_def net4_div quad_def
        del: check_ips.simps net_contains.simps(1))
  from accepted_upstream_is_public [OF v, of "[''8.8.8.8'']" "''8.8.8.8''"] v show ?thesis
    by (simp add: sample_ne_def)
qed

text \<open>
  The operation type is lost when the operation is named: for a JSON request whose operationName is
  set, the normaliser leaves the operation type empty although the body is a recognisable GraphQL
  document, and only the GraphQL adapter fills it in.
\<close>

theorem named_operation_has_no_type:
  assumes "r_Body r = Some b" and "length b \<le> maxBodyBytes" and "b \<noteq> []" and "je_opname je b = name" and "name \<noteq> ''''"
    and "map_of (first_values (r_Header r)) ''X-Apollo-Operation-Name'' = None"
    and "ExtractOperation (je_nd je) (je_env je) b = (name, ''mutation'')"
  shows "\<exists>rq rq'. RequestFromHTTP je r = Inr rq \<and> rq_GraphQLOperation rq = name \<and> rq_GraphQLOperationType rq = ''''
     \<and> NormalizeHTTPRequest je r = Inr rq' \<and> rq_GraphQLOperation rq' = name \<and> rq_GraphQLOperationType rq' = ''mutation''"
  using assms
  by (auto simp: RequestFromHTTP_def NormalizeHTTPRequest_def NormalizeRequest_def graphql_fields_def str_get_def Let_def split: prod.splits)

definition sample_je :: json_env where
  "sample_je = \<lparr>je_nd = (\<lambda>r. False), je_env = (\<lambda>s. Some (''Pay'', ''mutation Pay { pay }'')), je_opname = (\<lambda>b. ''Pay'')\<rparr>"

theorem named_operation_has_no_type_witness:
  "\<exists>rq rq'. RequestFromHTTP sample_je ((sample_http [])\<lparr>r_Body := Some ''{ json }''\<rparr>) = Inr rq
     \<and> rq_GraphQLOperation rq = ''Pay'' \<and> rq_GraphQLOperationType rq = ''''
     \<and> NormalizeHTTPRequest sample_je ((sample_http [])\<lparr>r_Body := Some ''{ json }''\<rparr>) = Inr rq'
     \<and> rq_GraphQLOperation rq' = ''Pay'' \<and> rq_GraphQLOperationType rq' = ''mutation''"
proof (rule named_operation_has_no_type)
  show "ExtractOperation (je_nd sample_je) (je_env sample_je) ''{ json }'' = (''Pay'', ''mutation'')"
  proof -
    have "TrimSpace ''{ json }'' = ''{ json }''" by code_simp
    then show ?thesis
      by (simp add: ExtractOperation_def parse_def sample_je_def parseDocument_def rune_at_def utf8s_def utf8_def
          isNameStart_def isNameChar_def isIgnored_def IsDigit_def char_of_eq_iff)
  qed
qed (simp_all add: sample_http_def sample_je_def maxBodyBytes_def first_values_def)

end
