(* ===== verification/Proxy_Config.thy ===== *)
theory Proxy_Config
  imports Authz
begin

text \<open>
  \<open>internal/proxy/config\<close>: the configuration of the proxy. \<open>Load\<close> decodes the file and the environment
  (by the loader, an argument), applies the defaults, normalises the routes and validates the result;
  only a configuration that passes reaches the bootstrap.

  JSON decoding, \<open>time.ParseDuration\<close>, \<open>net.SplitHostPort\<close> and the resolver are arguments. Durations are in
  nanoseconds.
\<close>

section \<open>Flexible JSON values\<close>

definition FlexibleBool_UnmarshalJSON :: "json_decoder \<Rightarrow> bytes \<Rightarrow> bool result" where
  "FlexibleBool_UnmarshalJSON json data = (case json data of
     Inr (ABool v) \<Rightarrow> Inr v
   | Inr ANil \<Rightarrow> Inr False
   | Inr (AStr s) \<Rightarrow> (let t = ToLower (TrimSpace s) in
       if t \<in> set [''true'', ''1'', ''yes'', ''y''] then Inr True
       else if t \<in> set [''false'', ''0'', ''no'', ''n''] then Inr False
       else Inl (Err (''invalid flexible bool '' @ Quote s)))
   | _ \<Rightarrow> Inl (Err (''flexible bool: unsupported value '' @ data)))"

definition split_comma :: "string \<Rightarrow> string list" where
  "split_comma s = filter (\<lambda>t. t \<noteq> '''') (map TrimSpace (Split (CHR '','') s))"

definition CommaStrings_UnmarshalJSON :: "json_decoder \<Rightarrow> bytes \<Rightarrow> string list result" where
  "CommaStrings_UnmarshalJSON json data =
     (if data = [] then Inr []
      else (case json data of
          Inl e \<Rightarrow> Inl e
        | Inr v \<Rightarrow>
            (if hd data = DQ then (case v of AStr s \<Rightarrow> Inr (split_comma s) | _ \<Rightarrow> Inl (Err ''json: cannot unmarshal into string''))
             else (case v of ANil \<Rightarrow> Inr [] | AList xs \<Rightarrow> string_slice xs | _ \<Rightarrow> Inl (Err ''json: cannot unmarshal into slice'')))))"

section \<open>The configuration\<close>

definition UnauthModeAPI401 :: string where "UnauthModeAPI401 = ''api_401''"
definition UnauthModeHTMLRedirect :: string where "UnauthModeHTMLRedirect = ''html_redirect''"
definition PolicyEngineWASM :: string where "PolicyEngineWASM = ''wasm''"
definition PolicyEngineRego :: string where "PolicyEngineRego = ''rego''"
definition MinPolicyReloadInterval :: int where "MinPolicyReloadInterval = 1000000000"
definition DefaultPolicyReloadInterval :: int where "DefaultPolicyReloadInterval = 10 * 1000000000"

record route_config =
  rt_ID :: string
  rt_Hosts :: "string list"
  rt_PathPrefix :: string
  rt_UpstreamURL :: string
  rt_RequireAuth :: bool
  rt_UnauthenticatedMode :: string
  rt_LoginRedirectURL :: string
  rt_ConnectorID :: string
  rt_PolicyBundlePath :: string

record plugin_entry =
  pe_ID :: string
  pe_Type :: string
  pe_Raw :: "gany gomap option"

record proxy_config =
  pc_UpstreamURL :: string
  pc_ProxyPathPrefix :: string
  pc_RequireAuth :: bool
  pc_AuthURL :: string
  pc_CookieName :: string
  pc_HTTPPort :: string
  pc_GRPCListenAddr :: string
  pc_GRPCUpstreamAddr :: string
  pc_GRPCUpstreamInsecure :: bool
  pc_PolicyEngine :: string
  pc_PolicyBundlePath :: string
  pc_PolicyFallbackAllow :: bool
  pc_PolicyReloadEnabled :: bool
  pc_PolicyReloadInterval :: string
  pc_PipelinePlugins :: "plugin_entry list"
  pc_PluginsManifestDir :: string
  pc_PluginsManifestStrict :: bool
  pc_PluginsManifestPublicKeyPath :: string
  pc_AdminSecret :: string
  pc_BundlePublicKeyPath :: string
  pc_AllowPrivateUpstreams :: bool
  pc_Routes :: "route_config list"
  pc_HeaderUserIDClaim :: string
  pc_HeaderEmailClaim :: string
  pc_HeaderNameClaim :: string
  pc_HeaderPreferredUsernameClaim :: string
  pc_HeaderRolesClaim :: string
  pc_HeaderGroupsClaim :: string
  pc_HeaderTenantIDClaim :: string
  pc_HeaderAdminRole :: string

section \<open>Upstream addresses\<close>

definition ssrf_hint :: string where
  "ssrf_hint = '' (SSRF protection; set allow_private_upstreams: true only for local dev)''"

fun check_upstream_ips :: "net_env \<Rightarrow> string \<Rightarrow> string \<Rightarrow> string list \<Rightarrow> goerr option" where
  "check_upstream_ips ne field host [] = None"
| "check_upstream_ips ne field host (s # ss) = (case ne_parse ne s of
     None \<Rightarrow> check_upstream_ips ne field host ss
   | Some ip \<Rightarrow>
       (if list_ex (\<lambda>b. net_contains b ip) blockedCIDRs
        then Some (Err (field @ '': host '' @ Quote host @ '' resolves to blocked address '' @ ne_show ne ip @ ssrf_hint))
        else check_upstream_ips ne field host ss))"

definition check_host :: "net_env \<Rightarrow> string \<Rightarrow> string \<Rightarrow> goerr option" where
  "check_host ne field host = (case ne_lookup ne host of
     Inr ips \<Rightarrow> check_upstream_ips ne field host ips
   | Inl e \<Rightarrow> (case ne_parse ne host of
       Some ip \<Rightarrow> check_upstream_ips ne field host [ne_show ne ip]
     | None \<Rightarrow> Some (Wrap (field @ '': host '' @ Quote host @ '' could not be resolved: '') e)))"

definition validateUpstreamSSRF :: "net_env \<Rightarrow> url_parser \<Rightarrow> string \<Rightarrow> goerr option" where
  "validateUpstreamSSRF ne url_parse rawURL = (case url_parse rawURL of
     Inl e \<Rightarrow> Some (Wrap ''upstream_url: invalid URL: '' e)
   | Inr u \<Rightarrow>
       (if u_Scheme u \<noteq> ''http'' \<and> u_Scheme u \<noteq> ''https''
        then Some (Err (''upstream_url: scheme '' @ Quote (u_Scheme u) @ '' not allowed (must be http or https)''))
        else if ne_hostname ne u = '''' then Some (Err ''upstream_url: no host'')
        else check_host ne ''upstream_url'' (ne_hostname ne u)))"

type_synonym host_port = "string \<Rightarrow> (string \<times> string) result"

definition validateGRPCUpstreamSSRF :: "net_env \<Rightarrow> host_port \<Rightarrow> string \<Rightarrow> goerr option" where
  "validateGRPCUpstreamSSRF ne split_hp addr = (case split_hp addr of
     Inl e \<Rightarrow> Some (Wrap (''grpc_upstream_addr: invalid host:port '' @ Quote addr @ '': '') e)
   | Inr (host, port) \<Rightarrow>
       (if host = '''' then Some (Err (''grpc_upstream_addr: no host in '' @ Quote addr))
        else if port = '''' then Some (Err (''grpc_upstream_addr: no port in '' @ Quote addr))
        else check_host ne ''grpc_upstream_addr'' host))"

section \<open>Defaults and normalisation\<close>

definition ApplyDefaults :: "proxy_config \<Rightarrow> proxy_config" where
  "ApplyDefaults c = c\<lparr>
     pc_ProxyPathPrefix := or_default (pc_ProxyPathPrefix c) ''/graphql'',
     pc_CookieName := or_default (pc_CookieName c) ''__Host-ess_session'',
     pc_HTTPPort := or_default (pc_HTTPPort c) ''8081'',
     pc_PolicyEngine := or_default (pc_PolicyEngine c) PolicyEngineWASM,
     pc_PolicyReloadInterval := or_default (pc_PolicyReloadInterval c) ''10s'',
     pc_HeaderUserIDClaim := or_default (pc_HeaderUserIDClaim c) ''sub'',
     pc_HeaderEmailClaim := or_default (pc_HeaderEmailClaim c) ''email'',
     pc_HeaderNameClaim := or_default (pc_HeaderNameClaim c) ''name'',
     pc_HeaderPreferredUsernameClaim := or_default (pc_HeaderPreferredUsernameClaim c) ''preferred_username'',
     pc_HeaderRolesClaim := or_default (pc_HeaderRolesClaim c) ''realm_access.roles'',
     pc_HeaderGroupsClaim := or_default (pc_HeaderGroupsClaim c) ''groups'',
     pc_HeaderAdminRole := or_default (pc_HeaderAdminRole c) ''admin''\<rparr>"

definition default_route :: "proxy_config \<Rightarrow> route_config" where
  "default_route c = \<lparr>rt_ID = ''default'', rt_Hosts = [], rt_PathPrefix = pc_ProxyPathPrefix c, rt_UpstreamURL = pc_UpstreamURL c,
     rt_RequireAuth = pc_RequireAuth c, rt_UnauthenticatedMode = UnauthModeAPI401, rt_LoginRedirectURL = '''',
     rt_ConnectorID = '''', rt_PolicyBundlePath = ''''\<rparr>"

definition normalize_route :: "route_config \<Rightarrow> route_config" where
  "normalize_route rt = rt\<lparr>
     rt_PathPrefix := (if rt_PathPrefix rt \<noteq> '''' \<and> \<not> HasPrefix (rt_PathPrefix rt) ''/'' then ''/'' @ rt_PathPrefix rt else rt_PathPrefix rt),
     rt_UnauthenticatedMode := or_default (rt_UnauthenticatedMode rt) UnauthModeAPI401\<rparr>"

definition Normalize :: "proxy_config \<Rightarrow> proxy_config" where
  "Normalize c = c\<lparr>pc_Routes := map normalize_route (if pc_Routes c = [] then [default_route c] else pc_Routes c)\<rparr>"

section \<open>Validation\<close>

definition errMissing :: "string \<Rightarrow> goerr" where
  "errMissing name = Err (''config: missing '' @ name)"

definition validate_route :: "net_env \<Rightarrow> url_parser \<Rightarrow> bool \<Rightarrow> nat \<Rightarrow> string list \<Rightarrow> route_config \<Rightarrow> goerr option" where
  "validate_route ne url_parse allow_private i seen rt =
     (if rt_ID rt = '''' then Some (Err (''config: route['' @ nat_digits i @ ''] missing id''))
      else if rt_ID rt \<in> set seen then Some (Err (''config: duplicate route id '' @ Quote (rt_ID rt)))
      else if rt_PathPrefix rt = '''' then Some (Err (''config: route '' @ Quote (rt_ID rt) @ '' missing path_prefix''))
      else if rt_UpstreamURL rt = '''' then Some (Err (''config: route '' @ Quote (rt_ID rt) @ '' missing upstream_url''))
      else if rt_UnauthenticatedMode rt \<noteq> UnauthModeAPI401 \<and> rt_UnauthenticatedMode rt \<noteq> UnauthModeHTMLRedirect
      then Some (Err (''config: route '' @ Quote (rt_ID rt) @ '' invalid unauthenticated_mode '' @ Quote (rt_UnauthenticatedMode rt)
             @ '' (must be '' @ Quote UnauthModeAPI401 @ '' or '' @ Quote UnauthModeHTMLRedirect @ '')''))
      else if rt_UnauthenticatedMode rt = UnauthModeHTMLRedirect \<and> rt_LoginRedirectURL rt = ''''
      then Some (Err (''config: route '' @ Quote (rt_ID rt) @ '' with unauthenticated_mode=html_redirect requires login_redirect_url''))
      else if allow_private then None
      else (case validateUpstreamSSRF ne url_parse (rt_UpstreamURL rt) of
          None \<Rightarrow> None
        | Some e \<Rightarrow> Some (Wrap (''config: route '' @ Quote (rt_ID rt) @ '': '') e)))"

fun validate_route_list :: "net_env \<Rightarrow> url_parser \<Rightarrow> bool \<Rightarrow> nat \<Rightarrow> string list \<Rightarrow> route_config list \<Rightarrow> goerr option" where
  "validate_route_list ne url_parse allow_private i seen [] = None"
| "validate_route_list ne url_parse allow_private i seen (rt # rts) =
     (case validate_route ne url_parse allow_private i seen rt of
        Some e \<Rightarrow> Some e
      | None \<Rightarrow> validate_route_list ne url_parse allow_private (Suc i) (rt_ID rt # seen) rts)"

definition validateRoutes :: "net_env \<Rightarrow> url_parser \<Rightarrow> proxy_config \<Rightarrow> goerr option" where
  "validateRoutes ne url_parse c = validate_route_list ne url_parse (pc_AllowPrivateUpstreams c) 0 [] (pc_Routes c)"

record conf_env =
  ce_net :: net_env
  ce_url :: url_parser
  ce_split :: host_port
  ce_dur :: "string \<Rightarrow> int result"

definition check_reload :: "conf_env \<Rightarrow> proxy_config \<Rightarrow> goerr option" where
  "check_reload ce c =
     (if pc_PolicyReloadInterval c = '''' then None
      else (case ce_dur ce (pc_PolicyReloadInterval c) of
          Inl e \<Rightarrow> Some (Wrap (''config: policy_reload_interval '' @ Quote (pc_PolicyReloadInterval c) @ '' is not a valid duration: '') e)
        | Inr d \<Rightarrow> (if d < MinPolicyReloadInterval
            then Some (Err (''config: policy_reload_interval '' @ Quote (pc_PolicyReloadInterval c) @ '' is below the minimum of 1s''))
            else None)))"

text \<open>\<open>Validate\<close> also completes the path prefix: it returns the configuration it leaves behind.\<close>

definition Validate :: "conf_env \<Rightarrow> proxy_config \<Rightarrow> goerr option \<times> proxy_config" where
  "Validate ce c =
     (if pc_AuthURL c = '''' then (Some (errMissing ''AUTH_URL''), c)
      else if pc_PolicyEngine c \<noteq> '''' \<and> pc_PolicyEngine c \<noteq> PolicyEngineWASM \<and> pc_PolicyEngine c \<noteq> PolicyEngineRego
      then (Some (errMissing (''POLICY_ENGINE (must be '' @ Quote ''wasm'' @ '' or '' @ Quote ''rego'' @ '')'')), c)
      else (case check_reload ce c of Some e \<Rightarrow> (Some e, c) | None \<Rightarrow>
        (if pc_PolicyReloadEnabled c \<and> pc_PolicyBundlePath c = ''''
         then (Some (Err ''config: policy_reload_enabled requires policy_bundle_path to be set''), c)
         else let c1 = (if HasPrefix (pc_ProxyPathPrefix c) ''/'' then c else c\<lparr>pc_ProxyPathPrefix := ''/'' @ pc_ProxyPathPrefix c\<rparr>);
                  grpc = (if pc_GRPCUpstreamAddr c \<noteq> '''' \<and> \<not> pc_AllowPrivateUpstreams c
                          then validateGRPCUpstreamSSRF (ce_net ce) (ce_split ce) (pc_GRPCUpstreamAddr c) else None)
              in (case grpc of Some e \<Rightarrow> (Some e, c1) | None \<Rightarrow>
                (if pc_Routes c = []
                 then (if pc_UpstreamURL c = '''' then (Some (errMissing ''UPSTREAM_URL''), c1)
                       else (if pc_AllowPrivateUpstreams c then None else validateUpstreamSSRF (ce_net ce) (ce_url ce) (pc_UpstreamURL c), c1))
                 else (validateRoutes (ce_net ce) (ce_url ce) c1, c1))))))"

definition PolicyReloadIntervalDuration :: "conf_env \<Rightarrow> proxy_config \<Rightarrow> int" where
  "PolicyReloadIntervalDuration ce c =
     (if pc_PolicyReloadInterval c = '''' then DefaultPolicyReloadInterval
      else (case ce_dur ce (pc_PolicyReloadInterval c) of
          Inl e \<Rightarrow> DefaultPolicyReloadInterval
        | Inr d \<Rightarrow> (if d < MinPolicyReloadInterval then DefaultPolicyReloadInterval else d)))"

text \<open>\<open>Load\<close> (load.go), after the loader has decoded the file and the environment.\<close>

definition Load :: "conf_env \<Rightarrow> proxy_config result \<Rightarrow> proxy_config result" where
  "Load ce decoded = (case decoded of
     Inl e \<Rightarrow> Inl e
   | Inr c \<Rightarrow> (case Validate ce (Normalize (ApplyDefaults c)) of
       (Some e, _) \<Rightarrow> Inl e
     | (None, c1) \<Rightarrow> Inr c1))"

section \<open>Lemmas\<close>

text \<open>The addresses that the proxy may connect to for a host, and the hosts without a blocked one.\<close>

definition resolved :: "net_env \<Rightarrow> string \<Rightarrow> string set" where
  "resolved ne host = (case ne_lookup ne host of
     Inr ips \<Rightarrow> set ips
   | Inl e \<Rightarrow> (case ne_parse ne host of None \<Rightarrow> {} | Some ip \<Rightarrow> {ne_show ne ip}))"

definition public_host :: "net_env \<Rightarrow> string \<Rightarrow> bool" where
  "public_host ne host \<longleftrightarrow> host \<noteq> '''' \<and>
     (\<forall>s \<in> resolved ne host. \<forall>ip. ne_parse ne s = Some ip \<longrightarrow> (\<forall>b \<in> set blockedCIDRs. \<not> net_contains b ip))"

definition public_url :: "net_env \<Rightarrow> url_parser \<Rightarrow> string \<Rightarrow> bool" where
  "public_url ne url_parse raw \<longleftrightarrow> (\<exists>u. url_parse raw = Inr u \<and> u_Scheme u \<in> {''http'', ''https''} \<and> public_host ne (ne_hostname ne u))"

lemma check_upstream_ips_None: "check_upstream_ips ne field h ss = None \<longleftrightarrow>
    (\<forall>s \<in> set ss. \<forall>ip. ne_parse ne s = Some ip \<longrightarrow> (\<forall>b \<in> set blockedCIDRs. \<not> net_contains b ip))"
  by (induction ss) (auto simp: list_ex_iff split: option.splits)

lemma check_host_None: "check_host ne field h = None \<Longrightarrow> h \<noteq> '''' \<Longrightarrow> public_host ne h"
  by (auto simp: check_host_def check_upstream_ips_None public_host_def resolved_def
      simp del: check_upstream_ips.simps split: sum.splits option.splits)

lemma validateUpstreamSSRF_None: "validateUpstreamSSRF ne url_parse raw = None \<Longrightarrow> public_url ne url_parse raw"
  by (auto simp: validateUpstreamSSRF_def public_url_def check_host_None split: sum.splits if_splits)

lemma validateGRPCUpstreamSSRF_None:
  "validateGRPCUpstreamSSRF ne sp addr = None \<Longrightarrow> \<exists>host port. sp addr = Inr (host, port) \<and> port \<noteq> '''' \<and> public_host ne host"
  by (auto simp: validateGRPCUpstreamSSRF_def check_host_None split: sum.splits if_splits prod.splits)

definition route_ok :: "net_env \<Rightarrow> url_parser \<Rightarrow> bool \<Rightarrow> route_config \<Rightarrow> bool" where
  "route_ok ne url_parse allow_private rt \<longleftrightarrow> rt_ID rt \<noteq> '''' \<and> HasPrefix (rt_PathPrefix rt) ''/'' \<and> rt_UpstreamURL rt \<noteq> ''''
     \<and> (rt_UnauthenticatedMode rt = UnauthModeAPI401 \<or>
        rt_UnauthenticatedMode rt = UnauthModeHTMLRedirect \<and> rt_LoginRedirectURL rt \<noteq> '''')
     \<and> (allow_private \<or> public_url ne url_parse (rt_UpstreamURL rt))"

lemma validate_route_None:
  assumes "validate_route ne up ap i seen rt = None" and "rt_PathPrefix rt \<noteq> '''' \<longrightarrow> HasPrefix (rt_PathPrefix rt) ''/''"
  shows "route_ok ne up ap rt \<and> rt_ID rt \<notin> set seen"
  using assms by (auto simp: validate_route_def route_ok_def validateUpstreamSSRF_None split: if_splits option.splits)

lemma validate_route_list_None:
  assumes "validate_route_list ne up ap i seen rts = None"
    and "\<forall>rt \<in> set rts. rt_PathPrefix rt \<noteq> '''' \<longrightarrow> HasPrefix (rt_PathPrefix rt) ''/''"
  shows "(\<forall>rt \<in> set rts. route_ok ne up ap rt) \<and> distinct (map rt_ID rts) \<and> set (map rt_ID rts) \<inter> set seen = {}"
  using assms
proof (induction rts arbitrary: i seen)
  case (Cons rt rts)
  then have v: "validate_route ne up ap i seen rt = None" and l: "validate_route_list ne up ap (Suc i) (rt_ID rt # seen) rts = None"
    by (auto split: option.splits)
  from validate_route_None [OF v] Cons.prems(2) Cons.IH [OF l] show ?case by auto
qed simp

lemma normalize_route_prefix: "rt_PathPrefix (normalize_route rt) \<noteq> '''' \<longrightarrow> HasPrefix (rt_PathPrefix (normalize_route rt)) ''/''"
  by (auto simp: normalize_route_def HasPrefix_iff)

lemma Validate_None:
  assumes "Validate ce c = (None, c')" and "pc_Routes c \<noteq> []"
  shows "c' = c\<lparr>pc_ProxyPathPrefix := pc_ProxyPathPrefix c'\<rparr> \<and> HasPrefix (pc_ProxyPathPrefix c') ''/'' \<and> check_reload ce c = None
    \<and> (pc_GRPCUpstreamAddr c \<noteq> '''' \<and> \<not> pc_AllowPrivateUpstreams c \<longrightarrow> validateGRPCUpstreamSSRF (ce_net ce) (ce_split ce) (pc_GRPCUpstreamAddr c) = None)
    \<and> validate_route_list (ce_net ce) (ce_url ce) (pc_AllowPrivateUpstreams c) 0 [] (pc_Routes c) = None"
proof -
  have "HasPrefix (''/'' @ s) ''/''" for s by (rule HasPrefix_append)
  then show ?thesis
    using assms by (auto simp: Validate_def Let_def validateRoutes_def split: if_splits option.splits)
qed

section \<open>Properties\<close>


definition sample_ce :: conf_env where
  "sample_ce = \<lparr>ce_net = sample_ne,
     ce_url = (\<lambda>s. Inr \<lparr>u_Scheme = ''https'', u_Host = s, u_Path = '''', u_RawQuery = ''''\<rparr>),
     ce_split = (\<lambda>s. Inr (s, ''443'')), ce_dur = (\<lambda>s. Inr 10000000000)\<rparr>"

definition empty_config :: proxy_config where
  "empty_config = \<lparr>pc_UpstreamURL = '''', pc_ProxyPathPrefix = '''', pc_RequireAuth = False, pc_AuthURL = '''', pc_CookieName = '''',
     pc_HTTPPort = '''', pc_GRPCListenAddr = '''', pc_GRPCUpstreamAddr = '''', pc_GRPCUpstreamInsecure = False, pc_PolicyEngine = '''',
     pc_PolicyBundlePath = '''', pc_PolicyFallbackAllow = False, pc_PolicyReloadEnabled = False, pc_PolicyReloadInterval = '''',
     pc_PipelinePlugins = [], pc_PluginsManifestDir = '''', pc_PluginsManifestStrict = False, pc_PluginsManifestPublicKeyPath = '''',
     pc_AdminSecret = '''', pc_BundlePublicKeyPath = '''', pc_AllowPrivateUpstreams = False, pc_Routes = [], pc_HeaderUserIDClaim = '''',
     pc_HeaderEmailClaim = '''', pc_HeaderNameClaim = '''', pc_HeaderPreferredUsernameClaim = '''', pc_HeaderRolesClaim = '''',
     pc_HeaderGroupsClaim = '''', pc_HeaderTenantIDClaim = '''', pc_HeaderAdminRole = ''''\<rparr>"

lemma sample_host_ok: "check_host sample_ne field host = None"
  by (simp add: check_host_def sample_ne_def check_upstream_ips_None blockedCIDRs_def net4_div quad_def
      del: check_upstream_ips.simps net_contains.simps(1))


text \<open>
  Normalisation is idempotent, as its documentation promises, also when it synthesises the default route.
\<close>

theorem normalize_idempotent: "Normalize (Normalize c) = Normalize c"
proof -
  have "normalize_route (normalize_route rt) = normalize_route rt" for rt
    by (auto simp: normalize_route_def or_default_def HasPrefix_iff UnauthModeAPI401_def)
  then show ?thesis by (simp add: Normalize_def)
qed

end
