(* ===== verification/Proxy_Client.thy ===== *)
theory Proxy_Client
  imports Proxy_Config
begin

text \<open>
  \<open>internal/proxy\<close>: the client of the auth service (authclient.go), the principal resolver the proxy's
  engines use (resolver.go), the claim-mapped upstream headers (headers.go) and the JSON error body
  (response.go).

  The HTTP transport is an argument over the world \<open>'w\<close>: it gets the URL and the value of the \<open>Cookie\<close>
  header, if one is set, and returns the status and the body, or an error.
\<close>

section \<open>Upstream headers from claims (headers.go)\<close>

text \<open>A dotted path into nested claims; every part but the last has to be an object.\<close>

fun claim_path :: "gany gomap \<Rightarrow> string list \<Rightarrow> gany option" where
  "claim_path m [] = None"
| "claim_path m [p] = map_of m p"
| "claim_path m (p # q # ps) = (case map_of m p of Some (AMap m') \<Rightarrow> claim_path m' (q # ps) | _ \<Rightarrow> None)"

definition getClaim :: "gany gomap option \<Rightarrow> string \<Rightarrow> string" where
  "getClaim claims path = (case claims of
     None \<Rightarrow> ''''
   | Some m \<Rightarrow> (if path = '''' then '''' else
       (case claim_path m (Split (CHR ''.'') path) of Some (AStr s) \<Rightarrow> s | _ \<Rightarrow> '''')))"

definition getClaimSlice :: "gany gomap option \<Rightarrow> string \<Rightarrow> string list" where
  "getClaimSlice claims path = (case claims of
     None \<Rightarrow> []
   | Some m \<Rightarrow> (if path = '''' then [] else
       (case claim_path m (Split (CHR ''.'') path) of
          Some (AList xs) \<Rightarrow> strs_of xs | Some (AStrs xs) \<Rightarrow> xs | _ \<Rightarrow> [])))"

definition set_nonempty :: "string \<Rightarrow> string \<Rightarrow> string gomap \<Rightarrow> string gomap" where
  "set_nonempty k v h = (if v \<noteq> '''' then AList.update k v h else h)"

definition set_joined :: "string \<Rightarrow> string list \<Rightarrow> string gomap \<Rightarrow> string gomap" where
  "set_joined k vs h = (if vs \<noteq> [] then AList.update k (StrJoin '','' vs) h else h)"

definition is_admin :: "proxy_config \<Rightarrow> gany gomap option \<Rightarrow> bool" where
  "is_admin cfg claims \<longleftrightarrow> pc_HeaderAdminRole cfg \<noteq> '''' \<and>
     list_ex (\<lambda>r. r = pc_HeaderAdminRole cfg \<or> r = ''administrator'') (getClaimSlice claims (pc_HeaderRolesClaim cfg))"

definition BuildUpstreamHeaders :: "proxy_config \<Rightarrow> string \<Rightarrow> gany gomap option \<Rightarrow> gany gomap option \<Rightarrow> string gomap" where
  "BuildUpstreamHeaders cfg accessToken claims tenantContext =
     (let h = (if accessToken \<noteq> '''' then [(''Authorization'', ''Bearer '' @ accessToken)] else []) in
      if claims = None then h
      else let h = set_nonempty ''X-User-Id'' (getClaim claims (pc_HeaderUserIDClaim cfg)) h;
               h = set_nonempty ''X-User-Email'' (getClaim claims (pc_HeaderEmailClaim cfg)) h;
               h = set_nonempty ''X-User-Full-Name'' (getClaim claims (pc_HeaderNameClaim cfg)) h;
               h = set_nonempty ''X-User-Preferred-Username'' (getClaim claims (pc_HeaderPreferredUsernameClaim cfg)) h;
               h = set_joined ''X-Roles'' (getClaimSlice claims (pc_HeaderRolesClaim cfg)) h;
               h = set_joined ''X-Groups'' (getClaimSlice claims (pc_HeaderGroupsClaim cfg)) h;
               h = AList.update ''X-Is-Admin'' (if is_admin cfg claims then ''true'' else ''false'') h;
               h = (case tenantContext of None \<Rightarrow> h | Some t \<Rightarrow> set_nonempty ''X-Tenant-Id'' (str_or_empty (any_get t ''tenant_id'')) h)
           in (if pc_HeaderTenantIDClaim cfg \<noteq> '''' then set_nonempty ''X-Tenant-Id'' (getClaim claims (pc_HeaderTenantIDClaim cfg)) h else h))"

definition CopyHeaders :: "header \<Rightarrow> string gomap \<Rightarrow> header" where
  "CopyHeaders hdr h = fold (\<lambda>(k, v) hdr. hdr_Set k v hdr) h hdr"

section \<open>Error bodies (response.go)\<close>

definition DenyBody :: "int \<Rightarrow> string \<Rightarrow> bytes" where
  "DenyBody statusCode message =
     error_body (json_escape (ReplaceChar DQ [BSL, DQ] (ReplaceChar BSL [BSL, BSL] message)))"

definition WriteDenyResponse :: "int \<Rightarrow> string \<Rightarrow> http_response" where
  "WriteDenyResponse statusCode message = \<lparr>hr_Cookies = [], hr_ContentType = ''application/json'', hr_Location = '''',
     hr_Status = statusCode, hr_Body = DenyBody statusCode message\<rparr>"

section \<open>The auth client (authclient.go)\<close>

record resolve_response =
  rr_AccessToken :: string
  rr_Claims :: "gany gomap option"
  rr_TenantContext :: "gany gomap option"

record auth_client =
  ac_baseURL :: string
  ac_cookieName :: string

definition NewAuthClient :: "string \<Rightarrow> string \<Rightarrow> auth_client" where
  "NewAuthClient baseURL cookieName = \<lparr>ac_baseURL = TrimSuffix baseURL ''/'', ac_cookieName = cookieName\<rparr>"

record 'w transport =
  tp_NewRequest :: "string \<Rightarrow> goerr option"
  tp_Do :: "'w \<Rightarrow> string \<Rightarrow> string option \<Rightarrow> (int \<times> bytes) result \<times> 'w"
  tp_Decode :: "bytes \<Rightarrow> resolve_response result"

definition resolve_url :: "auth_client \<Rightarrow> string \<Rightarrow> string" where
  "resolve_url c connectorID = ac_baseURL c @ ''/internal/resolve'' @
     (if connectorID \<noteq> '''' then ''?connector='' @ QueryEscape connectorID else '''')"

definition resolve_cookie :: "auth_client \<Rightarrow> string \<Rightarrow> string option" where
  "resolve_cookie c sessionCookie = (if sessionCookie \<noteq> '''' then Some (ac_cookieName c @ ''='' @ sessionCookie) else None)"

definition ResolveConnector :: "'w transport \<Rightarrow> auth_client \<Rightarrow> 'w \<Rightarrow> string \<Rightarrow> string \<Rightarrow> resolve_response option result \<times> 'w" where
  "ResolveConnector tp c w sessionCookie connectorID =
     (let reqURL = resolve_url c connectorID in
      case tp_NewRequest tp reqURL of
        Some e \<Rightarrow> (Inl e, w)
      | None \<Rightarrow> (case tp_Do tp w reqURL (resolve_cookie c sessionCookie) of
          (Inl e, w1) \<Rightarrow> (Inl e, w1)
        | (Inr (status, body), w1) \<Rightarrow>
            (if status = 401 then (Inr None, w1)
             else if status \<noteq> 200 then (Inl (Err (''auth resolve: status '' @ Itoa status @ '': '' @ body)), w1)
             else (case tp_Decode tp body of Inl e \<Rightarrow> (Inl e, w1) | Inr out \<Rightarrow> (Inr (Some out), w1)))))"

definition Resolve :: "'w transport \<Rightarrow> auth_client \<Rightarrow> 'w \<Rightarrow> string \<Rightarrow> resolve_response option result \<times> 'w" where
  "Resolve tp c w sessionCookie = ResolveConnector tp c w sessionCookie ''''"

section \<open>The principal resolver (resolver.go)\<close>

definition stringsFromAnySlice :: "gany \<Rightarrow> string list" where
  "stringsFromAnySlice v = (case v of AStrs t \<Rightarrow> t | AList t \<Rightarrow> strs_of t | _ \<Rightarrow> [])"

definition extractRoles :: "gany gomap option \<Rightarrow> string list" where
  "extractRoles claims = (case claims of
     None \<Rightarrow> []
   | Some m \<Rightarrow>
       (let realm = (case any_get m ''realm_access'' of AMap r \<Rightarrow> stringsFromAnySlice (any_get r ''roles'') | _ \<Rightarrow> [])
        in if realm \<noteq> [] then realm else stringsFromAnySlice (any_get m ''roles'')))"

definition normalizeClaims :: "gany gomap option \<Rightarrow> gany gomap option" where
  "normalizeClaims claims = (case claims of
     None \<Rightarrow> None
   | Some m \<Rightarrow> (let roles = extractRoles claims in
       Some (if roles \<noteq> [] then AList.update ''roles'' (AStrs roles) m else m)))"

definition resolveResponseToPrincipal :: "resolve_response \<Rightarrow> principal" where
  "resolveResponseToPrincipal r =
     (let claims = (case normalizeClaims (rr_Claims r) of None \<Rightarrow> [] | Some m \<Rightarrow> m) in
      \<lparr>pr_Subject = str_or_empty (any_get claims ''sub''), pr_Scopes = [], pr_Roles = extractRoles (Some claims),
       pr_Claims = Some claims,
       pr_ExpiresAt = (case any_get claims ''exp'' of
           AFloat t \<Rightarrow> float_to_int64 t * 1000000000 | AInt64 t \<Rightarrow> t * 1000000000 | _ \<Rightarrow> zero_time),
       pr_AccessToken = rr_AccessToken r, pr_TenantContext = rr_TenantContext r\<rparr>)"

record auth_resolver =
  ar_Client :: auth_client
  ar_CookieName :: string
  ar_ConnectorID :: string

definition auth_Resolve :: "'w transport \<Rightarrow> auth_resolver \<Rightarrow> 'w resolver" where
  "auth_Resolve tp ar w req = (case ResolveConnector tp (ar_Client ar) w (str_get (rq_Cookies req) (ar_CookieName ar)) (ar_ConnectorID ar) of
     (Inl e, w1) \<Rightarrow> (Inl e, w1)
   | (Inr None, w1) \<Rightarrow> (Inr None, w1)
   | (Inr (Some resp), w1) \<Rightarrow> (Inr (Some (resolveResponseToPrincipal resp)), w1))"

section \<open>Lemmas\<close>

text \<open>What the auth service has to have answered for a principal to be resolved.\<close>

definition vouched :: "'w transport \<Rightarrow> auth_resolver \<Rightarrow> 'w \<Rightarrow> request \<Rightarrow> principal \<Rightarrow> bool" where
  "vouched tp ar w req p \<longleftrightarrow> (\<exists>body resp w1.
     tp_Do tp w (resolve_url (ar_Client ar) (ar_ConnectorID ar))
        (resolve_cookie (ar_Client ar) (str_get (rq_Cookies req) (ar_CookieName ar))) = (Inr (200, body), w1)
     \<and> tp_Decode tp body = Inr resp \<and> p = resolveResponseToPrincipal resp)"

lemma auth_Resolve_vouched:
  "auth_Resolve tp ar w req = (Inr (Some p), w1) \<Longrightarrow> vouched tp ar w req p"
  by (auto simp: auth_Resolve_def ResolveConnector_def vouched_def Let_def
      split: prod.splits sum.splits option.splits if_splits)

lemma extractRoles_normalize: "extractRoles (normalizeClaims (Some m)) = extractRoles (Some m)"
  by (simp add: normalizeClaims_def extractRoles_def stringsFromAnySlice_def Let_def)

text \<open>
  \<open>DenyBody\<close> escapes twice: a quote in the message reaches the client as a backslash and a quote, where
  the engine's own error body for the same message has the quote.
\<close>

lemma deny_body_double_escaped:
  "DenyBody 403 [DQ] = error_body (escapeJSON [BSL, DQ]) \<and> DenyBody 403 [DQ] \<noteq> error_body (escapeJSON [DQ])"
  by code_simp

end
