(* ===== verification/Plugin_Registry.thy ===== *)
theory Plugin_Registry
  imports Policy "HOL-Library.Multiset"
begin

text \<open>
  \<open>internal/plugin\<close>: the registry with its dependency graph and startup order (\<open>registry.go\<close>).

  A \<open>*Registration\<close> shared between the two indexes is its id in \<open>byCapability\<close> and its value in
  \<open>byID\<close>. A \<open>range\<close> over a map visits its keys in an order of its own each time: \<open>shuffle k\<close> is the
  order of the \<open>k\<close>-th range of an operation, and the theorems hold for every family of permutations.
\<close>

section \<open>Data (api.go, registry.go)\<close>

record descriptor =
  pd_ID :: string
  pd_Kind :: string
  pd_Name :: string
  pd_Description :: string
  pd_Version :: string
  pd_Capabilities :: "string list"
  pd_DependsOn :: "string list"
  pd_ConfigSchemaRef :: string

record 'f registration =
  rn_Descriptor :: descriptor
  rn_Factory :: 'f
  rn_Enabled :: bool
  rn_State :: string
  rn_Error :: "goerr option"

record 'f registry =
  rg_byID :: "'f registration gomap"
  rg_byCapability :: "string list gomap"
  rg_dependencies :: "string list gomap"
  rg_dependents :: "string list gomap"
  rg_sortedStartup :: "string list"

definition NewRegistry :: "'f registry" where
  "NewRegistry = \<lparr>rg_byID = [], rg_byCapability = [], rg_dependencies = [], rg_dependents = [], rg_sortedStartup = []\<rparr>"

definition ErrAlreadyRegistered :: goerr where
  "ErrAlreadyRegistered = Sentinel ''plugin: already registered''"

definition ErrUnknownPlugin :: goerr where
  "ErrUnknownPlugin = Sentinel ''plugin: unknown plugin''"

definition ErrDependencyCycle :: goerr where
  "ErrDependencyCycle = Sentinel ''plugin: dependency cycle''"

text \<open>Reading a missing key of a map of slices gives the nil slice; of a map of ints, 0.\<close>

definition lget :: "'a list gomap \<Rightarrow> string \<Rightarrow> 'a list" where
  "lget m k = (case map_of m k of None \<Rightarrow> [] | Some v \<Rightarrow> v)"

definition iget :: "int gomap \<Rightarrow> string \<Rightarrow> int" where
  "iget m k = (case map_of m k of None \<Rightarrow> 0 | Some v \<Rightarrow> v)"

definition append_at :: "string \<Rightarrow> string \<Rightarrow> string list gomap \<Rightarrow> string list gomap" where
  "append_at k v m = AList.update k (lget m k @ [v]) m"

section \<open>Registration\<close>

definition Register :: "descriptor \<Rightarrow> 'f \<Rightarrow> 'f registry \<Rightarrow> goerr option \<times> 'f registry" where
  "Register d factory r =
     (if map_of (rg_byID r) (pd_ID d) \<noteq> None then (Some (WrapS ErrAlreadyRegistered ('': '' @ pd_ID d)), r)
      else let reg = \<lparr>rn_Descriptor = d, rn_Factory = factory, rn_Enabled = True, rn_State = ''registered'', rn_Error = None\<rparr>;
               r1 = r\<lparr>rg_byID := AList.update (pd_ID d) reg (rg_byID r),
                      rg_byCapability := fold (\<lambda>c. append_at c (pd_ID d)) (pd_Capabilities d) (rg_byCapability r)\<rparr>
        in (None, if pd_DependsOn d \<noteq> [] then r1\<lparr>rg_dependencies := AList.update (pd_ID d) (pd_DependsOn d) (rg_dependencies r)\<rparr> else r1))"

definition set_enabled :: "bool \<Rightarrow> string \<Rightarrow> 'f registry \<Rightarrow> goerr option \<times> 'f registry" where
  "set_enabled b i r = (case map_of (rg_byID r) i of
     None \<Rightarrow> (Some (WrapS ErrUnknownPlugin ('': '' @ i)), r)
   | Some reg \<Rightarrow> (None, r\<lparr>rg_byID := AList.update i (reg\<lparr>rn_Enabled := b\<rparr>) (rg_byID r)\<rparr>))"

definition Enable :: "string \<Rightarrow> 'f registry \<Rightarrow> goerr option \<times> 'f registry" where
  "Enable i r = set_enabled True i r"

definition Disable :: "string \<Rightarrow> 'f registry \<Rightarrow> goerr option \<times> 'f registry" where
  "Disable i r = set_enabled False i r"

definition ResolveByCapability :: "'f registry \<Rightarrow> string \<Rightarrow> descriptor list" where
  "ResolveByCapability r c = List.map_filter (\<lambda>i. case map_of (rg_byID r) i of
     Some reg \<Rightarrow> (if rn_Enabled reg then Some (rn_Descriptor reg) else None) | None \<Rightarrow> None) (lget (rg_byCapability r) c)"

definition ResolveAllByKind :: "(nat \<Rightarrow> string list \<Rightarrow> string list) \<Rightarrow> 'f registry \<Rightarrow> string \<Rightarrow> descriptor list" where
  "ResolveAllByKind shuffle r kind = List.map_filter (\<lambda>i. case map_of (rg_byID r) i of
     Some reg \<Rightarrow> (if rn_Enabled reg \<and> pd_Kind (rn_Descriptor reg) = kind then Some (rn_Descriptor reg) else None) | None \<Rightarrow> None)
     (shuffle 0 (map fst (rg_byID r)))"

definition StartupOrder :: "'f registry \<Rightarrow> string list" where
  "StartupOrder r = rg_sortedStartup r"

definition AllPluginIDs :: "(nat \<Rightarrow> string list \<Rightarrow> string list) \<Rightarrow> 'f registry \<Rightarrow> string list" where
  "AllPluginIDs shuffle r = shuffle 0 (map fst (rg_byID r))"

definition RegistrationFor :: "'f registry \<Rightarrow> string \<Rightarrow> 'f registration option" where
  "RegistrationFor r i = map_of (rg_byID r) i"

section \<open>The dependency graph\<close>

text \<open>Resolving the dependencies of one plugin, capability by capability; the edges are appended to \<open>dependents\<close>.\<close>

fun link_caps :: "'f registry \<Rightarrow> string \<Rightarrow> string list \<Rightarrow> string list gomap \<Rightarrow> goerr option \<times> string list gomap" where
  "link_caps r i [] dep = (None, dep)"
| "link_caps r i (c # cs) dep =
     (let deps = lget (rg_byCapability r) c in
      if deps = [] then (Some (Err (''plugin: plugin '' @ i @ '' depends on capability '' @ c @ '' with no providers'')), dep)
      else link_caps r i cs (fold (\<lambda>p. append_at p i) deps dep))"

fun link_all :: "'f registry \<Rightarrow> string list \<Rightarrow> string list gomap \<Rightarrow> goerr option \<times> string list gomap" where
  "link_all r [] dep = (None, dep)"
| "link_all r (i # is) dep = (case link_caps r i (lget (rg_dependencies r) i) dep of
     (Some e, dep') \<Rightarrow> (Some e, dep') | (None, dep') \<Rightarrow> link_all r is dep')"

definition init_degree :: "string list \<Rightarrow> int gomap" where
  "init_degree is = fold (\<lambda>i m. AList.update i 0 m) is []"

definition add_degrees :: "'f registry \<Rightarrow> string list \<Rightarrow> int gomap \<Rightarrow> int gomap" where
  "add_degrees r is m = fold (\<lambda>i m. fold (\<lambda>c m. AList.update i (iget m i + int (length (lget (rg_byCapability r) c))) m)
     (lget (rg_dependencies r) i) m) is m"

text \<open>The inner loop of Kahn's algorithm: the in-degrees of the dependents drop, those that reach 0 join the queue.\<close>

fun relax :: "string list \<Rightarrow> int gomap \<Rightarrow> string list \<Rightarrow> int gomap \<times> string list" where
  "relax [] deg q = (deg, q)"
| "relax (d # ds) deg q =
     (let n = iget deg d - 1 in relax ds (AList.update d n deg) (if n = 0 then q @ [d] else q))"

text \<open>The degrees still above 0 bound the number of ids that can join the queue.\<close>

definition pos_degrees :: "int gomap \<Rightarrow> nat" where
  "pos_degrees deg = length (filter (\<lambda>(k, n). 0 < n) deg)"

lemma pos_degrees_update:
  "pos_degrees (AList.update d (iget deg d - 1) deg) + (if iget deg d - 1 = 0 then 1 else 0) = pos_degrees deg"
  by (induction deg) (auto simp: pos_degrees_def iget_def split: option.splits if_splits)

lemma relax_measure:
  "relax ds deg q = (deg', q') \<Longrightarrow> pos_degrees deg' + length q' = pos_degrees deg + length q"
proof (induction ds deg q rule: relax.induct)
  case (2 d ds deg q)
  then show ?case using pos_degrees_update [of d deg] by (auto simp: Let_def split: if_splits)
qed simp

function kahn :: "string list gomap \<Rightarrow> int gomap \<Rightarrow> string list \<Rightarrow> string list \<Rightarrow> string list" where
  "kahn dep deg [] order = order"
| "kahn dep deg (i # q) order = (case relax (lget dep i) deg q of (deg', q') \<Rightarrow> kahn dep deg' q' (order @ [i]))"
  by pat_completeness auto
termination
  by (relation "measure (\<lambda>(dep, deg, q, order). pos_degrees deg + length q)")
    (auto dest!: sym [of "(_, _)"] relax_measure)

definition BuildDependencyGraph :: "(nat \<Rightarrow> string list \<Rightarrow> string list) \<Rightarrow> 'f registry \<Rightarrow> goerr option \<times> 'f registry" where
  "BuildDependencyGraph shuffle r =
     (case link_all r (shuffle 0 (map fst (rg_dependencies r))) (rg_dependents r) of
        (Some e, dep) \<Rightarrow> (Some e, r\<lparr>rg_dependents := dep\<rparr>)
      | (None, dep) \<Rightarrow>
          (let r1 = r\<lparr>rg_dependents := dep\<rparr>;
               deg0 = init_degree (shuffle 1 (map fst (rg_byID r)));
               deg = add_degrees r (shuffle 2 (map fst (rg_dependencies r))) deg0;
               queue = filter (\<lambda>i. iget deg i = 0) (shuffle 3 (map fst deg));
               order = kahn dep deg queue []
           in if length order \<noteq> length (rg_byID r) then (Some ErrDependencyCycle, r1)
              else (None, r1\<lparr>rg_sortedStartup := order\<rparr>)))"

section \<open>Lemmas on the graph\<close>

lemma lget_append_at [simp]: "lget (append_at k v m) k' = (if k' = k then lget m k @ [v] else lget m k')"
  by (simp add: append_at_def lget_def update_conv')

lemma iget_update [simp]: "iget (AList.update k v m) k' = (if k' = k then v else iget m k')"
  by (simp add: iget_def update_conv')

lemma count_fold_append:
  "count_list (lget (fold (\<lambda>p. append_at p i) ps dep) p) x =
     count_list (lget dep p) x + (if x = i then count_list ps p else 0)"
  by (induction ps arbitrary: dep) auto

text \<open>The number of edges from provider \<open>p\<close> that the dependencies of \<open>x\<close> on the capabilities \<open>cs\<close> make.\<close>

definition edges_of :: "'f registry \<Rightarrow> string list \<Rightarrow> string \<Rightarrow> nat" where
  "edges_of r cs p = sum_list (map (\<lambda>c. count_list (lget (rg_byCapability r) c) p) cs)"

lemma link_caps_count:
  assumes "link_caps r i cs dep = (None, dep')"
  shows "count_list (lget dep' p) x = count_list (lget dep p) x + (if x = i then edges_of r cs p else 0)"
  using assms by (induction cs arbitrary: dep) (auto simp: Let_def count_fold_append edges_of_def split: if_splits)

lemma link_caps_ok: "(\<exists>dep'. link_caps r i cs dep = (None, dep')) \<longleftrightarrow> (\<forall>c \<in> set cs. lget (rg_byCapability r) c \<noteq> [])"
  by (induction cs arbitrary: dep) (auto simp: Let_def)

lemma link_all_count:
  assumes "link_all r is dep = (None, dep')" and "distinct is"
  shows "count_list (lget dep' p) x =
     count_list (lget dep p) x + (if x \<in> set is then edges_of r (lget (rg_dependencies r) x) p else 0)"
  using assms
proof (induction "is" arbitrary: dep)
  case (Cons i "is")
  then obtain d where "link_caps r i (lget (rg_dependencies r) i) dep = (None, d)" "link_all r is d = (None, dep')"
    by (auto split: prod.splits option.splits)
  with Cons link_caps_count [of r i "lget (rg_dependencies r) i" dep d p x] show ?case by auto
qed simp

lemma link_all_ok:
  "(\<exists>dep'. link_all r is dep = (None, dep')) \<longleftrightarrow>
     (\<forall>i \<in> set is. \<forall>c \<in> set (lget (rg_dependencies r) i). lget (rg_byCapability r) c \<noteq> [])"
proof (induction "is" arbitrary: dep)
  case (Cons i "is")
  show ?case
  proof (cases "\<exists>d. link_caps r i (lget (rg_dependencies r) i) dep = (None, d)")
    case True
    then obtain d where "link_caps r i (lget (rg_dependencies r) i) dep = (None, d)" by blast
    then show ?thesis using Cons [of d] True link_caps_ok [of r i "lget (rg_dependencies r) i" dep] by auto
  next
    case False
    then obtain e d where "link_caps r i (lget (rg_dependencies r) i) dep = (Some e, d)"
      by (metis option.exhaust surj_pair)
    then show ?thesis using False link_caps_ok [of r i "lget (rg_dependencies r) i" dep] by auto
  qed
qed simp

text \<open>In-degrees.\<close>

lemma init_degree_iget [simp]: "iget (init_degree is) x = 0"
proof -
  have "iget m x = 0 \<Longrightarrow> iget (fold (\<lambda>i m. AList.update i 0 m) is m) x = 0" for m
    by (induction "is" arbitrary: m) auto
  from this [of "[]"] show ?thesis by (simp add: init_degree_def iget_def)
qed

lemma add_caps_iget:
  "iget (fold (\<lambda>c m. AList.update i (iget m i + f c) m) cs m) x = iget m x + (if x = i then sum_list (map f cs) else 0)"
  by (induction cs arbitrary: m) auto

lemma add_degrees_iget:
  assumes "distinct is"
  shows "iget (add_degrees r is m) x = iget m x +
     (if x \<in> set is then sum_list (map (\<lambda>c. int (length (lget (rg_byCapability r) c))) (lget (rg_dependencies r) x)) else 0)"
  using assms
proof (induction "is" arbitrary: m)
  case (Cons i "is")
  then show ?case by (auto simp: add_degrees_def add_caps_iget)
qed (simp add: add_degrees_def)

lemma fold_update_keys: "set (map fst (fold (\<lambda>i m. AList.update i v m) is m)) = set is \<union> set (map fst m)"
  by (induction "is" arbitrary: m) (auto simp: dom_map_of_conv_image_fst [symmetric] update_conv')

lemma wf_fold_update: "wf_map m \<Longrightarrow> wf_map (fold (\<lambda>i m. AList.update i v m) is m)"
  by (induction "is" arbitrary: m) auto

lemma add_caps_keys:
  "set (map fst (fold (\<lambda>c m. AList.update i (g m c) m) cs m)) \<subseteq> insert i (set (map fst m))
   \<and> set (map fst m) \<subseteq> set (map fst (fold (\<lambda>c m. AList.update i (g m c) m) cs m))"
proof (induction cs arbitrary: m)
  case (Cons c cs)
  have "set (map fst (AList.update i (g m c) m)) = insert i (set (map fst m))"
    by (auto simp: dom_map_of_conv_image_fst [symmetric] update_conv')
  with Cons.IH [of "AList.update i (g m c) m"] show ?case by auto
qed auto

lemma add_caps_wf: "wf_map m \<Longrightarrow> wf_map (fold (\<lambda>c m. AList.update i (g m c) m) cs m)"
  by (induction cs arbitrary: m) auto

lemma add_degrees_keys:
  assumes "set is \<subseteq> set (map fst m)"
  shows "set (map fst (add_degrees r is m)) = set (map fst m)"
  using assms
proof (induction "is" arbitrary: m)
  case (Cons i "is")
  let ?m = "fold (\<lambda>c m. AList.update i (iget m i + int (length (lget (rg_byCapability r) c))) m) (lget (rg_dependencies r) i) m"
  have k: "set (map fst ?m) = set (map fst m)"
    using add_caps_keys [of i "\<lambda>m c. iget m i + int (length (lget (rg_byCapability r) c))" "lget (rg_dependencies r) i" m] Cons.prems by auto
  have "add_degrees r (i # is) m = add_degrees r is ?m" by (simp add: add_degrees_def)
  with Cons.IH [of ?m] k Cons.prems show ?case by simp
qed (simp add: add_degrees_def)

lemma add_degrees_wf: "wf_map m \<Longrightarrow> wf_map (add_degrees r is m)"
  by (induction "is" arbitrary: m) (simp_all add: add_degrees_def add_caps_wf)

text \<open>The inner loop.\<close>

lemma relax_deg: "relax ds deg q = (deg', q') \<Longrightarrow> iget deg' x = iget deg x - int (count_list ds x)"
proof (induction ds deg q rule: relax.induct)
  case (2 d ds deg q)
  then show ?case by (auto simp: Let_def split: if_splits)
qed simp

lemma relax_queue:
  assumes "relax ds deg q = (deg', q')"
  shows "\<exists>new. q' = q @ new \<and> distinct new
    \<and> set new = {x \<in> set ds. 0 < iget deg x \<and> iget deg x \<le> int (count_list ds x)}"
  using assms
proof (induction ds deg q rule: relax.induct)
  case (2 d ds deg q)
  let ?deg = "AList.update d (iget deg d - 1) deg" and ?q = "if iget deg d - 1 = 0 then q @ [d] else q"
  have "relax ds ?deg ?q = (deg', q')" using "2.prems" by (simp add: Let_def)
  with "2.IH" [OF refl] obtain new where n: "q' = ?q @ new" "distinct new"
    "set new = {x \<in> set ds. 0 < iget ?deg x \<and> iget ?deg x \<le> int (count_list ds x)}" by blast
  have c: "x \<notin> set ds \<Longrightarrow> count_list ds x = 0" for x by simp
  show ?case
  proof (cases "iget deg d = 1")
    case True
    have "d \<notin> set new" unfolding n(3) using True by simp
    moreover have "set (d # new) = {x \<in> set (d # ds). 0 < iget deg x \<and> iget deg x \<le> int (count_list (d # ds) x)}"
      unfolding set_simps n(3) using True by auto
    ultimately show ?thesis using n(1,2) True by (intro exI [of _ "d # new"]) simp
  next
    case False
    have "set new = {x \<in> set (d # ds). 0 < iget deg x \<and> iget deg x \<le> int (count_list (d # ds) x)}"
      unfolding n(3) using False c [of d] by (cases "d \<in> set ds") (auto split: if_splits)
    with n False show ?thesis by (intro exI [of _ new]) simp
  qed
qed simp

section \<open>Kahn's algorithm\<close>

text \<open>
  The loop invariant over the vertices \<open>V\<close> and the edge lists \<open>dep\<close>: nobody is queued twice, a degree
  counts the edges from providers that are not started yet, the queue and the order hold exactly the ids
  of degree 0, and the order so far respects every edge.
\<close>

definition topological :: "string set \<Rightarrow> string list gomap \<Rightarrow> string list \<Rightarrow> bool" where
  "topological V dep order \<longleftrightarrow>
     (\<forall>a x b. order = a @ x # b \<longrightarrow> (\<forall>p \<in> V. x \<in> set (lget dep p) \<longrightarrow> p \<in> set a))"

definition kahn_inv :: "string set \<Rightarrow> string list gomap \<Rightarrow> int gomap \<Rightarrow> string list \<Rightarrow> string list \<Rightarrow> bool" where
  "kahn_inv V dep deg q order \<longleftrightarrow>
     distinct (order @ q) \<and> set (order @ q) \<subseteq> V
     \<and> (\<forall>x \<in> V. iget deg x = (\<Sum>p \<in> V - set order. int (count_list (lget dep p) x)))
     \<and> (\<forall>x \<in> V. iget deg x = 0 \<longleftrightarrow> x \<in> set (order @ q))
     \<and> topological V dep order"

lemma topological_snoc:
  assumes "topological V dep order" and "\<forall>p \<in> V. i \<in> set (lget dep p) \<longrightarrow> p \<in> set order"
  shows "topological V dep (order @ [i])"
  unfolding topological_def
proof (intro allI impI ballI)
  fix a x b p
  assume s: "order @ [i] = a @ x # b" and p: "p \<in> V" "x \<in> set (lget dep p)"
  show "p \<in> set a"
  proof (cases b rule: rev_cases)
    case Nil
    then show ?thesis using s p assms(2) by auto
  next
    case (snoc b' y)
    then have "order = a @ x # b'" using s by simp
    then show ?thesis using assms(1) p unfolding topological_def by blast
  qed
qed

lemma sum_next:
  assumes "finite V" and "i \<in> V" and "i \<notin> set order"
  shows "(\<Sum>p \<in> V - set order. f p) = f i + (\<Sum>p \<in> V - set (order @ [i]). f p :: int)"
proof -
  have "V - set order = insert i (V - set (order @ [i]))" using assms by auto
  then have "(\<Sum>p \<in> V - set order. f p) = (\<Sum>p \<in> insert i (V - set (order @ [i])). f p)" by (rule arg_cong)
  also have "\<dots> = f i + (\<Sum>p \<in> V - set (order @ [i]). f p)"
    by (rule sum.insert) (use assms(1) in simp_all)
  finally show ?thesis .
qed

lemma kahn_topological:
  assumes "finite V" and "kahn_inv V dep deg (i # q) order"
  shows "topological V dep (order @ [i])"
proof (rule topological_snoc [OF _ ballI [OF impI]])
  show "topological V dep order" using assms(2) by (simp add: kahn_inv_def)
next
  fix p assume p: "p \<in> V" "i \<in> set (lget dep p)"
  show "p \<in> set order"
  proof (rule ccontr)
    let ?c = "\<lambda>p. int (count_list (lget dep p) i)"
    assume "p \<notin> set order"
    then have "?c p \<le> (\<Sum>p \<in> V - set order. ?c p)" using p assms(1) by (intro member_le_sum) auto
    moreover have "(\<Sum>p \<in> V - set order. ?c p) = 0" using assms(2) by (auto simp: kahn_inv_def)
    ultimately show False using p(2) by (simp add: count_list_0_iff)
  qed
qed

lemma kahn_step:
  assumes V: "finite V" "\<forall>p. set (lget dep p) \<subseteq> V" and inv: "kahn_inv V dep deg (i # q) order"
    and rel: "relax (lget dep i) deg q = (deg', q')"
  shows "kahn_inv V dep deg' q' (order @ [i])"
proof -
  define c where "c = (\<lambda>p x. int (count_list (lget dep p) x))"
  have cnn: "0 \<le> c p x" and c0: "c p x = 0 \<longleftrightarrow> x \<notin> set (lget dep p)" for p x
    by (simp_all add: c_def count_list_0_iff)
  from inv have i: "i \<in> V" "i \<notin> set order" and d: "distinct (order @ i # q)" "set (order @ i # q) \<subseteq> V"
    and deg: "\<And>x. x \<in> V \<Longrightarrow> iget deg x = (\<Sum>p \<in> V - set order. c p x)"
    and z: "\<And>x. x \<in> V \<Longrightarrow> iget deg x = 0 \<longleftrightarrow> x \<in> set (order @ i # q)" and t: "topological V dep order"
    by (auto simp: kahn_inv_def c_def)
  have deg': "iget deg' x = (\<Sum>p \<in> V - set (order @ [i]). c p x)" if "x \<in> V" for x
    using relax_deg [OF rel, of x] deg [OF that] sum_next [OF V(1) i, of "\<lambda>p. c p x"] by (simp add: c_def)
  have nn: "0 \<le> iget deg' x" if "x \<in> V" for x
    unfolding deg' [OF that] by (rule sum_nonneg) (rule cnn)
  have rd: "iget deg' x = iget deg x - c i x" for x using relax_deg [OF rel, of x] by (simp add: c_def)
  from relax_queue [OF rel] obtain new where n: "q' = q @ new" "distinct new"
    "set new = {x \<in> set (lget dep i). 0 < iget deg x \<and> iget deg x \<le> c i x}" by (auto simp: c_def)
  have newV: "set new \<subseteq> V" using n(3) V(2) by auto
  have disj: "set new \<inter> set (order @ i # q) = {}"
  proof (rule ccontr)
    assume "\<not> ?thesis"
    then obtain x where x: "x \<in> set new" "x \<in> set (order @ i # q)" by blast
    then have "iget deg x = 0" using z [of x] newV by blast
    with x(1) n(3) show False by simp
  qed
  have "distinct ((order @ [i]) @ q')" "set ((order @ [i]) @ q') \<subseteq> V"
    using d n(1,2) disj newV by auto
  moreover have "iget deg' x = 0 \<longleftrightarrow> x \<in> set ((order @ [i]) @ q')" if x: "x \<in> V" for x
  proof (cases "x \<in> set (order @ i # q)")
    case True
    then have "iget deg x = 0" using z [OF x] by blast
    then have "iget deg' x = 0" using nn [OF x] rd [of x] cnn [of i x] by simp
    with True n(1) show ?thesis by auto
  next
    case False
    then have p: "0 < iget deg x" using z [OF x] nn [OF x] rd [of x] cnn [of i x] by fastforce
    have "iget deg' x = 0 \<longleftrightarrow> x \<in> set new"
      unfolding n(3) using p rd [of x] nn [OF x] c0 [of i x] by auto
    with False n(1) show ?thesis by auto
  qed
  moreover have "topological V dep (order @ [i])" using V(1) inv by (rule kahn_topological)
  ultimately show ?thesis using deg' by (simp add: kahn_inv_def c_def)
qed

lemma kahn_correct:
  assumes "finite V" and "\<forall>p. set (lget dep p) \<subseteq> V" and "kahn_inv V dep deg q order"
  shows "\<exists>deg'. kahn_inv V dep deg' [] (kahn dep deg q order)"
  using assms
proof (induction dep deg q order rule: kahn.induct)
  case (2 dep deg i q order)
  obtain deg' q' where r: "relax (lget dep i) deg q = (deg', q')" by fastforce
  with 2 kahn_step [of V dep deg i q order deg' q'] show ?case by simp
qed auto

text \<open>The result: a topological order of everything, or a set of ids each of which waits for another one of it.\<close>

definition circular :: "string set \<Rightarrow> string list gomap \<Rightarrow> string set \<Rightarrow> bool" where
  "circular V dep C \<longleftrightarrow> C \<noteq> {} \<and> C \<subseteq> V \<and> (\<forall>x \<in> C. \<exists>p \<in> C. x \<in> set (lget dep p))"

lemma topological_not_circular:
  assumes "topological V dep order" and "circular V dep C" and "V \<subseteq> set order"
  shows False
proof -
  have "set order \<inter> C \<noteq> {}" using assms(2,3) by (auto simp: circular_def)
  then have "\<exists>x \<in> set order. x \<in> C" by blast
  from split_list_first_prop [OF this] obtain a x b where s: "order = a @ x # b" "x \<in> C" "\<forall>y \<in> set a. y \<notin> C" by blast
  from assms(2) s(2) obtain p where p: "p \<in> C" "x \<in> set (lget dep p)" unfolding circular_def by blast
  then have "p \<in> V" using assms(2) by (auto simp: circular_def)
  then have "p \<in> set a" using assms(1) s(1) p(2) unfolding topological_def by blast
  then show False using s(3) p(1) by blast
qed

lemma kahn_result:
  assumes "finite V" and "kahn_inv V dep deg [] order"
  shows "distinct order \<and> set order \<subseteq> V \<and> topological V dep order
    \<and> (set order = V \<longleftrightarrow> (\<nexists>C. circular V dep C))"
proof -
  have d: "distinct order" "set order \<subseteq> V" and t: "topological V dep order"
    and z: "\<And>x. x \<in> V \<Longrightarrow> (\<Sum>p \<in> V - set order. int (count_list (lget dep p) x)) = 0 \<longleftrightarrow> x \<in> set order"
    using assms(2) by (auto simp: kahn_inv_def)
  have "circular V dep (V - set order)" if ne: "set order \<noteq> V"
    unfolding circular_def
  proof (intro conjI ballI)
    show "V - set order \<noteq> {}" "V - set order \<subseteq> V" using ne d(2) by auto
    fix x assume "x \<in> V - set order"
    then have "(\<Sum>p \<in> V - set order. int (count_list (lget dep p) x)) \<noteq> 0" using z by blast
    then obtain p where "p \<in> V - set order" "int (count_list (lget dep p) x) \<noteq> 0" by (meson sum.neutral)
    then have "x \<in> set (lget dep p)" using count_notin [of x "lget dep p"] by (metis of_nat_0)
    with \<open>p \<in> V - set order\<close> show "\<exists>p \<in> V - set order. x \<in> set (lget dep p)" by blast
  qed
  moreover have "\<nexists>C. circular V dep C" if "set order = V"
    using topological_not_circular [OF t] that by blast
  ultimately show ?thesis using d t by blast
qed

section \<open>The registry invariant\<close>

definition wf_registry :: "'f registry \<Rightarrow> bool" where
  "wf_registry r \<longleftrightarrow>
     wf_map (rg_byID r) \<and> wf_map (rg_dependencies r) \<and> set (map fst (rg_dependencies r)) \<subseteq> set (map fst (rg_byID r))
     \<and> (\<forall>c p. p \<in> set (lget (rg_byCapability r) c) \<longleftrightarrow>
          (\<exists>reg. map_of (rg_byID r) p = Some reg \<and> c \<in> set (pd_Capabilities (rn_Descriptor reg))))
     \<and> (\<forall>i reg. map_of (rg_byID r) i = Some reg \<longrightarrow> pd_ID (rn_Descriptor reg) = i
          \<and> lget (rg_dependencies r) i = pd_DependsOn (rn_Descriptor reg))"

lemma fst_set_update [simp]: "set (map fst (AList.update k v m)) = insert k (set (map fst m))"
  by (auto simp: dom_map_of_conv_image_fst [symmetric] update_conv')

lemma map_of_None_keys: "map_of m k = None \<longleftrightarrow> k \<notin> set (map fst m)"
  by (auto simp: map_of_eq_None_iff)

lemma map_of_Some_key: "map_of m k = Some v \<Longrightarrow> k \<in> set (map fst m)"
  using map_of_None_keys [of m k] by simp

lemma key_map_of_Some: "k \<in> set (map fst m) \<Longrightarrow> \<exists>v. map_of m k = Some v"
  using map_of_None_keys [of m k] by (cases "map_of m k") simp_all

lemma fold_caps_mem:
  "p \<in> set (lget (fold (\<lambda>c. append_at c i) cs m) c) \<longleftrightarrow> p \<in> set (lget m c) \<or> (p = i \<and> c \<in> set cs)"
  by (induction cs arbitrary: m) auto

lemma wf_registry_New: "wf_registry NewRegistry"
  by (simp add: wf_registry_def NewRegistry_def wf_map_def lget_def)

lemma wf_registry_Register:
  assumes "wf_registry r" and "Register d f r = (e, r')"
  shows "wf_registry r'"
proof (cases "map_of (rg_byID r) (pd_ID d) = None")
  case False
  with assms show ?thesis by (auto simp: Register_def)
next
  case True
  have w: "wf_map (rg_byID r)" "wf_map (rg_dependencies r)" "set (map fst (rg_dependencies r)) \<subseteq> set (map fst (rg_byID r))"
    and pc: "\<And>c p. p \<in> set (lget (rg_byCapability r) c) \<longleftrightarrow>
          (\<exists>reg. map_of (rg_byID r) p = Some reg \<and> c \<in> set (pd_Capabilities (rn_Descriptor reg)))"
    and dp: "\<And>i reg. map_of (rg_byID r) i = Some reg \<Longrightarrow> pd_ID (rn_Descriptor reg) = i
          \<and> lget (rg_dependencies r) i = pd_DependsOn (rn_Descriptor reg)"
    using assms(1) by (auto simp: wf_registry_def)
  let ?reg = "\<lparr>rn_Descriptor = d, rn_Factory = f, rn_Enabled = True, rn_State = ''registered'', rn_Error = None\<rparr>"
  have r': "rg_byID r' = AList.update (pd_ID d) ?reg (rg_byID r)"
    "rg_byCapability r' = fold (\<lambda>c. append_at c (pd_ID d)) (pd_Capabilities d) (rg_byCapability r)"
    "rg_dependencies r' = (if pd_DependsOn d \<noteq> [] then AList.update (pd_ID d) (pd_DependsOn d) (rg_dependencies r) else rg_dependencies r)"
    using assms(2) True by (auto simp: Register_def Let_def)
  have nd: "lget (rg_dependencies r) (pd_ID d) = []"
  proof -
    have "pd_ID d \<notin> set (map fst (rg_dependencies r))" using True w(3) by (auto simp: map_of_eq_None_iff)
    then show ?thesis by (simp add: lget_def map_of_None_keys [THEN iffD2])
  qed
  have "lget (rg_dependencies r') i = pd_DependsOn (rn_Descriptor reg) \<and> pd_ID (rn_Descriptor reg) = i"
    if "map_of (rg_byID r') i = Some reg" for i reg
    using that dp [of i reg] nd unfolding r' by (auto simp: update_conv' lget_def split: if_splits)
  moreover have "p \<in> set (lget (rg_byCapability r') c) \<longleftrightarrow>
      (\<exists>reg. map_of (rg_byID r') p = Some reg \<and> c \<in> set (pd_Capabilities (rn_Descriptor reg)))" for c p
    using pc [of p c] True unfolding r' by (auto simp: fold_caps_mem update_conv')
  moreover have "wf_map (rg_byID r')" "wf_map (rg_dependencies r')"
    "set (map fst (rg_dependencies r')) \<subseteq> set (map fst (rg_byID r'))"
    using w unfolding r' by (auto simp del: set_map)
  ultimately show ?thesis unfolding wf_registry_def by blast
qed

lemma wf_registry_set_enabled:
  assumes "wf_registry r" and "set_enabled b i r = (e, r')"
  shows "wf_registry r'"
proof (cases "map_of (rg_byID r) i")
  case None
  with assms show ?thesis by (simp add: set_enabled_def)
next
  case (Some reg)
  then have r': "r' = r\<lparr>rg_byID := AList.update i (reg\<lparr>rn_Enabled := b\<rparr>) (rg_byID r)\<rparr>"
    using assms(2) by (simp add: set_enabled_def)
  have "i \<in> set (map fst (rg_byID r))" using Some map_of_None_keys by (metis option.distinct(1))
  then have k: "set (map fst (rg_byID r')) = set (map fst (rg_byID r))"
    unfolding r' by (simp del: set_map add: insert_absorb)
  have ds: "map_option rn_Descriptor (map_of (rg_byID r') p) = map_option rn_Descriptor (map_of (rg_byID r) p)" for p
    using Some by (simp add: r' update_conv')
  have e: "(\<exists>reg'. map_of (rg_byID r') p = Some reg' \<and> P (rn_Descriptor reg')) \<longleftrightarrow>
      (\<exists>reg'. map_of (rg_byID r) p = Some reg' \<and> P (rn_Descriptor reg'))" for p P
    using ds [of p] by (cases "map_of (rg_byID r') p"; cases "map_of (rg_byID r) p") auto
  have a: "(\<forall>reg'. map_of (rg_byID r') p = Some reg' \<longrightarrow> P (rn_Descriptor reg')) \<longleftrightarrow>
      (\<forall>reg'. map_of (rg_byID r) p = Some reg' \<longrightarrow> P (rn_Descriptor reg'))" for p P
    using ds [of p] by (cases "map_of (rg_byID r') p"; cases "map_of (rg_byID r) p") auto
  have f: "rg_dependencies r' = rg_dependencies r" "rg_byCapability r' = rg_byCapability r" "wf_map (rg_byID r')"
    using assms(1) by (simp_all add: r' wf_registry_def)
  show ?thesis
    using assms(1) f(3) unfolding wf_registry_def f(1,2) k e [of _ "\<lambda>d. _ \<in> set (pd_Capabilities d)"]
      a [of _ "\<lambda>d. pd_ID d = _ \<and> _ = pd_DependsOn d"] by (intro conjI) (elim conjE, assumption)+
qed

section \<open>The dependency graph of a well-formed registry\<close>

text \<open>\<open>needs r x p\<close>: plugin \<open>x\<close> depends on a capability that plugin \<open>p\<close> provides.\<close>

definition needs :: "'f registry \<Rightarrow> string \<Rightarrow> string \<Rightarrow> bool" where
  "needs r x p \<longleftrightarrow> (\<exists>rx rp c. map_of (rg_byID r) x = Some rx \<and> map_of (rg_byID r) p = Some rp
     \<and> c \<in> set (pd_DependsOn (rn_Descriptor rx)) \<and> c \<in> set (pd_Capabilities (rn_Descriptor rp)))"

definition unprovided :: "'f registry \<Rightarrow> string \<Rightarrow> string \<Rightarrow> bool" where
  "unprovided r x c \<longleftrightarrow> (\<exists>rx. map_of (rg_byID r) x = Some rx \<and> c \<in> set (pd_DependsOn (rn_Descriptor rx)))
     \<and> (\<forall>p rp. map_of (rg_byID r) p = Some rp \<longrightarrow> c \<notin> set (pd_Capabilities (rn_Descriptor rp)))"

definition cyclic_needs :: "'f registry \<Rightarrow> bool" where
  "cyclic_needs r \<longleftrightarrow> (\<exists>C. C \<noteq> {} \<and> (\<forall>x \<in> C. \<exists>p \<in> C. needs r x p))"

definition permutes_keys :: "(nat \<Rightarrow> string list \<Rightarrow> string list) \<Rightarrow> bool" where
  "permutes_keys shuffle \<longleftrightarrow> (\<forall>k xs. mset (shuffle k xs) = mset xs)"

lemma edges_of_pos: "0 < edges_of r cs p \<longleftrightarrow> (\<exists>c \<in> set cs. p \<in> set (lget (rg_byCapability r) c))"
proof -
  have "0 < count_list xs p \<longleftrightarrow> p \<in> set xs" for xs
    using count_list_0_iff [of xs p] by (metis gr0I less_numeral_extra(3))
  then show ?thesis unfolding edges_of_def by (induction cs) auto
qed

lemma edges_of_total:
  assumes "finite V" and "\<forall>c. set (lget (rg_byCapability r) c) \<subseteq> V"
  shows "(\<Sum>p \<in> V. edges_of r cs p) = sum_list (map (\<lambda>c. length (lget (rg_byCapability r) c)) cs)"
  using assms by (induction cs) (simp_all add: edges_of_def sum.distrib sum_count_set)

lemma needs_edges:
  assumes "wf_registry r"
  shows "needs r x p \<longleftrightarrow> x \<in> set (map fst (rg_byID r)) \<and> 0 < edges_of r (lget (rg_dependencies r) x) p"
proof (cases "map_of (rg_byID r) x")
  case None
  then have "x \<notin> set (map fst (rg_byID r))" using map_of_None_keys [of "rg_byID r" x] by simp
  with None show ?thesis by (simp add: needs_def del: set_map)
next
  case (Some rx)
  then have "lget (rg_dependencies r) x = pd_DependsOn (rn_Descriptor rx)" and x: "x \<in> set (map fst (rg_byID r))"
    using assms map_of_None_keys [of "rg_byID r" x] unfolding wf_registry_def by auto
  moreover have "p \<in> set (lget (rg_byCapability r) c) \<longleftrightarrow>
      (\<exists>rp. map_of (rg_byID r) p = Some rp \<and> c \<in> set (pd_Capabilities (rn_Descriptor rp)))" for c
    using assms unfolding wf_registry_def by blast
  ultimately show ?thesis unfolding edges_of_pos needs_def using Some x by auto
qed

lemma int_sum_list: "int (sum_list (map f cs)) = sum_list (map (\<lambda>c. int (f c)) cs)"
  by (induction cs) simp_all

lemma permutes_keys_set:
  assumes "permutes_keys shuffle"
  shows "set (shuffle k xs) = set xs" "distinct (shuffle k xs) = distinct xs"
  using assms unfolding permutes_keys_def by (metis mset_eq_setD, metis mset_eq_imp_distinct_iff)

text \<open>What the graph construction hands to Kahn's algorithm on a fresh registry.\<close>

lemma build_initial:
  assumes wf: "wf_registry r" and fresh: "rg_dependents r = []" and sh: "permutes_keys shuffle"
    and link: "link_all r (shuffle 0 (map fst (rg_dependencies r))) (rg_dependents r) = (None, dep)"
  defines "V \<equiv> set (map fst (rg_byID r))"
  defines "deg \<equiv> add_degrees r (shuffle 2 (map fst (rg_dependencies r))) (init_degree (shuffle 1 (map fst (rg_byID r))))"
  shows "\<And>p x. count_list (lget dep p) x = (if x \<in> V then edges_of r (lget (rg_dependencies r) x) p else 0)"
    and "kahn_inv V dep deg (filter (\<lambda>i. iget deg i = 0) (shuffle 3 (map fst deg))) []"
proof -
  have D: "distinct (map fst (rg_dependencies r))" "distinct (map fst (rg_byID r))"
    "set (map fst (rg_dependencies r)) \<subseteq> V"
    using wf by (auto simp: wf_registry_def wf_map_def V_def simp del: set_map)
  have nodep: "lget (rg_dependencies r) x = []" if "x \<notin> set (map fst (rg_dependencies r))" for x
    using that by (simp add: lget_def map_of_None_keys [THEN iffD2])
  have prov: "\<forall>c. set (lget (rg_byCapability r) c) \<subseteq> V"
    using wf map_of_None_keys [of "rg_byID r"] unfolding wf_registry_def V_def by (metis option.distinct(1) subsetI)
  note S = permutes_keys_set [OF sh]
  show cnt: "count_list (lget dep p) x = (if x \<in> V then edges_of r (lget (rg_dependencies r) x) p else 0)" for p x
  proof -
    have "lget (rg_dependents r) p = []" by (simp add: fresh lget_def)
    with link_all_count [OF link, of p x] D nodep [of x] show ?thesis
      by (auto simp: S edges_of_def simp del: set_map)
  qed
  have dg: "iget deg x = sum_list (map (\<lambda>c. int (length (lget (rg_byCapability r) c))) (lget (rg_dependencies r) x))" for x
    using nodep [of x] D(1) unfolding deg_def by (simp add: add_degrees_iget S del: set_map)
  have fin: "finite V" by (simp add: V_def)
  have "(\<Sum>p \<in> V. int (count_list (lget dep p) x)) = iget deg x" if "x \<in> V" for x
  proof -
    have "(\<Sum>p \<in> V. int (count_list (lget dep p) x)) = int (\<Sum>p \<in> V. edges_of r (lget (rg_dependencies r) x) p)"
      using that by (simp add: cnt)
    also have "\<dots> = iget deg x" unfolding edges_of_total [OF fin prov] dg by (rule int_sum_list)
    finally show ?thesis .
  qed
  moreover have keys: "set (map fst (init_degree (shuffle 1 (map fst (rg_byID r))))) = V"
    unfolding init_degree_def fold_update_keys S V_def by simp
  then have "set (map fst deg) = V"
    unfolding deg_def using D(3) by (subst add_degrees_keys) (simp_all add: S del: set_map)
  moreover have "wf_map deg"
    unfolding deg_def init_degree_def by (intro add_degrees_wf wf_fold_update) (simp add: wf_map_def)
  ultimately show "kahn_inv V dep deg (filter (\<lambda>i. iget deg i = 0) (shuffle 3 (map fst deg))) []"
    unfolding kahn_inv_def by (auto simp: S wf_map_def topological_def simp del: set_map)
qed

lemma link_ok_provided:
  assumes wf: "wf_registry r" and sh: "permutes_keys shuffle"
  shows "(\<exists>dep. link_all r (shuffle 0 (map fst (rg_dependencies r))) dep0 = (None, dep)) \<longleftrightarrow> (\<nexists>x c. unprovided r x c)"
proof -
  have prov: "lget (rg_byCapability r) c = [] \<longleftrightarrow>
      (\<forall>p rp. map_of (rg_byID r) p = Some rp \<longrightarrow> c \<notin> set (pd_Capabilities (rn_Descriptor rp)))" for c
  proof -
    have "\<forall>p. p \<in> set (lget (rg_byCapability r) c) \<longleftrightarrow>
        (\<exists>rp. map_of (rg_byID r) p = Some rp \<and> c \<in> set (pd_Capabilities (rn_Descriptor rp)))"
      using wf unfolding wf_registry_def by blast
    moreover have "lget (rg_byCapability r) c = [] \<longleftrightarrow> (\<forall>p. p \<notin> set (lget (rg_byCapability r) c))"
      by (metis all_not_in_conv set_empty2)
    ultimately show ?thesis by blast
  qed
  have dep: "(\<exists>x \<in> set (map fst (rg_dependencies r)). c \<in> set (lget (rg_dependencies r) x) \<and> P x) \<longleftrightarrow>
      (\<exists>x rx. map_of (rg_byID r) x = Some rx \<and> c \<in> set (pd_DependsOn (rn_Descriptor rx)) \<and> P x)" (is "?L \<longleftrightarrow> ?R") for c P
  proof
    assume ?L
    then obtain x where x: "x \<in> set (map fst (rg_dependencies r))" "c \<in> set (lget (rg_dependencies r) x)" "P x" by blast
    then have "x \<in> set (map fst (rg_byID r))" using wf unfolding wf_registry_def by blast
    then obtain rx where "map_of (rg_byID r) x = Some rx" using key_map_of_Some [of x "rg_byID r"] by auto
    moreover from this wf have "lget (rg_dependencies r) x = pd_DependsOn (rn_Descriptor rx)" unfolding wf_registry_def by blast
    ultimately show ?R using x by auto
  next
    assume ?R
    then obtain x rx where x: "map_of (rg_byID r) x = Some rx" "c \<in> set (pd_DependsOn (rn_Descriptor rx))" "P x" by blast
    from x(1) wf have "lget (rg_dependencies r) x = pd_DependsOn (rn_Descriptor rx)" unfolding wf_registry_def by blast
    with x(2) have c: "c \<in> set (lget (rg_dependencies r) x)" by simp
    then obtain v where "map_of (rg_dependencies r) x = Some v"
      by (cases "map_of (rg_dependencies r) x") (simp_all add: lget_def)
    then have "x \<in> set (map fst (rg_dependencies r))" by (rule map_of_Some_key)
    with c x(3) show ?L by blast
  qed
  have "(\<exists>dep. link_all r (shuffle 0 (map fst (rg_dependencies r))) dep0 = (None, dep)) \<longleftrightarrow>
      (\<nexists>c. \<exists>x \<in> set (map fst (rg_dependencies r)). c \<in> set (lget (rg_dependencies r) x) \<and> lget (rg_byCapability r) c = [])"
    unfolding link_all_ok permutes_keys_set [OF sh] by blast
  also have "\<dots> \<longleftrightarrow> (\<nexists>x c. unprovided r x c)"
    unfolding dep unprovided_def prov by blast
  finally show ?thesis .
qed

lemma build_success:
  assumes wf: "wf_registry r" and fresh: "rg_dependents r = []" and sh: "permutes_keys shuffle"
    and link: "link_all r (shuffle 0 (map fst (rg_dependencies r))) (rg_dependents r) = (None, dep)"
  shows "\<exists>order. BuildDependencyGraph shuffle r =
      (if cyclic_needs r then (Some ErrDependencyCycle, r\<lparr>rg_dependents := dep\<rparr>)
       else (None, r\<lparr>rg_dependents := dep, rg_sortedStartup := order\<rparr>))
    \<and> (\<not> cyclic_needs r \<longrightarrow> distinct order \<and> set order = set (map fst (rg_byID r))
        \<and> (\<forall>a x b p. order = a @ x # b \<and> needs r x p \<longrightarrow> p \<in> set a))"
proof -
  let ?V = "set (map fst (rg_byID r))"
  let ?deg = "add_degrees r (shuffle 2 (map fst (rg_dependencies r))) (init_degree (shuffle 1 (map fst (rg_byID r))))"
  let ?q = "filter (\<lambda>i. iget ?deg i = 0) (shuffle 3 (map fst ?deg))"
  define order where "order = kahn dep ?deg ?q []"
  note init = build_initial [OF wf fresh sh link]
  have edge: "x \<in> set (lget dep p) \<longleftrightarrow> needs r x p" for x p
  proof -
    have "x \<in> set (lget dep p) \<longleftrightarrow> 0 < count_list (lget dep p) x"
      using count_list_0_iff [of "lget dep p" x] by (metis gr0I less_numeral_extra(3))
    then show ?thesis unfolding needs_edges [OF wf] init(1) by (simp split: if_split del: set_map)
  qed
  have nV: "needs r x p \<Longrightarrow> x \<in> ?V \<and> p \<in> ?V" for x p
    unfolding needs_def by (auto dest: map_of_Some_key simp del: set_map)
  have sub: "\<forall>p. set (lget dep p) \<subseteq> ?V" using edge nV by blast
  obtain deg' where k: "kahn_inv ?V dep deg' [] order" using kahn_correct [OF _ sub init(2)] unfolding order_def by auto
  have res: "distinct order" "set order \<subseteq> ?V" "topological ?V dep order"
    "set order = ?V \<longleftrightarrow> (\<nexists>C. circular ?V dep C)"
    using kahn_result [OF _ k] by auto
  have circ: "(\<exists>C. circular ?V dep C) \<longleftrightarrow> cyclic_needs r"
  proof -
    have "C \<subseteq> ?V" if "\<forall>x \<in> C. \<exists>p \<in> C. needs r x p" for C
    proof
      fix x assume "x \<in> C"
      with that obtain p where "needs r x p" by blast
      then show "x \<in> ?V" using nV by blast
    qed
    then show ?thesis unfolding circular_def cyclic_needs_def edge by (intro iff_exI) auto
  qed
  have "length (rg_byID r) = card ?V"
    using wf distinct_card [of "map fst (rg_byID r)"] by (simp add: wf_registry_def wf_map_def)
  then have len: "length order = length (rg_byID r) \<longleftrightarrow> set order = ?V"
    using res(1,2) distinct_card [of order] card_subset_eq [of ?V "set order"] by auto
  have "BuildDependencyGraph shuffle r =
      (if cyclic_needs r then (Some ErrDependencyCycle, r\<lparr>rg_dependents := dep\<rparr>)
       else (None, r\<lparr>rg_dependents := dep, rg_sortedStartup := order\<rparr>))"
    using link len res(4) circ unfolding BuildDependencyGraph_def Let_def order_def by simp
  moreover have "\<forall>a x b p. order = a @ x # b \<and> needs r x p \<longrightarrow> p \<in> set a"
    using res(3) edge nV unfolding topological_def by blast
  ultimately show ?thesis using res(1,4) circ by blast
qed

section \<open>Properties\<close>

text \<open>
  C18. The startup order is right and complete: on a well-formed registry whose graph has not been built
  yet, and for every iteration order of the maps, \<open>BuildDependencyGraph\<close> succeeds exactly when every
  required capability has a provider and no set of plugins wait for each other. It then lists every
  registered plugin once, each after all providers of all capabilities it depends on; a failure leaves the
  startup order as it was.
\<close>

theorem startup_order_correct:
  assumes wf: "wf_registry r" and fresh: "rg_dependents r = []" and sh: "permutes_keys shuffle"
    and build: "BuildDependencyGraph shuffle r = (e, r')"
  shows "(e = None \<longleftrightarrow> (\<nexists>x c. unprovided r x c) \<and> \<not> cyclic_needs r)
    \<and> (e = None \<longrightarrow> distinct (StartupOrder r') \<and> set (StartupOrder r') = set (map fst (rg_byID r))
        \<and> (\<forall>a x b p. StartupOrder r' = a @ x # b \<and> needs r x p \<longrightarrow> p \<in> set a))
    \<and> (e \<noteq> None \<longrightarrow> StartupOrder r' = StartupOrder r)"
proof (cases "\<exists>dep. link_all r (shuffle 0 (map fst (rg_dependencies r))) (rg_dependents r) = (None, dep)")
  case False
  then obtain err dep where l: "link_all r (shuffle 0 (map fst (rg_dependencies r))) (rg_dependents r) = (Some err, dep)"
    by (metis option.exhaust surj_pair)
  then have "e = Some err" "StartupOrder r' = StartupOrder r"
    using build by (auto simp: BuildDependencyGraph_def StartupOrder_def)
  with False link_ok_provided [OF wf sh, of "rg_dependents r"] show ?thesis by auto
next
  case True
  then have u: "\<nexists>x c. unprovided r x c" using link_ok_provided [OF wf sh] by blast
  from True obtain dep where l: "link_all r (shuffle 0 (map fst (rg_dependencies r))) (rg_dependents r) = (None, dep)" by blast
  from build_success [OF wf fresh sh l] build u show ?thesis
    by (cases "cyclic_needs r") (auto simp: StartupOrder_def simp del: set_map)
qed

definition sample_desc :: "string \<Rightarrow> string list \<Rightarrow> string list \<Rightarrow> descriptor" where
  "sample_desc i caps deps = \<lparr>pd_ID = i, pd_Kind = ''pipeline'', pd_Name = i, pd_Description = '''', pd_Version = ''1'',
     pd_Capabilities = caps, pd_DependsOn = deps, pd_ConfigSchemaRef = ''''\<rparr>"

definition sample_registry :: "unit registry" where
  "sample_registry = fold (\<lambda>d r. snd (Register d () r))
     [sample_desc ''p1'' [''c''] [], sample_desc ''q'' [''d''] [], sample_desc ''x'' [''e''] [''c''], sample_desc ''p2'' [''c''] [''d'']] NewRegistry"

definition in_order :: "nat \<Rightarrow> string list \<Rightarrow> string list" where
  "in_order k xs = xs"

lemma wf_sample_registry: "wf_registry sample_registry"
  unfolding sample_registry_def by (simp add: wf_registry_New wf_registry_Register [OF _ surjective_pairing])

lemma sample_build: "fst (BuildDependencyGraph in_order sample_registry) = None \<and> rg_dependents sample_registry = []"
  by code_simp

theorem startup_order_correct_witness:
  "set (StartupOrder (snd (BuildDependencyGraph in_order sample_registry))) = {''p1'', ''q'', ''x'', ''p2''}
   \<and> \<not> cyclic_needs sample_registry"
proof -
  have p: "permutes_keys in_order" by (simp add: permutes_keys_def in_order_def)
  have k: "set (map fst (rg_byID sample_registry)) = {''p1'', ''q'', ''x'', ''p2''}" by code_simp
  have b: "BuildDependencyGraph in_order sample_registry = (None, snd (BuildDependencyGraph in_order sample_registry))"
    using sample_build by (metis prod.collapse)
  from startup_order_correct [OF wf_sample_registry _ p b] sample_build k show ?thesis by simp
qed

inductive registry_reach :: "'f registry \<Rightarrow> bool" where
  reach_new: "registry_reach NewRegistry"
| reach_register: "registry_reach r \<Longrightarrow> Register d f r = (e, r') \<Longrightarrow> registry_reach r'"
| reach_enable: "registry_reach r \<Longrightarrow> Enable i r = (e, r') \<Longrightarrow> registry_reach r'"
| reach_disable: "registry_reach r \<Longrightarrow> Disable i r = (e, r') \<Longrightarrow> registry_reach r'"
| reach_build: "registry_reach r \<Longrightarrow> BuildDependencyGraph shuffle r = (e, r') \<Longrightarrow> registry_reach r'"

lemma wf_registry_build:
  assumes "wf_registry r" and "BuildDependencyGraph shuffle r = (e, r')"
  shows "wf_registry r'"
proof -
  have "\<exists>dep order. r' = r\<lparr>rg_dependents := dep, rg_sortedStartup := order\<rparr>"
    using assms(2) by (auto simp: BuildDependencyGraph_def Let_def split: prod.splits option.splits if_splits)
      (metis registry.surjective registry.update_convs(5))+
  then obtain dep order where "r' = r\<lparr>rg_dependents := dep, rg_sortedStartup := order\<rparr>" by blast
  then show ?thesis using assms(1) by (simp add: wf_registry_def)
qed

text \<open>
  C36. The registry's indexes stay consistent: after any sequence of registrations, enabling, disabling
  and graph constructions on a new registry, ids are unique, the capability index lists exactly the plugins
  that declare a capability, and the dependencies are those of the descriptors; registering an id twice is
  refused and changes nothing.
\<close>

theorem registry_consistent:
  assumes "registry_reach r"
  shows "wf_registry r \<and> (\<forall>d f. pd_ID d \<in> set (map fst (rg_byID r)) \<longrightarrow>
      (\<exists>e. Register d f r = (Some e, r) \<and> err_is e ErrAlreadyRegistered))"
proof
  show "wf_registry r" using assms
  proof induction
    case (reach_enable r i e r')
    then show ?case using wf_registry_set_enabled unfolding Enable_def by blast
  next
    case (reach_disable r i e r')
    then show ?case using wf_registry_set_enabled unfolding Disable_def by blast
  qed (auto intro: wf_registry_New wf_registry_Register wf_registry_build)
  show "\<forall>d f. pd_ID d \<in> set (map fst (rg_byID r)) \<longrightarrow> (\<exists>e. Register d f r = (Some e, r) \<and> err_is e ErrAlreadyRegistered)"
    by (auto simp: Register_def ErrAlreadyRegistered_def dest!: key_map_of_Some simp del: set_map)
qed

theorem registry_consistent_witness:
  "wf_registry sample_registry \<and> (\<exists>e. Register (sample_desc ''x'' [] []) () sample_registry = (Some e, sample_registry)
     \<and> err_is e ErrAlreadyRegistered)"
proof -
  have "registry_reach sample_registry"
    unfolding sample_registry_def
    by (simp add: reach_new reach_register [OF _ surjective_pairing])
  moreover have "pd_ID (sample_desc ''x'' [] []) \<in> set (map fst (rg_byID sample_registry))" by code_simp
  ultimately show ?thesis using registry_consistent by blast
qed

text \<open>
  Building the graph a second time can break the startup order: the edges are appended again while the
  in-degrees are counted afresh, so a plugin whose providers start at different times is released too early.
  Here x needs both p1 and p2, the first construction orders p2 before x, the second succeeds and puts x
  before p2.
\<close>

theorem rebuild_breaks_order:
  "let r1 = snd (BuildDependencyGraph in_order sample_registry); (e, r2) = BuildDependencyGraph in_order r1
   in needs sample_registry ''x'' ''p2'' \<and> StartupOrder r1 = [''p1'', ''q'', ''p2'', ''x'']
      \<and> e = None \<and> StartupOrder r2 = [''p1'', ''q'', ''x'', ''p2'']"
proof -
  have "needs sample_registry ''x'' ''p2''"
    unfolding needs_edges [OF wf_sample_registry] by code_simp
  moreover have "StartupOrder (snd (BuildDependencyGraph in_order sample_registry)) = [''p1'', ''q'', ''p2'', ''x'']" by code_simp
  moreover have "fst (BuildDependencyGraph in_order (snd (BuildDependencyGraph in_order sample_registry))) = None"
    by code_simp
  moreover have "StartupOrder (snd (BuildDependencyGraph in_order (snd (BuildDependencyGraph in_order sample_registry)))) =
      [''p1'', ''q'', ''x'', ''p2'']" by code_simp
  ultimately show ?thesis unfolding Let_def case_prod_beta by blast
qed

end
