(* ===== verification/Proxy_Http.thy ===== *)
theory Proxy_Http
  imports Proxy_Client Plugin_Registry
begin

text \<open>
  \<open>internal/proxy/httpserver/server.go\<close> and the wiring of \<open>cmd/accessgate-proxy/bootstrap.go\<close>: the route
  table, the proxy handler, the admin endpoint, and the engines the bootstrap builds for the routes of a
  configuration.

  \<open>http.Redirect\<close> and the JSON encoder of the admin endpoint are arguments. The mux cleans paths (by a
  redirect) before it dispatches, so the handlers see clean paths.
\<close>

section \<open>Routes\<close>

record 'w route =
  ro_Config :: route_config
  ro_Engine :: "'w default_engine"

record ('w, 'f) server =
  sv_cfg :: proxy_config
  sv_routes :: "'w route list"
  sv_registry :: "'f registry option"
  sv_metricsHandler :: bool

definition s_orDefault :: "string \<Rightarrow> string \<Rightarrow> string" where
  "s_orDefault v d = (if v = '''' then d else v)"

definition NewWithRoutes :: "proxy_config \<Rightarrow> 'w route list \<Rightarrow> 'f registry option \<Rightarrow> bool \<Rightarrow> ('w, 'f) server" where
  "NewWithRoutes cfg routes reg mh = \<lparr>sv_cfg = cfg, sv_routes = routes, sv_registry = reg, sv_metricsHandler = mh\<rparr>"

definition NewServer :: "proxy_config \<Rightarrow> 'w default_engine \<Rightarrow> 'f registry option \<Rightarrow> bool \<Rightarrow> ('w, 'f) server" where
  "NewServer cfg engine reg mh = NewWithRoutes cfg
     [\<lparr>ro_Config = \<lparr>rt_ID = ''default'', rt_Hosts = [], rt_PathPrefix = s_orDefault (pc_ProxyPathPrefix cfg) ''/'',
         rt_UpstreamURL = pc_UpstreamURL cfg, rt_RequireAuth = False, rt_UnauthenticatedMode = UnauthModeAPI401,
         rt_LoginRedirectURL = '''', rt_ConnectorID = '''', rt_PolicyBundlePath = ''''\<rparr>, ro_Engine = engine\<rparr>] reg mh"

definition hostMatches :: "string list \<Rightarrow> string \<Rightarrow> string \<Rightarrow> bool" where
  "hostMatches hosts host hostOnly \<longleftrightarrow> hosts = [] \<or> list_ex (\<lambda>h. h = host \<or> h = hostOnly) hosts"

definition pathMatches :: "string \<Rightarrow> string \<Rightarrow> bool" where
  "pathMatches path pre \<longleftrightarrow> pre = '''' \<or> pre = ''/'' \<or> path = pre \<or> HasPrefix path (pre @ ''/'')"

definition host_only :: "string \<Rightarrow> string" where
  "host_only host = takeWhile (\<lambda>c. c \<noteq> CHR '':'') host"

text \<open>The loop keeps the first of the longest matching prefixes seen so far.\<close>

fun match_loop :: "string \<Rightarrow> string \<Rightarrow> 'w route list \<Rightarrow> 'w route option \<Rightarrow> int \<Rightarrow> 'w route option" where
  "match_loop host path [] m best = m"
| "match_loop host path (rt # rts) m best =
     (if \<not> hostMatches (rt_Hosts (ro_Config rt)) host (host_only host) then match_loop host path rts m best
      else if \<not> pathMatches path (rt_PathPrefix (ro_Config rt)) then match_loop host path rts m best
      else let n = int (length (rt_PathPrefix (ro_Config rt))) in
        if best < n then match_loop host path rts (Some rt) n else match_loop host path rts m best)"

definition matchRoute :: "('w, 'f) server \<Rightarrow> string \<Rightarrow> string \<Rightarrow> 'w route option" where
  "matchRoute s host path = match_loop host path (sv_routes s) None (- 1)"

section \<open>The proxy handler\<close>

record http_env0 =
  he_json :: json_env
  he_url :: url_parser
  he_redirect :: "http_request \<Rightarrow> string \<Rightarrow> http_response"

text \<open>The list are the recorded route outcomes: the route's id and the outcome.\<close>

definition handleProxy :: "http_env0 \<Rightarrow> ('w, 'f) server \<Rightarrow> 'w \<Rightarrow> http_request \<Rightarrow> outcome \<times> 'w \<times> (string \<times> string) list" where
  "handleProxy he s w r = (case matchRoute s (r_Host r) (r_Path r) of
     None \<Rightarrow> (Answer (http_Error (error_body ''no route'') 404), w, [('''', ''route_miss'')])
   | Some rt \<Rightarrow> (case RequestFromHTTP (he_json he) r of
       Inl err \<Rightarrow> (Answer (http_Error (err_msg err) 400), w, [])
     | Inr req \<Rightarrow> (case Handle (ro_Engine rt) w req of
         (Inl err, w1, _) \<Rightarrow> (Answer (http_Error (err_msg err) 500), w1, [(rt_ID (ro_Config rt), ''auth_failure'')])
       | (Inr resp, w1, _) \<Rightarrow>
           (if rs_RedirectTo resp \<noteq> ''''
            then (Answer (he_redirect he r (rs_RedirectTo resp)), w1, [(rt_ID (ro_Config rt), ''auth_failure'')])
            else if rs_Allow resp \<and> rt_UpstreamURL (ro_Config rt) \<noteq> ''''
            then (Forward (ProxyToUpstream (he_url he) r (rt_UpstreamURL (ro_Config rt)) (rs_UpstreamHeaders resp) (rq_Body req)), w1,
                  [(rt_ID (ro_Config rt), ''allow'')])
            else (Answer (WriteResponse resp), w1, [(rt_ID (ro_Config rt), ''auth_failure'')])))))"

section \<open>Admin endpoint and dispatch\<close>

definition proxyConfigSummary :: "('w, 'f) server \<Rightarrow> gany" where
  "proxyConfigSummary s = AMap
     [(''auth_url'', AStr (pc_AuthURL (sv_cfg s))), (''cookie_name'', AStr (pc_CookieName (sv_cfg s))),
      (''http_port'', AStr (pc_HTTPPort (sv_cfg s))),
      (''routes'', AList (map (\<lambda>rt. let c = ro_Config rt in AMap
         [(''id'', AStr (rt_ID c)), (''hosts'', AStrs (rt_Hosts c)), (''path_prefix'', AStr (rt_PathPrefix c)),
          (''upstream_url'', AStr (rt_UpstreamURL c)), (''require_auth'', ABool (rt_RequireAuth c)),
          (''unauthenticated_mode'', AStr (rt_UnauthenticatedMode c)), (''connector_id'', AStr (rt_ConnectorID c))]) (sv_routes s)))]"

text \<open>\<open>ord\<close> is the iteration order of the registry's map, used when no startup order was computed.\<close>

definition plugin_ids :: "(nat \<Rightarrow> string list \<Rightarrow> string list) \<Rightarrow> 'f registry \<Rightarrow> string list" where
  "plugin_ids ord reg = (let order = StartupOrder reg in if order = [] then AllPluginIDs ord reg else order)"

definition pluginsList :: "(nat \<Rightarrow> string list \<Rightarrow> string list) \<Rightarrow> ('w, 'f) server \<Rightarrow> gany list" where
  "pluginsList ord s = (case sv_registry s of
     None \<Rightarrow> []
   | Some reg \<Rightarrow> List.map_filter (\<lambda>i. map_option (\<lambda>rg. AMap
       [(''id'', AStr (pd_ID (rn_Descriptor rg))), (''kind'', AStr (pd_Kind (rn_Descriptor rg))), (''name'', AStr (pd_Name (rn_Descriptor rg))),
        (''enabled'', ABool (rn_Enabled rg)), (''state'', AStr (rn_State rg))]) (RegistrationFor reg i)) (plugin_ids ord reg))"

definition pluginHealthList :: "(nat \<Rightarrow> string list \<Rightarrow> string list) \<Rightarrow> ('w, 'f) server \<Rightarrow> gany list" where
  "pluginHealthList ord s = (case sv_registry s of
     None \<Rightarrow> []
   | Some reg \<Rightarrow> List.map_filter (\<lambda>i. map_option (\<lambda>rg. AMap
       ([(''plugin_id'', AStr i), (''state'', AStr (rn_State rg))]
        @ (case rn_Error rg of None \<Rightarrow> [] | Some e \<Rightarrow> [(''error'', AStr (err_msg e))]))) (RegistrationFor reg i)) (plugin_ids ord reg))"

text \<open>
  \<open>status i\<close> is what the policy engine of route \<open>i\<close> reports: None when it does not report, otherwise
  whether it is loaded and its bundle path.
\<close>

definition policyBundleStatus :: "(nat \<Rightarrow> (bool \<times> string) option) \<Rightarrow> ('w, 'f) server \<Rightarrow> gany" where
  "policyBundleStatus status s = AMap [(''routes'', AList (map (\<lambda>(i, rt). AMap ((''route'', AStr (rt_ID (ro_Config rt))) #
     (case status i of
        Some (loaded, path) \<Rightarrow> [(''loaded'', ABool loaded), (''bundle_path'', AStr path)]
      | None \<Rightarrow> [(''loaded'', ABool False), (''message'', AStr ''engine does not report status'')])))
     (enumerate 0 (sv_routes s))))]"

definition handleAdmin :: "(gany \<Rightarrow> bytes) \<Rightarrow> (nat \<Rightarrow> string list \<Rightarrow> string list) \<Rightarrow> (nat \<Rightarrow> (bool \<times> string) option) \<Rightarrow> ('w, 'f) server \<Rightarrow> http_request \<Rightarrow> http_response" where
  "handleAdmin encode ord status s r =
     (if hdr_Get (r_Header r) ''X-Admin-Secret'' \<noteq> pc_AdminSecret (sv_cfg s)
      then \<lparr>hr_Cookies = [], hr_ContentType = '''', hr_Location = '''', hr_Status = 403, hr_Body = []\<rparr>
      else \<lparr>hr_Cookies = [], hr_ContentType = ''application/json'', hr_Location = '''', hr_Status = 200,
        hr_Body = encode (AMap [(''config_summary'', proxyConfigSummary s), (''plugins'', AList (pluginsList ord s)),
          (''plugin_health'', AList (pluginHealthList ord s)), (''policy_bundle'', policyBundleStatus status s)])\<rparr>)"

definition handleHealthz :: http_response where
  "handleHealthz = \<lparr>hr_Cookies = [], hr_ContentType = ''text/plain'', hr_Location = '''', hr_Status = 200, hr_Body = ''ok''\<rparr>"



datatype endpoint = Healthz | Readyz | Livez | Admin | Metrics | Proxied

text \<open>The patterns of \<open>installRoutes\<close>: a GET pattern also matches HEAD; everything else is proxied.\<close>

definition installRoutes :: "('w, 'f) server \<Rightarrow> http_request \<Rightarrow> endpoint" where
  "installRoutes s r =
     (if r_Method r \<noteq> ''GET'' \<and> r_Method r \<noteq> ''HEAD'' then Proxied
      else if r_Path r = ''/healthz'' then Healthz
      else if r_Path r = ''/readyz'' then Readyz
      else if r_Path r = ''/livez'' then Livez
      else if r_Path r = ''/admin'' \<and> pc_AdminSecret (sv_cfg s) \<noteq> '''' then Admin
      else if r_Path r = ''/metrics'' \<and> sv_metricsHandler s then Metrics
      else Proxied)"

section \<open>The bootstrap (bootstrap.go)\<close>

definition connectorCookieName :: "proxy_config \<Rightarrow> string \<Rightarrow> string" where
  "connectorCookieName cfg connectorID =
     (if connectorID = '''' then pc_CookieName cfg else pc_CookieName cfg @ ''_'' @ connectorID)"

definition route_resolver :: "proxy_config \<Rightarrow> route_config \<Rightarrow> auth_resolver" where
  "route_resolver cfg rc = \<lparr>ar_Client = NewAuthClient (pc_AuthURL cfg) (pc_CookieName cfg),
     ar_CookieName = connectorCookieName cfg (rt_ConnectorID rc), ar_ConnectorID = rt_ConnectorID rc\<rparr>"

definition route_engine :: "'w transport \<Rightarrow> proxy_config \<Rightarrow> 'w policy_engine \<Rightarrow> 'w pipeline_plugin option list \<Rightarrow> route_config \<Rightarrow> 'w default_engine" where
  "route_engine tp cfg sharedPolicy plugins rc = \<lparr>e_Resolver = auth_Resolve tp (route_resolver cfg rc), e_Policy = sharedPolicy,
     e_PipelinePlugins = plugins, e_UpstreamURL = rt_UpstreamURL rc, e_RequireAuth = rt_RequireAuth rc, e_HeaderBuilder = None,
     e_UnauthenticatedMode = rt_UnauthenticatedMode rc, e_LoginRedirectURL = rt_LoginRedirectURL rc, e_Metrics = True\<rparr>"

text \<open>One engine per route, over the shared policy engine and pipeline plugins.\<close>

definition build_server :: "'w transport \<Rightarrow> 'w policy_engine \<Rightarrow> 'w pipeline_plugin option list \<Rightarrow> 'f registry option \<Rightarrow> proxy_config \<Rightarrow> ('w, 'f) server" where
  "build_server tp sharedPolicy plugins reg cfg0 =
     (let cfg = (if pc_Routes cfg0 = [] then Normalize cfg0 else cfg0) in
      NewWithRoutes cfg (map (\<lambda>rc. \<lparr>ro_Config = rc, ro_Engine = route_engine tp cfg sharedPolicy plugins rc\<rparr>) (pc_Routes cfg)) reg True)"

section \<open>Lemmas\<close>

definition route_matches :: "string \<Rightarrow> string \<Rightarrow> 'w route \<Rightarrow> bool" where
  "route_matches host path rt \<longleftrightarrow> hostMatches (rt_Hosts (ro_Config rt)) host (host_only host) \<and> pathMatches path (rt_PathPrefix (ro_Config rt))"

abbreviation prefix_len :: "'w route \<Rightarrow> nat" where
  "prefix_len rt \<equiv> length (rt_PathPrefix (ro_Config rt))"

text \<open>\<open>rt\<close> is the first of the routes of \<open>rts\<close> with the longest matching prefix.\<close>

definition best_route :: "string \<Rightarrow> string \<Rightarrow> 'w route list \<Rightarrow> 'w route \<Rightarrow> bool" where
  "best_route host path rts rt \<longleftrightarrow> (\<exists>pre post. rts = pre @ rt # post \<and> route_matches host path rt
     \<and> (\<forall>x \<in> set pre. route_matches host path x \<longrightarrow> prefix_len x < prefix_len rt)
     \<and> (\<forall>x \<in> set post. route_matches host path x \<longrightarrow> prefix_len x \<le> prefix_len rt))"

lemma match_loop_simp: "match_loop host path (rt # rts) m best =
    (if route_matches host path rt \<and> best < int (prefix_len rt) then match_loop host path rts (Some rt) (int (prefix_len rt))
     else match_loop host path rts m best)"
  by (simp add: route_matches_def Let_def)

lemma best_route_Cons:
  "best_route host path rts rt \<Longrightarrow> (route_matches host path x \<Longrightarrow> prefix_len x < prefix_len rt) \<Longrightarrow> best_route host path (x # rts) rt"
  unfolding best_route_def by (metis append_Cons set_ConsD)

lemma best_route_hd:
  "route_matches host path x \<Longrightarrow> \<forall>y \<in> set rts. route_matches host path y \<longrightarrow> prefix_len y \<le> prefix_len x \<Longrightarrow> best_route host path (x # rts) x"
  unfolding best_route_def by (rule exI [of _ "[]"], rule exI [of _ rts]) simp

lemma match_loop_Some:
  "match_loop host path rts m best = Some rt \<Longrightarrow>
     (m = Some rt \<and> (\<forall>x \<in> set rts. route_matches host path x \<longrightarrow> int (prefix_len x) \<le> best))
   \<or> (best_route host path rts rt \<and> best < int (prefix_len rt))"
proof (induction rts arbitrary: m best)
  case (Cons x rts)
  show ?case
  proof (cases "route_matches host path x \<and> best < int (prefix_len x)")
    case True
    with Cons.prems have "match_loop host path rts (Some x) (int (prefix_len x)) = Some rt" by (simp add: match_loop_simp del: match_loop.simps)
    from Cons.IH [OF this] show ?thesis
    proof
      assume a: "Some x = Some rt \<and> (\<forall>y \<in> set rts. route_matches host path y \<longrightarrow> int (prefix_len y) \<le> int (prefix_len x))"
      then have "best_route host path (x # rts) rt"
        using True best_route_hd [of host path x rts] by auto
      then show ?thesis using a True by simp
    next
      assume a: "best_route host path rts rt \<and> int (prefix_len x) < int (prefix_len rt)"
      then have "best_route host path (x # rts) rt" using best_route_Cons [of host path rts rt x] by simp
      then show ?thesis using a True by linarith
    qed
  next
    case False
    with Cons.prems have "match_loop host path rts m best = Some rt" by (auto simp: match_loop_simp simp del: match_loop.simps split: if_splits)
    from Cons.IH [OF this] False show ?thesis
      using best_route_Cons [of host path rts rt x] by (auto simp del: match_loop.simps)
  qed
qed simp

lemma match_loop_None:
  "match_loop host path rts m best = None \<Longrightarrow> m = None \<and> (\<forall>x \<in> set rts. route_matches host path x \<longrightarrow> int (prefix_len x) \<le> best)"
proof (induction rts arbitrary: m best)
  case (Cons x rts)
  show ?case
  proof (cases "route_matches host path x \<and> best < int (prefix_len x)")
    case True
    with Cons.prems have "match_loop host path rts (Some x) (int (prefix_len x)) = None"
      by (simp add: match_loop_simp del: match_loop.simps)
    from Cons.IH [OF this] show ?thesis by simp
  next
    case False
    with Cons.prems have "match_loop host path rts m best = None"
      by (auto simp: match_loop_simp simp del: match_loop.simps split: if_splits)
    from Cons.IH [OF this] False show ?thesis by auto
  qed
qed simp

lemma matchRoute_Some: "matchRoute s host path = Some rt \<Longrightarrow> best_route host path (sv_routes s) rt"
  using match_loop_Some [of host path "sv_routes s" None "- 1" rt] by (simp add: matchRoute_def)

lemma matchRoute_None: "matchRoute s host path = None \<Longrightarrow> x \<in> set (sv_routes s) \<Longrightarrow> \<not> route_matches host path x"
  using match_loop_None [of host path "sv_routes s" None "- 1"] by (fastforce simp: matchRoute_def)

section \<open>Properties\<close>

text \<open>
  C29. Routing: \<open>matchRoute\<close> picks, among the routes whose host list and path prefix match, one with the
  longest prefix, the first of them in configuration order, and finds no route only when none matches.
\<close>

theorem route_longest_prefix:
  "(case matchRoute s host path of
      Some rt \<Rightarrow> (\<exists>pre post. sv_routes s = pre @ rt # post \<and> route_matches host path rt
        \<and> (\<forall>x \<in> set pre. route_matches host path x \<longrightarrow> prefix_len x < prefix_len rt)
        \<and> (\<forall>x \<in> set post. route_matches host path x \<longrightarrow> prefix_len x \<le> prefix_len rt))
    | None \<Rightarrow> (\<forall>x \<in> set (sv_routes s). \<not> route_matches host path x))"
  using matchRoute_Some [of s host path] matchRoute_None [of s host path]
  by (auto simp: best_route_def split: option.split)

definition sample_route :: "string \<Rightarrow> string \<Rightarrow> route_config" where
  "sample_route i pre = \<lparr>rt_ID = i, rt_Hosts = [], rt_PathPrefix = pre, rt_UpstreamURL = ''https://bff'', rt_RequireAuth = True,
     rt_UnauthenticatedMode = '''', rt_LoginRedirectURL = '''', rt_ConnectorID = '''', rt_PolicyBundlePath = ''''\<rparr>"

definition sample_tp :: "nat transport" where
  "sample_tp = \<lparr>tp_NewRequest = (\<lambda>u. None),
     tp_Do = (\<lambda>w u c. (Inr (if c = Some ''sid=good'' then (200, ''{}'') else (401, '''')), Suc w)),
     tp_Decode = (\<lambda>b. Inr \<lparr>rr_AccessToken = ''at'', rr_Claims = Some [(''sub'', AStr ''u1'')], rr_TenantContext = None\<rparr>)\<rparr>"

definition sample_server :: "string list \<Rightarrow> (nat, unit) server" where
  "sample_server ps = build_server sample_tp (\<lambda>w i. (Inr (Some (fallbackDecision True)), w)) [] None
     (empty_config\<lparr>pc_CookieName := ''sid'', pc_Routes := map (\<lambda>p. sample_route p p) ps\<rparr>)"

theorem route_longest_prefix_witness:
  "map_option (\<lambda>rt. rt_ID (ro_Config rt)) (matchRoute (sample_server [''/'', ''/api'', ''/api/v1'']) ''h:80'' ''/api/v10'') = Some ''/api''
   \<and> (\<exists>pre post rt. sv_routes (sample_server [''/'', ''/api'', ''/api/v1'']) = pre @ rt # post \<and> rt_ID (ro_Config rt) = ''/api''
        \<and> route_matches ''h:80'' ''/api/v10'' rt)"
proof -
  have m: "map_option (\<lambda>rt. rt_ID (ro_Config rt)) (matchRoute (sample_server [''/'', ''/api'', ''/api/v1'']) ''h:80'' ''/api/v10'') = Some ''/api''"
    by code_simp
  then obtain rt where "matchRoute (sample_server [''/'', ''/api'', ''/api/v1'']) ''h:80'' ''/api/v10'' = Some rt" "rt_ID (ro_Config rt) = ''/api''"
    by auto
  then show ?thesis
    using m route_longest_prefix [of "sample_server [''/'', ''/api'', ''/api/v1'']" "''h:80''" "''/api/v10''"] by auto
qed

text \<open>
  A path prefix that ends in a slash never serves the paths below it: \<open>Load\<close> accepts the route with
  prefix /api/, but a request for /api/users finds no route, because the handler looks for the prefix
  followed by a slash.
\<close>

theorem trailing_slash_prefix_dead:
  "\<exists>c. Load sample_ce (Inr (empty_config\<lparr>pc_AuthURL := ''http://auth'', pc_Routes := [sample_route ''api'' ''/api/'']\<rparr>)) = Inr c
      \<and> (\<forall>tp pol plugins reg. matchRoute (build_server tp pol plugins reg c) ''h'' ''/api/users'' = None)
"
proof -
  let ?raw = "empty_config\<lparr>pc_AuthURL := ''http://auth'', pc_Routes := [sample_route ''api'' ''/api/'']\<rparr>"
  let ?conf = "Normalize (ApplyDefaults ?raw)"
  have f: "validateUpstreamSSRF sample_ne (ce_url sample_ce) ''https://bff'' = None"
    by (simp add: validateUpstreamSSRF_def sample_ce_def sample_host_ok) (simp add: sample_ne_def)
  have v: "Validate sample_ce ?conf = (None, ?conf)"
    using f by (simp add: Validate_def Normalize_def ApplyDefaults_def normalize_route_def empty_config_def or_default_def sample_route_def
        check_reload_def validateRoutes_def validate_route_def HasPrefix_def UnauthModeAPI401_def UnauthModeHTMLRedirect_def PolicyEngineWASM_def
        MinPolicyReloadInterval_def sample_ce_def)
  then have "Load sample_ce (Inr ?raw) = Inr ?conf" by (simp add: Load_def)
  moreover have "matchRoute (build_server tp pol plugins reg ?conf) ''h'' ''/api/users'' = None" for tp pol plugins reg
    by (simp add: matchRoute_def build_server_def NewWithRoutes_def Normalize_def ApplyDefaults_def normalize_route_def sample_route_def
        pathMatches_def hostMatches_def HasPrefix_def Let_def)
  ultimately show ?thesis by blast
qed


text \<open>
  C3. What reaches an upstream: in the server the bootstrap builds, a request is forwarded only by the best
  matching route, to the upstream of that route, and only on an allowing decision of a plugin or the
  policy. If the route requires authentication, the auth service has answered 200 to the request's session
  cookie of the route's connector, the policy was asked with the principal of that answer, and the
  upstream headers are those built for that principal.
\<close>

theorem forwarded_requests_vouched:
  assumes "handleProxy he (build_server tp pol plugins reg cfg) w r = (Forward out, w', ms)" and "pc_Routes cfg \<noteq> []"
  shows "\<exists>rc \<in> set (pc_Routes cfg). \<exists>req p w1 d.
     best_route (r_Host r) (r_Path r) (sv_routes (build_server tp pol plugins reg cfg)) \<lparr>ro_Config = rc, ro_Engine = route_engine tp cfg pol plugins rc\<rparr>
     \<and> RequestFromHTTP (he_json he) r = Inr req \<and> (rt_RequireAuth rc \<longrightarrow> p \<noteq> None)
     \<and> (\<forall>pr. p = Some pr \<longrightarrow> vouched tp (route_resolver cfg rc) w req pr)
     \<and> decided_by (route_engine tp cfg pol plugins rc) w1 req p d \<and> dc_Allow d
     \<and> out = ProxyToUpstream (he_url he) r (rt_UpstreamURL rc)
         (rs_UpstreamHeaders (upstream_build (route_engine tp cfg pol plugins rc) p d)) (rq_Body req)"
proof -
  let ?s = "build_server tp pol plugins reg cfg"
  from assms(1) obtain rt req resp w2 ms2 where m: "matchRoute ?s (r_Host r) (r_Path r) = Some rt"
    and q: "RequestFromHTTP (he_json he) r = Inr req" and h: "Handle (ro_Engine rt) w req = (Inr resp, w2, ms2)" "rs_Allow resp"
    and o1: "out = ProxyToUpstream (he_url he) r (rt_UpstreamURL (ro_Config rt)) (rs_UpstreamHeaders resp) (rq_Body req)"
    by (auto simp: handleProxy_def split: option.splits sum.splits prod.splits if_splits)
  have b: "best_route (r_Host r) (r_Path r) (sv_routes ?s) rt" using m by (rule matchRoute_Some)
  then have "rt \<in> set (sv_routes ?s)" by (auto simp: best_route_def)
  then obtain rc where rc: "rc \<in> set (pc_Routes cfg)" "rt = \<lparr>ro_Config = rc, ro_Engine = route_engine tp cfg pol plugins rc\<rparr>"
    using assms(2) by (auto simp: build_server_def NewWithRoutes_def Let_def)
  from h obtain p w1 d where p: "e_Resolver (ro_Engine rt) w req = (Inr p, w1)" "e_RequireAuth (ro_Engine rt) \<longrightarrow> p \<noteq> None"
    and d: "decide (ro_Engine rt) w1 req p = (Inr d, w2)" "dc_Allow d" "resp = upstream_build (ro_Engine rt) p d"
    using Handle_allow [OF h] by metis
  have "vouched tp (route_resolver cfg rc) w req pr" if "p = Some pr" for pr
    using p(1) that rc(2) auth_Resolve_vouched by (simp add: route_engine_def)
  moreover have "rt_RequireAuth rc \<longrightarrow> p \<noteq> None" using p(2) rc(2) by (simp add: route_engine_def)
  ultimately show ?thesis
    using b rc q o1 d decide_allow [OF d(1,2)] by (intro bexI [OF _ rc(1)] exI [of _ req] exI [of _ p] exI [of _ w1] exI [of _ d]) simp
qed

definition sample_he0 :: http_env0 where
  "sample_he0 = \<lparr>he_json = sample_je, he_url = sample_url_parse, he_redirect = (\<lambda>r u. http_Error u 302)\<rparr>"

theorem forwarded_requests_vouched_witness:
  "\<exists>out w' ms req p. handleProxy sample_he0 (sample_server [''/api'']) 0 ((sample_http [])\<lparr>r_Path := ''/api/x'', r_Cookies := [(''sid'', ''good'')]\<rparr>)
      = (Forward out, w', ms)
    \<and> vouched sample_tp (route_resolver (empty_config\<lparr>pc_CookieName := ''sid'', pc_Routes := [sample_route ''/api'' ''/api'']\<rparr>) (sample_route ''/api'' ''/api'')) 0 req p"
proof -
  let ?r = "(sample_http [])\<lparr>r_Path := ''/api/x'', r_Cookies := [(''sid'', ''good'')]\<rparr>"
  let ?cfg = "empty_config\<lparr>pc_CookieName := ''sid'', pc_Routes := [sample_route ''/api'' ''/api'']\<rparr>"
  let ?h = "handleProxy sample_he0 (sample_server [''/api'']) 0 ?r"
  have "(case fst ?h of Forward _ \<Rightarrow> True | Answer _ \<Rightarrow> False)" by code_simp
  then obtain out w' ms where h: "?h = (Forward out, w', ms)" by (metis outcome.case(2) outcome.exhaust prod.collapse)
  from forwarded_requests_vouched [OF h [unfolded sample_server_def list.map], simplified] h show ?thesis
    by (auto simp: sample_route_def)
qed

end
