(* ===== verification/Grpc.thy ===== *)
theory Grpc
  imports Proxy_Http
begin

text \<open>
  The gRPC side of the proxy: \<open>internal/grpc\<close> (metadata.go, adapter.go, interceptor.go, forward.go) and
  \<open>cmd/accessgate-proxy/grpcserver.go\<close>.

  A call is authorized by the stream interceptor and then handed to the unknown-service handler, which
  either refuses it or opens a stream to the upstream. The two goroutines that copy frames between the
  streams are pumps, and the director is a machine whose steps are the returns of the stream operations
  of both goroutines, in any interleaving. The codec passes frames as raw bytes.

  The gRPC library is an argument: dialing, opening a stream, and what every stream operation returns.
\<close>

section \<open>Calls and errors\<close>

text \<open>\<open>metadata.MD\<close>; and the errors of the streams: end of stream, a gRPC status, anything else.\<close>

type_synonym metadata = "string list gomap"

datatype rpc_error = EOF | Status nat string | StreamError string

abbreviation PermissionDenied :: nat where "PermissionDenied \<equiv> 7"
abbreviation Unimplemented :: nat where "Unimplemented \<equiv> 12"
abbreviation Internal :: nat where "Internal \<equiv> 13"
abbreviation Unavailable :: nat where "Unavailable \<equiv> 14"
abbreviation Unauthenticated :: nat where "Unauthenticated \<equiv> 16"

section \<open>Method names (metadata.go) and requests (adapter.go)\<close>

definition ExtractMethod :: "string \<Rightarrow> string \<times> string" where
  "ExtractMethod fullMethod =
     (if fullMethod = '''' then ('''', '''')
      else let trimmed = TrimPrefix fullMethod ''/'' in
        (case SplitLast (CHR ''/'') trimmed of None \<Rightarrow> (trimmed, '''') | Some (service, m) \<Rightarrow> (service, m)))"

definition grpc_request :: "string \<Rightarrow> string gomap \<Rightarrow> bytes \<Rightarrow> request" where
  "grpc_request fullMethod headers body = \<lparr>rq_Protocol = ''grpc'', rq_Method = ''POST'', rq_Path = fullMethod, rq_Headers = headers,
     rq_Cookies = [], rq_Body = body, rq_GraphQLOperation = '''', rq_GraphQLOperationType = '''',
     rq_GRPCService = fst (ExtractMethod fullMethod), rq_GRPCMethod = snd (ExtractMethod fullMethod), rq_RemoteAddr = ''''\<rparr>"

definition ToProxyRequest :: "string \<Rightarrow> string gomap option \<Rightarrow> bytes \<Rightarrow> request" where
  "ToProxyRequest fullMethod headers body = grpc_request fullMethod (case headers of None \<Rightarrow> [] | Some h \<Rightarrow> h) body"

section \<open>The interceptors (interceptor.go)\<close>

definition join_value :: "string \<Rightarrow> string \<Rightarrow> string" where
  "join_value v joined = (if v = '''' then joined else if joined = '''' then v else joined @ '','' @ v)"

definition headersFromIncomingContext :: "metadata option \<Rightarrow> string gomap" where
  "headersFromIncomingContext md = (case md of
     None \<Rightarrow> []
   | Some m \<Rightarrow> fold (\<lambda>(k, vs) headers. case vs of [] \<Rightarrow> headers | v # rest \<Rightarrow> AList.update k (fold join_value rest v) headers) m [])"

definition buildRequest :: "metadata option \<Rightarrow> string \<Rightarrow> request" where
  "buildRequest md fullMethod =
     (let headers = headersFromIncomingContext md in
      grpc_request fullMethod (if map_of headers '':path'' = None then AList.update '':path'' fullMethod headers else headers) [])"

definition statusFromResponse :: "response option \<Rightarrow> rpc_error" where
  "statusFromResponse resp = (case resp of
     None \<Rightarrow> Status PermissionDenied ''request denied by accessgate policy''
   | Some r \<Rightarrow> (if rs_StatusCode r = 401 then Status Unauthenticated ''unauthenticated''
       else if rs_StatusCode r = 403 then Status PermissionDenied ''permission denied''
       else Status PermissionDenied ''request denied by accessgate policy''))"

text \<open>\<open>authz.Engine\<close>: the response pointer may be nil; the default engine never returns nil.\<close>

type_synonym 'w engine = "'w \<Rightarrow> request \<Rightarrow> response option result \<times> 'w \<times> (bool \<times> int) list"

definition engine_of :: "'w default_engine \<Rightarrow> 'w engine" where
  "engine_of e w rq = (let (r, w', ms) = Handle e w rq in (map_sum (\<lambda>x. x) Some r, w', ms))"

text \<open>A server stream is the transport's stream of a method with its metadata, or a wrapped one.\<close>

datatype server_stream =
    TransportStream "string option" "metadata option"
  | AuthorizedStream server_stream "string gomap option"

fun MethodFromServerStream :: "server_stream \<Rightarrow> string option" where
  "MethodFromServerStream (TransportStream m md) = m"
| "MethodFromServerStream (AuthorizedStream ss h) = MethodFromServerStream ss"

fun FromIncomingContext :: "server_stream \<Rightarrow> metadata option" where
  "FromIncomingContext (TransportStream m md) = md"
| "FromIncomingContext (AuthorizedStream ss h) = FromIncomingContext ss"

definition NewAuthorizedStream :: "server_stream \<Rightarrow> string gomap option \<Rightarrow> server_stream" where
  "NewAuthorizedStream ss headers = AuthorizedStream ss headers"

fun IdentityHeaders :: "server_stream \<Rightarrow> string gomap option" where
  "IdentityHeaders (AuthorizedStream ss h) = h"
| "IdentityHeaders (TransportStream m md) = None"

text \<open>
  The verdict of an interceptor on a call: the error to return with the world after the engine ran, or
  the world and stream to run the handler on. The handler is an argument; \<open>Inr\<close> is what it returned.
\<close>

definition UnaryServerInterceptor :: "'w engine \<Rightarrow> 'w \<Rightarrow> metadata option \<Rightarrow> string \<Rightarrow> ('w \<Rightarrow> 'r) \<Rightarrow> (rpc_error \<times> 'w + 'r) \<times> (bool \<times> int) list" where
  "UnaryServerInterceptor engine w md fullMethod handler = (case engine w (buildRequest md fullMethod) of
     (Inl e, w1, ms) \<Rightarrow> (Inl (Status Internal ''authorization error'', w1), ms)
   | (Inr None, w1, ms) \<Rightarrow> (Inl (statusFromResponse None, w1), ms)
   | (Inr (Some resp), w1, ms) \<Rightarrow>
       (if \<not> rs_Allow resp then Inl (statusFromResponse (Some resp), w1) else Inr (handler w1), ms))"

definition StreamServerInterceptor :: "'w engine \<Rightarrow> 'w \<Rightarrow> server_stream \<Rightarrow> string \<Rightarrow> ('w \<Rightarrow> server_stream \<Rightarrow> 'r) \<Rightarrow> (rpc_error \<times> 'w + 'r) \<times> (bool \<times> int) list" where
  "StreamServerInterceptor engine w ss fullMethod handler = (case engine w (buildRequest (FromIncomingContext ss) fullMethod) of
     (Inl e, w1, ms) \<Rightarrow> (Inl (Status Internal ''authorization error'', w1), ms)
   | (Inr None, w1, ms) \<Rightarrow> (Inl (statusFromResponse None, w1), ms)
   | (Inr (Some resp), w1, ms) \<Rightarrow>
       (if \<not> rs_Allow resp then Inl (statusFromResponse (Some resp), w1)
        else Inr (handler w1 (NewAuthorizedStream ss (rs_UpstreamHeaders resp))), ms))"

section \<open>Opening the upstream stream (grpcserver.go)\<close>

record 'c upstreamForwarder =
  fw_addr :: string
  fw_insecure :: bool
  fw_conn :: "'c option"

definition newUpstreamForwarder :: "string \<Rightarrow> bool \<Rightarrow> 'c upstreamForwarder" where
  "newUpstreamForwarder addr insecureTransport = \<lparr>fw_addr = addr, fw_insecure = insecureTransport, fw_conn = None\<rparr>"

text \<open>\<open>ge_NewClient addr insecure\<close> and \<open>ge_NewStream conn method md\<close> of the library.\<close>

record ('c, 'w) grpc_env =
  ge_NewClient :: "'w \<Rightarrow> string \<Rightarrow> bool \<Rightarrow> 'c result \<times> 'w"
  ge_NewStream :: "'w \<Rightarrow> 'c \<Rightarrow> string \<Rightarrow> metadata \<Rightarrow> goerr option \<times> 'w"
  ge_Close :: "'w \<Rightarrow> 'c \<Rightarrow> goerr option \<times> 'w"

definition clientConn :: "('c, 'w) grpc_env \<Rightarrow> 'c upstreamForwarder \<Rightarrow> 'w \<Rightarrow> 'c result \<times> 'c upstreamForwarder \<times> 'w" where
  "clientConn ge f w = (case fw_conn f of
     Some c \<Rightarrow> (Inr c, f, w)
   | None \<Rightarrow> (case ge_NewClient ge w (fw_addr f) (fw_insecure f) of
       (Inl e, w1) \<Rightarrow> (Inl e, f, w1)
     | (Inr c, w1) \<Rightarrow> (Inr c, f\<lparr>fw_conn := Some c\<rparr>, w1)))"

definition fw_Close :: "('c, 'w) grpc_env \<Rightarrow> 'c upstreamForwarder \<Rightarrow> 'w \<Rightarrow> goerr option \<times> 'c upstreamForwarder \<times> 'w" where
  "fw_Close ge f w = (case fw_conn f of
     None \<Rightarrow> (None, f, w)
   | Some c \<Rightarrow> (let (e, w1) = ge_Close ge w c in (e, f\<lparr>fw_conn := None\<rparr>, w1)))"

definition outgoingContext :: "server_stream \<Rightarrow> metadata" where
  "outgoingContext ss =
     (let out = (case FromIncomingContext ss of None \<Rightarrow> [] | Some md \<Rightarrow> md)
      in fold (\<lambda>(k, v) out. AList.update (ToLower k) [v] out) (case IdentityHeaders ss of None \<Rightarrow> [] | Some h \<Rightarrow> h) out)"

text \<open>An opened call: the connection, the method and the metadata the upstream sees.\<close>

record 'c upstream_call =
  uc_conn :: 'c
  uc_method :: string
  uc_metadata :: metadata

definition director_open :: "('c, 'w) grpc_env \<Rightarrow> 'c upstreamForwarder \<Rightarrow> 'w \<Rightarrow> server_stream \<Rightarrow> (rpc_error + 'c upstream_call) \<times> 'c upstreamForwarder \<times> 'w" where
  "director_open ge f w ss = (case MethodFromServerStream ss of
     None \<Rightarrow> (Inl (Status Internal ''accessgate-proxy: could not determine method for forwarding''), f, w)
   | Some fullMethod \<Rightarrow> (case clientConn ge f w of
       (Inl e, f1, w1) \<Rightarrow> (Inl (Status Unavailable (''accessgate-proxy: upstream dial failed: '' @ err_msg e)), f1, w1)
     | (Inr c, f1, w1) \<Rightarrow> (case ge_NewStream ge w1 c fullMethod (outgoingContext ss) of
         (Some e, w2) \<Rightarrow> (Inl (Status Unavailable (''accessgate-proxy: upstream stream failed: '' @ err_msg e)), f1, w2)
       | (None, w2) \<Rightarrow> (Inr \<lparr>uc_conn = c, uc_method = fullMethod, uc_metadata = outgoingContext ss\<rparr>, f1, w2))))"

definition unknownServiceHandler :: "server_stream \<Rightarrow> rpc_error" where
  "unknownServiceHandler ss = Status Unimplemented
     (''accessgate-proxy authorized the call but no grpc_upstream_addr is configured for forwarding (method ''
       @ Quote (case MethodFromServerStream ss of None \<Rightarrow> '''' | Some m \<Rightarrow> m) @ '')'')"

record ('c, 'w) grpc_server =
  gs_engine :: "'w engine"
  gs_forwarder :: "'c upstreamForwarder option"

definition newGRPCServer :: "'w engine \<Rightarrow> string \<Rightarrow> bool \<Rightarrow> ('c, 'w) grpc_server" where
  "newGRPCServer engine grpcUpstreamAddr grpcUpstreamInsecure = \<lparr>gs_engine = engine,
     gs_forwarder = (if grpcUpstreamAddr \<noteq> '''' then Some (newUpstreamForwarder grpcUpstreamAddr grpcUpstreamInsecure) else None)\<rparr>"

text \<open>
  The server has no registered service, so every call goes through the stream interceptor to the
  unknown-service handler: a refusal, or an opened upstream call that the pumps then serve.
\<close>

definition grpc_serve :: "('c, 'w) grpc_env \<Rightarrow> ('c, 'w) grpc_server \<Rightarrow> 'w \<Rightarrow> string \<Rightarrow> metadata option \<Rightarrow> (rpc_error + 'c upstream_call) \<times> ('c, 'w) grpc_server \<times> 'w" where
  "grpc_serve ge s w fullMethod md =
     (case fst (StreamServerInterceptor (gs_engine s) w (TransportStream (Some fullMethod) md) fullMethod
         (\<lambda>w1 ss. case gs_forwarder s of
            None \<Rightarrow> (Inl (unknownServiceHandler ss), s, w1)
          | Some f \<Rightarrow> (let (r, f1, w2) = director_open ge f w1 ss in (r, s\<lparr>gs_forwarder := Some f1\<rparr>, w2)))) of
        Inl (e, w1) \<Rightarrow> (Inl e, s, w1)
      | Inr x \<Rightarrow> x)"

section \<open>The codec (grpcserver.go)\<close>

text \<open>What the library passes to the codec: a byte slice, a pointer to one, or something of another type.\<close>

datatype any_message = ByteSlice bytes | BytePointer bytes | OtherMessage string

fun go_type :: "any_message \<Rightarrow> string" where
  "go_type (ByteSlice b) = ''[]uint8''"
| "go_type (BytePointer b) = ''*[]uint8''"
| "go_type (OtherMessage t) = t"

definition rawCodec_Marshal :: "any_message \<Rightarrow> bytes result" where
  "rawCodec_Marshal v = (case v of ByteSlice b \<Rightarrow> Inr b | _ \<Rightarrow> Inl (Err (''rawCodec: expected []byte, got '' @ go_type v)))"

definition rawCodec_Unmarshal :: "bytes \<Rightarrow> any_message \<Rightarrow> any_message result" where
  "rawCodec_Unmarshal data v = (case v of BytePointer _ \<Rightarrow> Inr (BytePointer data) | _ \<Rightarrow> Inl (Err (''rawCodec: expected *[]byte, got '' @ go_type v)))"

text \<open>A frame that is sent and received is the same frame: what \<open>SendMsg\<close> marshals, \<open>RecvMsg\<close> stores.\<close>

lemma raw_codec_transparent: "rawCodec_Marshal (ByteSlice f) = Inr data \<Longrightarrow> rawCodec_Unmarshal data (BytePointer b) = Inr (BytePointer f)"
  by (simp add: rawCodec_Marshal_def rawCodec_Unmarshal_def)

section \<open>The pumps and the director\<close>

type_synonym frame = bytes

text \<open>Where a goroutine stands: before the header, at \<open>RecvMsg\<close>, at \<open>SendMsg\<close> of a frame, at \<open>CloseSend\<close>, or reported.\<close>

datatype pump_phase = AtHeader | Receiving | Sending frame | Closing | Done "rpc_error option"

record pump =
  pu_phase :: pump_phase
  pu_received :: "frame list"
  pu_sent :: "frame list"

definition recv_frame :: "(rpc_error \<Rightarrow> pump_phase) \<Rightarrow> rpc_error + frame \<Rightarrow> pump \<Rightarrow> pump option" where
  "recv_frame at_error r p =
     (if pu_phase p \<noteq> Receiving then None
      else Some (case r of
          Inl e \<Rightarrow> p\<lparr>pu_phase := at_error e\<rparr>
        | Inr f \<Rightarrow> p\<lparr>pu_phase := Sending f, pu_received := pu_received p @ [f]\<rparr>))"

definition send_frame :: "rpc_error option \<Rightarrow> pump \<Rightarrow> pump option" where
  "send_frame r p = (case pu_phase p of
     Sending f \<Rightarrow> Some (case r of
         Some e \<Rightarrow> p\<lparr>pu_phase := Done (Some e)\<rparr>
       | None \<Rightarrow> p\<lparr>pu_phase := Receiving, pu_sent := pu_sent p @ [f]\<rparr>)
   | _ \<Rightarrow> None)"

text \<open>What the stream operations of the two goroutines return, and the return of the director with the upstream's trailer.\<close>

datatype pump_event =
    ClientRecv "rpc_error + frame"
  | UpstreamSend "rpc_error option"
  | UpstreamClose "rpc_error option"
  | UpstreamHeader "rpc_error + metadata"
  | UpstreamRecv "rpc_error + frame"
  | ClientSend "rpc_error option"
  | Return metadata

definition forwardClientToUpstream :: "pump_event \<Rightarrow> pump \<Rightarrow> pump option" where
  "forwardClientToUpstream ev p = (case ev of
     ClientRecv r \<Rightarrow> recv_frame (\<lambda>e. if e = EOF then Closing else Done (Some e)) r p
   | UpstreamSend r \<Rightarrow> send_frame r p
   | UpstreamClose r \<Rightarrow> (if pu_phase p = Closing then Some (p\<lparr>pu_phase := Done r\<rparr>) else None)
   | _ \<Rightarrow> None)"

definition forwardUpstreamToClient :: "pump_event \<Rightarrow> pump \<Rightarrow> pump option" where
  "forwardUpstreamToClient ev p = (case ev of
     UpstreamHeader r \<Rightarrow> (if pu_phase p = AtHeader then Some (p\<lparr>pu_phase := Receiving\<rparr>) else None)
   | UpstreamRecv r \<Rightarrow> recv_frame (\<lambda>e. Done (if e = EOF then None else Some e)) r p
   | ClientSend r \<Rightarrow> send_frame r p
   | _ \<Rightarrow> None)"

text \<open>\<open>di_header\<close> and \<open>di_trailer\<close>: what was set on the client's stream; \<open>di_result\<close>: what the director returned.\<close>

record director_state =
  di_c2u :: pump
  di_u2c :: pump
  di_header :: "metadata option"
  di_trailer :: "metadata option"
  di_result :: "rpc_error option option"

definition director_start :: director_state where
  "director_start = \<lparr>di_c2u = \<lparr>pu_phase = Receiving, pu_received = [], pu_sent = []\<rparr>,
     di_u2c = \<lparr>pu_phase = AtHeader, pu_received = [], pu_sent = []\<rparr>, di_header = None, di_trailer = None, di_result = None\<rparr>"

text \<open>The \<open>select\<close> with a default takes what the client's pump has reported, and does not wait for it.\<close>

definition client_error :: "pump_phase \<Rightarrow> rpc_error option" where
  "client_error ph = (case ph of Done (Some e) \<Rightarrow> (if e = EOF then None else Some e) | _ \<Rightarrow> None)"

definition director :: "pump_event \<Rightarrow> director_state \<Rightarrow> director_state option" where
  "director ev s = (case ev of
     Return trailer \<Rightarrow> (case pu_phase (di_u2c s) of
         Done upstreamErr \<Rightarrow>
           (if di_result s \<noteq> None then None
            else Some (s\<lparr>di_trailer := Some trailer,
                di_result := Some (if upstreamErr \<noteq> None then upstreamErr else client_error (pu_phase (di_c2u s)))\<rparr>))
       | _ \<Rightarrow> None)
   | UpstreamHeader r \<Rightarrow> map_option (\<lambda>p. s\<lparr>di_u2c := p,
         di_header := (case r of Inr hdr \<Rightarrow> if hdr \<noteq> [] then Some hdr else di_header s | Inl e \<Rightarrow> di_header s)\<rparr>)
         (forwardUpstreamToClient ev (di_u2c s))
   | UpstreamRecv r \<Rightarrow> map_option (\<lambda>p. s\<lparr>di_u2c := p\<rparr>) (forwardUpstreamToClient ev (di_u2c s))
   | ClientSend r \<Rightarrow> map_option (\<lambda>p. s\<lparr>di_u2c := p\<rparr>) (forwardUpstreamToClient ev (di_u2c s))
   | _ \<Rightarrow> map_option (\<lambda>p. s\<lparr>di_c2u := p\<rparr>) (forwardClientToUpstream ev (di_c2u s)))"

text \<open>The interleavings of the two goroutines and the director, as lists of events.\<close>

inductive director_run :: "pump_event list \<Rightarrow> director_state \<Rightarrow> bool" where
  start: "director_run [] director_start"
| step: "director_run evs s \<Longrightarrow> director ev s = Some s' \<Longrightarrow> director_run (evs @ [ev]) s'"

section \<open>Lemmas\<close>

subsection \<open>Pumps\<close>

definition idle :: "pump_phase \<Rightarrow> bool" where
  "idle ph = (case ph of Sending f \<Rightarrow> False | _ \<Rightarrow> True)"

text \<open>
  A pump passes its frames on in order: what it has sent is what it has received, but for one frame
  that is being sent or whose sending has failed.
\<close>

definition delivered :: "(rpc_error option \<Rightarrow> pump_event) \<Rightarrow> frame list \<Rightarrow> pump_event list \<Rightarrow> pump \<Rightarrow> bool" where
  "delivered send_ev frames evs p \<longleftrightarrow> pu_received p = frames \<and>
     (pu_sent p = frames \<and> idle (pu_phase p)
      \<or> (\<exists>f. pu_sent p @ [f] = frames
           \<and> (pu_phase p = Sending f \<or> (\<exists>e. pu_phase p = Done (Some e) \<and> send_ev (Some e) \<in> set evs))))"

lemma recv_frame_Some: "recv_frame g r p = Some q \<longleftrightarrow> pu_phase p = Receiving \<and>
    q = (case r of Inl e \<Rightarrow> p\<lparr>pu_phase := g e\<rparr> | Inr f \<Rightarrow> p\<lparr>pu_phase := Sending f, pu_received := pu_received p @ [f]\<rparr>)"
  by (auto simp: recv_frame_def)

lemma send_frame_Some: "send_frame r p = Some q \<longleftrightarrow> (\<exists>f. pu_phase p = Sending f \<and>
    q = (case r of Some e \<Rightarrow> p\<lparr>pu_phase := Done (Some e)\<rparr> | None \<Rightarrow> p\<lparr>pu_phase := Receiving, pu_sent := pu_sent p @ [f]\<rparr>))"
  by (auto simp: send_frame_def split: pump_phase.splits)

text \<open>The contract of a pump: it receives and sends frames, and its other steps touch neither.\<close>

locale frame_pump =
  fixes pstep :: "pump_event \<Rightarrow> pump \<Rightarrow> pump option" and recv_ev :: "rpc_error + frame \<Rightarrow> pump_event"
    and send_ev :: "rpc_error option \<Rightarrow> pump_event" and at_error :: "rpc_error \<Rightarrow> pump_phase"
    and frames :: "pump_event list \<Rightarrow> frame list"
  assumes step_cases: "pstep ev p = Some q \<Longrightarrow>
      (\<exists>r. ev = recv_ev r \<and> recv_frame at_error r p = Some q) \<or> (\<exists>r. ev = send_ev r \<and> send_frame r p = Some q)
      \<or> (pu_received q = pu_received p \<and> pu_sent q = pu_sent p \<and> idle (pu_phase p) \<and> idle (pu_phase q)
           \<and> (\<forall>evs. frames (evs @ [ev]) = frames evs) \<and> (\<forall>e. pu_phase p \<noteq> Done e))"
    and error_idle: "idle (at_error e)"
    and frames_recv: "frames (evs @ [recv_ev (Inr f)]) = frames evs @ [f]" "frames (evs @ [recv_ev (Inl e)]) = frames evs"
    and frames_send: "frames (evs @ [send_ev r]) = frames evs"
begin

lemma step_delivered:
  assumes "delivered send_ev (frames evs) evs p" and "pstep ev p = Some q"
  shows "delivered send_ev (frames (evs @ [ev])) (evs @ [ev]) q"
  using step_cases [OF assms(2)]
proof (elim disjE exE conjE)
  fix r assume "ev = recv_ev r" and "recv_frame at_error r p = Some q"
  then show ?thesis using assms(1) error_idle
    by (cases r) (auto simp: delivered_def recv_frame_Some frames_recv idle_def split: pump_phase.splits)
next
  fix r assume "ev = send_ev r" and "send_frame r p = Some q"
  then show ?thesis using assms(1)
    by (cases r) (auto simp: delivered_def send_frame_Some frames_send idle_def split: pump_phase.splits)
next
  assume "pu_received q = pu_received p" "pu_sent q = pu_sent p" "idle (pu_phase p)" "idle (pu_phase q)"
    and "\<forall>evs. frames (evs @ [ev]) = frames evs" "\<forall>e. pu_phase p \<noteq> Done e"
  then show ?thesis using assms(1) by (auto simp: delivered_def idle_def)
qed

lemma idle_delivered: "delivered send_ev (frames evs) evs p \<Longrightarrow> frames (evs @ [ev]) = frames evs \<Longrightarrow> delivered send_ev (frames (evs @ [ev])) (evs @ [ev]) p"
  by (auto simp: delivered_def)

end

fun client_frames :: "pump_event list \<Rightarrow> frame list" where
  "client_frames [] = []"
| "client_frames (ClientRecv (Inr f) # evs) = f # client_frames evs"
| "client_frames (ev # evs) = client_frames evs"

fun upstream_frames :: "pump_event list \<Rightarrow> frame list" where
  "upstream_frames [] = []"
| "upstream_frames (UpstreamRecv (Inr f) # evs) = f # upstream_frames evs"
| "upstream_frames (ev # evs) = upstream_frames evs"

lemma client_frames_append [simp]: "client_frames (a @ b) = client_frames a @ client_frames b"
  by (induction a rule: client_frames.induct) simp_all

lemma upstream_frames_append [simp]: "upstream_frames (a @ b) = upstream_frames a @ upstream_frames b"
  by (induction a rule: upstream_frames.induct) simp_all

interpretation c2u: frame_pump forwardClientToUpstream ClientRecv UpstreamSend "\<lambda>e. if e = EOF then Closing else Done (Some e)" client_frames
  by unfold_locales (auto simp: forwardClientToUpstream_def idle_def split: pump_event.splits if_splits)

interpretation u2c: frame_pump forwardUpstreamToClient UpstreamRecv ClientSend "\<lambda>e. Done (if e = EOF then None else Some e)" upstream_frames
  by unfold_locales (auto simp: forwardUpstreamToClient_def idle_def split: pump_event.splits if_splits)


subsection \<open>The director\<close>

text \<open>Which events brought a pump to the end of its loop.\<close>

definition c2u_end :: "pump_event list \<Rightarrow> pump \<Rightarrow> bool" where
  "c2u_end evs p \<longleftrightarrow>
     (\<forall>e. pu_phase p = Done (Some e) \<longrightarrow> ClientRecv (Inl e) \<in> set evs \<or> UpstreamSend (Some e) \<in> set evs \<or> UpstreamClose (Some e) \<in> set evs)
   \<and> (pu_phase p = Closing \<longrightarrow> ClientRecv (Inl EOF) \<in> set evs)
   \<and> (\<forall>r. UpstreamClose r \<in> set evs \<longrightarrow> pu_phase p = Done r \<and> ClientRecv (Inl EOF) \<in> set evs \<and> pu_sent p = client_frames evs)"

definition u2c_end :: "pump_event list \<Rightarrow> pump \<Rightarrow> bool" where
  "u2c_end evs p \<longleftrightarrow>
     (\<forall>e. pu_phase p = Done (Some e) \<longrightarrow> UpstreamRecv (Inl e) \<in> set evs \<and> e \<noteq> EOF \<or> ClientSend (Some e) \<in> set evs)
   \<and> (pu_phase p = Done None \<longrightarrow> UpstreamRecv (Inl EOF) \<in> set evs)"

definition result_of :: "director_state \<Rightarrow> bool" where
  "result_of s \<longleftrightarrow> (\<forall>r. di_result s = Some r \<longrightarrow> (\<exists>u. pu_phase (di_u2c s) = Done u
     \<and> (if u \<noteq> None then r = u else r = None \<or> (r \<noteq> Some EOF \<and> pu_phase (di_c2u s) = Done r))))"

definition is_u2c :: "pump_event \<Rightarrow> bool" where
  "is_u2c ev = (case ev of UpstreamHeader r \<Rightarrow> True | UpstreamRecv r \<Rightarrow> True | ClientSend r \<Rightarrow> True | _ \<Rightarrow> False)"

lemma director_cases:
  assumes "director ev s = Some s'"
  obtains (client) p where "forwardClientToUpstream ev (di_c2u s) = Some p" and "s' = s\<lparr>di_c2u := p\<rparr>" and "upstream_frames [ev] = []" and "\<not> is_u2c ev"
  | (upstream) p h where "forwardUpstreamToClient ev (di_u2c s) = Some p" and "s' = s\<lparr>di_u2c := p, di_header := h\<rparr>" and "client_frames [ev] = []" and "is_u2c ev"
  | (ret) t u where "ev = Return t" and "pu_phase (di_u2c s) = Done u" and "di_result s = None"
      and "s' = s\<lparr>di_trailer := Some t, di_result := Some (if u \<noteq> None then u else client_error (pu_phase (di_c2u s)))\<rparr>"
proof (cases ev)
  case (Return t)
  then show ?thesis using assms ret by (auto simp: director_def split: pump_phase.splits if_splits)
next
  case (ClientRecv r) then show ?thesis using assms client by (cases r) (auto simp: director_def is_u2c_def)
next
  case (UpstreamSend r) then show ?thesis using assms client by (auto simp: director_def is_u2c_def)
next
  case (UpstreamClose r) then show ?thesis using assms client by (auto simp: director_def is_u2c_def)
next
  case (UpstreamHeader r) then show ?thesis using assms upstream by (auto simp: director_def is_u2c_def)
next
  case (UpstreamRecv r) then show ?thesis
    using assms upstream [where h = "di_header s"] by (cases r) (auto simp: director_def is_u2c_def)
next
  case (ClientSend r) then show ?thesis using assms upstream [where h = "di_header s"] by (auto simp: director_def is_u2c_def)
qed

lemma c2u_end_step:
  assumes "delivered UpstreamSend (client_frames evs) evs p" and "c2u_end evs p" and "forwardClientToUpstream ev p = Some q"
  shows "c2u_end (evs @ [ev]) q"
  using assms
  by (auto simp: c2u_end_def delivered_def forwardClientToUpstream_def recv_frame_Some send_frame_Some
      split: pump_event.splits sum.splits option.splits if_splits)

lemma u2c_end_step: "u2c_end evs p \<Longrightarrow> forwardUpstreamToClient ev p = Some q \<Longrightarrow> u2c_end (evs @ [ev]) q"
  by (auto simp: u2c_end_def forwardUpstreamToClient_def recv_frame_Some send_frame_Some
      split: pump_event.splits sum.splits option.splits if_splits)

lemma pump_done: "pu_phase p = Done r \<Longrightarrow> forwardClientToUpstream ev p = None" "pu_phase p = Done r \<Longrightarrow> forwardUpstreamToClient ev p = None"
  by (auto simp: forwardClientToUpstream_def forwardUpstreamToClient_def recv_frame_def send_frame_def split: pump_event.splits)


lemma c2u_end_other: "c2u_end evs p \<Longrightarrow> client_frames [ev] = [] \<Longrightarrow> (\<And>r. ev \<noteq> UpstreamClose r) \<Longrightarrow> c2u_end (evs @ [ev]) p"
  by (auto simp: c2u_end_def)

lemma u2c_end_other: "u2c_end evs p \<Longrightarrow> u2c_end (evs @ [ev]) p"
  by (auto simp: u2c_end_def)

text \<open>The invariant of the director, by induction over the interleavings.\<close>

lemma director_invariant:
  assumes "director_run evs s"
  shows "delivered UpstreamSend (client_frames evs) evs (di_c2u s) \<and> delivered ClientSend (upstream_frames evs) evs (di_u2c s)
    \<and> c2u_end evs (di_c2u s) \<and> u2c_end evs (di_u2c s) \<and> result_of s"
  using assms
proof (induction rule: director_run.induct)
  case start
  then show ?case by (simp add: director_start_def delivered_def idle_def c2u_end_def u2c_end_def result_of_def)
next
  case (step evs s ev s')
  then have i: "delivered UpstreamSend (client_frames evs) evs (di_c2u s)" "delivered ClientSend (upstream_frames evs) evs (di_u2c s)"
    "c2u_end evs (di_c2u s)" "u2c_end evs (di_u2c s)" "result_of s" by auto
  from step.hyps(2) show ?case
  proof (cases rule: director_cases)
    case (client p)
    moreover from client(1) have "pu_phase (di_c2u s) \<noteq> Done r" for r using pump_done(1) by fastforce
    ultimately have "result_of s'" using i(5) by (fastforce simp: result_of_def split: if_splits)
    then show ?thesis
      using client(2,3) i c2u.step_delivered [OF i(1) client(1)] u2c.idle_delivered [OF i(2), of ev] c2u_end_step [OF i(1,3) client(1)] u2c_end_other [OF i(4), of ev]
      by auto
  next
    case (upstream p h)
    moreover from upstream(1) have "pu_phase (di_u2c s) \<noteq> Done r" for r using pump_done(2) by fastforce
    moreover have "ev \<noteq> UpstreamClose r" for r using upstream(4) by (auto simp: is_u2c_def)
    ultimately show ?thesis
      using i u2c.step_delivered [OF i(2) upstream(1)] c2u.idle_delivered [OF i(1), of ev] c2u_end_other [OF i(3), of ev] u2c_end_step [OF i(4) upstream(1)]
      by (auto simp: result_of_def)
  next
    case (ret t u)
    then show ?thesis
      using i u2c.idle_delivered [OF i(2), of ev] c2u.idle_delivered [OF i(1), of ev] c2u_end_other [OF i(3), of ev] u2c_end_other [OF i(4), of ev]
      by (auto simp: result_of_def client_error_def split: pump_phase.splits option.splits if_splits)
  qed
qed

lemma delivered_prefix: "delivered send_ev frames evs p \<Longrightarrow> prefix (pu_sent p) frames"
  unfolding delivered_def prefix_def by (metis append_Nil2)

lemma delivered_sent: "delivered send_ev frames evs p \<Longrightarrow> pu_phase p = Done None \<Longrightarrow> pu_sent p = frames"
  by (auto simp: delivered_def)

subsection \<open>Metadata and interceptors\<close>

text \<open>The metadata of a forwarded call: the identity headers, the last of equal names first, then the client's.\<close>

definition lower_pairs :: "string gomap option \<Rightarrow> metadata" where
  "lower_pairs h = map (\<lambda>(k, v). (ToLower k, [v])) (case h of None \<Rightarrow> [] | Some x \<Rightarrow> x)"

definition overlay :: "string gomap option \<Rightarrow> metadata option \<Rightarrow> string \<Rightarrow> string list option" where
  "overlay h md k = (case map_of (rev (lower_pairs h)) k of
     Some v \<Rightarrow> Some v | None \<Rightarrow> map_of (case md of None \<Rightarrow> [] | Some x \<Rightarrow> x) k)"

lemma fold_set_lookup: "map_of (fold (\<lambda>(k, v) out. AList.update (ToLower k) [v] out) h out) k
    = (case map_of (rev (map (\<lambda>(k, v). (ToLower k, [v])) h)) k of Some v \<Rightarrow> Some v | None \<Rightarrow> map_of out k)"
  by (induction h arbitrary: out) (auto simp: update_conv' map_add_def split: option.splits)

lemma outgoing_overlay: "map_of (outgoingContext (AuthorizedStream ss h)) k = overlay h (FromIncomingContext ss) k"
  by (simp add: outgoingContext_def fold_set_lookup overlay_def lower_pairs_def Let_def)

lemma engine_of_Handle: "Handle e w rq = (Inr resp, w1, ms) \<Longrightarrow> engine_of e w rq = (Inr (Some resp), w1, ms)"
  by (simp add: engine_of_def)

lemma director_open_Inr: "director_open ge f w ss = (Inr uc, f1, w1) \<Longrightarrow>
    MethodFromServerStream ss = Some (uc_method uc) \<and> uc_metadata uc = outgoingContext ss"
  by (auto simp: director_open_def split: option.splits prod.splits sum.splits)

lemma statusFromResponse_code: "\<exists>msg. statusFromResponse (Some resp) = Status (if rs_StatusCode resp = 401 then Unauthenticated else PermissionDenied) msg"
  by (simp add: statusFromResponse_def)

section \<open>Properties\<close>

text \<open>
  C12. Frames pass unchanged and in order, in every interleaving of the two goroutines: what the upstream
  has been sent is a prefix of what the client has sent and vice versa; the upstream sees the end of the
  client's stream only after all its frames; the call ends with success only after the upstream has ended its
  stream and every frame of it has been delivered; an error it ends with is the upstream's status, a failure
  to deliver, or, after a clean end of the upstream, a failure of the client's direction; and once the
  upstream's direction has ended the call can return whatever the client is doing.
\<close>

theorem grpc_stream_faithful:
  assumes "director_run evs s"
  shows "prefix (pu_sent (di_c2u s)) (client_frames evs) \<and> prefix (pu_sent (di_u2c s)) (upstream_frames evs)
    \<and> (\<forall>r. UpstreamClose r \<in> set evs \<longrightarrow> ClientRecv (Inl EOF) \<in> set evs \<and> pu_sent (di_c2u s) = client_frames evs)
    \<and> (di_result s = Some None \<longrightarrow> UpstreamRecv (Inl EOF) \<in> set evs \<and> pu_sent (di_u2c s) = upstream_frames evs)
    \<and> (\<forall>e. di_result s = Some (Some e) \<longrightarrow> UpstreamRecv (Inl e) \<in> set evs \<or> ClientSend (Some e) \<in> set evs
         \<or> UpstreamRecv (Inl EOF) \<in> set evs \<and> (ClientRecv (Inl e) \<in> set evs \<or> UpstreamSend (Some e) \<in> set evs \<or> UpstreamClose (Some e) \<in> set evs))
    \<and> (\<forall>r t. pu_phase (di_u2c s) = Done r \<and> di_result s = None \<longrightarrow> (\<exists>s'. director_run (evs @ [Return t]) s' \<and> di_result s' \<noteq> None))"
proof -
  note i = director_invariant [OF assms]
  have res: "\<exists>u. pu_phase (di_u2c s) = Done u \<and> (if u \<noteq> None then r = u else r = None \<or> (r \<noteq> Some EOF \<and> pu_phase (di_c2u s) = Done r))"
    if "di_result s = Some r" for r using i that by (auto simp: result_of_def)
  have "UpstreamRecv (Inl EOF) \<in> set evs \<and> pu_sent (di_u2c s) = upstream_frames evs" if "di_result s = Some None"
    using res [OF that] i delivered_sent by (auto simp: u2c_end_def split: if_splits)
  moreover have "UpstreamRecv (Inl e) \<in> set evs \<or> ClientSend (Some e) \<in> set evs
         \<or> UpstreamRecv (Inl EOF) \<in> set evs \<and> (ClientRecv (Inl e) \<in> set evs \<or> UpstreamSend (Some e) \<in> set evs \<or> UpstreamClose (Some e) \<in> set evs)"
    if "di_result s = Some (Some e)" for e
    using res [OF that] i by (auto simp: u2c_end_def c2u_end_def split: if_splits)
  moreover have "\<exists>s'. director_run (evs @ [Return t]) s' \<and> di_result s' \<noteq> None"
    if "pu_phase (di_u2c s) = Done r" and "di_result s = None" for r t
    by (rule exI, rule conjI, rule director_run.step [OF assms]) (use that in \<open>auto simp: director_def\<close>)
  ultimately show ?thesis using i delivered_prefix by (auto simp: c2u_end_def)
qed

definition sample_run :: "pump_event list" where
  "sample_run = [ClientRecv (Inr ''a''), UpstreamHeader (Inr []), UpstreamSend None, UpstreamRecv (Inr ''b''), ClientRecv (Inl EOF),
     ClientSend None, UpstreamClose None, UpstreamRecv (Inl EOF), Return []]"

definition run_director :: "pump_event list \<Rightarrow> director_state option" where
  "run_director evs = fold (\<lambda>ev s. Option.bind s (director ev)) evs (Some director_start)"

lemma run_director_run: "run_director evs = Some s \<Longrightarrow> director_run evs s"
proof (induction evs arbitrary: s rule: rev_induct)
  case Nil
  then show ?case by (simp add: run_director_def director_run.start)
next
  case (snoc ev evs)
  then show ?case by (auto simp: run_director_def Option.bind_eq_Some_conv intro: director_run.step)
qed

theorem grpc_stream_faithful_witness:
  "\<exists>s. run_director sample_run = Some s \<and> di_result s = Some None \<and> pu_sent (di_c2u s) = [''a''] \<and> pu_sent (di_u2c s) = upstream_frames sample_run
     \<and> upstream_frames sample_run = [''b'']"
proof -
  have "map_option di_result (run_director sample_run) = Some (Some None)" by code_simp
  then obtain s where s: "run_director sample_run = Some s" "di_result s = Some None" by auto
  have "UpstreamClose None \<in> set sample_run" "client_frames sample_run = [''a'']" "upstream_frames sample_run = [''b'']"
    by (simp_all add: sample_run_def)
  with s grpc_stream_faithful [OF run_director_run [OF s(1)]] show ?thesis by fastforce
qed

text \<open>
  C11. No gRPC call is forwarded or answered by the service unless the engine allowed it: an opened upstream call
  is for the method the client named, after the default engine resolved a
  principal (if authentication is required) and a plugin or the policy allowed exactly this method with the
  client's metadata; each identity header the engine built replaces the client's value of that name, and all
  other metadata is the client's. A refusal by the engine is \<open>Unauthenticated\<close> exactly for the status 401
  and otherwise \<open>PermissionDenied\<close>, and nothing but the engine has run then.
\<close>

theorem grpc_calls_authorized:
  assumes "grpc_serve ge s w m md = (r, s', w')" and "gs_engine s = engine_of e"
  shows "(\<exists>p w1 d. e_Resolver e w (buildRequest md m) = (Inr p, w1) \<and> (e_RequireAuth e \<longrightarrow> p \<noteq> None)
            \<and> decided_by e w1 (buildRequest md m) p d \<and> dc_Allow d
            \<and> (\<forall>uc. r = Inr uc \<longrightarrow> uc_method uc = m
                 \<and> (\<forall>k. map_of (uc_metadata uc) k = overlay (rs_UpstreamHeaders (upstream_build e p d)) md k)))
       \<or> (\<exists>resp ms. Handle e w (buildRequest md m) = (Inr resp, w', ms) \<and> \<not> rs_Allow resp \<and> s' = s
            \<and> (\<exists>msg. r = Inl (Status (if rs_StatusCode resp = 401 then Unauthenticated else PermissionDenied) msg)))"
proof -
  obtain resp w1 ms where h: "Handle e w (buildRequest md m) = (Inr resp, w1, ms)" using Handle_total [of e w "buildRequest md m"] by blast
  note eng = engine_of_Handle [OF h, folded assms(2)]
  show ?thesis
  proof (cases "rs_Allow resp")
    case False
    with eng assms(1) have "r = Inl (statusFromResponse (Some resp))" "s' = s" "w' = w1"
      by (simp_all add: grpc_serve_def StreamServerInterceptor_def)
    with h False statusFromResponse_code show ?thesis by blast
  next
    case True
    let ?ss = "AuthorizedStream (TransportStream (Some m) md) (rs_UpstreamHeaders resp)"
    from eng assms(1) True have o: "case gs_forwarder s of None \<Rightarrow> r = Inl (unknownServiceHandler ?ss)
        | Some f \<Rightarrow> \<exists>f1 w2. director_open ge f w1 ?ss = (r, f1, w2)"
      by (auto simp: grpc_serve_def StreamServerInterceptor_def NewAuthorizedStream_def split: option.splits prod.splits)
    have uc: "uc_method uc = m \<and> (\<forall>k. map_of (uc_metadata uc) k = overlay (rs_UpstreamHeaders resp) md k)" if "r = Inr uc" for uc
      using o that director_open_Inr [of ge _ w1 ?ss uc] by (auto simp: outgoing_overlay split: option.splits)
    from h True obtain p w2 d where "e_Resolver e w (buildRequest md m) = (Inr p, w2)" "e_RequireAuth e \<longrightarrow> p \<noteq> None"
      "decide e w2 (buildRequest md m) p = (Inr d, w1)" "dc_Allow d" "resp = upstream_build e p d"
      using Handle_allow [OF h True] by metis
    then have "(\<exists>p w1 d. e_Resolver e w (buildRequest md m) = (Inr p, w1) \<and> (e_RequireAuth e \<longrightarrow> p \<noteq> None)
       \<and> decided_by e w1 (buildRequest md m) p d \<and> dc_Allow d \<and> resp = upstream_build e p d)"
      using decide_allow [of e w2 "buildRequest md m" p d w1] by blast
    with uc show ?thesis by auto
  qed
qed

definition sample_ge :: "(unit, nat) grpc_env" where
  "sample_ge = \<lparr>ge_NewClient = (\<lambda>w a i. (Inr (), w)), ge_NewStream = (\<lambda>w c m md. (None, w)), ge_Close = (\<lambda>w c. (None, w))\<rparr>"

definition sample_grpc :: "(unit, nat) grpc_server" where
  "sample_grpc = newGRPCServer (engine_of (sample_engine0\<lparr>e_Policy := (\<lambda>w i. (Inr (Some (fallbackDecision (in_Path i = ''/s/Get''))), w))\<rparr>)) ''u:443'' False"

lemma sample_serve:
  "map_sum (\<lambda>e. e) (\<lambda>uc. map_of (uc_metadata uc) ''x-user-id'') (fst (grpc_serve sample_ge sample_grpc 0 ''/s/Get'' (Some [(''x-user-id'', [''root'']), (''k'', [''v''])])))
     = Inr (Some [''u1''])"
  by code_simp


theorem grpc_calls_authorized_witness:
  "\<exists>uc s' w'. grpc_serve sample_ge sample_grpc 0 ''/s/Get'' (Some [(''x-user-id'', [''root'']), (''k'', [''v''])]) = (Inr uc, s', w')
     \<and> map_of (uc_metadata uc) ''x-user-id'' = Some [''u1''] \<and> uc_method uc = ''/s/Get''"
proof -
  let ?md = "Some [(''x-user-id'', [''root'']), (''k'', [''v''])]"
  obtain r s' w' where g: "grpc_serve sample_ge sample_grpc 0 ''/s/Get'' ?md = (r, s', w')" by (meson prod_cases3)
  with sample_serve obtain uc where uc: "r = Inr uc" "map_of (uc_metadata uc) ''x-user-id'' = Some [''u1'']"
    by (cases r) auto
  have e: "gs_engine sample_grpc = engine_of (sample_engine0\<lparr>e_Policy := (\<lambda>w i. (Inr (Some (fallbackDecision (in_Path i = ''/s/Get''))), w))\<rparr>)"
    by (simp add: sample_grpc_def newGRPCServer_def)
  have "uc_method uc = ''/s/Get''" using grpc_calls_authorized [OF g e] uc(1) by blast
  with g uc show ?thesis by blast
qed

text \<open>
  The identity metadata of a client is not dropped: without a principal, on a route that requires none, the
  \<open>x-user-id\<close> a client sends reaches the upstream, where the HTTP side removes it.
\<close>

lemma grpc_client_identity_forwarded:
  "map_sum (\<lambda>e. e) (\<lambda>uc. map_of (uc_metadata uc) ''x-user-id'')
     (fst (grpc_serve sample_ge (sample_grpc\<lparr>gs_engine := engine_of (sample_engine0\<lparr>e_Resolver := (\<lambda>w rq. (Inr None, w)),
         e_RequireAuth := False, e_Policy := (\<lambda>w i. (Inr (Some (fallbackDecision True)), w))\<rparr>)\<rparr>) 0 ''/s/Get'' (Some [(''x-user-id'', [''root''])])))
     = Inr (Some [''root''])"
  by code_simp

text \<open>
  A gRPC request has no cookies, so the resolver of the bootstrap's engines asks the auth service without a
  session cookie, whatever metadata the client sends.
\<close>

lemma grpc_resolves_without_cookie:
  "auth_Resolve tp ar w (buildRequest md m) = auth_Resolve tp ar w (buildRequest None m')
   \<and> resolve_cookie (ar_Client ar) (str_get (rq_Cookies (buildRequest md m)) (ar_CookieName ar)) = None"
  by (simp add: auth_Resolve_def buildRequest_def grpc_request_def str_get_def resolve_cookie_def Let_def)

end
