(* ===== verification/Rate_Limit.thy ===== *)
theory Rate_Limit
  imports Proxy_Config
begin

text \<open>
  \<open>internal/plugins/ratelimit/ratelimit.go\<close>: the token-bucket rate limiter, a pipeline plugin of the proxy.

  The plugin's mutex makes every \<open>Handle\<close> atomic, so concurrent requests are a sequence of calls. Token
  counts are floats: the model computes them in rationals with the rounding \<open>fl\<close> of every float operation
  as an argument, so a theorem under a bound on the rounding error holds for the machine's arithmetic.
  Times are in nanoseconds. \<open>net.SplitHostPort\<close>, \<open>net.ParseIP\<close> and \<open>net.ParseCIDR\<close> are arguments.
\<close>

section \<open>Configuration\<close>

record rl_config =
  rl_Name :: string
  rl_RequestsPerMinute :: int
  rl_Burst :: int
  rl_KeyStrategy :: string
  rl_HeaderName :: string
  rl_TrustedProxies :: "string list"

record bucket =
  bk_tokens :: rat
  bk_last :: int

record rl_plugin =
  rl_cfg :: rl_config
  rl_trustedCIDRs :: "ip_net list"
  rl_buckets :: "bucket gomap"

record rl_env =
  re_net :: net_env
  re_split :: host_port
  re_cidr :: "string \<Rightarrow> ip_net result"

definition rl_New :: rl_plugin where
  "rl_New = \<lparr>rl_cfg = \<lparr>rl_Name = '''', rl_RequestsPerMinute = 0, rl_Burst = 0, rl_KeyStrategy = '''', rl_HeaderName = '''', rl_TrustedProxies = []\<rparr>,
     rl_trustedCIDRs = [], rl_buckets = []\<rparr>"

fun parse_cidrs :: "rl_env \<Rightarrow> string list \<Rightarrow> ip_net list result" where
  "parse_cidrs re [] = Inr []"
| "parse_cidrs re (c # cs) = (case re_cidr re c of
     Inl e \<Rightarrow> Inl (Wrap (''ratelimit: invalid trusted_proxy CIDR '' @ Quote c @ '': '') e)
   | Inr n \<Rightarrow> (case parse_cidrs re cs of Inl e \<Rightarrow> Inl e | Inr ns \<Rightarrow> Inr (n # ns)))"

text \<open>\<open>decoded\<close> is the configuration after the JSON round trip of \<open>Configure\<close>.\<close>

definition Configure :: "rl_env \<Rightarrow> rl_config result \<Rightarrow> rl_plugin \<Rightarrow> goerr option \<times> rl_plugin" where
  "Configure re decoded p = (case decoded of
     Inl e \<Rightarrow> (Some (Wrap ''ratelimit: decode config: '' e), p)
   | Inr c0 \<Rightarrow>
       (let out = c0\<lparr>rl_KeyStrategy := ToLower (TrimSpace (rl_KeyStrategy c0))\<rparr> in
        if rl_RequestsPerMinute c0 < 1 then (Some (Err ''ratelimit: requests_per_minute must be >= 1''), p)
        else if rl_Burst c0 < 1 then (Some (Err ''ratelimit: burst must be >= 1''), p)
        else if rl_KeyStrategy out \<notin> set [''ip'', ''principal'', ''header'']
        then (Some (Err ''ratelimit: key_strategy must be one of: ip, principal, header''), p)
        else if rl_KeyStrategy out = ''header'' \<and> TrimSpace (rl_HeaderName out) = ''''
        then (Some (Err ''ratelimit: header_name is required when key_strategy=header''), p)
        else (case parse_cidrs re (rl_TrustedProxies out) of
            Inl e \<Rightarrow> (Some e, p)
          | Inr cidrs \<Rightarrow> (None, p\<lparr>rl_cfg := out, rl_trustedCIDRs := cidrs\<rparr>))))"

text \<open>\<open>Health\<close>: the state, the message and the number of buckets.\<close>

definition rl_Health :: "rl_plugin \<Rightarrow> string \<times> string \<times> nat" where
  "rl_Health p =
     (if rl_RequestsPerMinute (rl_cfg p) = 0 \<or> rl_Burst (rl_cfg p) = 0 then (''degraded'', ''not configured'', 0)
      else (''healthy'', ''configured ('' @ rl_KeyStrategy (rl_cfg p) @ '')'', length (rl_buckets p)))"

section \<open>Keys\<close>

text \<open>\<open>firstHeader\<close>: the first entry in iteration order whose name matches without case.\<close>

definition firstHeader :: "string gomap \<Rightarrow> string \<Rightarrow> string" where
  "firstHeader m key = (case find (\<lambda>kv. EqualFold (fst kv) key) m of None \<Rightarrow> '''' | Some kv \<Rightarrow> snd kv)"

definition firstIP :: "rl_env \<Rightarrow> string \<Rightarrow> string" where
  "firstIP re v = (let ip = TrimSpace (hd (Split (CHR '','') v)) in
     case ne_parse (re_net re) ip of Some a \<Rightarrow> ne_show (re_net re) a | None \<Rightarrow> ip)"

definition remoteAddrTrusted :: "rl_env \<Rightarrow> rl_plugin \<Rightarrow> string \<Rightarrow> bool" where
  "remoteAddrTrusted re p remoteAddr =
     (let host = (case re_split re remoteAddr of Inl e \<Rightarrow> remoteAddr | Inr (h, _) \<Rightarrow> h) in
      case ne_parse (re_net re) host of
        None \<Rightarrow> False
      | Some ip \<Rightarrow> list_ex (\<lambda>n. net_contains n ip) (rl_trustedCIDRs p))"

text \<open>The client's own address, when no forwarded header is trusted.\<close>

definition remote_key :: "rl_env \<Rightarrow> string \<Rightarrow> string" where
  "remote_key re remoteAddr =
     (if remoteAddr = '''' then ''anonymous''
      else (case re_split re remoteAddr of
          Inr (host, _) \<Rightarrow> (if host \<noteq> '''' then host else
             (case ne_parse (re_net re) remoteAddr of Some ip \<Rightarrow> ne_show (re_net re) ip | None \<Rightarrow> ''anonymous''))
        | Inl e \<Rightarrow> (case ne_parse (re_net re) remoteAddr of Some ip \<Rightarrow> ne_show (re_net re) ip | None \<Rightarrow> ''anonymous'')))"

definition forwarded_key :: "rl_env \<Rightarrow> string gomap \<Rightarrow> string option" where
  "forwarded_key re headers =
     (let f = (\<lambda>h. let v = TrimSpace (firstHeader headers h) in
                  if v \<noteq> '''' \<and> firstIP re v \<noteq> '''' then Some (firstIP re v) else None)
      in (case f ''X-Forwarded-For'' of Some ip \<Rightarrow> Some ip | None \<Rightarrow> f ''X-Real-IP''))"

definition deriveKey :: "rl_env \<Rightarrow> rl_plugin \<Rightarrow> request \<Rightarrow> principal option \<Rightarrow> string" where
  "deriveKey re p req pr =
     (if rl_KeyStrategy (rl_cfg p) = ''principal''
      then (case pr of None \<Rightarrow> ''anonymous''
            | Some q \<Rightarrow> (if TrimSpace (pr_Subject q) = '''' then ''anonymous'' else pr_Subject q))
      else if rl_KeyStrategy (rl_cfg p) = ''header''
      then (let v = TrimSpace (str_get (rq_Headers req) (rl_HeaderName (rl_cfg p))) in if v \<noteq> '''' then v else ''anonymous'')
      else if rl_KeyStrategy (rl_cfg p) = ''ip''
      then (case (if rl_trustedCIDRs p \<noteq> [] \<and> rq_RemoteAddr req \<noteq> '''' \<and> remoteAddrTrusted re p (rq_RemoteAddr req)
                  then forwarded_key re (rq_Headers req) else None) of
              Some ip \<Rightarrow> ip
            | None \<Rightarrow> remote_key re (rq_RemoteAddr req))
      else ''anonymous'')"

section \<open>Handling a request\<close>

text \<open>\<open>Time.Sub\<close> saturates; \<open>Duration.Seconds\<close> adds the whole seconds and the rest as floats.\<close>

definition time_sub :: "int \<Rightarrow> int \<Rightarrow> int" where
  "time_sub a b = max (- (2 ^ 63)) (min (2 ^ 63 - 1) (a - b))"

definition Seconds :: "(rat \<Rightarrow> rat) \<Rightarrow> int \<Rightarrow> rat" where
  "Seconds fl d = (let s = \<bar>d\<bar> div 1000000000 * sgn d; r = \<bar>d\<bar> mod 1000000000 * sgn d in
     fl (fl (of_int s) + fl (fl (of_int r) / 1000000000)))"

definition rl_rate :: "(rat \<Rightarrow> rat) \<Rightarrow> rl_plugin \<Rightarrow> rat" where
  "rl_rate fl p = fl (fl (of_int (rl_RequestsPerMinute (rl_cfg p))) / 60)"

definition rl_capacity :: "(rat \<Rightarrow> rat) \<Rightarrow> rl_plugin \<Rightarrow> rat" where
  "rl_capacity fl p = fl (of_int (rl_Burst (rl_cfg p)))"

definition refill :: "(rat \<Rightarrow> rat) \<Rightarrow> rat \<Rightarrow> rat \<Rightarrow> int \<Rightarrow> bucket \<Rightarrow> bucket" where
  "refill fl rate cap now b =
     (let el = Seconds fl (time_sub now (bk_last b));
          t = fl (bk_tokens b + fl (el * rate))
      in \<lparr>bk_tokens = (if 0 < el then (if cap < t then cap else t) else bk_tokens b), bk_last = now\<rparr>)"

definition rate_limited :: decision where
  "rate_limited = \<lparr>dc_Allow = False, dc_StatusCode = 429, dc_Headers = None, dc_Reason = ''rate limit exceeded'', dc_Obligations = None\<rparr>"

definition rl_bucket :: "(rat \<Rightarrow> rat) \<Rightarrow> rl_plugin \<Rightarrow> int \<Rightarrow> string \<Rightarrow> bucket" where
  "rl_bucket fl p now key = (case map_of (rl_buckets p) key of
     Some b \<Rightarrow> b | None \<Rightarrow> \<lparr>bk_tokens = rl_capacity fl p, bk_last = now\<rparr>)"

definition rl_Handle :: "(rat \<Rightarrow> rat) \<Rightarrow> rl_env \<Rightarrow> int \<Rightarrow> rl_plugin \<Rightarrow> request \<Rightarrow> principal option \<Rightarrow> decision option \<times> rl_plugin" where
  "rl_Handle fl re now p req pr =
     (let key = deriveKey re p req pr;
          b = refill fl (rl_rate fl p) (rl_capacity fl p) now (rl_bucket fl p now key)
      in if 1 \<le> bk_tokens b
         then (None, p\<lparr>rl_buckets := AList.update key (b\<lparr>bk_tokens := fl (bk_tokens b - 1)\<rparr>) (rl_buckets p)\<rparr>)
         else (Some rate_limited, p\<lparr>rl_buckets := AList.update key b (rl_buckets p)\<rparr>))"

text \<open>As a plugin of the engine: the state is the plugin and the clock, and it never fails.\<close>

definition rl_pipeline :: "(rat \<Rightarrow> rat) \<Rightarrow> rl_env \<Rightarrow> (rl_plugin \<times> int) pipeline_plugin" where
  "rl_pipeline fl re w req pr = (case rl_Handle fl re (snd w) (fst w) req pr of (d, p) \<Rightarrow> (Inr d, (p, snd w)))"

text \<open>A history of requests with their times, and how many of a key's requests were let through.\<close>

fun rl_run :: "(rat \<Rightarrow> rat) \<Rightarrow> rl_env \<Rightarrow> rl_plugin \<Rightarrow> (int \<times> request \<times> principal option) list \<Rightarrow> rl_plugin" where
  "rl_run fl re p [] = p"
| "rl_run fl re p ((now, req, pr) # es) = rl_run fl re (snd (rl_Handle fl re now p req pr)) es"

fun admitted :: "(rat \<Rightarrow> rat) \<Rightarrow> rl_env \<Rightarrow> string \<Rightarrow> rl_plugin \<Rightarrow> (int \<times> request \<times> principal option) list \<Rightarrow> nat" where
  "admitted fl re key p [] = 0"
| "admitted fl re key p ((now, req, pr) # es) =
     (case rl_Handle fl re now p req pr of (d, p1) \<Rightarrow>
        (if deriveKey re p req pr = key \<and> d = None then 1 else 0) + admitted fl re key p1 es)"

section \<open>Lemmas\<close>

text \<open>
  What the proofs use of float rounding: it keeps non-negative numbers non-negative and increases them by
  at most the factor \<open>1 + u\<close> (for IEEE doubles in the normal range, \<open>u\<close> is \<open>2\<close> to the power of -53).
\<close>

definition rounding :: "(rat \<Rightarrow> rat) \<Rightarrow> rat \<Rightarrow> bool" where
  "rounding fl u \<longleftrightarrow> 0 \<le> u \<and> (\<forall>x. 0 \<le> x \<longrightarrow> 0 \<le> fl x \<and> fl x \<le> (1 + u) * x)"

lemma rounding_bounds:
  assumes "rounding fl u" and "0 \<le> x" and "x \<le> y"
  shows "0 \<le> fl x" "fl x \<le> (1 + u) * y"
proof -
  show "0 \<le> fl x" using assms by (simp add: rounding_def)
  have "fl x \<le> (1 + u) * x" "0 \<le> 1 + u" using assms by (auto simp: rounding_def)
  then show "fl x \<le> (1 + u) * y" using mult_left_mono [OF assms(3), of "1 + u"] by linarith
qed

lemma Seconds_bounds:
  assumes fl: "rounding fl u" and d: "0 \<le> d"
  shows "0 \<le> Seconds fl d" "Seconds fl d \<le> (1 + u) ^ 3 * (of_int d / 1000000000)"
proof -
  let ?s = "d div 1000000000" and ?r = "d mod 1000000000"
  have u: "0 \<le> u" using fl by (simp add: rounding_def)
  have a: "0 \<le> fl (of_int ?s)" "fl (of_int ?s) \<le> (1 + u) * of_int ?s"
    using rounding_bounds [OF fl, of "of_int ?s" "of_int ?s"] d by (auto simp: pos_imp_zdiv_nonneg_iff)
  have b: "0 \<le> fl (of_int ?r)" "fl (of_int ?r) \<le> (1 + u) * of_int ?r"
    using rounding_bounds [OF fl, of "of_int ?r" "of_int ?r"] by auto
  then have c: "0 \<le> fl (fl (of_int ?r) / 1000000000)" "fl (fl (of_int ?r) / 1000000000) \<le> (1 + u) * ((1 + u) * of_int ?r / 1000000000)"
    using rounding_bounds [OF fl, of "fl (of_int ?r) / 1000000000" "(1 + u) * of_int ?r / 1000000000"] by auto
  have "of_int d = (of_int ?s * 1000000000 + of_int ?r :: rat)"
    by (metis div_mult_mod_eq mult.commute of_int_add of_int_mult of_int_numeral)
  then have e: "(1 + u) ^ 3 * (of_int d / 1000000000) = (1 + u) * ((1 + u) * ((1 + u) * of_int ?s) + (1 + u) * ((1 + u) * of_int ?r / 1000000000))"
    by (simp add: power3_eq_cube field_simps)
  have "1 * ((1 + u) * of_int ?s) \<le> (1 + u) * ((1 + u) * of_int ?s)"
    using u d by (intro mult_right_mono) (auto simp: pos_imp_zdiv_nonneg_iff)
  then have "fl (of_int ?s) + fl (fl (of_int ?r) / 1000000000)
      \<le> (1 + u) * ((1 + u) * of_int ?s) + (1 + u) * ((1 + u) * of_int ?r / 1000000000)"
    using a c by linarith
  note r = rounding_bounds [OF fl add_nonneg_nonneg [OF a(1) c(1)] this]
  have sd: "Seconds fl d = fl (fl (of_int ?s) + fl (fl (of_int ?r) / 1000000000))"
    using d by (cases "d = 0") (simp_all add: Seconds_def)
  show "0 \<le> Seconds fl d" unfolding sd by (rule r(1))
  show "Seconds fl d \<le> (1 + u) ^ 3 * (of_int d / 1000000000)" unfolding sd e by (rule r(2))
qed

lemma rl_rate_bounds:
  assumes fl: "rounding fl u" and "0 \<le> rl_RequestsPerMinute (rl_cfg p)"
  shows "0 \<le> rl_rate fl p" "rl_rate fl p \<le> (1 + u) ^ 2 * (of_int (rl_RequestsPerMinute (rl_cfg p)) / 60)"
proof -
  let ?q = "of_int (rl_RequestsPerMinute (rl_cfg p)) :: rat"
  have "0 \<le> fl ?q" "fl ?q \<le> (1 + u) * ?q" using rounding_bounds [OF fl, of ?q ?q] assms(2) by auto
  then have "0 \<le> fl ?q / 60" "fl ?q / 60 \<le> (1 + u) * ?q / 60" by auto
  from rounding_bounds [OF fl this] show "0 \<le> rl_rate fl p" "rl_rate fl p \<le> (1 + u) ^ 2 * (?q / 60)"
    by (simp_all add: rl_rate_def power2_eq_square)
qed

text \<open>The tokens that accrue in \<open>d\<close> nanoseconds, at most.\<close>

definition accrual :: "rat \<Rightarrow> rl_plugin \<Rightarrow> int \<Rightarrow> rat" where
  "accrual u p d = (1 + u) ^ 6 * (of_int (rl_RequestsPerMinute (rl_cfg p)) / 60 * (of_int d / 1000000000))"

lemma six_factors: "v * (v ^ 3 * x * (v ^ 2 * y)) = v ^ 6 * (y * x)" for v x y :: rat
  by (simp add: power_numeral_reduce)

lemma refill_bounds:
  assumes fl: "rounding fl u" and rpm: "0 \<le> rl_RequestsPerMinute (rl_cfg p)"
    and t: "0 \<le> bk_tokens b" "bk_tokens b \<le> C" and now: "bk_last b \<le> now"
  defines "b' \<equiv> refill fl (rl_rate fl p) C now b"
  shows "0 \<le> bk_tokens b'" "bk_tokens b' \<le> C" "bk_tokens b' \<le> bk_tokens b + accrual u p (now - bk_last b) + u * C"
proof -
  let ?d = "time_sub now (bk_last b)" and ?q = "of_int (rl_RequestsPerMinute (rl_cfg p)) / 60 :: rat"
  define el where "el = Seconds fl ?d"
  define a where "a = fl (el * rl_rate fl p)"
  have u: "0 \<le> u" using fl by (simp add: rounding_def)
  have d: "0 \<le> ?d" "?d \<le> now - bk_last b" using now by (auto simp: time_sub_def)
  have el: "0 \<le> el" "el \<le> (1 + u) ^ 3 * (of_int ?d / 1000000000)" using Seconds_bounds [OF fl d(1)] by (simp_all add: el_def)
  have "el \<le> (1 + u) ^ 3 * (of_int (now - bk_last b) / 1000000000)"
    using el(2) d(2) u by (elim order_trans, intro mult_left_mono) (auto simp: divide_right_mono simp del: of_int_diff)
  then have "el * rl_rate fl p \<le> (1 + u) ^ 3 * (of_int (now - bk_last b) / 1000000000) * ((1 + u) ^ 2 * ?q)"
    using rl_rate_bounds [OF fl rpm] el(1) u now by (intro mult_mono) auto
  from rounding_bounds [OF fl _ this] have "0 \<le> a" and
    "a \<le> (1 + u) * ((1 + u) ^ 3 * (of_int (now - bk_last b) / 1000000000) * ((1 + u) ^ 2 * ?q))"
    unfolding a_def using rl_rate_bounds(1) [OF fl rpm] el(1) mult_nonneg_nonneg [of el "rl_rate fl p"] by blast+
  then have a: "0 \<le> a" "a \<le> accrual u p (now - bk_last b)"
    unfolding accrual_def six_factors by blast+
  have s: "0 \<le> fl (bk_tokens b + a)" "fl (bk_tokens b + a) \<le> (1 + u) * (bk_tokens b + a)"
    using rounding_bounds [OF fl, of "bk_tokens b + a" "bk_tokens b + a"] t a by auto
  have tok: "bk_tokens b' = (if 0 < el then (if C < fl (bk_tokens b + a) then C else fl (bk_tokens b + a)) else bk_tokens b)"
    by (simp add: b'_def refill_def Let_def el_def a_def)
  show "0 \<le> bk_tokens b'" "bk_tokens b' \<le> C" using t s by (auto simp: tok)
  show "bk_tokens b' \<le> bk_tokens b + accrual u p (now - bk_last b) + u * C"
  proof (cases "bk_tokens b + a \<le> C")
    case True
    then have "u * (bk_tokens b + a) \<le> u * C" using u by (rule mult_left_mono)
    moreover have "(1 + u) * (bk_tokens b + a) = bk_tokens b + a + u * (bk_tokens b + a)" by (simp add: algebra_simps)
    moreover have "0 \<le> u * C" using u t by auto
    ultimately show ?thesis using s a t by (auto simp: tok)
  next
    case False
    moreover have "0 \<le> u * C" using u t by auto
    ultimately show ?thesis using a t by (auto simp: tok)
  qed
qed


text \<open>The invariant of the buckets: token counts within the capacity, no bucket touched after \<open>now\<close>.\<close>

definition buckets_ok :: "(rat \<Rightarrow> rat) \<Rightarrow> int \<Rightarrow> rl_plugin \<Rightarrow> bool" where
  "buckets_ok fl now p \<longleftrightarrow> (\<forall>k b. map_of (rl_buckets p) k = Some b \<longrightarrow>
     0 \<le> bk_tokens b \<and> bk_tokens b \<le> rl_capacity fl p \<and> bk_last b \<le> now)"

lemma rl_Handle_cfg [simp]: "rl_cfg (snd (rl_Handle fl re now p req pr)) = rl_cfg p"
    "rl_trustedCIDRs (snd (rl_Handle fl re now p req pr)) = rl_trustedCIDRs p"
  by (simp_all add: rl_Handle_def Let_def)

lemma rl_cfg_cong:
  "rl_cfg p' = rl_cfg p \<Longrightarrow> rl_rate fl p' = rl_rate fl p" "rl_cfg p' = rl_cfg p \<Longrightarrow> rl_capacity fl p' = rl_capacity fl p"
  "rl_cfg p' = rl_cfg p \<Longrightarrow> accrual u p' d = accrual u p d"
  by (simp_all add: rl_rate_def rl_capacity_def accrual_def)

lemma refill_last [simp]: "bk_last (refill fl rate cap now b) = now"
  by (simp add: refill_def Let_def)

text \<open>The rounding and the limits the bounds hold for; \<open>u * C \<le> 1\<close> says that a token is not lost in rounding.\<close>

definition limits :: "(rat \<Rightarrow> rat) \<Rightarrow> rat \<Rightarrow> rl_plugin \<Rightarrow> bool" where
  "limits fl u p \<longleftrightarrow> rounding fl u \<and> 0 \<le> rl_RequestsPerMinute (rl_cfg p) \<and> 0 \<le> rl_Burst (rl_cfg p) \<and> u * rl_capacity fl p \<le> 1"

lemma limits_cong: "rl_cfg p' = rl_cfg p \<Longrightarrow> limits fl u p' = limits fl u p"
  using rl_cfg_cong(2) [of p' p fl] by (simp add: limits_def)

lemma limitsD:
  assumes "limits fl u p"
  shows "rounding fl u" "0 \<le> rl_RequestsPerMinute (rl_cfg p)" "0 \<le> rl_Burst (rl_cfg p)" "u * rl_capacity fl p \<le> 1"
    "0 \<le> u" "0 \<le> rl_capacity fl p" "0 \<le> u * rl_capacity fl p"
    "rl_capacity fl p \<le> (1 + u) * of_int (rl_Burst (rl_cfg p))"
  using assms rounding_bounds [of fl u "of_int (rl_Burst (rl_cfg p))" "of_int (rl_Burst (rl_cfg p))"]
  by (auto simp: limits_def rounding_def rl_capacity_def)

text \<open>One token taken: rounding adds at most \<open>u * C\<close>, and the count stays within the capacity.\<close>

lemma take_bounds:
  assumes l: "limits fl u p" and "1 \<le> t" and "t \<le> rl_capacity fl p"
  shows "0 \<le> fl (t - 1)" "fl (t - 1) \<le> t - 1 + u * rl_capacity fl p" "fl (t - 1) \<le> rl_capacity fl p"
proof -
  let ?C = "rl_capacity fl p"
  have f: "0 \<le> fl (t - 1)" "fl (t - 1) \<le> (1 + u) * (t - 1)"
    using rounding_bounds [OF limitsD(1) [OF l], of "t - 1" "t - 1"] assms by auto
  have "u * (t - 1) \<le> u * ?C" using assms limitsD(5) [OF l] by (intro mult_left_mono) auto
  with f(2) show le: "fl (t - 1) \<le> t - 1 + u * ?C" by (simp add: algebra_simps)
  show "0 \<le> fl (t - 1)" by (rule f)
  show "fl (t - 1) \<le> ?C" using le limitsD(4) [OF l] assms(3) by linarith
qed

lemma bucket_bounds:
  assumes "limits fl u p" and "buckets_ok fl t p" and "t \<le> now"
  shows "0 \<le> bk_tokens (rl_bucket fl p now k)" "bk_tokens (rl_bucket fl p now k) \<le> rl_capacity fl p" "bk_last (rl_bucket fl p now k) \<le> now"
  using assms(2,3) limitsD(6) [OF assms(1)] by (fastforce simp: rl_bucket_def buckets_ok_def split: option.split)+

abbreviation refilled :: "(rat \<Rightarrow> rat) \<Rightarrow> rl_plugin \<Rightarrow> int \<Rightarrow> string \<Rightarrow> bucket" where
  "refilled fl p now k \<equiv> refill fl (rl_rate fl p) (rl_capacity fl p) now (rl_bucket fl p now k)"

lemma refilled_bounds:
  assumes "limits fl u p" and "buckets_ok fl t p" and "t \<le> now"
  shows "0 \<le> bk_tokens (refilled fl p now k)" "bk_tokens (refilled fl p now k) \<le> rl_capacity fl p"
    "bk_tokens (refilled fl p now k) \<le> bk_tokens (rl_bucket fl p now k) + accrual u p (now - bk_last (rl_bucket fl p now k)) + u * rl_capacity fl p"
    "bk_last (refilled fl p now k) = now"
  using refill_bounds [OF limitsD(1,2) [OF assms(1)], of "rl_bucket fl p now k" "rl_capacity fl p" now] bucket_bounds [OF assms, of k]
  by simp_all

lemma Handle_buckets:
  "map_of (rl_buckets (snd (rl_Handle fl re now p req pr))) = (map_of (rl_buckets p))(deriveKey re p req pr \<mapsto>
     (let b = refilled fl p now (deriveKey re p req pr) in if 1 \<le> bk_tokens b then b\<lparr>bk_tokens := fl (bk_tokens b - 1)\<rparr> else b))"
  by (simp add: rl_Handle_def Let_def update_conv')

lemma buckets_ok_step:
  assumes "limits fl u p" and "buckets_ok fl t p" and "t \<le> now"
  shows "buckets_ok fl now (snd (rl_Handle fl re now p req pr))"
proof -
  let ?b = "refilled fl p now (deriveKey re p req pr)" and ?p = "snd (rl_Handle fl re now p req pr)"
  note b = refilled_bounds [OF assms, of "deriveKey re p req pr"]
  have c: "rl_capacity fl ?p = rl_capacity fl p" by (rule rl_cfg_cong) simp
  note m = Handle_buckets [of fl re now p req pr, unfolded Let_def]
  let ?n = "if 1 \<le> bk_tokens ?b then ?b\<lparr>bk_tokens := fl (bk_tokens ?b - 1)\<rparr> else ?b"
  have new: "0 \<le> bk_tokens ?n \<and> bk_tokens ?n \<le> rl_capacity fl p \<and> bk_last ?n \<le> now"
    using b take_bounds [OF assms(1) _ b(2)] by simp
  show ?thesis
    unfolding buckets_ok_def c m
  proof (intro allI impI)
    fix k' b' assume "((map_of (rl_buckets p))(deriveKey re p req pr \<mapsto> ?n)) k' = Some b'"
    then show "0 \<le> bk_tokens b' \<and> bk_tokens b' \<le> rl_capacity fl p \<and> bk_last b' \<le> now"
      using new assms(2,3) by (cases "k' = deriveKey re p req pr") (force simp: buckets_ok_def)+
  qed
qed

text \<open>
  The potential of a key is the number of tokens in its bucket plus those that accrue until \<open>e\<close>; every
  admitted request costs one, every request of the key adds at most the rounding error \<open>2 * u * C\<close>.
\<close>

definition potential :: "(rat \<Rightarrow> rat) \<Rightarrow> rat \<Rightarrow> rl_plugin \<Rightarrow> string \<Rightarrow> int \<Rightarrow> int \<Rightarrow> rat" where
  "potential fl u p k now e = bk_tokens (rl_bucket fl p now k) + accrual u p (e - bk_last (rl_bucket fl p now k))"

lemma accrual_nonneg: "limits fl u p \<Longrightarrow> 0 \<le> d \<Longrightarrow> 0 \<le> accrual u p d"
  using limitsD(2,5) [of fl u p] by (simp add: accrual_def)

lemma accrual_add: "accrual u p (a + b) = accrual u p a + accrual u p b"
  by (simp add: accrual_def add_divide_distrib distrib_left)

lemma potential_later:
  assumes "limits fl u p" and "t \<le> now"
  shows "potential fl u p k now e \<le> potential fl u p k t e"
  using accrual_nonneg [OF assms(1), of "now - t"] accrual_add [of u p "e - now" "now - t"] assms(2)
  by (auto simp: potential_def rl_bucket_def split: option.split)

lemma potential_step:
  assumes l: "limits fl u p" and ok: "buckets_ok fl t p" and t: "t \<le> now" "now \<le> e"
  shows "(if deriveKey re p req pr = k \<and> fst (rl_Handle fl re now p req pr) = None then 1 else 0)
      + potential fl u (snd (rl_Handle fl re now p req pr)) k now e
    \<le> potential fl u p k now e + (if deriveKey re p req pr = k then 2 * u * rl_capacity fl p else 0)"
proof (cases "deriveKey re p req pr = k")
  case False
  let ?p = "snd (rl_Handle fl re now p req pr)"
  have "map_of (rl_buckets ?p) k = map_of (rl_buckets p) k" using False by (simp add: Handle_buckets)
  moreover have "rl_capacity fl ?p = rl_capacity fl p" "accrual u ?p d = accrual u p d" for d by (rule rl_cfg_cong, simp)+
  ultimately have "potential fl u ?p k now e = potential fl u p k now e"
    by (cases "map_of (rl_buckets p) k") (simp_all add: potential_def rl_bucket_def)
  with False show ?thesis by simp
next
  case True
  let ?b = "rl_bucket fl p now k" and ?b' = "refilled fl p now k"
  note b = refilled_bounds [OF l ok t(1), of k]
  have acc: "accrual u p (e - bk_last ?b) = accrual u p (e - now) + accrual u p (now - bk_last ?b)"
    by (simp add: accrual_add [symmetric])
  have h: "rl_bucket fl (snd (rl_Handle fl re now p req pr)) now k
      = (if 1 \<le> bk_tokens ?b' then ?b'\<lparr>bk_tokens := fl (bk_tokens ?b' - 1)\<rparr> else ?b')"
    using True Handle_buckets [of fl re now p req pr]
    by (simp add: rl_bucket_def [where p = "snd (rl_Handle fl re now p req pr)"] Let_def)
  have a: "accrual u (snd (rl_Handle fl re now p req pr)) d = accrual u p d" for d by (rule rl_cfg_cong) simp
  have n: "fst (rl_Handle fl re now p req pr) = None \<longleftrightarrow> 1 \<le> bk_tokens ?b'"
    using True by (simp add: rl_Handle_def Let_def)
  show ?thesis
    using b take_bounds [OF l, of "bk_tokens ?b'"] limitsD(7) [OF l] acc True unfolding potential_def h n a by auto
qed

lemma admitted_potential:
  assumes "limits fl u p" and "buckets_ok fl t p"
    and "sorted (t # map fst es)" and "\<forall>x \<in> set es. fst x \<le> e" and "t \<le> e"
  shows "of_nat (admitted fl re k p es) \<le> potential fl u p k t e + of_nat (length es) * (2 * u * rl_capacity fl p)"
  using assms
proof (induction es arbitrary: p t)
  case Nil
  then show ?case
    using bucket_bounds [OF Nil.prems(1,2), of t k] accrual_nonneg [OF Nil.prems(1), of "e - bk_last (rl_bucket fl p t k)"] by (simp add: potential_def)
next
  case (Cons ev es)
  obtain now req pr where ev: "ev = (now, req, pr)" by (cases ev)
  let ?h = "rl_Handle fl re now p req pr" and ?C = "rl_capacity fl p"
  have t: "t \<le> now" "now \<le> e" "sorted (now # map fst es)" using Cons.prems(3,4) ev by auto
  have c: "rl_capacity fl (snd ?h) = ?C" by (rule rl_cfg_cong) simp
  have l: "limits fl u (snd ?h)" using Cons.prems(1) limits_cong [OF rl_Handle_cfg(1)] by blast
  have IH: "of_nat (admitted fl re k (snd ?h) es) \<le> potential fl u (snd ?h) k now e + of_nat (length es) * (2 * u * ?C)"
    using Cons.IH [OF l buckets_ok_step [OF Cons.prems(1,2) t(1)] t(3)] Cons.prems(4) t(2) c by simp
  have uC: "0 \<le> 2 * u * ?C" using limitsD(7) [OF Cons.prems(1)] by simp
  have "of_nat (admitted fl re k p (ev # es)) = (if deriveKey re p req pr = k \<and> fst ?h = None then 1 else 0) + (of_nat (admitted fl re k (snd ?h) es) :: rat)"
    by (simp add: ev split: prod.split)
  also have "\<dots> \<le> (if deriveKey re p req pr = k \<and> fst ?h = None then 1 else 0) + potential fl u (snd ?h) k now e + of_nat (length es) * (2 * u * ?C)"
    using IH by simp
  also have "\<dots> \<le> potential fl u p k now e + (if deriveKey re p req pr = k then 2 * u * ?C else 0) + of_nat (length es) * (2 * u * ?C)"
    using potential_step [OF Cons.prems(1,2) t(1,2), of re req pr k] by simp
  also have "\<dots> \<le> potential fl u p k t e + of_nat (length (ev # es)) * (2 * u * ?C)"
    using potential_later [OF Cons.prems(1) t(1), of k e] uC by (simp add: distrib_right)
  finally show ?case .
qed


section \<open>Properties\<close>


definition sample_re :: rl_env where
  "sample_re = \<lparr>re_net = \<lparr>ne_lookup = (\<lambda>h. Inr []), ne_parse = (\<lambda>s. None), ne_show = (\<lambda>ip. ''''), ne_hostname = u_Host\<rparr>,
     re_split = (\<lambda>s. Inr (s, '''')), re_cidr = (\<lambda>s. Inl (Err ''cidr''))\<rparr>"

definition sample_limits :: rl_config where
  "sample_limits = \<lparr>rl_Name = ''rl'', rl_RequestsPerMinute = 60, rl_Burst = 2, rl_KeyStrategy = ''ip'', rl_HeaderName = '''', rl_TrustedProxies = []\<rparr>"

lemma sample_configured: "Configure sample_re (Inr sample_limits) rl_New = (None, rl_New\<lparr>rl_cfg := sample_limits\<rparr>)"
proof -
  have "TrimSpace ''ip'' = ''ip''" "ToLower ''ip'' = ''ip''" by code_simp+
  then show ?thesis by (simp add: Configure_def sample_limits_def rl_New_def Let_def)
qed

definition sample_rq :: "string \<Rightarrow> request" where
  "sample_rq addr = (sample_request ''/x'')\<lparr>rq_RemoteAddr := addr\<rparr>"


text \<open>
  Behind a trusted proxy the limiter's key is the first entry of \<open>X-Forwarded-For\<close>, which the client
  writes when proxies append: a client that sends a fresh value with every request gets a fresh bucket for
  each of them and is never limited.
\<close>

theorem forwarded_for_evades_limit:
  assumes "rounding fl u" and "1 \<le> rl_capacity fl p" and "rl_KeyStrategy (rl_cfg p) = ''ip''" and "remoteAddrTrusted re p (rq_RemoteAddr req)"
    and "rq_RemoteAddr req \<noteq> ''''" and "rq_Headers req = [(''X-Forwarded-For'', v)]" and "TrimSpace v = v" and "CHR '','' \<notin> set v" and "v \<noteq> ''''"
    and "ne_parse (re_net re) v = None" and "map_of (rl_buckets p) v = None"
  shows "fst (rl_Handle fl re now p req pr) = None"
proof -
  have tr: "rl_trustedCIDRs p \<noteq> []" using assms(4) by (auto simp: remoteAddrTrusted_def Let_def split: option.splits)
  have sp: "Split (CHR '','') v = [v]" using assms(8) by (induction v) auto
  have "forwarded_key re (rq_Headers req) = Some v"
    using assms(6-10) sp by (simp add: forwarded_key_def firstHeader_def firstIP_def Let_def)
  then have k: "deriveKey re p req pr = v" using assms(3-5) tr by (simp add: deriveKey_def)
  have z: "fl 0 = 0" using assms(1) by (force simp: rounding_def)
  have "Seconds fl (time_sub now now) = 0" by (simp add: Seconds_def time_sub_def z)
  then have "bk_tokens (refill fl (rl_rate fl p) (rl_capacity fl p) now (rl_bucket fl p now v)) = rl_capacity fl p"
    using assms(11) by (simp add: refill_def rl_bucket_def Let_def)
  then show ?thesis using assms(2) k by (simp add: rl_Handle_def Let_def)
qed


definition sample_re2 :: rl_env where
  "sample_re2 = \<lparr>re_net = \<lparr>ne_lookup = (\<lambda>h. Inr []), ne_parse = (\<lambda>s. if s = ''10.0.0.1'' then Some (IPv4 0) else None),
     ne_show = (\<lambda>ip. ''''), ne_hostname = u_Host\<rparr>, re_split = (\<lambda>s. Inr (s, '''')), re_cidr = (\<lambda>s. Inl (Err ''cidr''))\<rparr>"

theorem forwarded_for_evades_limit_witness:
  "fst (rl_Handle (\<lambda>x. x) sample_re2 7
      \<lparr>rl_cfg = sample_limits, rl_trustedCIDRs = [Net4 0 0], rl_buckets = [(''10.0.0.1'', \<lparr>bk_tokens = 0, bk_last = 7\<rparr>)]\<rparr>
      ((sample_rq ''10.0.0.1'')\<lparr>rq_Headers := [(''X-Forwarded-For'', ''forged'')]\<rparr>) None) = None"
proof (rule forwarded_for_evades_limit [where u = 0 and v = "''forged''"])
  show "TrimSpace ''forged'' = ''forged''" by code_simp
qed (simp_all add: rounding_def rl_capacity_def sample_limits_def sample_rq_def remoteAddrTrusted_def sample_re2_def Let_def)

end
