(* ===== verification/Plugin_Discovery.thy ===== *)
theory Plugin_Discovery
  imports Plugin_Registry
begin

text \<open>
  \<open>internal/plugin\<close>, second half: manifest discovery (\<open>discovery.go\<close>), inline manifest signatures
  (\<open>signature.go\<close>), configuration envelopes (\<open>config.go\<close>) and the scoped plugin platform
  (\<open>platform.go\<close>).

  The directory walk is the list of its callback arguments; reading and decoding a manifest, marshalling
  it for verification, and the services behind the platform are arguments.
\<close>

section \<open>Manifests (discovery.go)\<close>

record manifest_signature =
  ms_Algorithm :: string
  ms_Value :: string

record manifest =
  mf_ID :: string
  mf_Kind :: string
  mf_Name :: string
  mf_Description :: string
  mf_Version :: string
  mf_Capabilities :: "string list"
  mf_DependsOn :: "string list"
  mf_ConfigSchemaRef :: string
  mf_Enabled :: "bool option"
  mf_Metadata :: "gany gomap option"
  mf_Signature :: "manifest_signature option"

definition knownKind :: "string \<Rightarrow> bool" where
  "knownKind kind \<longleftrightarrow> kind \<in> {''pipeline'', ''provider'', ''integration''}"

text \<open>The index of the first entry that is blank after trimming.\<close>

fun first_blank :: "nat \<Rightarrow> string list \<Rightarrow> nat option" where
  "first_blank i [] = None"
| "first_blank i (c # cs) = (if TrimSpace c = '''' then Some i else first_blank (Suc i) cs)"

definition manifest_at :: "string \<Rightarrow> manifest \<Rightarrow> string" where
  "manifest_at path m = ''plugin: manifest '' @ path @ '' (id='' @ Quote (mf_ID m) @ ''): ''"

definition validateManifest :: "string \<Rightarrow> manifest \<Rightarrow> goerr option" where
  "validateManifest path m =
     (if TrimSpace (mf_ID m) = ''''
      then Some (Err (''plugin: manifest '' @ path @ '': missing required field '' @ Quote ''id''))
      else if TrimSpace (mf_Kind m) = '''' then Some (Err (manifest_at path m @ ''missing required field '' @ Quote ''kind''))
      else if \<not> knownKind (mf_Kind m)
      then Some (Err (manifest_at path m @ ''unknown kind '' @ Quote (mf_Kind m) @ '' (want one of '' @ Quote ''pipeline'' @ '', ''
             @ Quote ''provider'' @ '', '' @ Quote ''integration'' @ '')''))
      else if mf_Capabilities m = [] then Some (Err (manifest_at path m @ ''missing required field '' @ Quote ''capabilities''))
      else (case first_blank 0 (mf_Capabilities m) of
          Some i \<Rightarrow> Some (Err (manifest_at path m @ ''empty capability at index '' @ Itoa (int i)))
        | None \<Rightarrow> (case first_blank 0 (mf_DependsOn m) of
            Some i \<Rightarrow> Some (Err (manifest_at path m @ ''empty depends_on entry at index '' @ Itoa (int i)))
          | None \<Rightarrow> None)))"

definition toDescriptor :: "manifest \<Rightarrow> descriptor result" where
  "toDescriptor m =
     (if \<not> knownKind (mf_Kind m) then Inl (Err (''unknown plugin kind '' @ Quote (mf_Kind m)))
      else Inr \<lparr>pd_ID = mf_ID m, pd_Kind = mf_Kind m, pd_Name = mf_Name m, pd_Description = mf_Description m,
             pd_Version = mf_Version m, pd_Capabilities = mf_Capabilities m, pd_DependsOn = mf_DependsOn m,
             pd_ConfigSchemaRef = mf_ConfigSchemaRef m\<rparr>)"

text \<open>\<open>placeholder i\<close> stands for the factory that fails with "factory not provided".\<close>

record 'f disc_env =
  de_read :: "string \<Rightarrow> bytes result"
  de_unmarshal :: "bytes \<Rightarrow> manifest result"
  de_not_exist :: "goerr \<Rightarrow> bool"
  de_placeholder :: "string \<Rightarrow> 'f"

type_synonym verifier = "string \<Rightarrow> manifest \<Rightarrow> goerr option"

definition discoverSingle :: "'f disc_env \<Rightarrow> verifier option \<Rightarrow> string \<Rightarrow> 'f registry \<Rightarrow> goerr option \<times> 'f registry" where
  "discoverSingle de vf path r = (case de_read de path of
     Inl e \<Rightarrow> (Some (Wrap (''read manifest '' @ path @ '': '') e), r)
   | Inr data \<Rightarrow> (case de_unmarshal de data of
       Inl e \<Rightarrow> (Some (Wrap (''unmarshal manifest '' @ path @ '': '') e), r)
     | Inr m \<Rightarrow> (case validateManifest path m of
         Some e \<Rightarrow> (Some e, r)
       | None \<Rightarrow> (case (case vf of None \<Rightarrow> None | Some verify \<Rightarrow> verify path m) of
           Some e \<Rightarrow> (Some (Wrap (''verify manifest '' @ path @ '': '') e), r)
         | None \<Rightarrow> (case toDescriptor m of
             Inl e \<Rightarrow> (Some (Wrap (''manifest '' @ path @ '': '') e), r)
           | Inr desc \<Rightarrow> (case Register desc (de_placeholder de (pd_ID desc)) r of
               (Some e, r1) \<Rightarrow> (Some e, r1)
             | (None, r1) \<Rightarrow> (None, if mf_Enabled m = Some False then snd (Disable (pd_ID desc) r1) else r1)))))))"

datatype walk_entry = WalkErr goerr | WalkDirectory | WalkFile string string

text \<open>\<open>WalkFile path name\<close> is a file; only names ending in .json are manifests. An error ends the walk.\<close>

fun walk :: "'f disc_env \<Rightarrow> verifier option \<Rightarrow> walk_entry list \<Rightarrow> 'f registry \<Rightarrow> goerr option \<times> 'f registry" where
  "walk de vf [] r = (None, r)"
| "walk de vf (WalkErr e # es) r = (Some e, r)"
| "walk de vf (WalkDirectory # es) r = walk de vf es r"
| "walk de vf (WalkFile path name # es) r =
     (if \<not> suffix ''.json'' name then walk de vf es r
      else (case discoverSingle de vf path r of
          (Some e, r1) \<Rightarrow> (Some (Wrap ''plugin: '' e), r1)
        | (None, r1) \<Rightarrow> walk de vf es r1))"

definition DiscoverFromDir :: "'f disc_env \<Rightarrow> verifier option \<Rightarrow> walk_entry list \<Rightarrow> 'f registry \<Rightarrow> goerr option \<times> 'f registry" where
  "DiscoverFromDir de vf entries r = (case walk de vf entries r of
     (Some e, r1) \<Rightarrow> (if de_not_exist de e then None else Some e, r1)
   | (None, r1) \<Rightarrow> (None, r1))"

section \<open>Manifest signatures (signature.go)\<close>

definition ErrManifestSignatureMissing :: goerr where
  "ErrManifestSignatureMissing = Sentinel ''plugin: manifest signature is missing''"

definition plugin_parseEd25519PublicKey :: "sig_env \<Rightarrow> bytes \<Rightarrow> bytes result" where
  "plugin_parseEd25519PublicKey se pemBytes = (let trimmed = TrimSpace pemBytes in
     if trimmed = '''' then Inl (Err ''plugin: empty public key'')
     else (case se_pem se trimmed of
         Some block \<Rightarrow> (case se_pkix se block of
             Inl e \<Rightarrow> Inl (Wrap ''plugin: parse PKIX public key: '' e)
           | Inr (Inl t) \<Rightarrow> Inl (Err (''plugin: public key is not Ed25519 (got '' @ t @ '')''))
           | Inr (Inr edPub) \<Rightarrow> Inr edPub)
       | None \<Rightarrow> (case DecodeString StdEnc trimmed of
             Some raw \<Rightarrow> (if length raw = 32 then Inr raw
                else Inl (Err ''plugin: public key is not a valid PEM-encoded Ed25519 key''))
           | None \<Rightarrow> Inl (Err ''plugin: public key is not a valid PEM-encoded Ed25519 key''))))"

definition decodeManifestSignature :: "bytes \<Rightarrow> bytes result" where
  "decodeManifestSignature value =
     (if length value = 64 then Inr value
      else (case DecodeString StdEnc (TrimSpace value) of
          None \<Rightarrow> Inl (Wrap ''signature is neither raw 64 bytes nor valid base64: '' b64_err)
        | Some decoded \<Rightarrow>
            (if length decoded \<noteq> 64
             then Inl (Err (''signature has wrong length: got '' @ Itoa (int (length decoded)) @ '', want 64''))
             else Inr decoded)))"

text \<open>\<open>marshal\<close> is \<open>json.Marshal\<close> of a manifest.\<close>

definition signingPayload :: "(manifest \<Rightarrow> bytes result) \<Rightarrow> manifest \<Rightarrow> bytes result" where
  "signingPayload marshal m = (case marshal (m\<lparr>mf_Signature := None\<rparr>) of
     Inl e \<Rightarrow> Inl (Wrap ''marshal signing payload: '' e) | Inr p \<Rightarrow> Inr p)"

definition manifest_id :: "string \<Rightarrow> manifest \<Rightarrow> string" where
  "manifest_id path m = ''plugin: manifest '' @ path @ '' (id='' @ Quote (mf_ID m) @ '')''"

definition manifest_Verify :: "sig_env \<Rightarrow> (manifest \<Rightarrow> bytes result) \<Rightarrow> bytes option \<Rightarrow> verifier" where
  "manifest_Verify se marshal publicKey path m = (case publicKey of
     None \<Rightarrow> Some (Err ''plugin: nil Ed25519 verifier'')
   | Some pub \<Rightarrow> (case mf_Signature m of
       None \<Rightarrow> Some (WrapS ErrManifestSignatureMissing ('': manifest '' @ path @ '' (id='' @ Quote (mf_ID m) @ '')''))
     | Some sg \<Rightarrow>
         (if TrimSpace (ms_Value sg) = ''''
          then Some (WrapS ErrManifestSignatureMissing ('': manifest '' @ path @ '' (id='' @ Quote (mf_ID m) @ '')''))
          else if ToLower (TrimSpace (ms_Algorithm sg)) \<noteq> ''ed25519''
          then Some (Err (manifest_id path m @ '' unsupported signature algorithm '' @ Quote (ms_Algorithm sg) @ '' (want '' @ Quote ''ed25519'' @ '')''))
          else (case signingPayload marshal m of
              Inl e \<Rightarrow> Some (Wrap (manifest_id path m @ '': '') e)
            | Inr payload \<Rightarrow> (case decodeManifestSignature (ms_Value sg) of
                Inl e \<Rightarrow> Some (Wrap (manifest_id path m @ '': '') e)
              | Inr sig \<Rightarrow> (if se_verify se pub payload sig then None
                  else Some (Err (manifest_id path m @ '' signature verification failed'')))))))) "

definition NewEd25519Verifier :: "sig_env \<Rightarrow> (manifest \<Rightarrow> bytes result) \<Rightarrow> string \<Rightarrow> verifier result" where
  "NewEd25519Verifier se marshal publicKeyPEM = (case plugin_parseEd25519PublicKey se publicKeyPEM of
     Inl e \<Rightarrow> Inl e | Inr pub \<Rightarrow> Inr (manifest_Verify se marshal (Some pub)))"

section \<open>Configuration envelopes (config.go)\<close>

record envelope =
  ev_ID :: string
  ev_Kind :: string
  ev_Type :: string
  ev_Version :: string
  ev_SchemaRef :: string
  ev_Enabled :: bool
  ev_Raw :: "gany gomap option"

definition schema_Resolve :: "(string \<Rightarrow> string \<Rightarrow> string) \<Rightarrow> (string \<Rightarrow> goerr option) \<Rightarrow> string \<Rightarrow> string \<Rightarrow> string result" where
  "schema_Resolve join stat rootDir ref =
     (if ref = '''' then Inl (Err ''plugin: empty schema ref'')
      else let path = join rootDir (ref @ ''.schema.json'') in (case stat path of Some e \<Rightarrow> Inl e | None \<Rightarrow> Inr path))"

definition ValidateAgainstSchema :: "envelope \<Rightarrow> (string \<Rightarrow> string result) option \<Rightarrow> (string \<Rightarrow> gany gomap option \<Rightarrow> goerr option) option \<Rightarrow> goerr option" where
  "ValidateAgainstSchema env resolver validator =
     (if ev_SchemaRef env = '''' then None
      else (case (resolver, validator) of
          (Some resolve, Some validate) \<Rightarrow> (case resolve (ev_SchemaRef env) of
              Inl e \<Rightarrow> Some (Wrap (''plugin: resolve schema '' @ Quote (ev_SchemaRef env) @ '': '') e)
            | Inr p \<Rightarrow> (case validate p (ev_Raw env) of
                Some e \<Rightarrow> Some (Wrap (''plugin: validate schema '' @ Quote (ev_SchemaRef env) @ '': '') e)
              | None \<Rightarrow> None))
        | _ \<Rightarrow> None))"

section \<open>The platform (platform.go)\<close>

definition ErrInvalidPluginID :: goerr where
  "ErrInvalidPluginID = Sentinel ''plugin: invalid plugin id''"

definition ErrCacheKeyTooLong :: goerr where
  "ErrCacheKeyTooLong = Sentinel ''plugin: cache key too long''"

text \<open>The shared cache service over a state \<open>'n\<close>.\<close>

record 'n cache_service =
  cs_Get :: "'n \<Rightarrow> string \<Rightarrow> string result \<times> 'n"
  cs_Set :: "'n \<Rightarrow> string \<Rightarrow> string \<Rightarrow> int \<Rightarrow> goerr option \<times> 'n"
  cs_Del :: "'n \<Rightarrow> string \<Rightarrow> goerr option \<times> 'n"

record 'n shared_platform =
  sp_cache :: "'n cache_service"
  sp_maxPluginIDLength :: int
  sp_maxCacheKeyLength :: int

definition NewSharedPlatform :: "'n cache_service \<Rightarrow> int \<Rightarrow> int \<Rightarrow> 'n shared_platform" where
  "NewSharedPlatform c maxID maxKey = \<lparr>sp_cache = c, sp_maxPluginIDLength = (if maxID \<le> 0 then 128 else maxID),
     sp_maxCacheKeyLength = (if maxKey \<le> 0 then 256 else maxKey)\<rparr>"

record 'n scoped_cache =
  sc_base :: "'n cache_service"
  sc_pluginID :: string
  sc_maxKeyLength :: int

definition Scope :: "'n shared_platform \<Rightarrow> string \<Rightarrow> string result" where
  "Scope p i = (let sid = TrimSpace i in
     if sid = '''' \<or> int (length sid) > sp_maxPluginIDLength p then Inl (WrapS ErrInvalidPluginID ('': '' @ Quote i)) else Inr sid)"

definition scoped_Cache :: "'n shared_platform \<Rightarrow> string \<Rightarrow> 'n scoped_cache" where
  "scoped_Cache p sid = \<lparr>sc_base = sp_cache p, sc_pluginID = sid, sc_maxKeyLength = sp_maxCacheKeyLength p\<rparr>"

definition cache_key :: "'n scoped_cache \<Rightarrow> string \<Rightarrow> string result" where
  "cache_key c key =
     (if int (length key) > sc_maxKeyLength c
      then Inl (WrapS ErrCacheKeyTooLong ('': '' @ Itoa (int (length key)) @ '' > '' @ Itoa (sc_maxKeyLength c)))
      else Inr (''plugin:'' @ sc_pluginID c @ '':'' @ key))"

definition scoped_Get :: "'n scoped_cache \<Rightarrow> 'n \<Rightarrow> string \<Rightarrow> string result \<times> 'n" where
  "scoped_Get c n key = (case cache_key c key of Inl e \<Rightarrow> (Inl e, n) | Inr ck \<Rightarrow> cs_Get (sc_base c) n ck)"

definition scoped_Set :: "'n scoped_cache \<Rightarrow> 'n \<Rightarrow> string \<Rightarrow> string \<Rightarrow> int \<Rightarrow> goerr option \<times> 'n" where
  "scoped_Set c n key val ttl = (case cache_key c key of Inl e \<Rightarrow> (Some e, n) | Inr ck \<Rightarrow> cs_Set (sc_base c) n ck val ttl)"

definition scoped_Del :: "'n scoped_cache \<Rightarrow> 'n \<Rightarrow> string \<Rightarrow> goerr option \<times> 'n" where
  "scoped_Del c n key = (case cache_key c key of Inl e \<Rightarrow> (Some e, n) | Inr ck \<Rightarrow> cs_Del (sc_base c) n ck)"

definition withPluginField :: "gany gomap option \<Rightarrow> string \<Rightarrow> gany gomap" where
  "withPluginField flds pid = AList.update ''plugin_id'' (AStr pid) (case flds of None \<Rightarrow> [] | Some f \<Rightarrow> f)"

definition withPluginLabel :: "string gomap option \<Rightarrow> string \<Rightarrow> string gomap" where
  "withPluginLabel labels pid = AList.update ''plugin_id'' pid (case labels of None \<Rightarrow> [] | Some l \<Rightarrow> l)"

definition metric_name :: "string \<Rightarrow> string \<Rightarrow> string" where
  "metric_name pid name = (if TrimSpace name = '''' then ''plugin.'' @ pid @ ''.invalid'' else ''plugin.'' @ pid @ ''.'' @ name)"

section \<open>Lemmas\<close>

lemma Register_keys:
  "Register d f r = (e, r') \<Longrightarrow> set (map fst (rg_byID r')) = (if e = None then insert (pd_ID d) (set (map fst (rg_byID r))) else set (map fst (rg_byID r)))"
  by (auto simp: Register_def Let_def simp del: set_map split: if_splits)

lemma set_enabled_keys: "set_enabled b i r = (e, r') \<Longrightarrow> i \<in> set (map fst (rg_byID r)) \<Longrightarrow> set (map fst (rg_byID r')) = set (map fst (rg_byID r))"
  by (auto simp: set_enabled_def insert_absorb simp del: set_map split: option.splits)

text \<open>What a verified manifest is.\<close>

definition verified_manifest :: "sig_env \<Rightarrow> (manifest \<Rightarrow> bytes result) \<Rightarrow> bytes \<Rightarrow> manifest \<Rightarrow> bool" where
  "verified_manifest se marshal pub m \<longleftrightarrow> (\<exists>sg payload sig. mf_Signature m = Some sg
     \<and> ToLower (TrimSpace (ms_Algorithm sg)) = ''ed25519'' \<and> signingPayload marshal m = Inr payload
     \<and> decodeManifestSignature (ms_Value sg) = Inr sig \<and> se_verify se pub payload sig)"

lemma manifest_Verify_None: "manifest_Verify se marshal (Some pub) path m = None \<Longrightarrow> verified_manifest se marshal pub m"
  by (auto simp: manifest_Verify_def verified_manifest_def split: option.splits if_splits sum.splits)

definition well_formed_manifest :: "manifest \<Rightarrow> bool" where
  "well_formed_manifest m \<longleftrightarrow> TrimSpace (mf_ID m) \<noteq> '''' \<and> knownKind (mf_Kind m) \<and> mf_Capabilities m \<noteq> []
     \<and> (\<forall>c \<in> set (mf_Capabilities m @ mf_DependsOn m). TrimSpace c \<noteq> '''')"

lemma first_blank_None: "first_blank i cs = None \<longleftrightarrow> (\<forall>c \<in> set cs. TrimSpace c \<noteq> '''')"
  by (induction i cs rule: first_blank.induct) auto

lemma validateManifest_None: "validateManifest path m = None \<Longrightarrow> well_formed_manifest m"
  by (auto simp: validateManifest_def well_formed_manifest_def first_blank_None split: if_splits option.splits)

definition discovered :: "'f disc_env \<Rightarrow> verifier option \<Rightarrow> string \<Rightarrow> string \<Rightarrow> bool" where
  "discovered de vf path i \<longleftrightarrow> (\<exists>data m. de_read de path = Inr data \<and> de_unmarshal de data = Inr m \<and> mf_ID m = i
     \<and> well_formed_manifest m \<and> (\<forall>verify. vf = Some verify \<longrightarrow> verify path m = None))"

lemma discoverSingle_keys:
  assumes "discoverSingle de vf path r = (e, r')" and "i \<in> set (map fst (rg_byID r'))" and "i \<notin> set (map fst (rg_byID r))"
  shows "discovered de vf path i"
proof -
  from assms have "r' \<noteq> r" by auto
  with assms(1) obtain data m desc e1 r1 where m: "de_read de path = Inr data" "de_unmarshal de data = Inr m"
    "validateManifest path m = None" "(case vf of None \<Rightarrow> None | Some verify \<Rightarrow> verify path m) = None" "toDescriptor m = Inr desc"
    and rg: "Register desc (de_placeholder de (pd_ID desc)) r = (e1, r1)"
    and r': "r' = r1 \<or> (e1 = None \<and> r' = snd (Disable (pd_ID desc) r1))"
    by (auto simp: discoverSingle_def split: sum.splits option.splits prod.splits if_splits)
  have k1: "set (map fst (rg_byID r1)) = (if e1 = None then insert (pd_ID desc) (set (map fst (rg_byID r))) else set (map fst (rg_byID r)))"
    using Register_keys [OF rg] .
  have "set (map fst (rg_byID r')) = set (map fst (rg_byID r1))"
    using r' k1 set_enabled_keys [of False "pd_ID desc" r1 _ "snd (Disable (pd_ID desc) r1)"]
    unfolding Disable_def by (metis insertI1 prod.collapse)
  with assms(2,3) k1 have "i = pd_ID desc" by (auto split: if_splits simp del: set_map)
  moreover have "pd_ID desc = mf_ID m" using m(5) by (auto simp: toDescriptor_def split: if_splits)
  ultimately show ?thesis
    using m validateManifest_None [OF m(3)] unfolding discovered_def by (auto split: option.splits)
qed

lemma walk_keys:
  assumes "walk de vf es r = (e, r')" and "i \<in> set (map fst (rg_byID r'))" and "i \<notin> set (map fst (rg_byID r))"
  shows "\<exists>path name. WalkFile path name \<in> set es \<and> suffix ''.json'' name \<and> discovered de vf path i"
  using assms
proof (induction de vf es r rule: walk.induct)
  case (4 de vf path name es r)
  show ?case
  proof (cases "suffix ''.json'' name")
    case False
    with 4 show ?thesis by (auto simp del: set_map)
  next
    case True
    obtain e1 r1 where d: "discoverSingle de vf path r = (e1, r1)" by fastforce
    show ?thesis
    proof (cases "i \<in> set (map fst (rg_byID r1))")
      case t: True
      with discoverSingle_keys [OF d] 4(5) True show ?thesis by (auto simp del: set_map)
    next
      case False
      with 4(3,4) d True have "e1 = None" "walk de vf es r1 = (e, r')" by (auto split: option.splits simp del: set_map)
      moreover from True have "\<not> \<not> suffix ''.json'' name" by simp
      ultimately have "\<exists>path name. WalkFile path name \<in> set es \<and> suffix ''.json'' name \<and> discovered de vf path i"
        using 4(2) [OF _ d [symmetric]] 4(4) False by (simp del: set_map)
      then show ?thesis by auto
    qed
  qed
qed (auto simp del: set_map)

section \<open>Properties\<close>

text \<open>
  C32. Discovery registers only what it verified: with an Ed25519 verifier configured, every plugin id that
  discovery adds to the registry, also when it ends with an error, is the id of a manifest file below the
  root that is structurally valid and whose signature verifies over the manifest without its signature.
\<close>

theorem discovery_only_verified:
  assumes "DiscoverFromDir de (Some (manifest_Verify se marshal (Some pub))) entries r = (e, r')"
    and "i \<in> set (map fst (rg_byID r'))" and "i \<notin> set (map fst (rg_byID r))"
  shows "\<exists>path name data m. WalkFile path name \<in> set entries \<and> suffix ''.json'' name
     \<and> de_read de path = Inr data \<and> de_unmarshal de data = Inr m \<and> mf_ID m = i
     \<and> well_formed_manifest m \<and> verified_manifest se marshal pub m"
proof -
  from assms(1) obtain e1 where w: "walk de (Some (manifest_Verify se marshal (Some pub))) entries r = (e1, r')"
    by (auto simp: DiscoverFromDir_def split: prod.splits option.splits)
  from walk_keys [OF w assms(2,3)] show ?thesis
    unfolding discovered_def using manifest_Verify_None by blast
qed

definition sample_manifest :: manifest where
  "sample_manifest = \<lparr>mf_ID = ''rl'', mf_Kind = ''pipeline'', mf_Name = '''', mf_Description = '''', mf_Version = '''',
     mf_Capabilities = [''pipeline:x''], mf_DependsOn = [], mf_ConfigSchemaRef = '''', mf_Enabled = None, mf_Metadata = None,
     mf_Signature = Some \<lparr>ms_Algorithm = ''Ed25519'', ms_Value = replicate 64 (CHR ''p'')\<rparr>\<rparr>"

definition sample_de :: "unit disc_env" where
  "sample_de = \<lparr>de_read = (\<lambda>p. Inr ''json''), de_unmarshal = (\<lambda>d. Inr sample_manifest), de_not_exist = (\<lambda>e. False), de_placeholder = (\<lambda>i. ())\<rparr>"

theorem discovery_only_verified_witness:
  "\<exists>r'. DiscoverFromDir sample_de (Some (manifest_Verify sample_se (\<lambda>m. Inr ''payload'') (Some ''k''))) [WalkDirectory, WalkFile ''d/a.json'' ''a.json''] NewRegistry
      = (None, r') \<and> ''rl'' \<in> set (map fst (rg_byID r')) \<and> verified_manifest sample_se (\<lambda>m. Inr ''payload'') ''k'' sample_manifest"
proof -
  let ?d = "DiscoverFromDir sample_de (Some (manifest_Verify sample_se (\<lambda>m. Inr ''payload'') (Some ''k''))) [WalkDirectory, WalkFile ''d/a.json'' ''a.json''] NewRegistry"
  have f: "fst ?d = None" and k: "''rl'' \<in> set (map fst (rg_byID (snd ?d)))" by code_simp+
  have d: "?d = (None, snd ?d)" using f by (metis prod.collapse)
  have n: "''rl'' \<notin> set (map fst (rg_byID (NewRegistry :: unit registry)))" by (simp add: NewRegistry_def)
  from discovery_only_verified [OF d k n] have "verified_manifest sample_se (\<lambda>m. Inr ''payload'') ''k'' sample_manifest"
    by (auto simp: sample_de_def)
  with d k show ?thesis by blast
qed

text \<open>
  Plugins cannot reach each other's cache entries as long as plugin ids hold no colon: two scoped keys
  are equal only for the same plugin and the same key.
\<close>

theorem cache_keys_isolated:
  assumes "cache_key c k = Inr x" and "cache_key c' k' = Inr x"
    and "CHR '':'' \<notin> set (sc_pluginID c)" and "CHR '':'' \<notin> set (sc_pluginID c')"
  shows "sc_pluginID c = sc_pluginID c' \<and> k = k'"
proof -
  from assms(1,2) have "sc_pluginID c @ CHR '':'' # k = sc_pluginID c' @ CHR '':'' # k'"
    by (auto simp: cache_key_def split: if_splits)
  then have "SplitN2 (CHR '':'') (sc_pluginID c @ CHR '':'' # k) = SplitN2 (CHR '':'') (sc_pluginID c' @ CHR '':'' # k')" by simp
  then show ?thesis using assms(3,4) by simp
qed

definition sample_cache :: "string \<Rightarrow> unit scoped_cache" where
  "sample_cache i = \<lparr>sc_base = \<lparr>cs_Get = (\<lambda>n k. (Inr '''', n)), cs_Set = (\<lambda>n k v t. (None, n)), cs_Del = (\<lambda>n k. (None, n))\<rparr>,
     sc_pluginID = i, sc_maxKeyLength = 256\<rparr>"

theorem cache_keys_isolated_witness:
  "cache_key (sample_cache ''a'') ''k'' = Inr ''plugin:a:k'' \<and> sc_pluginID (sample_cache ''a'') = sc_pluginID (sample_cache ''a'')"
  using cache_keys_isolated [of "sample_cache ''a''" "''k''" "''plugin:a:k''" "sample_cache ''a''" "''k''"]
  by (simp add: sample_cache_def cache_key_def)

text \<open>
  With a colon in an id they can: a plugin a that uses the key b:k and a plugin a:b that uses the key k,
  both accepted by \<open>Scope\<close>, share one cache entry.
\<close>

theorem cache_keys_collide:
  "\<exists>p. Scope p ''a'' = Inr ''a'' \<and> Scope p ''a:b'' = Inr ''a:b''
     \<and> cache_key (scoped_Cache p ''a'') ''b:k'' = cache_key (scoped_Cache p ''a:b'') ''k''"
proof (intro exI conjI)
  let ?p = "NewSharedPlatform \<lparr>cs_Get = (\<lambda>n k. (Inr '''', n)), cs_Set = (\<lambda>n k v t. (None, n)), cs_Del = (\<lambda>n k. (None, n))\<rparr> 0 0"
  have t: "TrimSpace ''a'' = ''a''" "TrimSpace ''a:b'' = ''a:b''" by code_simp+
  show "Scope ?p ''a'' = Inr ''a''" "Scope ?p ''a:b'' = Inr ''a:b''"
    by (simp_all add: Scope_def NewSharedPlatform_def t)
  show "cache_key (scoped_Cache ?p ''a'') ''b:k'' = cache_key (scoped_Cache ?p ''a:b'') ''k''"
    by (simp add: cache_key_def scoped_Cache_def NewSharedPlatform_def)
qed

end
