(* ===== verification/Oidc.thy ===== *)
theory Oidc
  imports Go_Http Go_Base64 "HOL-Library.List_Lexorder" "HOL-Library.Char_ord" "HOL-Library.Multiset"
begin

text \<open>
  \<open>pkg/oidc\<close>: PKCE and state generation (\<open>pkce.go\<close>), the OIDC client with its cached discovery document
  (\<open>discovery.go\<close>, \<open>token.go\<close>, \<open>end_session.go\<close>, \<open>revoke.go\<close>), and \<open>internal/plugins/oidcprovider/oidc.go\<close>, the
  provider plugin over that client.

  The HTTP client, the JSON decoders, the random source and SHA-256 are arguments. \<open>oe_do\<close> sends one request
  (building the request included) and gives the status and the body, whose reading may fail on its own. The
  state \<open>'n\<close> is the network's; the client's discovery cache is state of its own (\<open>sync.Once\<close> keeps the first
  outcome, an error too).
\<close>

section \<open>PKCE (pkce.go)\<close>

type_synonym 'w random = "'w \<Rightarrow> nat \<Rightarrow> bytes result \<times> 'w"

definition GeneratePKCE :: "(bytes \<Rightarrow> bytes) \<Rightarrow> 'w random \<Rightarrow> 'w \<Rightarrow> (string \<times> string \<times> string) result \<times> 'w" where
  "GeneratePKCE sha rnd w = (case rnd w 32 of
     (Inl e, w1) \<Rightarrow> (Inl e, w1)
   | (Inr b, w1) \<Rightarrow>
       (let verifier = EncodeToString RawURLEnc b; challenge = EncodeToString RawURLEnc (sha verifier) in
        case rnd w1 16 of
          (Inl e, w2) \<Rightarrow> (Inl e, w2)
        | (Inr nonceB, w2) \<Rightarrow> (Inr (verifier, challenge, EncodeToString RawURLEnc nonceB), w2)))"

definition GenerateState :: "'w random \<Rightarrow> 'w \<Rightarrow> string result \<times> 'w" where
  "GenerateState rnd w = (case rnd w 24 of
     (Inl e, w1) \<Rightarrow> (Inl e, w1)
   | (Inr b, w1) \<Rightarrow> (Inr (EncodeToString RawURLEnc b), w1))"

section \<open>The client (discovery.go)\<close>

record discovery =
  ds_Issuer :: string
  ds_AuthorizationEndpoint :: string
  ds_TokenEndpoint :: string
  ds_EndSessionEndpoint :: string
  ds_JWKSURI :: string
  ds_RevocationEndpoint :: string

record token_response =
  tr_AccessToken :: string
  tr_RefreshToken :: string
  tr_IDToken :: string
  tr_ExpiresIn :: int
  tr_TokenType :: string

record oidc_client =
  cl_issuer :: string
  cl_clientID :: string
  cl_clientSecret :: string
  cl_redirectURI :: string
  cl_scopes :: "string list"
  cl_audience :: string

record http_out =
  ho_Method :: string
  ho_URL :: string
  ho_ContentType :: string
  ho_Body :: bytes

record 'n oidc_env =
  oe_do :: "'n \<Rightarrow> http_out \<Rightarrow> (int \<times> bytes result) result \<times> 'n"
  oe_discovery_json :: "bytes \<Rightarrow> discovery result"
  oe_token_json :: "bytes \<Rightarrow> token_response result"
  oe_url :: url_parser
  oe_url_string :: "url \<Rightarrow> string"

record 'n oidc_state =
  os_discovery :: "discovery result option"
  os_net :: 'n

text \<open>\<open>scopes\<close> is the Go slice: \<open>None\<close> for nil.\<close>

definition NewClient :: "string \<Rightarrow> string \<Rightarrow> string \<Rightarrow> string \<Rightarrow> string list option \<Rightarrow> string \<Rightarrow> oidc_client" where
  "NewClient issuer clientID clientSecret redirectURI scopes audience =
     \<lparr>cl_issuer = TrimSuffix issuer ''/'', cl_clientID = clientID, cl_clientSecret = clientSecret, cl_redirectURI = redirectURI,
      cl_scopes = (case scopes of None \<Rightarrow> [''openid'', ''profile''] | Some s \<Rightarrow> s), cl_audience = audience\<rparr>"

definition fetchDiscovery :: "'n oidc_env \<Rightarrow> oidc_client \<Rightarrow> 'n \<Rightarrow> discovery result \<times> 'n" where
  "fetchDiscovery oe c n =
     (let u = cl_issuer c @ ''/.well-known/openid-configuration'' in
      case oe_do oe n \<lparr>ho_Method = ''GET'', ho_URL = u, ho_ContentType = '''', ho_Body = []\<rparr> of
        (Inl e, n1) \<Rightarrow> (Inl e, n1)
      | (Inr (status, body), n1) \<Rightarrow>
          (if status \<noteq> 200 then (Inl (Err (''discovery '' @ u @ '': status '' @ Itoa status)), n1)
           else (case body of Inl e \<Rightarrow> (Inl e, n1) | Inr data \<Rightarrow> (case oe_discovery_json oe data of
               Inl e \<Rightarrow> (Inl e, n1)
             | Inr d \<Rightarrow>
                 (if ds_AuthorizationEndpoint d = '''' \<or> ds_TokenEndpoint d = ''''
                  then (Inl (Err ''discovery: missing required endpoints''), n1) else (Inr d, n1))))))"

definition Discovery :: "'n oidc_env \<Rightarrow> oidc_client \<Rightarrow> 'n oidc_state \<Rightarrow> discovery result \<times> 'n oidc_state" where
  "Discovery oe c s = (case os_discovery s of
     Some r \<Rightarrow> (r, s)
   | None \<Rightarrow> (case fetchDiscovery oe c (os_net s) of (r, n1) \<Rightarrow> (r, s\<lparr>os_discovery := Some r, os_net := n1\<rparr>)))"

text \<open>
  \<open>url.Values\<close> with one value per key; \<open>Set\<close> replaces, \<open>Encode\<close> sorts by key.
\<close>

definition values_Set :: "string \<Rightarrow> string \<Rightarrow> (string \<times> string) list \<Rightarrow> (string \<times> string) list" where
  "values_Set k v vs = AList.update k v vs"

definition values_Encode :: "(string \<times> string) list \<Rightarrow> string" where
  "values_Encode vs = encode_pairs (sort_key fst vs)"

definition auth_params :: "oidc_client \<Rightarrow> string \<Rightarrow> string \<Rightarrow> string \<Rightarrow> (string \<times> string) list" where
  "auth_params c state codeChallenge nonce =
     (let params = [(''response_type'', ''code''), (''client_id'', cl_clientID c), (''redirect_uri'', cl_redirectURI c),
        (''scope'', StrJoin '' '' (cl_scopes c)), (''state'', state), (''code_challenge'', codeChallenge),
        (''code_challenge_method'', ''S256''), (''nonce'', nonce)]
      in if cl_audience c \<noteq> '''' then values_Set ''audience'' (cl_audience c) params else params)"

definition AuthURL :: "'n oidc_env \<Rightarrow> oidc_client \<Rightarrow> 'n oidc_state \<Rightarrow> string \<Rightarrow> string \<Rightarrow> string \<Rightarrow> string result \<times> 'n oidc_state" where
  "AuthURL oe c s state codeChallenge nonce = (case Discovery oe c s of
     (Inl e, s1) \<Rightarrow> (Inl e, s1)
   | (Inr disc, s1) \<Rightarrow>
       (Inr (ds_AuthorizationEndpoint disc @ ''?'' @ values_Encode (auth_params c state codeChallenge nonce)), s1))"

section \<open>Tokens, logout and revocation (token.go, end\_session.go, revoke.go)\<close>

definition with_secret :: "oidc_client \<Rightarrow> (string \<times> string) list \<Rightarrow> (string \<times> string) list" where
  "with_secret c body = (if cl_clientSecret c \<noteq> '''' then values_Set ''client_secret'' (cl_clientSecret c) body else body)"

definition post_form :: "string \<Rightarrow> (string \<times> string) list \<Rightarrow> http_out" where
  "post_form u body = \<lparr>ho_Method = ''POST'', ho_URL = u, ho_ContentType = ''application/x-www-form-urlencoded'', ho_Body = values_Encode body\<rparr>"

definition read_tokens :: "'n oidc_env \<Rightarrow> string \<Rightarrow> (int \<times> bytes result) result \<Rightarrow> token_response result" where
  "read_tokens oe what resp = (case resp of
     Inl e \<Rightarrow> Inl e
   | Inr (status, body) \<Rightarrow> (case body of
       Inl e \<Rightarrow> Inl e
     | Inr data \<Rightarrow>
         (if status \<noteq> 200 then Inl (Err (what @ '': status '' @ Itoa status @ '': '' @ data))
          else oe_token_json oe data)))"

definition Exchange :: "'n oidc_env \<Rightarrow> oidc_client \<Rightarrow> 'n oidc_state \<Rightarrow> string \<Rightarrow> string \<Rightarrow> token_response result \<times> 'n oidc_state" where
  "Exchange oe c s code codeVerifier = (case Discovery oe c s of
     (Inl e, s1) \<Rightarrow> (Inl e, s1)
   | (Inr disc, s1) \<Rightarrow>
       (let body = with_secret c [(''grant_type'', ''authorization_code''), (''code'', code), (''redirect_uri'', cl_redirectURI c),
              (''client_id'', cl_clientID c), (''code_verifier'', codeVerifier)]
        in case oe_do oe (os_net s1) (post_form (ds_TokenEndpoint disc) body) of
             (resp, n1) \<Rightarrow> (read_tokens oe ''token exchange'' resp, s1\<lparr>os_net := n1\<rparr>)))"

definition client_Refresh :: "'n oidc_env \<Rightarrow> oidc_client \<Rightarrow> 'n oidc_state \<Rightarrow> string \<Rightarrow> token_response result \<times> 'n oidc_state" where
  "client_Refresh oe c s refreshToken = (case Discovery oe c s of
     (Inl e, s1) \<Rightarrow> (Inl e, s1)
   | (Inr disc, s1) \<Rightarrow>
       (let body = with_secret c [(''grant_type'', ''refresh_token''), (''refresh_token'', refreshToken), (''client_id'', cl_clientID c)]
        in case oe_do oe (os_net s1) (post_form (ds_TokenEndpoint disc) body) of
             (resp, n1) \<Rightarrow> (read_tokens oe ''token refresh'' resp, s1\<lparr>os_net := n1\<rparr>)))"

definition validateLogoutRedirectURI :: "url_parser \<Rightarrow> string \<Rightarrow> goerr option" where
  "validateLogoutRedirectURI url_parse rawURI = (case url_parse rawURI of
     Inl e \<Rightarrow> Some (Wrap ''invalid post_logout_redirect_uri: '' e)
   | Inr u \<Rightarrow>
       (if u_Scheme u \<noteq> ''https'' \<and> u_Scheme u \<noteq> ''http''
        then Some (Err (''post_logout_redirect_uri scheme '' @ Quote (u_Scheme u) @ '' not allowed (must be http or https)''))
        else if u_Host u = '''' then Some (Err ''post_logout_redirect_uri has no host'') else None))"

definition EndSessionURL :: "'n oidc_env \<Rightarrow> oidc_client \<Rightarrow> 'n oidc_state \<Rightarrow> string \<Rightarrow> string \<Rightarrow> string result \<times> 'n oidc_state" where
  "EndSessionURL oe c s idTokenHint postLogoutRedirectURI = (case Discovery oe c s of
     (Inl e, s1) \<Rightarrow> (Inl e, s1)
   | (Inr disc, s1) \<Rightarrow>
       (if ds_EndSessionEndpoint disc = '''' then (Inr '''', s1)
        else (let params = (if idTokenHint \<noteq> '''' then values_Set ''id_token_hint'' idTokenHint [] else []) in
          case (if postLogoutRedirectURI \<noteq> '''' then validateLogoutRedirectURI (oe_url oe) postLogoutRedirectURI else None) of
            Some e \<Rightarrow> (Inl (Wrap ''end_session: '' e), s1)
          | None \<Rightarrow>
              (let q = values_Encode (if postLogoutRedirectURI \<noteq> ''''
                         then values_Set ''post_logout_redirect_uri'' postLogoutRedirectURI params else params)
               in if q \<noteq> '''' then (Inr (TrimSuffix (ds_EndSessionEndpoint disc) ''/'' @ ''?'' @ q), s1)
                  else (Inr (ds_EndSessionEndpoint disc), s1)))))"

definition client_Revoke :: "'n oidc_env \<Rightarrow> oidc_client \<Rightarrow> 'n oidc_state \<Rightarrow> string \<Rightarrow> goerr option \<times> 'n oidc_state" where
  "client_Revoke oe c s tok = (case Discovery oe c s of
     (Inl e, s1) \<Rightarrow> (Some e, s1)
   | (Inr disc, s1) \<Rightarrow>
       (if ds_RevocationEndpoint disc = '''' then (None, s1)
        else (let body = with_secret c [(''token'', tok), (''token_type_hint'', ''refresh_token''), (''client_id'', cl_clientID c)] in
          case oe_do oe (os_net s1) (post_form (ds_RevocationEndpoint disc) body) of
            (Inl e, n1) \<Rightarrow> (Some e, s1\<lparr>os_net := n1\<rparr>)
          | (Inr (status, resp), n1) \<Rightarrow>
              (if status \<noteq> 200 \<and> status \<noteq> 204
               then (Some (Err (''revoke: status '' @ Itoa status @ '': '' @ (case resp of Inl _ \<Rightarrow> [] | Inr d \<Rightarrow> d))), s1\<lparr>os_net := n1\<rparr>)
               else (None, s1\<lparr>os_net := n1\<rparr>)))))"

section \<open>The provider plugin (oidcprovider)\<close>

record oidc_config =
  oc_Issuer :: string
  oc_ClientID :: string
  oc_ClientSecret :: string
  oc_RedirectURI :: string
  oc_Scopes :: "string list"
  oc_ClaimsSource :: string
  oc_Audience :: string

text \<open>\<open>strings.FieldsFunc\<close> with the four separators; bytes suffice, the separators are ASCII.\<close>

fun fields_on :: "(char \<Rightarrow> bool) \<Rightarrow> string \<Rightarrow> string \<Rightarrow> string list" where
  "fields_on sep acc [] = (if acc = [] then [] else [acc])"
| "fields_on sep acc (c # s) =
     (if sep c then (if acc = [] then [] else [acc]) @ fields_on sep [] s else fields_on sep (acc @ [c]) s)"

definition scope_sep :: "char \<Rightarrow> bool" where
  "scope_sep c \<longleftrightarrow> c = CHR '' '' \<or> c = CHR '','' \<or> c = NL \<or> c = CHR 0x09"

definition Scopes_UnmarshalJSON :: "json_decoder \<Rightarrow> bytes \<Rightarrow> string list result" where
  "Scopes_UnmarshalJSON json data =
     (if data = [] then Inr []
      else (case json data of
          Inl e \<Rightarrow> Inl e
        | Inr v \<Rightarrow>
            (if hd data = DQ then (case v of AStr s \<Rightarrow> Inr (fields_on scope_sep [] s) | _ \<Rightarrow> Inl (Err ''json: cannot unmarshal into string''))
             else (case v of ANil \<Rightarrow> Inr [] | AList xs \<Rightarrow> string_slice xs | _ \<Rightarrow> Inl (Err ''json: cannot unmarshal into slice'')))))"

text \<open>The plugin's state: its configuration and client, absent before \<open>Configure\<close>. The argument is the
  configuration after it was marshalled and decoded again.\<close>

type_synonym oidc_plugin = "(oidc_config \<times> oidc_client) option"

definition NewOIDCPlugin :: oidc_plugin where
  "NewOIDCPlugin = None"

definition oidc_Configure :: "oidc_plugin \<Rightarrow> oidc_config result \<Rightarrow> goerr option \<times> oidc_plugin" where
  "oidc_Configure p decoded = (case decoded of
     Inl e \<Rightarrow> (Some (Wrap ''oidc provider: decode config: '' e), p)
   | Inr out \<Rightarrow>
       (if oc_Issuer out = '''' \<or> oc_ClientID out = '''' \<or> oc_RedirectURI out = ''''
        then (Some (Err ''oidc provider: issuer, client_id, redirect_uri are required''), p)
        else (let cfg = (if oc_Scopes out = [] then out\<lparr>oc_Scopes := [''openid'', ''profile'']\<rparr> else out) in
          (None, Some (cfg, NewClient (oc_Issuer cfg) (oc_ClientID cfg) (oc_ClientSecret cfg) (oc_RedirectURI cfg)
             (Some (oc_Scopes cfg)) (oc_Audience cfg))))))"

definition oidc_Health :: "oidc_plugin \<Rightarrow> string \<times> string" where
  "oidc_Health p = (case p of None \<Rightarrow> (''degraded'', ''not configured'') | Some _ \<Rightarrow> (''healthy'', ''configured''))"

definition not_configured :: goerr where
  "not_configured = Err ''oidc provider: not configured''"

record provider_tokens =
  pt_AccessToken :: string
  pt_RefreshToken :: string
  pt_IDToken :: string
  pt_ExpiresIn :: int

definition provider_tokens_of :: "token_response \<Rightarrow> provider_tokens" where
  "provider_tokens_of tr = \<lparr>pt_AccessToken = tr_AccessToken tr, pt_RefreshToken = tr_RefreshToken tr,
     pt_IDToken = tr_IDToken tr, pt_ExpiresIn = tr_ExpiresIn tr\<rparr>"

text \<open>\<open>u.Query()\<close> may hold several values per key; \<open>Set\<close> leaves one.\<close>

definition pairs_Set :: "string \<Rightarrow> string \<Rightarrow> (string \<times> string) list \<Rightarrow> (string \<times> string) list" where
  "pairs_Set k v ps = filter (\<lambda>p. fst p \<noteq> k) ps @ [(k, v)]"

definition oidc_AuthorizationURL :: "'n oidc_env \<Rightarrow> oidc_plugin \<Rightarrow> 'n oidc_state \<Rightarrow> string \<Rightarrow> string \<Rightarrow> string \<Rightarrow> (string \<times> string) list \<Rightarrow> string result \<times> 'n oidc_state" where
  "oidc_AuthorizationURL oe p s state codeChallenge nonce extraParams = (case p of
     None \<Rightarrow> (Inl not_configured, s)
   | Some (_, c) \<Rightarrow> (case AuthURL oe c s state codeChallenge nonce of
       (Inl e, s1) \<Rightarrow> (Inl e, s1)
     | (Inr authURL, s1) \<Rightarrow>
         (if extraParams = [] then (Inr authURL, s1)
          else (case oe_url oe authURL of
              Inl e \<Rightarrow> (Inl e, s1)
            | Inr u \<Rightarrow>
                (let q = fold (\<lambda>(k, v) q. if TrimSpace k = '''' \<or> TrimSpace v = '''' then q else pairs_Set k v q)
                           extraParams (query_pairs (u_RawQuery u))
                 in (Inr (oe_url_string oe (u\<lparr>u_RawQuery := values_Encode q\<rparr>)), s1))))))"

definition oidc_ExchangeCode :: "'n oidc_env \<Rightarrow> oidc_plugin \<Rightarrow> 'n oidc_state \<Rightarrow> string \<Rightarrow> string \<Rightarrow> string \<Rightarrow> provider_tokens result \<times> 'n oidc_state" where
  "oidc_ExchangeCode oe p s code codeVerifier redirectURI = (case p of
     None \<Rightarrow> (Inl not_configured, s)
   | Some (_, c) \<Rightarrow> (case Exchange oe c s code codeVerifier of
       (Inl e, s1) \<Rightarrow> (Inl e, s1)
     | (Inr tr, s1) \<Rightarrow> (Inr (provider_tokens_of tr), s1)))"

definition oidc_Refresh :: "'n oidc_env \<Rightarrow> oidc_plugin \<Rightarrow> 'n oidc_state \<Rightarrow> string \<Rightarrow> provider_tokens result \<times> 'n oidc_state" where
  "oidc_Refresh oe p s refreshToken = (case p of
     None \<Rightarrow> (Inl not_configured, s)
   | Some (_, c) \<Rightarrow> (case client_Refresh oe c s refreshToken of
       (Inl e, s1) \<Rightarrow> (Inl e, s1)
     | (Inr tr, s1) \<Rightarrow> (Inr (provider_tokens_of tr), s1)))"

definition oidc_EndSessionURL :: "'n oidc_env \<Rightarrow> oidc_plugin \<Rightarrow> 'n oidc_state \<Rightarrow> string \<Rightarrow> string \<Rightarrow> string result \<times> 'n oidc_state" where
  "oidc_EndSessionURL oe p s idTokenHint postLogoutRedirectURI = (case p of
     None \<Rightarrow> (Inl not_configured, s)
   | Some (_, c) \<Rightarrow> EndSessionURL oe c s idTokenHint postLogoutRedirectURI)"

section \<open>Lemmas\<close>

lemma map_of_sort: "distinct (map fst ps) \<Longrightarrow> map_of (sort_key fst ps) = map_of ps"
  by (rule map_of_inject_set [THEN iffD2]) (simp_all add: distinct_map inj_on_def)

lemma query_values_Encode [simp]: "query_pairs (values_Encode vs) = sort_key fst vs"
  by (simp add: values_Encode_def)

lemma pairs_Set_distinct: "distinct (map fst ps) \<Longrightarrow> distinct (map fst (pairs_Set k v ps))"
  by (auto simp: pairs_Set_def distinct_map inj_on_def)

lemma map_of_pairs_Set: "map_of (pairs_Set k v ps) = (map_of ps)(k \<mapsto> v)"
proof (rule ext)
  fix x
  have "map_of (filter (\<lambda>p. fst p \<noteq> k) ps) x = (if x = k then None else map_of ps x)"
    by (induction ps) auto
  then show "map_of (pairs_Set k v ps) x = ((map_of ps)(k \<mapsto> v)) x"
    by (simp add: pairs_Set_def map_add_def split: option.split)
qed

lemma distinct_sort_key: "distinct (map fst (sort_key fst ps)) = distinct (map fst ps)"
  by (metis mset_map mset_sort mset_eq_imp_distinct_iff)

definition set_extra :: "(string \<times> string) list \<Rightarrow> (string \<times> string) list \<Rightarrow> (string \<times> string) list" where
  "set_extra = fold (\<lambda>(k, v) q. if TrimSpace k = '''' \<or> TrimSpace v = '''' then q else pairs_Set k v q)"

lemma set_extra_distinct: "distinct (map fst q) \<Longrightarrow> distinct (map fst (set_extra extra q))"
  unfolding set_extra_def by (induction extra arbitrary: q) (auto simp: pairs_Set_distinct)

lemma set_extra_other: "k \<notin> set (map fst extra) \<Longrightarrow> map_of (set_extra extra q) k = map_of q k"
  unfolding set_extra_def by (induction extra arbitrary: q) (auto simp: map_of_pairs_Set)

lemma auth_params_distinct: "distinct (map fst (auth_params c state chal nonce))"
  by (simp add: auth_params_def Let_def values_Set_def distinct_update)

definition binding :: "oidc_client \<Rightarrow> string \<Rightarrow> string \<Rightarrow> string \<Rightarrow> (string \<times> string) list" where
  "binding c state chal nonce = [(''response_type'', ''code''), (''client_id'', cl_clientID c), (''redirect_uri'', cl_redirectURI c),
     (''state'', state), (''code_challenge'', chal), (''code_challenge_method'', ''S256''), (''nonce'', nonce)]"

lemma auth_params_binding: "(k, v) \<in> set (binding c state chal nonce) \<Longrightarrow> map_of (auth_params c state chal nonce) k = Some v"
  by (auto simp: binding_def auth_params_def Let_def values_Set_def update_conv')

lemma Discovery_cached:
  assumes "Discovery oe c s = (r, s1)"
  shows "os_discovery s1 = Some r"
  using assms by (auto simp: Discovery_def split: option.splits prod.splits)

section \<open>Properties\<close>


text \<open>
  A failed discovery is permanent: \<open>sync.Once\<close> keeps the first outcome, so after one failure every
  later login, code exchange, refresh and logout through this client fails with the same error without
  contacting the provider, whatever the network then answers.
\<close>

theorem discovery_failure_sticky:
  assumes "Discovery oe c s = (Inl e, s1)"
  shows "AuthURL oe' c s1 state chal nonce = (Inl e, s1) \<and> Exchange oe' c s1 code verifier = (Inl e, s1)
    \<and> client_Refresh oe' c s1 rt = (Inl e, s1) \<and> EndSessionURL oe' c s1 hint uri = (Inl e, s1)"
  using Discovery_cached [OF assms]
  by (simp add: AuthURL_def Exchange_def client_Refresh_def EndSessionURL_def Discovery_def)

definition sample_disc :: discovery where
  "sample_disc = \<lparr>ds_Issuer = ''https://idp'', ds_AuthorizationEndpoint = ''https://idp/auth'', ds_TokenEndpoint = ''https://idp/token'',
     ds_EndSessionEndpoint = ''https://idp/logout'', ds_JWKSURI = ''https://idp/jwks'', ds_RevocationEndpoint = ''''\<rparr>"

definition sample_oe :: "bool oidc_env" where
  "sample_oe = \<lparr>oe_do = (\<lambda>n _. (if n then Inr (200, Inr ''{}'') else Inl (Err ''dial''), n)), oe_discovery_json = (\<lambda>_. Inr sample_disc),
     oe_token_json = (\<lambda>_. Inl (Err ''json'')),
     oe_url = (\<lambda>s. case SplitN2 (CHR ''?'') s of None \<Rightarrow> Inl (Err ''parse'')
        | Some (p, q) \<Rightarrow> Inr \<lparr>u_Scheme = '''', u_Host = '''', u_Path = p, u_RawQuery = q\<rparr>),
     oe_url_string = (\<lambda>u. u_Path u @ ''?'' @ u_RawQuery u)\<rparr>"

definition sample_oc :: oidc_config where
  "sample_oc = \<lparr>oc_Issuer = ''https://idp/'', oc_ClientID = ''web'', oc_ClientSecret = '''', oc_RedirectURI = ''https://app/cb'',
     oc_Scopes = [], oc_ClaimsSource = '''', oc_Audience = ''''\<rparr>"

definition sample_client :: oidc_client where
  "sample_client = NewClient ''https://idp/'' ''web'' '''' ''https://app/cb'' None ''''"

theorem discovery_failure_sticky_witness:
  "fst (Discovery sample_oe sample_client \<lparr>os_discovery = None, os_net = False\<rparr>) = Inl (Err ''dial'')
    \<and> fst (AuthURL sample_oe sample_client
        \<lparr>os_discovery = os_discovery (snd (Discovery sample_oe sample_client \<lparr>os_discovery = None, os_net = False\<rparr>)), os_net = False\<rparr>
        ''st'' ''ch'' ''no'') = Inl (Err ''dial'')"
proof -
  let ?s = "\<lparr>os_discovery = None, os_net = False\<rparr>"
  have d: "Discovery sample_oe sample_client ?s = (Inl (Err ''dial''), \<lparr>os_discovery = Some (Inl (Err ''dial'')), os_net = False\<rparr>)"
    by code_simp
  from discovery_failure_sticky [OF d, of sample_oe "''st''" "''ch''" "''no''"] d show ?thesis by simp
qed


end
