(* ===== verification/Session.thy ===== *)
theory Session
  imports Cookie
begin

text \<open>
  \<open>pkg/session\<close>: the session, PKCE and tenant records, the Redis key layout and the store
  interfaces, and \<open>internal/session/store.go\<close>: the browser session manager on top of a store and a
  cookie codec.

  A Go interface value is a record of its methods. Every method takes the state \<open>'r\<close> of the store's
  backend and returns it updated. The locale \<open>store_contract\<close> is what the clients of a store rely on,
  \<open>browser_sessions\<close> the browser session manager over it; \<open>Redis_Store\<close> shows it for the Redis implementation.
\<close>

section \<open>Data (session.go, pkce.go)\<close>

record tenant_context =
  tc_TenantID :: string
  tc_TenantSlug :: string
  tc_Status :: string
  tc_Locale :: string
  tc_Timezone :: string

record session =
  s_ID :: string
  s_AccessToken :: string
  s_RefreshToken :: string
  s_IDToken :: string
  s_ExpiresAt :: int
  s_Claims :: "gany gomap option"
  s_TenantContext :: "tenant_context option"

record pkce_state =
  pk_State :: string
  pk_CodeVerifier :: string
  pk_CodeChallenge :: string
  pk_Nonce :: string
  pk_RedirectTo :: string

record key_layout =
  kl_SessionPrefix :: string
  kl_PKCEPrefix :: string
  kl_RefreshLockPrefix :: string
  kl_RevokedPrefix :: string
  kl_ReplayPrefix :: string
  kl_SessionTTLSeconds :: int
  kl_PKCETTLSeconds :: int
  kl_RefreshLockTTLSeconds :: int

definition DefaultKeyLayout :: key_layout where
  "DefaultKeyLayout = \<lparr>kl_SessionPrefix = ''auth:session:'', kl_PKCEPrefix = ''auth:pkce:'',
     kl_RefreshLockPrefix = ''auth:refresh_lock:'', kl_RevokedPrefix = ''auth:revoked:'',
     kl_ReplayPrefix = ''auth:replay:'', kl_SessionTTLSeconds = 36000, kl_PKCETTLSeconds = 300,
     kl_RefreshLockTTLSeconds = 15\<rparr>"

definition SessionKey :: "key_layout \<Rightarrow> string \<Rightarrow> string" where
  "SessionKey k sessionID = kl_SessionPrefix k @ sessionID"

definition PKCEKey :: "key_layout \<Rightarrow> string \<Rightarrow> string" where
  "PKCEKey k state = kl_PKCEPrefix k @ state"

definition RefreshLockKey :: "key_layout \<Rightarrow> string \<Rightarrow> string" where
  "RefreshLockKey k sessionID = kl_RefreshLockPrefix k @ sessionID"

definition RevokedKey :: "key_layout \<Rightarrow> string \<Rightarrow> string" where
  "RevokedKey k i = (if kl_RevokedPrefix k = '''' then ''auth:revoked:'' @ i else kl_RevokedPrefix k @ i)"

definition ReplayKey :: "key_layout \<Rightarrow> string \<Rightarrow> string" where
  "ReplayKey k key = (if kl_ReplayPrefix k = '''' then ''auth:replay:'' @ key else kl_ReplayPrefix k @ key)"

text \<open>Times are Unix seconds; the subtraction is on \<open>int64\<close>.\<close>

definition IsExpired :: "session \<Rightarrow> int \<Rightarrow> bool" where
  "IsExpired s now \<longleftrightarrow> s_ExpiresAt s \<le> now"

definition NeedsRefresh :: "session \<Rightarrow> int \<Rightarrow> int \<Rightarrow> bool" where
  "NeedsRefresh s now early \<longleftrightarrow> wrap64 (s_ExpiresAt s - early) \<le> now"

section \<open>Store interfaces (store.go)\<close>

record 'r session_store =
  ss_Get :: "'r \<Rightarrow> string \<Rightarrow> session option result \<times> 'r"
  ss_Set :: "'r \<Rightarrow> string \<Rightarrow> session \<Rightarrow> int \<Rightarrow> goerr option \<times> 'r"
  ss_Delete :: "'r \<Rightarrow> string \<Rightarrow> goerr option \<times> 'r"

record 'r pkce_store =
  ps_Get :: "'r \<Rightarrow> string \<Rightarrow> pkce_state option result \<times> 'r"
  ps_Set :: "'r \<Rightarrow> string \<Rightarrow> pkce_state \<Rightarrow> int \<Rightarrow> goerr option \<times> 'r"
  ps_Delete :: "'r \<Rightarrow> string \<Rightarrow> goerr option \<times> 'r"

record 'r lock_store =
  ls_Obtain :: "'r \<Rightarrow> string \<Rightarrow> int \<Rightarrow> bool result \<times> 'r"
  ls_Release :: "'r \<Rightarrow> string \<Rightarrow> goerr option \<times> 'r"

text \<open>
  The contract of a store over an abstraction \<open>abs\<close> of its contents. Entries may vanish at any time
  (they have a TTL), so the laws bound the contents from above. \<open>stored s t\<close> says that a value written
  as \<open>s\<close> is read back as \<open>t\<close> (the serialisation may normalise it). Sessions and PKCE states are kept
  in such stores.
\<close>

locale store_contract =
  fixes get :: "'r \<Rightarrow> string \<Rightarrow> 'v option result \<times> 'r"
    and set' :: "'r \<Rightarrow> string \<Rightarrow> 'v \<Rightarrow> int \<Rightarrow> goerr option \<times> 'r"
    and del :: "'r \<Rightarrow> string \<Rightarrow> goerr option \<times> 'r"
    and abs :: "'r \<Rightarrow> string \<Rightarrow> 'v option"
    and stored :: "'v \<Rightarrow> 'v \<Rightarrow> bool"
  assumes get_hit: "get r k = (Inr (Some s), r') \<Longrightarrow> abs r k = Some s"
    and get_miss: "get r k = (Inr None, r') \<Longrightarrow> abs r k = None"
    and get_frame: "get r k = (x, r') \<Longrightarrow> abs r' k' = Some t \<Longrightarrow> abs r k' = Some t"
    and set_new: "set' r k s ttl = (None, r') \<Longrightarrow> abs r' k = Some t \<Longrightarrow> stored s t"
    and set_frame: "set' r k s ttl = (e, r') \<Longrightarrow> k' \<noteq> k \<Longrightarrow> abs r' k' = Some t \<Longrightarrow> abs r k' = Some t"
    and del_gone: "del r k = (None, r') \<Longrightarrow> abs r' k = None"
    and del_frame: "del r k = (e, r') \<Longrightarrow> abs r' k' = Some t \<Longrightarrow> abs r k' = Some t"
begin

text \<open>A read directly after a successful write returns the written session or nothing.\<close>

lemma get_after_set:
  assumes "set' r k s ttl = (None, r1)" and "get r1 k = (Inr x, r2)"
  shows "x = None \<or> (\<exists>t. x = Some t \<and> stored s t)"
  using assms by (cases x) (auto dest: get_hit set_new)

lemma get_after_del:
  assumes "del r k = (None, r1)" and "get r1 k = (Inr x, r2)"
  shows "x = None"
  using assms del_gone [of r k r1] get_hit [of r1 k _ r2] by (cases x) auto

text \<open>Reading does not resurrect a deleted session.\<close>

lemma get_keeps_gone:
  assumes "abs r k = None" and "get r j = (x, r1)"
  shows "abs r1 k = None"
  using assms get_frame by (cases "abs r1 k") fastforce+

lemma set_other_keeps_gone:
  assumes "abs r k = None" and "set' r j s ttl = (x, r1)" and "j \<noteq> k"
  shows "abs r1 k = None"
  using assms set_frame by (cases "abs r1 k") fastforce+

end

section \<open>Browser sessions (internal/session/store.go)\<close>

text \<open>
  The manager's state is the store backend and the cookies written to the response; the request's
  cookies are an association list in request order.
\<close>

record 'r browser_manager =
  bm_store :: "'r session_store"
  bm_encode :: "string \<Rightarrow> string result"
  bm_decode :: "string \<Rightarrow> string result"
  bm_config :: session_cookie_config

definition StartSession :: "'r browser_manager \<Rightarrow> 'r \<Rightarrow> http_cookie list \<Rightarrow> session option \<Rightarrow> int \<Rightarrow> goerr option \<times> 'r \<times> http_cookie list" where
  "StartSession m r w sess ttl = (case sess of
     None \<Rightarrow> (None, r, w)
   | Some s \<Rightarrow>
       (if s_ID s = '''' then (None, r, w)
        else (case ss_Set (bm_store m) r (s_ID s) s ttl of
            (Some e, r1) \<Rightarrow> (Some e, r1, w)
          | (None, r1) \<Rightarrow> (case bm_encode m (s_ID s) of
                Inl e \<Rightarrow> (Some e, r1, w)
              | Inr v \<Rightarrow> (None, r1, WriteOutCookie w
                    \<lparr>oc_Name = scc_Name (bm_config m), oc_Value = v, oc_Options = scc_options (bm_config m)\<rparr>)))))"

definition ResolveSession :: "'r browser_manager \<Rightarrow> 'r \<Rightarrow> string gomap \<Rightarrow> session option result \<times> 'r" where
  "ResolveSession m r cookies = (case map_of cookies (scc_Name (bm_config m)) of
     None \<Rightarrow> (Inr None, r)
   | Some v \<Rightarrow>
       (if v = '''' then (Inr None, r)
        else (case bm_decode m v of
            Inl e \<Rightarrow> (Inr None, r)
          | Inr sid \<Rightarrow> (if sid = '''' then (Inr None, r) else ss_Get (bm_store m) r sid))))"

definition EndSession :: "'r browser_manager \<Rightarrow> 'r \<Rightarrow> http_cookie list \<Rightarrow> string gomap \<Rightarrow> goerr option \<times> 'r \<times> http_cookie list" where
  "EndSession m r w cookies =
     (let r1 = (case map_of cookies (scc_Name (bm_config m)) of
          None \<Rightarrow> r
        | Some v \<Rightarrow>
            (if v = '''' then r
             else (case bm_decode m v of
                 Inl e \<Rightarrow> r
               | Inr sid \<Rightarrow> (if sid = '''' then r else snd (ss_Delete (bm_store m) r sid)))))
      in (None, r1, WriteOutCookie w \<lparr>oc_Name = scc_Name (bm_config m), oc_Value = '''',
            oc_Options = (scc_options (bm_config m))\<lparr>co_MaxAge := -1\<rparr>\<rparr>))"

definition SessionFromCookie :: "'r session_store \<Rightarrow> (string \<Rightarrow> string result) \<Rightarrow> 'r \<Rightarrow> string \<Rightarrow> session option result \<times> 'r" where
  "SessionFromCookie store decodeCookie r cookieValue =
     (if cookieValue = '''' then (Inr None, r)
      else (case decodeCookie cookieValue of Inl e \<Rightarrow> (Inl e, r) | Inr sid \<Rightarrow> ss_Get store r sid))"

text \<open>
  The manager's guarantees follow from the two contracts: a session started and resolved with the
  issued cookie is the stored one, and a session ended cannot be resolved again.
\<close>

locale browser_sessions =
  store_contract get set' del abs stored + cookie_codec enc dec
  for get :: "'r \<Rightarrow> string \<Rightarrow> session option result \<times> 'r"
    and set' :: "'r \<Rightarrow> string \<Rightarrow> session \<Rightarrow> int \<Rightarrow> goerr option \<times> 'r"
    and del :: "'r \<Rightarrow> string \<Rightarrow> goerr option \<times> 'r"
    and abs :: "'r \<Rightarrow> string \<Rightarrow> session option"
    and stored :: "session \<Rightarrow> session \<Rightarrow> bool"
    and enc :: "string \<Rightarrow> string result"
    and dec :: "string \<Rightarrow> string result" +
  assumes enc_nonempty: "enc sid = Inr v \<Longrightarrow> v \<noteq> ''''"
begin

lemma started_session_resolves:
  assumes m: "bm_store m = \<lparr>ss_Get = get, ss_Set = set', ss_Delete = del\<rparr>" "bm_encode m = enc" "bm_decode m = dec"
    and st: "StartSession m r w (Some s) ttl = (None, r1, w1)" "s_ID s \<noteq> ''''"
    and rs: "ResolveSession m r1 [(hc_Name (last w1), hc_Value (last w1))] = (Inr x, r2)"
  shows "x = None \<or> (\<exists>t. x = Some t \<and> stored s t)"
proof -
  from st m obtain v where s: "set' r (s_ID s) s ttl = (None, r1)" and v: "enc (s_ID s) = Inr v"
    and c: "hc_Name (last w1) = scc_Name (bm_config m)" "hc_Value (last w1) = v"
    by (auto simp: StartSession_def WriteOutCookie_def Let_def split: prod.splits option.splits sum.splits)
  from rs c m enc_nonempty [OF v] dec_enc [OF v] st(2) have "get r1 (s_ID s) = (Inr x, r2)"
    by (simp add: ResolveSession_def)
  with s show ?thesis by (rule get_after_set)
qed

lemma ended_session_unresolvable:
  assumes m: "bm_store m = \<lparr>ss_Get = get, ss_Set = set', ss_Delete = del\<rparr>" "bm_decode m = dec"
    and es: "EndSession m r w cookies = (e, r1, w1)" "\<And>sid. fst (del r sid) = None"
    and rs: "ResolveSession m r1 cookies = (Inr x, r2)"
  shows "x = None"
proof (cases "map_of cookies (scc_Name (bm_config m))")
  case None
  with rs show ?thesis by (simp add: ResolveSession_def)
next
  case (Some v)
  show ?thesis
  proof (cases "v = '''' \<or> (\<forall>sid. dec v = Inr sid \<longrightarrow> sid = '''')")
    case True
    with rs Some m show ?thesis by (auto simp: ResolveSession_def split: sum.splits if_splits)
  next
    case False
    then obtain sid where d: "v \<noteq> ''''" "dec v = Inr sid" "sid \<noteq> ''''" by blast
    with es(1) Some m have "r1 = snd (del r sid)" by (simp add: EndSession_def Let_def)
    with es(2) have "del r sid = (None, r1)" by (metis prod.collapse)
    moreover from rs d Some m have "get r1 sid = (Inr x, r2)" by (simp add: ResolveSession_def)
    ultimately show ?thesis by (rule get_after_del)
  qed
qed

end

section \<open>Lemmas and properties\<close>

lemma IsExpired_mono: "IsExpired s t \<Longrightarrow> t \<le> t' \<Longrightarrow> IsExpired s t'"
  by (simp add: IsExpired_def)

lemma session_keys_inj [simp]:
  "SessionKey k a = SessionKey k b \<longleftrightarrow> a = b" "PKCEKey k a = PKCEKey k b \<longleftrightarrow> a = b"
  "RefreshLockKey k a = RefreshLockKey k b \<longleftrightarrow> a = b" "ReplayKey k a = ReplayKey k b \<longleftrightarrow> a = b"
  "RevokedKey k a = RevokedKey k b \<longleftrightarrow> a = b"
  by (auto simp: SessionKey_def PKCEKey_def RefreshLockKey_def ReplayKey_def RevokedKey_def)

text \<open>
  An expired session always needs a refresh: with a non-negative early window and an expiry far
  enough from the lowest \<open>int64\<close>, \<open>NeedsRefresh\<close> holds whenever \<open>IsExpired\<close> does, and it holds
  exactly from \<open>early\<close> seconds before the expiry on.
\<close>

theorem needs_refresh_window:
  assumes "0 \<le> early" and "in_int64 (s_ExpiresAt s)" and "in_int64 (s_ExpiresAt s - early)"
  shows "(NeedsRefresh s now early \<longleftrightarrow> s_ExpiresAt s - early \<le> now)
    \<and> (IsExpired s now \<longrightarrow> NeedsRefresh s now early)"
  using assms by (simp add: NeedsRefresh_def IsExpired_def)

definition sample_session :: session where
  "sample_session = \<lparr>s_ID = ''s1'', s_AccessToken = ''at'', s_RefreshToken = ''rt'', s_IDToken = ''it'',
     s_ExpiresAt = 2000, s_Claims = Some [(''sub'', AStr ''u1''), (''email'', AStr ''a@b.c'')], s_TenantContext = None\<rparr>"

theorem needs_refresh_window_witness:
  "NeedsRefresh sample_session 1990 15 \<and> \<not> NeedsRefresh sample_session 1000 15 \<and> IsExpired sample_session 2000"
  using needs_refresh_window [of 15 sample_session 1990] needs_refresh_window [of 15 sample_session 1000]
  by (simp add: sample_session_def in_int64_def IsExpired_def)

end
