(* ===== verification/Auth_Config.thy ===== *)
theory Auth_Config
  imports Session
begin

text \<open>
  \<open>internal/auth/config\<close>: the configuration of the auth service and its connectors. \<open>auth_Load\<close> decodes (by
  the loader, an argument), applies the defaults, fills in the connector list and validates. The names carry
  the prefix \<open>auth_\<close> where the proxy's configuration has a function of the same name.
\<close>

section \<open>Flexible JSON values\<close>

definition auth_FlexibleBool_UnmarshalJSON :: "json_decoder \<Rightarrow> bytes \<Rightarrow> bool result" where
  "auth_FlexibleBool_UnmarshalJSON json data = (case json data of
     Inr (ABool v) \<Rightarrow> Inr v
   | Inr ANil \<Rightarrow> Inr False
   | Inr (AStr s) \<Rightarrow> (let t = ToLower (TrimSpace s) in
       if t \<in> set [''true'', ''1'', ''yes'', ''y''] then Inr True
       else if t \<in> set [''false'', ''0'', ''no'', ''n''] then Inr False
       else Inl (Err (''invalid flexible bool '' @ Quote s)))
   | _ \<Rightarrow> Inl (Err (''flexible bool: unsupported value '' @ data)))"

definition splitTrim :: "string \<Rightarrow> char \<Rightarrow> string list" where
  "splitTrim s sep = (if s = '''' then [] else filter (\<lambda>t. t \<noteq> '''') (map TrimSpace (Split sep s)))"

definition auth_CommaStrings_UnmarshalJSON :: "json_decoder \<Rightarrow> bytes \<Rightarrow> string list result" where
  "auth_CommaStrings_UnmarshalJSON json data =
     (if data = [] then Inr []
      else (case json data of
          Inl e \<Rightarrow> Inl e
        | Inr v \<Rightarrow>
            (if hd data = DQ then (case v of AStr s \<Rightarrow> Inr (splitTrim s (CHR '','')) | _ \<Rightarrow> Inl (Err ''json: cannot unmarshal into string''))
             else (case v of ANil \<Rightarrow> Inr [] | AList xs \<Rightarrow> string_slice xs | _ \<Rightarrow> Inl (Err ''json: cannot unmarshal into slice'')))))"

section \<open>The configuration\<close>

record claim_mapping =
  cm_AuthoritativeIDClaim :: string
  cm_IDKind :: string
  cm_EmailClaim :: string
  cm_NameClaim :: string
  cm_RolesClaim :: string

record connector_config =
  cc_ID :: string
  cc_Default :: bool
  cc_ProviderPluginID :: string
  cc_OIDCIssuer :: string
  cc_OIDCRedirectURI :: string
  cc_OIDCClientID :: string
  cc_OIDCClientSecret :: string
  cc_OIDCScopes :: "string list"
  cc_OIDCAudience :: string
  cc_OIDCClaimsSource :: string
  cc_SessionRedisPrefix :: string
  cc_CookieName :: string
  cc_SessionTTLSeconds :: int
  cc_SessionPKCETTLSeconds :: int
  cc_SessionRefreshLockTTLSeconds :: int
  cc_ClaimMapping :: claim_mapping

record auth_config =
  ac_OIDCIssuer :: string
  ac_OIDCRedirectURI :: string
  ac_OIDCClientID :: string
  ac_OIDCClientSecret :: string
  ac_OIDCScopes :: "string list"
  ac_OIDCAudience :: string
  ac_OIDCClaimsSource :: string
  ac_RedisURL :: string
  ac_SessionRedisPrefix :: string
  ac_SessionTTLSeconds :: int
  ac_SessionPKCETTLSeconds :: int
  ac_SessionRefreshLockTTLSeconds :: int
  ac_SessionRefreshEarlySeconds :: int
  ac_CookieName :: string
  ac_CookieSigningSecret :: string
  ac_CookieSecure :: bool
  ac_CookieSameSiteStr :: string
  ac_CookieDomain :: string
  ac_CookieSameSite :: samesite
  ac_AppBaseURL :: string
  ac_LoginErrorRedirectPath :: string
  ac_AllowedRedirectOrigins :: "string list"
  ac_AllowedRedirectPaths :: "string list"
  ac_HTTPPort :: string
  ac_AdminSecret :: string
  ac_PostLoginWebhookURL :: string
  ac_CORSAllowedOrigins :: "string list"
  ac_ProviderPluginID :: string
  ac_Connectors :: "connector_config list"

definition no_mapping :: claim_mapping where
  "no_mapping = \<lparr>cm_AuthoritativeIDClaim = '''', cm_IDKind = '''', cm_EmailClaim = '''', cm_NameClaim = '''', cm_RolesClaim = ''''\<rparr>"

definition parseSameSite :: "string \<Rightarrow> samesite" where
  "parseSameSite s = (let t = ToLower s in
     if t = ''strict'' then SameSiteStrict else if t = ''none'' then SameSiteNone else SameSiteLax)"

definition or_zero :: "int \<Rightarrow> int \<Rightarrow> int" where
  "or_zero v d = (if v = 0 then d else v)"

definition auth_ApplyDefaults :: "auth_config \<Rightarrow> auth_config" where
  "auth_ApplyDefaults c = c\<lparr>
     ac_OIDCClaimsSource := or_default (ac_OIDCClaimsSource c) ''id_token'',
     ac_SessionRedisPrefix := or_default (ac_SessionRedisPrefix c) ''auth'',
     ac_SessionTTLSeconds := or_zero (ac_SessionTTLSeconds c) 36000,
     ac_SessionPKCETTLSeconds := or_zero (ac_SessionPKCETTLSeconds c) 300,
     ac_SessionRefreshLockTTLSeconds := or_zero (ac_SessionRefreshLockTTLSeconds c) 15,
     ac_SessionRefreshEarlySeconds := or_zero (ac_SessionRefreshEarlySeconds c) 60,
     ac_CookieName := or_default (ac_CookieName c) ''__Host-ess_session'',
     ac_LoginErrorRedirectPath := or_default (ac_LoginErrorRedirectPath c) ''/login?error=oidc_error'',
     ac_HTTPPort := or_default (ac_HTTPPort c) ''8080''\<rparr>"

section \<open>Connectors\<close>

definition claims_source :: "string \<Rightarrow> string" where
  "claims_source s = (if s \<noteq> ''id_token'' \<and> s \<noteq> ''access_token'' then ''id_token'' else s)"

definition legacy_connector :: "auth_config \<Rightarrow> connector_config" where
  "legacy_connector c = \<lparr>cc_ID = ''default'', cc_Default = True, cc_ProviderPluginID = ac_ProviderPluginID c,
     cc_OIDCIssuer = ac_OIDCIssuer c, cc_OIDCRedirectURI = ac_OIDCRedirectURI c, cc_OIDCClientID = ac_OIDCClientID c,
     cc_OIDCClientSecret = ac_OIDCClientSecret c, cc_OIDCScopes = ac_OIDCScopes c, cc_OIDCAudience = ac_OIDCAudience c,
     cc_OIDCClaimsSource = ac_OIDCClaimsSource c, cc_SessionRedisPrefix = '''', cc_CookieName = '''',
     cc_SessionTTLSeconds = 0, cc_SessionPKCETTLSeconds = 0, cc_SessionRefreshLockTTLSeconds = 0, cc_ClaimMapping = no_mapping\<rparr>"

definition fill_mapping :: "string \<Rightarrow> claim_mapping \<Rightarrow> claim_mapping" where
  "fill_mapping i m =
     (let claim = or_default (cm_AuthoritativeIDClaim m) ''sub'' in
      m\<lparr>cm_AuthoritativeIDClaim := claim,
        cm_IDKind := or_default (cm_IDKind m) (if claim = ''sub'' then ''oidc_sub'' else i)\<rparr>)"

definition fill_connector :: "auth_config \<Rightarrow> connector_config \<Rightarrow> connector_config" where
  "fill_connector c k =
     (let base = or_default (ac_SessionRedisPrefix c) ''auth''; legacyCookie = or_default (ac_CookieName c) ''__Host-ess_session'' in
      k\<lparr>cc_ProviderPluginID := or_default (cc_ProviderPluginID k) (ac_ProviderPluginID c),
        cc_OIDCScopes := (if cc_OIDCScopes k = [] then [''openid'', ''profile''] else cc_OIDCScopes k),
        cc_OIDCClaimsSource := claims_source (cc_OIDCClaimsSource k),
        cc_SessionRedisPrefix := or_default (cc_SessionRedisPrefix k) (if cc_Default k then base else base @ '':'' @ cc_ID k),
        cc_CookieName := or_default (cc_CookieName k) (if cc_Default k then legacyCookie else legacyCookie @ ''_'' @ cc_ID k),
        cc_SessionTTLSeconds := or_zero (cc_SessionTTLSeconds k) (ac_SessionTTLSeconds c),
        cc_SessionPKCETTLSeconds := or_zero (cc_SessionPKCETTLSeconds k) (ac_SessionPKCETTLSeconds c),
        cc_SessionRefreshLockTTLSeconds := or_zero (cc_SessionRefreshLockTTLSeconds k) (ac_SessionRefreshLockTTLSeconds c),
        cc_ClaimMapping := fill_mapping (cc_ID k) (cc_ClaimMapping k)\<rparr>)"

text \<open>A single connector is implicitly the default.\<close>

fun implicit_default :: "connector_config list \<Rightarrow> connector_config list" where
  "implicit_default [k] = [k\<lparr>cc_Default := True\<rparr>]"
| "implicit_default ks = ks"

definition auth_Normalize :: "auth_config \<Rightarrow> auth_config" where
  "auth_Normalize c =
     (let ks = (if ac_Connectors c = [] then [legacy_connector c] else ac_Connectors c)
      in c\<lparr>ac_Connectors := map (fill_connector c) (implicit_default ks)\<rparr>)"

definition DefaultConnector :: "auth_config \<Rightarrow> connector_config option" where
  "DefaultConnector c = (case find cc_Default (ac_Connectors c) of
     Some k \<Rightarrow> Some k
   | None \<Rightarrow> (case ac_Connectors c of [] \<Rightarrow> None | k # _ \<Rightarrow> Some k))"

definition ConnectorByID :: "auth_config \<Rightarrow> string \<Rightarrow> connector_config option" where
  "ConnectorByID c i =
     (if i = '''' then DefaultConnector c
      else (case find (\<lambda>k. cc_ID k = i) (ac_Connectors c) of Some k \<Rightarrow> Some k | None \<Rightarrow> DefaultConnector c))"

definition key_layout_at :: "string \<Rightarrow> int \<Rightarrow> int \<Rightarrow> int \<Rightarrow> key_layout" where
  "key_layout_at p ttl pkce lock = \<lparr>kl_SessionPrefix = p @ '':session:'', kl_PKCEPrefix = p @ '':pkce:'',
     kl_RefreshLockPrefix = p @ '':refresh_lock:'', kl_RevokedPrefix = p @ '':revoked:'', kl_ReplayPrefix = p @ '':replay:'',
     kl_SessionTTLSeconds = ttl, kl_PKCETTLSeconds = pkce, kl_RefreshLockTTLSeconds = lock\<rparr>"

definition config_KeyLayout :: "auth_config \<Rightarrow> key_layout" where
  "config_KeyLayout c = key_layout_at (or_default (ac_SessionRedisPrefix c) ''auth'') (ac_SessionTTLSeconds c)
     (ac_SessionPKCETTLSeconds c) (ac_SessionRefreshLockTTLSeconds c)"

definition connector_KeyLayout :: "connector_config \<Rightarrow> key_layout" where
  "connector_KeyLayout k = key_layout_at (or_default (cc_SessionRedisPrefix k) ''auth'') (cc_SessionTTLSeconds k)
     (cc_SessionPKCETTLSeconds k) (cc_SessionRefreshLockTTLSeconds k)"

section \<open>Validation\<close>

definition auth_errMissing :: "string \<Rightarrow> goerr" where
  "auth_errMissing name = Err (''config: missing '' @ name)"

text \<open>The regular expression \<open>^[A-Za-z0-9_-]+$\<close>.\<close>

definition id_char :: "char \<Rightarrow> bool" where
  "id_char c \<longleftrightarrow> (let n = of_char c :: nat in
     65 \<le> n \<and> n \<le> 90 \<or> 97 \<le> n \<and> n \<le> 122 \<or> 48 \<le> n \<and> n \<le> 57 \<or> c = CHR ''_'' \<or> c = CHR ''-'')"

definition connectorIDRe :: "string \<Rightarrow> bool" where
  "connectorIDRe s \<longleftrightarrow> s \<noteq> [] \<and> list_all id_char s"

definition validate_connector :: "nat \<Rightarrow> string list \<Rightarrow> connector_config \<Rightarrow> goerr option" where
  "validate_connector i seen k =
     (if cc_ID k = '''' then Some (Err (''config: connector['' @ nat_digits i @ ''] missing id''))
      else if \<not> connectorIDRe (cc_ID k) then Some (Err (''config: connector id '' @ Quote (cc_ID k) @ '' must match [A-Za-z0-9_-]+''))
      else if cc_ID k \<in> set seen then Some (Err (''config: duplicate connector id '' @ Quote (cc_ID k)))
      else if cc_OIDCIssuer k = '''' then Some (Err (''config: connector '' @ Quote (cc_ID k) @ '' missing oidc_issuer''))
      else if cc_OIDCRedirectURI k = '''' then Some (Err (''config: connector '' @ Quote (cc_ID k) @ '' missing oidc_redirect_uri''))
      else if cc_OIDCClientID k = '''' then Some (Err (''config: connector '' @ Quote (cc_ID k) @ '' missing oidc_client_id''))
      else None)"

fun validate_connector_list :: "nat \<Rightarrow> string list \<Rightarrow> nat \<Rightarrow> connector_config list \<Rightarrow> goerr option" where
  "validate_connector_list i seen defaults [] =
     (if defaults \<noteq> 1 then Some (Err (''config: exactly one connector must be marked default (found '' @ nat_digits defaults @ '')'')) else None)"
| "validate_connector_list i seen defaults (k # ks) =
     (case validate_connector i seen k of
        Some e \<Rightarrow> Some e
      | None \<Rightarrow> validate_connector_list (Suc i) (cc_ID k # seen) (if cc_Default k then Suc defaults else defaults) ks)"

definition validateConnectors :: "auth_config \<Rightarrow> goerr option" where
  "validateConnectors c = validate_connector_list 0 [] 0 (ac_Connectors c)"

text \<open>\<open>Validate\<close> also sets the cookie mode and defaults: it returns the configuration it leaves behind.\<close>

definition auth_Validate :: "auth_config \<Rightarrow> goerr option \<times> auth_config" where
  "auth_Validate c =
     (if ac_RedisURL c = '''' then (Some (auth_errMissing ''REDIS_URL''), c)
      else if ac_CookieSigningSecret c = '''' then (Some (auth_errMissing ''COOKIE_SIGNING_SECRET''), c)
      else if ac_OIDCClientSecret c = ''your-client-secret'' \<or> ac_CookieSigningSecret c = ''CHANGE-ME-in-production''
      then (Some (Err (''config: placeholder secret detected '' @ [CHR 0xE2, CHR 0x80, CHR 0x94]
             @ '' set real secrets via environment variables'')), c)
      else if ac_AppBaseURL c = '''' then (Some (auth_errMissing ''APP_BASE_URL''), c)
      else let c1 = c\<lparr>ac_CookieSameSite := parseSameSite (ac_CookieSameSiteStr c),
                      ac_AllowedRedirectPaths := (if ac_AllowedRedirectPaths c = [] then [''/''] else ac_AllowedRedirectPaths c)\<rparr>
           in (if ac_Connectors c = []
               then (if ac_OIDCIssuer c = '''' then (Some (auth_errMissing ''OIDC_ISSUER''), c1)
                     else if ac_OIDCRedirectURI c = '''' then (Some (auth_errMissing ''OIDC_REDIRECT_URI''), c1)
                     else if ac_OIDCClientID c = '''' then (Some (auth_errMissing ''OIDC_CLIENT_ID''), c1)
                     else (None, c1\<lparr>ac_OIDCClaimsSource := claims_source (ac_OIDCClaimsSource c),
                             ac_OIDCScopes := (if ac_OIDCScopes c = [] then [''openid'', ''profile''] else ac_OIDCScopes c)\<rparr>))
               else (validateConnectors c1, c1)))"

definition auth_Load :: "auth_config result \<Rightarrow> auth_config result" where
  "auth_Load decoded = (case decoded of
     Inl e \<Rightarrow> Inl e
   | Inr c \<Rightarrow> (case auth_Validate (auth_Normalize (auth_ApplyDefaults c)) of
       (Some e, _) \<Rightarrow> Inl e
     | (None, c1) \<Rightarrow> Inr c1))"

section \<open>Lemmas\<close>

lemma splitTrim_comma: "splitTrim s sep = filter (\<lambda>t. t \<noteq> '''') (map TrimSpace (Split sep s))"
  by (simp add: splitTrim_def)

lemma or_default_idem [simp]: "or_default (or_default v d) d' = (if v = '''' \<and> d = '''' then d' else or_default v d)"
  by (simp add: or_default_def)

lemma or_zero_idem [simp]: "or_zero (or_zero v d) d = or_zero v d"
  by (simp add: or_zero_def)

lemma claims_source_idem [simp]: "claims_source (claims_source s) = claims_source s"
  by (simp add: claims_source_def)

text \<open>What validation establishes of one connector, and of the list.\<close>

definition connector_ok :: "connector_config \<Rightarrow> bool" where
  "connector_ok k \<longleftrightarrow> connectorIDRe (cc_ID k) \<and> cc_OIDCIssuer k \<noteq> '''' \<and> cc_OIDCRedirectURI k \<noteq> '''' \<and> cc_OIDCClientID k \<noteq> ''''"

lemma validate_connector_None: "validate_connector i seen k = None \<longleftrightarrow> connector_ok k \<and> cc_ID k \<notin> set seen"
  by (auto simp: validate_connector_def connector_ok_def connectorIDRe_def)

lemma validate_connector_list_None:
  "validate_connector_list i seen n ks = None \<longleftrightarrow> (\<forall>k \<in> set ks. connector_ok k) \<and> distinct (map cc_ID ks)
     \<and> set (map cc_ID ks) \<inter> set seen = {} \<and> n + length (filter cc_Default ks) = 1"
proof (induction ks arbitrary: i seen n)
  case (Cons k ks)
  show ?case
  proof (cases "validate_connector i seen k")
    case None
    then have "connector_ok k \<and> cc_ID k \<notin> set seen" by (simp add: validate_connector_None)
    with None Cons.IH show ?thesis by auto
  next
    case (Some e)
    then have "\<not> (connector_ok k \<and> cc_ID k \<notin> set seen)" using validate_connector_None [of i seen k] by simp
    with Some show ?thesis by auto
  qed
qed simp

lemma validateConnectors_None:
  "validateConnectors c = None \<longleftrightarrow> (\<forall>k \<in> set (ac_Connectors c). connector_ok k) \<and> distinct (map cc_ID (ac_Connectors c))
     \<and> length (filter cc_Default (ac_Connectors c)) = 1"
  by (simp add: validateConnectors_def validate_connector_list_None)

lemma implicit_default_Nil [simp]: "implicit_default ks = [] \<longleftrightarrow> ks = []"
  by (cases ks rule: implicit_default.cases) auto

lemma implicit_default_ids [simp]: "map cc_ID (implicit_default ks) = map cc_ID ks"
  by (cases ks rule: implicit_default.cases) auto

lemma fill_connector_simps [simp]:
  "cc_ID (fill_connector c k) = cc_ID k" "cc_Default (fill_connector c k) = cc_Default k"
  by (simp_all add: fill_connector_def Let_def)

lemma auth_Normalize_nonempty [simp]: "ac_Connectors (auth_Normalize c) \<noteq> []"
  by (simp add: auth_Normalize_def Let_def)

lemma auth_Load_Inr:
  assumes "auth_Load (Inr c0) = Inr c"
  shows "ac_Connectors c = ac_Connectors (auth_Normalize (auth_ApplyDefaults c0))" and "validateConnectors c = None"
    and "ac_AppBaseURL c \<noteq> ''''" and "ac_CookieSigningSecret c \<noteq> ''''" and "ac_AllowedRedirectPaths c \<noteq> []"
  using assms by (auto simp: auth_Load_def auth_Validate_def Let_def validateConnectors_def split: prod.splits option.splits if_splits)

lemma unique_default:
  assumes "length (filter cc_Default ks) = 1"
  obtains k where "k \<in> set ks" and "cc_Default k" and "find cc_Default ks = Some k"
proof -
  from assms obtain k where k: "find cc_Default ks = Some k" by (cases "find cc_Default ks") (auto simp: find_None_iff filter_empty_conv)
  then have "k \<in> set ks" "cc_Default k" by (auto simp: find_Some_iff)
  with k that show ?thesis by blast
qed

text \<open>The Redis keys that a connector's stores use.\<close>

definition key_kinds :: "string list" where
  "key_kinds = [''session'', ''pkce'', ''refresh_lock'', ''revoked'', ''replay'']"

definition owns_key :: "connector_config \<Rightarrow> string \<Rightarrow> bool" where
  "owns_key k key \<longleftrightarrow> (let l = connector_KeyLayout k in \<exists>x.
     key \<in> {SessionKey l x, PKCEKey l x, RefreshLockKey l x, RevokedKey l x, ReplayKey l x})"

lemma owns_key_form:
  assumes "owns_key k key"
  shows "\<exists>w \<in> set key_kinds. \<exists>x. key = or_default (cc_SessionRedisPrefix k) ''auth'' @ '':'' @ w @ '':'' @ x"
  using assms by (auto simp: owns_key_def Let_def connector_KeyLayout_def key_layout_at_def SessionKey_def PKCEKey_def
      RefreshLockKey_def RevokedKey_def ReplayKey_def key_kinds_def)

lemma key_kinds_no_colon: "w \<in> set key_kinds \<Longrightarrow> CHR '':'' \<notin> set w"
  by (auto simp: key_kinds_def)

lemma connector_id_no_colon: "connector_ok k \<Longrightarrow> CHR '':'' \<notin> set (cc_ID k)"
  by (auto simp: connector_ok_def connectorIDRe_def list_all_iff id_char_def Let_def)

lemma colon_segment:
  assumes "a @ '':'' @ x = b @ '':'' @ y" and "CHR '':'' \<notin> set a" and "CHR '':'' \<notin> set b"
  shows "a = b"
proof -
  have "SplitN2 (CHR '':'') (a @ '':'' @ x) = Some (a, x)" "SplitN2 (CHR '':'') (b @ '':'' @ y) = Some (b, y)"
    using assms(2,3) by (simp_all add: SplitN2_append)
  then show ?thesis unfolding assms(1) by simp
qed

text \<open>The prefix that normalisation gives a connector without an explicit one.\<close>

definition derived_prefix :: "string \<Rightarrow> connector_config \<Rightarrow> bool" where
  "derived_prefix base k \<longleftrightarrow> cc_SessionRedisPrefix k = (if cc_Default k then base else base @ '':'' @ cc_ID k)"

lemma derived_keys_disjoint:
  assumes "derived_prefix base j" and "derived_prefix base k" and "base \<noteq> ''''"
    and "connector_ok j" and "connector_ok k" and "cc_ID j \<noteq> cc_ID k" and "\<not> (cc_Default j \<and> cc_Default k)"
    and "cc_Default j \<or> cc_ID j \<notin> set key_kinds" and "cc_Default k \<or> cc_ID k \<notin> set key_kinds"
    and "owns_key j key" and "owns_key k key"
  shows False
proof -
  have first: "\<exists>y. key = base @ '':'' @ (if cc_Default i then w else cc_ID i) @ '':'' @ y"
    if "derived_prefix base i" and "key = or_default (cc_SessionRedisPrefix i) ''auth'' @ '':'' @ w @ '':'' @ x" for i w x
    using that assms(3) by (auto simp: derived_prefix_def or_default_def)
  obtain v x w y where v: "v \<in> set key_kinds" "key = or_default (cc_SessionRedisPrefix j) ''auth'' @ '':'' @ v @ '':'' @ x"
    and w: "w \<in> set key_kinds" "key = or_default (cc_SessionRedisPrefix k) ''auth'' @ '':'' @ w @ '':'' @ y"
    using owns_key_form [OF assms(10)] owns_key_form [OF assms(11)] by blast
  obtain p q where pq: "(if cc_Default j then v else cc_ID j) @ '':'' @ p = (if cc_Default k then w else cc_ID k) @ '':'' @ q"
    using first [OF assms(1) v(2)] first [OF assms(2) w(2)] by auto
  have "(if cc_Default j then v else cc_ID j) = (if cc_Default k then w else cc_ID k)"
    by (rule colon_segment [OF pq])
      (use key_kinds_no_colon [OF v(1)] key_kinds_no_colon [OF w(1)] connector_id_no_colon [OF assms(4)] connector_id_no_colon [OF assms(5)]
       in \<open>simp_all split: if_split\<close>)
  then show False using assms(6-9) v(1) w(1) by (auto split: if_splits)
qed

lemma auth_Normalize_derived:
  assumes "\<forall>k \<in> set (ac_Connectors c). cc_SessionRedisPrefix k = ''''" and "k \<in> set (ac_Connectors (auth_Normalize c))"
  shows "derived_prefix (or_default (ac_SessionRedisPrefix c) ''auth'') k"
proof -
  have "cc_SessionRedisPrefix i = ''''" if "i \<in> set (implicit_default (if ac_Connectors c = [] then [legacy_connector c] else ac_Connectors c))" for i
    using that assms(1) by (cases "ac_Connectors c" rule: implicit_default.cases) (auto simp: legacy_connector_def)
  with assms(2) show ?thesis
    by (auto simp: auth_Normalize_def Let_def derived_prefix_def fill_connector_def or_default_def)
qed

lemma connector_keys_disjoint:
  assumes "auth_Load (Inr c0) = Inr c" and "\<forall>k \<in> set (ac_Connectors c0). cc_SessionRedisPrefix k = ''''"
    and "j \<in> set (ac_Connectors c)" and "k \<in> set (ac_Connectors c)" and "cc_ID j \<noteq> cc_ID k"
    and "\<forall>i \<in> set (ac_Connectors c). \<not> cc_Default i \<longrightarrow> cc_ID i \<notin> set [''session'', ''pkce'', ''refresh_lock'', ''revoked'', ''replay'']"
  shows "\<not> (owns_key j key \<and> owns_key k key)"
proof
  assume o: "owns_key j key \<and> owns_key k key"
  let ?d = "auth_ApplyDefaults c0" and ?b = "or_default (ac_SessionRedisPrefix (auth_ApplyDefaults c0)) ''auth''"
  note l = auth_Load_Inr [OF assms(1)]
  have "\<forall>k \<in> set (ac_Connectors ?d). cc_SessionRedisPrefix k = ''''" using assms(2) by (simp add: auth_ApplyDefaults_def)
  note dp = auth_Normalize_derived [OF this, folded l(1)]
  have "{k \<in> set (ac_Connectors c). cc_Default k} \<subseteq> set (filter cc_Default (ac_Connectors c))" by auto
  moreover obtain d where "filter cc_Default (ac_Connectors c) = [d]"
    using l(2) by (auto simp: validateConnectors_None length_Suc_conv)
  ultimately have nd: "\<not> (cc_Default j \<and> cc_Default k)" using assms(3-5) by auto
  have "?b \<noteq> ''''" by (simp add: or_default_def)
  from derived_keys_disjoint [OF dp [OF assms(3)] dp [OF assms(4)] this _ _ assms(5) nd] o assms(3,4,6) l(2)
  show False by (auto simp: validateConnectors_None key_kinds_def)
qed

section \<open>Properties\<close>


text \<open>
  The connectors of one instance never share a Redis key: when no connector names a prefix of its own
  and no connector but the default is called like a kind of key, a key that one connector's stores use is
  used by no other connector's, so sessions, PKCE states, locks, revocations and replay marks are separated.
\<close>

theorem connector_namespaces_isolated:
  assumes "auth_Load (Inr c0) = Inr c" and "\<forall>k \<in> set (ac_Connectors c0). cc_SessionRedisPrefix k = ''''"
    and "j \<in> set (ac_Connectors c)" and "k \<in> set (ac_Connectors c)" and "cc_ID j \<noteq> cc_ID k"
    and "\<forall>i \<in> set (ac_Connectors c). \<not> cc_Default i \<longrightarrow> cc_ID i \<notin> set [''session'', ''pkce'', ''refresh_lock'', ''revoked'', ''replay'']"
  shows "\<not> (owns_key j key \<and> owns_key k key)"
  using assms by (rule connector_keys_disjoint)

definition sample_mapping :: claim_mapping where
  "sample_mapping = no_mapping\<lparr>cm_AuthoritativeIDClaim := ''tg_id''\<rparr>"

definition sample_connector :: "string \<Rightarrow> bool \<Rightarrow> connector_config" where
  "sample_connector i d = \<lparr>cc_ID = i, cc_Default = d, cc_ProviderPluginID = '''', cc_OIDCIssuer = ''https://idp'', cc_OIDCRedirectURI = ''https://app/cb'',
     cc_OIDCClientID = ''client'', cc_OIDCClientSecret = '''', cc_OIDCScopes = [], cc_OIDCAudience = '''', cc_OIDCClaimsSource = '''',
     cc_SessionRedisPrefix = '''', cc_CookieName = '''', cc_SessionTTLSeconds = 0, cc_SessionPKCETTLSeconds = 0,
     cc_SessionRefreshLockTTLSeconds = 0, cc_ClaimMapping = sample_mapping\<rparr>"

definition sample_auth_config :: "connector_config list \<Rightarrow> auth_config" where
  "sample_auth_config ks = \<lparr>ac_OIDCIssuer = '''', ac_OIDCRedirectURI = '''', ac_OIDCClientID = '''', ac_OIDCClientSecret = '''',
     ac_OIDCScopes = [], ac_OIDCAudience = '''', ac_OIDCClaimsSource = '''', ac_RedisURL = ''redis://r'', ac_SessionRedisPrefix = '''',
     ac_SessionTTLSeconds = 0, ac_SessionPKCETTLSeconds = 0, ac_SessionRefreshLockTTLSeconds = 0, ac_SessionRefreshEarlySeconds = 0,
     ac_CookieName = '''', ac_CookieSigningSecret = ''s3cret'', ac_CookieSecure = True, ac_CookieSameSiteStr = '''', ac_CookieDomain = '''',
     ac_CookieSameSite = SameSiteDefault, ac_AppBaseURL = ''https://app.example.com'', ac_LoginErrorRedirectPath = '''',
     ac_AllowedRedirectOrigins = [], ac_AllowedRedirectPaths = [], ac_HTTPPort = '''', ac_AdminSecret = '''', ac_PostLoginWebhookURL = '''',
     ac_CORSAllowedOrigins = [], ac_ProviderPluginID = ''provider:oidc'', ac_Connectors = ks\<rparr>"

definition two_connectors :: auth_config where
  "two_connectors = sample_auth_config [sample_connector ''web'' True, sample_connector ''tg'' False]"

definition loaded_sample :: auth_config where
  "loaded_sample = snd (auth_Validate (auth_Normalize (auth_ApplyDefaults two_connectors)))"

lemma loaded_sample: "auth_Load (Inr two_connectors) = Inr loaded_sample"
proof -
  have "fst (auth_Validate (auth_Normalize (auth_ApplyDefaults two_connectors))) = None" by code_simp
  then show ?thesis by (auto simp: auth_Load_def loaded_sample_def split: prod.splits option.splits)
qed

lemma loaded_sample_connectors:
  "map cc_ID (ac_Connectors loaded_sample) = [''web'', ''tg'']"
  "map cc_CookieName (ac_Connectors loaded_sample) = [''__Host-ess_session'', ''__Host-ess_session_tg'']"
  "map cc_SessionRedisPrefix (ac_Connectors loaded_sample) = [''auth'', ''auth:tg'']"
  "map cc_Default (ac_Connectors loaded_sample) = [True, False]"
  by code_simp+


theorem connector_namespaces_isolated_witness:
  "\<not> (owns_key (ac_Connectors loaded_sample ! 0) ''auth:session:abc'' \<and> owns_key (ac_Connectors loaded_sample ! 1) ''auth:session:abc'')
    \<and> owns_key (ac_Connectors loaded_sample ! 0) ''auth:session:abc''"
proof
  have len: "length (ac_Connectors loaded_sample) = 2" by code_simp
  have ids: "cc_ID (ac_Connectors loaded_sample ! 0) = ''web''" "cc_ID (ac_Connectors loaded_sample ! 1) = ''tg''" by code_simp+
  have nk: "\<forall>i \<in> set (ac_Connectors loaded_sample). \<not> cc_Default i \<longrightarrow> cc_ID i \<notin> set [''session'', ''pkce'', ''refresh_lock'', ''revoked'', ''replay'']"
    by code_simp
  have np: "\<forall>k \<in> set (ac_Connectors two_connectors). cc_SessionRedisPrefix k = ''''" by code_simp
  show "\<not> (owns_key (ac_Connectors loaded_sample ! 0) ''auth:session:abc'' \<and> owns_key (ac_Connectors loaded_sample ! 1) ''auth:session:abc'')"
    using connector_namespaces_isolated [OF loaded_sample np _ _ _ nk, of "ac_Connectors loaded_sample ! 0" "ac_Connectors loaded_sample ! 1"]
      ids len by simp
  have "SessionKey (connector_KeyLayout (ac_Connectors loaded_sample ! 0)) ''abc'' = ''auth:session:abc''" by code_simp
  then show "owns_key (ac_Connectors loaded_sample ! 0) ''auth:session:abc''"
    unfolding owns_key_def Let_def by (intro exI [of _ "''abc''"]) simp
qed

text \<open>
  Without the side condition the separation fails: the session keys of a connector called \<open>session\<close> lie in
  the default connector's session namespace.
\<close>

lemma session_connector_shares_keys:
  "(let c = projr (auth_Load (Inr (sample_auth_config [sample_connector ''web'' True, sample_connector ''session'' False])));
        l = connector_KeyLayout (ac_Connectors c ! 0); m = connector_KeyLayout (ac_Connectors c ! 1)
    in SessionKey m ''abc'' = SessionKey l ''session:abc'' \<and> PKCEKey m ''abc'' = SessionKey l ''pkce:abc'')"
  by code_simp

text \<open>The placeholder check does not look at the connectors' client secrets.\<close>

lemma connector_placeholder_accepted:
  "(case auth_Load (Inr (sample_auth_config [(sample_connector ''web'' True)\<lparr>cc_OIDCClientSecret := ''your-client-secret''\<rparr>])) of
      Inr c \<Rightarrow> map cc_OIDCClientSecret (ac_Connectors c) = [''your-client-secret''] | Inl _ \<Rightarrow> False)"
  by code_simp

text \<open>Normalisation is idempotent, as its documentation promises.\<close>

lemma fill_connector_idem: "fill_connector c (fill_connector c k) = fill_connector c k"
  by (simp add: fill_connector_def fill_mapping_def Let_def or_default_def or_zero_def)

lemma auth_Normalize_idem: "auth_Normalize (auth_Normalize c) = auth_Normalize c"
proof -
  have d: "implicit_default (map (fill_connector c) (implicit_default ks)) = map (fill_connector c) (implicit_default ks)" for ks
    by (cases ks rule: implicit_default.cases) (simp_all add: fill_connector_def Let_def)
  have "fill_connector (c\<lparr>ac_Connectors := ks\<rparr>) = fill_connector c" for ks
    by (rule ext) (simp add: fill_connector_def)
  moreover have "fill_connector c (fill_connector c k\<lparr>cc_Default := True\<rparr>) = fill_connector c k" if "cc_Default k" for k
  proof -
    have "fill_connector c k\<lparr>cc_Default := True\<rparr> = fill_connector c k"
      using that by (simp add: fill_connector_def Let_def)
    then show ?thesis by (simp add: fill_connector_idem)
  qed
  ultimately show ?thesis by (simp add: auth_Normalize_def Let_def d fill_connector_idem)
qed

end
