(* ===== verification/Bootstrap.thy ===== *)
theory Bootstrap
  imports Grpc Rate_Limit Plugin_Discovery Oidc Auth_Config
begin

text \<open>
  How the processes are put together: the built-in plugins (\<open>internal/plugins/register\<close>), the bootstrap of
  the proxy (\<open>cmd/accessgate-proxy/bootstrap.go\<close>, \<open>main.go\<close>: policy engine, pipeline plugins, manifest
  discovery, routes, HTTP and gRPC server) and the provider plugin that \<open>cmd/accessgate-auth/main.go\<close> builds
  for a connector. The status of the policy backend and the shutdown sequence of the proxy are modelled too.

  The state of the running proxy is a record: the policy engine in service with its bundle loader, the
  pipeline plugins, and the rest of the world (files, network, clock). The network transport, the file
  system, the JSON decoders and the libraries of the components are arguments.
\<close>

section \<open>Built-in plugins (registrar.go, Descriptor of both plugins)\<close>

definition ratelimit_Descriptor :: descriptor where
  "ratelimit_Descriptor = \<lparr>pd_ID = ''pipeline:ratelimit'', pd_Kind = ''pipeline'', pd_Name = ''RateLimit'',
     pd_Description = ''Rate limiting pipeline plugin'', pd_Version = ''v1'', pd_Capabilities = [''pipeline:ratelimit''],
     pd_DependsOn = [], pd_ConfigSchemaRef = ''plugins/pipeline/ratelimit''\<rparr>"

definition oidc_Descriptor :: descriptor where
  "oidc_Descriptor = \<lparr>pd_ID = ''provider:oidc'', pd_Kind = ''provider'', pd_Name = ''OIDC Provider'',
     pd_Description = ''OIDC provider plugin (authorization code + PKCE)'', pd_Version = ''v1'', pd_Capabilities = [''provider:oidc''],
     pd_DependsOn = [], pd_ConfigSchemaRef = ''plugins/provider/oidc''\<rparr>"

text \<open>A factory is what its call returns: the plugin, which may be nil, or an error.\<close>

datatype plugin_instance = RateLimitPlugin rl_plugin | OIDCProvider oidc_plugin

type_synonym plugin_factory = "plugin_instance option result"

definition RegisterBuiltins :: "plugin_factory registry \<Rightarrow> goerr option \<times> plugin_factory registry" where
  "RegisterBuiltins reg = (case Register ratelimit_Descriptor (Inr (Some (RateLimitPlugin rl_New))) reg of
     (Some e, reg1) \<Rightarrow> (Some e, reg1)
   | (None, reg1) \<Rightarrow> Register oidc_Descriptor (Inr (Some (OIDCProvider NewOIDCPlugin))) reg1)"

text \<open>The factory of a plugin found by manifest discovery (discovery.go).\<close>

definition manifest_factory :: "string \<Rightarrow> plugin_factory" where
  "manifest_factory i = Inl (Err (''plugin: factory not provided for plugin '' @ i))"

section \<open>The environment of the bootstrap\<close>

text \<open>
  \<open>be_entries\<close> is the directory walk of the manifest directory; \<open>be_rl_decode\<close> and \<open>be_oidc_decode\<close> are the
  JSON round trips of the two \<open>Configure\<close> methods; \<open>be_order\<close> is the iteration order of the registry's maps.
\<close>

record ('c, 'm, 'n) boot_env =
  be_files :: "'n file_env"
  be_sig :: sig_env
  be_host :: "('c, 'm) wasm_host"
  be_prepare :: "bytes \<Rightarrow> prepared result"
  be_conf :: conf_env
  be_disc :: "'n \<Rightarrow> plugin_factory disc_env"
  be_entries :: "'n \<Rightarrow> string \<Rightarrow> walk_entry list"
  be_marshal :: "manifest \<Rightarrow> bytes result"
  be_rl :: rl_env
  be_rl_decode :: "gany gomap option \<Rightarrow> rl_config result"
  be_oidc_decode :: "gany gomap option \<Rightarrow> oidc_config result"
  be_order :: "nat \<Rightarrow> string list \<Rightarrow> string list"

section \<open>Manifest discovery\<close>

definition NewEd25519VerifierFromFile :: "('c, 'm, 'n) boot_env \<Rightarrow> 'n \<Rightarrow> string \<Rightarrow> verifier result \<times> 'n" where
  "NewEd25519VerifierFromFile be n path = (case fo_read (be_files be) n path of
     (Inl e, n1) \<Rightarrow> (Inl (Wrap (''plugin: read manifest public key '' @ Quote path @ '': '') e), n1)
   | (Inr data, n1) \<Rightarrow> (NewEd25519Verifier (be_sig be) (be_marshal be) data, n1))"

text \<open>What follows once the verifier is known: in non-strict mode errors are only logged.\<close>

definition discover_with :: "('c, 'm, 'n) boot_env \<Rightarrow> proxy_config \<Rightarrow> verifier option \<Rightarrow> 'n \<Rightarrow> plugin_factory registry \<Rightarrow> goerr option \<times> plugin_factory registry" where
  "discover_with be cfg vf n reg =
     (case DiscoverFromDir ((be_disc be n)\<lparr>de_placeholder := manifest_factory\<rparr>) vf (be_entries be n (pc_PluginsManifestDir cfg)) reg of
        (Some e, reg1) \<Rightarrow> (if pc_PluginsManifestStrict cfg then Some (Wrap ''plugin manifest discovery (strict): '' e) else None, reg1)
      | (None, reg1) \<Rightarrow> (case BuildDependencyGraph (be_order be) reg1 of
          (Some e, reg2) \<Rightarrow> (if pc_PluginsManifestStrict cfg then Some (Wrap ''plugin dependency graph (strict): '' e) else None, reg2)
        | (None, reg2) \<Rightarrow> (None, reg2)))"

definition discoverManifests :: "('c, 'm, 'n) boot_env \<Rightarrow> proxy_config \<Rightarrow> 'n \<Rightarrow> plugin_factory registry \<Rightarrow> goerr option \<times> plugin_factory registry \<times> 'n" where
  "discoverManifests be cfg n reg =
     (if pc_PluginsManifestPublicKeyPath cfg \<noteq> ''''
      then (case NewEd25519VerifierFromFile be n (pc_PluginsManifestPublicKeyPath cfg) of
          (Inl e, n1) \<Rightarrow> (Some (Wrap ''plugin manifest verifier: '' e), reg, n1)
        | (Inr v, n1) \<Rightarrow> (case discover_with be cfg (Some v) n1 reg of (e, reg1) \<Rightarrow> (e, reg1, n1)))
      else (case discover_with be cfg None n reg of (e, reg1) \<Rightarrow> (e, reg1, n)))"

section \<open>The policy engine\<close>

datatype 'm backend = WASMBackend "'m wasm_runtime" | RegoBackend rego_engine

datatype 'm policy_instance = Direct "'m backend" | Watched "'m backend hot_watcher"

definition backend_Evaluate :: "('c, 'm) wasm_host \<Rightarrow> 'm backend policy_engine" where
  "backend_Evaluate wh b input = (case b of
     WASMBackend w \<Rightarrow> (let (d, w1) = wasm_Evaluate wh w input in (d, WASMBackend w1))
   | RegoBackend r \<Rightarrow> (let (d, r1) = rego_Evaluate r input in (d, RegoBackend r1)))"

definition instance_Evaluate :: "('c, 'm) wasm_host \<Rightarrow> 'm policy_instance policy_engine" where
  "instance_Evaluate wh p input = (case p of
     Direct b \<Rightarrow> (let (d, b1) = backend_Evaluate wh b input in (d, Direct b1))
   | Watched hw \<Rightarrow> (let (d, hw1) = hw_Evaluate (backend_Evaluate wh) hw input in (d, Watched hw1)))"

text \<open>The watcher reads the time stamp from the files and leaves the loader alone.\<close>

definition maybeWrapHotWatcher :: "('c, 'm, 'n) boot_env \<Rightarrow> proxy_config \<Rightarrow> 'm backend \<Rightarrow> 'c bundle_loader \<times> 'n \<Rightarrow> 'm policy_instance \<times> 'c bundle_loader \<times> 'n" where
  "maybeWrapHotWatcher be cfg eng bn =
     (if \<not> pc_PolicyReloadEnabled cfg then (Direct eng, bn)
      else (let (hw, bn1) = NewHotWatcher (loader_stat (be_files be)) bn (pc_PolicyBundlePath cfg) (PolicyReloadIntervalDuration (be_conf be) cfg) eng
            in (Watched hw, bn1)))"

definition buildPolicyEngine :: "('c, 'm, 'n) boot_env \<Rightarrow> proxy_config \<Rightarrow> 'n \<Rightarrow> 'm policy_instance result \<times> 'c bundle_loader \<times> 'n" where
  "buildPolicyEngine be cfg n =
     (let fallback = pc_PolicyFallbackAllow cfg; path = pc_PolicyBundlePath cfg; none = NewBundleLoader fallback '''' in
      if pc_PolicyEngine cfg = PolicyEngineWASM then
        (if path = '''' then (Inr (Direct (WASMBackend (NewWASMRuntime fallback))), none, n)
         else (case (if pc_BundlePublicKeyPath cfg \<noteq> '''' then fo_read (be_files be) n (pc_BundlePublicKeyPath cfg) else (Inr '''', n)) of
             (Inl e, n1) \<Rightarrow> (Inl (Wrap (''read bundle public key '' @ Quote (pc_BundlePublicKeyPath cfg) @ '': '') e), none, n1)
           | (Inr publicKeyPEM, n1) \<Rightarrow>
               (case LoadBundle (be_files be) (be_sig be) (be_host be) (NewBundleLoader fallback publicKeyPEM) n1 path of
                  (Inl e, b1, n2) \<Rightarrow> (Inl e, b1, n2)
                | (Inr eng, b1, n2) \<Rightarrow> (let (p, bn) = maybeWrapHotWatcher be cfg (WASMBackend eng) (b1, n2) in (Inr p, bn)))))
      else if pc_PolicyEngine cfg = PolicyEngineRego then
        (if path = '''' then (Inr (Direct (RegoBackend (NewRegoEngine fallback))), none, n)
         else (case rego_Load (be_files be) (be_prepare be) (NewRegoEngine fallback) n path of
             (Some e, r, n1) \<Rightarrow> (Inl e, none, n1)
           | (None, r, n1) \<Rightarrow> (let (p, bn) = maybeWrapHotWatcher be cfg (RegoBackend r) (none, n1) in (Inr p, bn))))
      else (Inr (Direct (WASMBackend (NewWASMRuntime fallback))), none, n))"

text \<open>
  The reload functions the watcher polls with. The Rego engine is reloaded in place: a load that succeeds
  replaces its query and path, one that fails leaves it as it is.
\<close>

definition reload_backend :: "('c, 'm, 'n) boot_env \<Rightarrow> proxy_config \<Rightarrow> 'c bundle_loader \<times> 'n \<Rightarrow> 'm backend option result \<times> 'c bundle_loader \<times> 'n" where
  "reload_backend be cfg bn =
     (if pc_PolicyEngine cfg = PolicyEngineRego
      then (case rego_Load (be_files be) (be_prepare be) (NewRegoEngine (pc_PolicyFallbackAllow cfg)) (snd bn) (pc_PolicyBundlePath cfg) of
          (Some e, r, n1) \<Rightarrow> (Inl e, fst bn, n1) | (None, r, n1) \<Rightarrow> (Inr (Some (RegoBackend r)), fst bn, n1))
      else (case LoadBundle (be_files be) (be_sig be) (be_host be) (fst bn) (snd bn) (pc_PolicyBundlePath cfg) of
          (Inl e, b1, n1) \<Rightarrow> (Inl e, b1, n1) | (Inr w, b1, n1) \<Rightarrow> (Inr (Some (WASMBackend w)), b1, n1)))"

section \<open>Pipeline plugins\<close>

definition Configure_plugin :: "('c, 'm, 'n) boot_env \<Rightarrow> gany gomap option \<Rightarrow> plugin_instance \<Rightarrow> goerr option \<times> plugin_instance" where
  "Configure_plugin be raw p = (case p of
     RateLimitPlugin r \<Rightarrow> (let (e, r1) = Configure (be_rl be) (be_rl_decode be raw) r in (e, RateLimitPlugin r1))
   | OIDCProvider q \<Rightarrow> (let (e, q1) = oidc_Configure q (be_oidc_decode be raw) in (e, OIDCProvider q1)))"

text \<open>
  One entry of \<open>pipeline_plugins\<close>. Both kinds of plugin accept a configuration and neither has a start hook;
  only the rate limiter is a pipeline plugin.
\<close>

definition build_pipeline_plugin :: "('c, 'm, 'n) boot_env \<Rightarrow> plugin_factory registry \<Rightarrow> plugin_entry \<Rightarrow> rl_plugin result" where
  "build_pipeline_plugin be reg entry = (let name = ''pipeline plugin '' @ Quote (pe_ID entry) in
     case RegistrationFor reg (pe_ID entry) of
       None \<Rightarrow> Inl (Err (name @ '' not registered''))
     | Some rn \<Rightarrow> (case rn_Factory rn of
         Inl e \<Rightarrow> Inl (Wrap (name @ '' factory: '') e)
       | Inr None \<Rightarrow> Inl (Err (name @ '' factory returned nil''))
       | Inr (Some p) \<Rightarrow> (case Configure_plugin be (pe_Raw entry) p of
           (Some e, _) \<Rightarrow> Inl (Wrap (name @ '' configure: '') e)
         | (None, RateLimitPlugin r) \<Rightarrow> Inr r
         | (None, OIDCProvider _) \<Rightarrow> Inl (Err (name @ '' is not a PipelinePlugin'')))))"

fun buildPipelinePlugins :: "('c, 'm, 'n) boot_env \<Rightarrow> plugin_factory registry \<Rightarrow> plugin_entry list \<Rightarrow> rl_plugin list result" where
  "buildPipelinePlugins be reg [] = Inr []"
| "buildPipelinePlugins be reg (entry # es) =
     (if pe_ID entry = '''' then buildPipelinePlugins be reg es
      else (case build_pipeline_plugin be reg entry of
          Inl e \<Rightarrow> Inl e
        | Inr p \<Rightarrow> (case buildPipelinePlugins be reg es of Inl e \<Rightarrow> Inl e | Inr ps \<Rightarrow> Inr (p # ps))))"

section \<open>The running proxy\<close>

record ('c, 'm, 'n) proxy_world =
  px_policy :: "'m policy_instance"
  px_loader :: "'c bundle_loader"
  px_plugins :: "rl_plugin list"
  px_net :: 'n

text \<open>
  The engines call the shared policy engine, the plugin in slot \<open>i\<close> with the current time, and the transport, each
  on its part of the state. \<open>fl\<close> is the rounding of the rate limiter's floats.
\<close>

definition sharedPolicy :: "('c, 'm) wasm_host \<Rightarrow> ('c, 'm, 'n) proxy_world policy_engine" where
  "sharedPolicy wh w input = (let (d, p) = instance_Evaluate wh (px_policy w) input in (d, w\<lparr>px_policy := p\<rparr>))"

definition slot_plugin :: "(rat \<Rightarrow> rat) \<Rightarrow> rl_env \<Rightarrow> ('n \<Rightarrow> int) \<Rightarrow> nat \<Rightarrow> ('c, 'm, 'n) proxy_world pipeline_plugin" where
  "slot_plugin fl re now i w req pr =
     (let (d, p) = rl_Handle fl re (now (px_net w)) (px_plugins w ! i) req pr in (Inr d, w\<lparr>px_plugins := (px_plugins w)[i := p]\<rparr>))"

definition net_transport :: "'n transport \<Rightarrow> ('c, 'm, 'n) proxy_world transport" where
  "net_transport tp = \<lparr>tp_NewRequest = tp_NewRequest tp,
     tp_Do = (\<lambda>w u c. let (r, n) = tp_Do tp (px_net w) u c in (r, w\<lparr>px_net := n\<rparr>)), tp_Decode = tp_Decode tp\<rparr>"

record 'n runtime_env =
  ru_transport :: "'n transport"
  ru_round :: "rat \<Rightarrow> rat"
  ru_now :: "'n \<Rightarrow> int"

definition slot_plugins :: "'n runtime_env \<Rightarrow> rl_env \<Rightarrow> nat \<Rightarrow> ('c, 'm, 'n) proxy_world pipeline_plugin option list" where
  "slot_plugins ru re k = map (\<lambda>i. Some (slot_plugin (ru_round ru) re (ru_now ru) i)) [0..<k]"

text \<open>
  \<open>buildProxyHandler\<close>: the server, the engine of the first route (which the gRPC server uses) and the initial state.
\<close>

definition buildProxyHandler :: "('c, 'm, 'n) boot_env \<Rightarrow> 'n runtime_env \<Rightarrow> proxy_config \<Rightarrow> 'n \<Rightarrow>
    ((('c, 'm, 'n) proxy_world, plugin_factory) server \<times> ('c, 'm, 'n) proxy_world default_engine option \<times> ('c, 'm, 'n) proxy_world) result \<times> 'n" where
  "buildProxyHandler be ru cfg0 n =
     (let cfg = (if pc_Routes cfg0 = [] then Normalize cfg0 else cfg0) in
      case RegisterBuiltins NewRegistry of
        (Some e, reg) \<Rightarrow> (Inl (Wrap ''register built-in plugins: '' e), n)
      | (None, reg) \<Rightarrow> (case (if pc_PluginsManifestDir cfg \<noteq> '''' then discoverManifests be cfg n reg else (None, reg, n)) of
          (Some e, reg1, n1) \<Rightarrow> (Inl e, n1)
        | (None, reg1, n1) \<Rightarrow> (case buildPolicyEngine be cfg n1 of
            (Inl e, b, n2) \<Rightarrow> (Inl (Wrap ''policy engine: '' e), n2)
          | (Inr pol, b, n2) \<Rightarrow> (case buildPipelinePlugins be reg1 (pc_PipelinePlugins cfg) of
              Inl e \<Rightarrow> (Inl (Wrap ''pipeline plugins: '' e), n2)
            | Inr ps \<Rightarrow>
                (let tp = net_transport (ru_transport ru); plugins = slot_plugins ru (be_rl be) (length ps);
                     srv = build_server tp (sharedPolicy (be_host be)) plugins (Some reg1) cfg
                 in (Inr (srv, (case sv_routes srv of [] \<Rightarrow> None | rt # _ \<Rightarrow> Some (ro_Engine rt)),
                          \<lparr>px_policy = pol, px_loader = b, px_plugins = ps, px_net = n2\<rparr>), n2))))))"

text \<open>\<open>main\<close>: the gRPC server shares the engine of the first route.\<close>

definition proxy_grpc_server :: "proxy_config \<Rightarrow> ('c, 'm, 'n) proxy_world default_engine \<Rightarrow> ('k, ('c, 'm, 'n) proxy_world) grpc_server" where
  "proxy_grpc_server cfg engine = newGRPCServer (engine_of engine) (pc_GRPCUpstreamAddr cfg) (pc_GRPCUpstreamInsecure cfg)"

text \<open>
  The steps of the running proxy: a request is handled, a gRPC call is authorized, the watcher polls, the shutdown
  hook stops the watcher, and the world around it changes.
\<close>

definition poll :: "('c, 'm, 'n) boot_env \<Rightarrow> proxy_config \<Rightarrow> ('c, 'm, 'n) proxy_world \<Rightarrow> ('c, 'm, 'n) proxy_world" where
  "poll be cfg w = (case px_policy w of
     Direct b \<Rightarrow> w
   | Watched hw \<Rightarrow> (if hw_stopped hw then w else
       (case checkAndReload (loader_stat (be_files be)) (reload_backend be cfg) hw (px_loader w, px_net w) of
          (_, hw1, b1, n1) \<Rightarrow> w\<lparr>px_policy := Watched hw1, px_loader := b1, px_net := n1\<rparr>)))"

definition policyStop :: "('c, 'm, 'n) proxy_world \<Rightarrow> ('c, 'm, 'n) proxy_world" where
  "policyStop w = (case px_policy w of Direct b \<Rightarrow> w | Watched hw \<Rightarrow> w\<lparr>px_policy := Watched (hw_Stop hw)\<rparr>)"

text \<open>The status of an engine (\<open>EngineWithStatus\<close>); both backends have one.\<close>

definition backend_Loaded :: "'m backend \<Rightarrow> bool" where
  "backend_Loaded b = (case b of WASMBackend w \<Rightarrow> wr_module w \<noteq> None | RegoBackend r \<Rightarrow> re_prepared r \<noteq> None)"

definition backend_BundlePath :: "'m backend \<Rightarrow> string" where
  "backend_BundlePath b = (case b of WASMBackend w \<Rightarrow> wr_bundlePath w | RegoBackend r \<Rightarrow> re_bundlePath r)"

definition hw_Loaded :: "'m backend hot_watcher \<Rightarrow> bool" where
  "hw_Loaded hw = backend_Loaded (hw_current hw)"

definition hw_BundlePath :: "'m backend hot_watcher \<Rightarrow> string" where
  "hw_BundlePath hw = (let p = backend_BundlePath (hw_current hw) in if p \<noteq> '''' then p else hw_path hw)"

text \<open>
  The end of \<open>main\<close>: the shutdown hook stops the watcher, and then, if the gRPC server listens, the upstream connection is
  closed. Errors are only logged.
\<close>

definition proxy_shutdown :: "('k, ('c, 'm, 'n) proxy_world) grpc_env \<Rightarrow> proxy_config \<Rightarrow> ('k, ('c, 'm, 'n) proxy_world) grpc_server \<Rightarrow> ('c, 'm, 'n) proxy_world \<Rightarrow>
    ('k, ('c, 'm, 'n) proxy_world) grpc_server \<times> ('c, 'm, 'n) proxy_world" where
  "proxy_shutdown ge cfg s w0 = (let w = policyStop w0 in
     if pc_GRPCListenAddr cfg = '''' then (s, w)
     else (case gs_forwarder s of
         None \<Rightarrow> (s, w)
       | Some f \<Rightarrow> (case fw_Close ge f w of (_, f1, w1) \<Rightarrow> (s\<lparr>gs_forwarder := Some f1\<rparr>, w1))))"

inductive proxy_step :: "('c, 'm, 'n) boot_env \<Rightarrow> http_env0 \<Rightarrow> proxy_config \<Rightarrow>
    (('c, 'm, 'n) proxy_world, plugin_factory) server \<Rightarrow> ('c, 'm, 'n) proxy_world \<Rightarrow> ('c, 'm, 'n) proxy_world \<Rightarrow> bool"
  for be he cfg srv where
  request: "handleProxy he srv w r = (out, w', ms) \<Longrightarrow> proxy_step be he cfg srv w w'"
| call: "Handle (ro_Engine rt) w (buildRequest md m) = (x, w', ms) \<Longrightarrow> rt \<in> set (sv_routes srv) \<Longrightarrow> proxy_step be he cfg srv w w'"
| tick: "proxy_step be he cfg srv w (poll be cfg w)"
| stop: "proxy_step be he cfg srv w (policyStop w)"
| world: "proxy_step be he cfg srv w (w\<lparr>px_net := n\<rparr>)"


section \<open>The provider plugin of a connector (cmd/accessgate-auth/main.go)\<close>

definition provider_id :: "connector_config \<Rightarrow> string" where
  "provider_id cc = (let i = TrimSpace (cc_ProviderPluginID cc) in
     if i = '''' then ''provider:oidc'' else if CHR '':'' \<notin> set i then ''provider:'' @ i else i)"

definition providerCfg :: "connector_config \<Rightarrow> gany gomap" where
  "providerCfg cc = [(''issuer'', AStr (cc_OIDCIssuer cc)), (''client_id'', AStr (cc_OIDCClientID cc)), (''client_secret'', AStr (cc_OIDCClientSecret cc)),
     (''redirect_uri'', AStr (cc_OIDCRedirectURI cc)), (''scopes'', AStrs (cc_OIDCScopes cc)), (''claims_source'', AStr (cc_OIDCClaimsSource cc)),
     (''audience'', AStr (cc_OIDCAudience cc))]"

definition buildProviderPlugin :: "('c, 'm, 'n) boot_env \<Rightarrow> connector_config \<Rightarrow> oidc_plugin result" where
  "buildProviderPlugin be cc = (case RegisterBuiltins NewRegistry of
     (Some e, reg) \<Rightarrow> Inl e
   | (None, reg) \<Rightarrow> (let name = ''provider plugin '' @ Quote (provider_id cc) in
       case RegistrationFor reg (provider_id cc) of
         None \<Rightarrow> Inl (Err (name @ '' not registered''))
       | Some rn \<Rightarrow> (case rn_Factory rn of
           Inl e \<Rightarrow> Inl e
         | Inr None \<Rightarrow> Inl (Err (name @ '' factory returned nil''))
         | Inr (Some (RateLimitPlugin _)) \<Rightarrow> Inl (Err (name @ '' does not implement ProviderPlugin''))
         | Inr (Some (OIDCProvider p)) \<Rightarrow> (case oidc_Configure p (be_oidc_decode be (Some (providerCfg cc))) of
             (Some e, _) \<Rightarrow> Inl e | (None, p1) \<Rightarrow> Inr p1))))"

section \<open>Lemmas\<close>

subsection \<open>Invariants of an engine's state\<close>

locale engine_invariant =
  fixes e :: "'w default_engine" and Inv :: "'w \<Rightarrow> bool"
  assumes resolver_inv: "Inv w \<Longrightarrow> e_Resolver e w rq = (x, w') \<Longrightarrow> Inv w'"
    and plugin_inv: "Some h \<in> set (e_PipelinePlugins e) \<Longrightarrow> Inv w \<Longrightarrow> h w rq p = (y, w') \<Longrightarrow> Inv w'"
    and policy_inv: "Inv w \<Longrightarrow> e_Policy e w input = (z, w') \<Longrightarrow> Inv w'"
begin

lemma run_plugins_inv:
  "set ps \<subseteq> set (e_PipelinePlugins e) \<Longrightarrow> Inv w \<Longrightarrow> run_plugins ps w rq p = (x, w') \<Longrightarrow> Inv w'"
proof (induction ps w rq p arbitrary: x w' rule: run_plugins.induct)
  case (3 h ps w rq p)
  obtain y w1 where y: "h w rq p = (y, w1)" by fastforce
  have "Inv w1" using 3 plugin_inv [of h w rq p y w1] y by simp
  with 3 y show ?case by (auto split: sum.splits option.splits)
qed simp_all

lemma decide_inv: "Inv w \<Longrightarrow> decide e w rq p = (x, w') \<Longrightarrow> Inv w'"
  by (auto simp: decide_def dest: run_plugins_inv [OF subset_refl] policy_inv split: prod.splits sum.splits option.splits)

lemma Handle_inv: "Inv w \<Longrightarrow> Handle e w rq = (x, w', ms) \<Longrightarrow> Inv w'"
  by (auto simp: Handle_def Let_def dest: resolver_inv decide_inv split: prod.splits sum.splits if_splits)

text \<open>What an allowing decision rests on, with the invariant at the moment the policy was asked.\<close>

lemma allowed_inv:
  assumes "Inv w" and "Handle e w rq = (Inr resp, w', ms)" and "rs_Allow resp"
    and deny: "\<forall>h v v1 d. Some h \<in> set (e_PipelinePlugins e) \<and> h v rq p = (Inr (Some d), v1) \<longrightarrow> \<not> dc_Allow d"
    and "e_Resolver e w rq = (Inr p, w0)"
  shows "\<exists>w1 w2 d. Inv w1 \<and> e_Policy e w1 (policy_input_of rq p) = (Inr (Some d), w2) \<and> dc_Allow d \<and> resp = upstream_build e p d"
proof -
  from assms(2,3,5) obtain d where d: "decide e w0 rq p = (Inr d, w')" "dc_Allow d" "resp = upstream_build e p d"
    by (auto elim!: Handle_allow)
  have w0: "Inv w0" using assms(1,5) by (rule resolver_inv)
  obtain x w1 where x: "run_plugins (e_PipelinePlugins e) w0 rq p = (x, w1)" by fastforce
  have "x = Inr None"
  proof (rule ccontr)
    assume n: "x \<noteq> Inr None"
    with d(1) x have "x = Inr (Some d)" by (auto simp: decide_def split: sum.splits option.splits)
    with run_plugins_decided [OF x n] deny d(2) show False by (metis in_set_conv_decomp)
  qed
  with d x w0 run_plugins_inv [OF subset_refl w0 x] show ?thesis
    by (auto simp: decide_def split: prod.splits sum.splits option.splits)
qed

end

text \<open>The rate limiter abstains or refuses; it never allows.\<close>

lemma slot_plugin_denies: "slot_plugin fl re now i w rq p = (Inr (Some d), w') \<Longrightarrow> \<not> dc_Allow d"
  by (auto simp: slot_plugin_def rl_Handle_def rate_limited_def Let_def split: if_splits)

lemma slot_plugin_world: "slot_plugin fl re now i w rq p = (x, w') \<Longrightarrow> px_policy w' = px_policy w \<and> px_loader w' = px_loader w"
  by (auto simp: slot_plugin_def Let_def split: prod.splits)

lemma net_resolver_world: "auth_Resolve (net_transport tp) ar w rq = (x, w') \<Longrightarrow> px_policy w' = px_policy w \<and> px_loader w' = px_loader w"
  by (auto simp: auth_Resolve_def ResolveConnector_def net_transport_def Let_def split: prod.splits sum.splits option.splits if_splits)


subsection \<open>The verified policy\<close>

definition verified_backend :: "sig_env \<Rightarrow> ('c, 'm) wasm_host \<Rightarrow> string \<Rightarrow> 'm backend \<Rightarrow> bool" where
  "verified_backend se wh pk b \<longleftrightarrow> (\<exists>w. b = WASMBackend w \<and> verified_engine se wh pk w)"

definition verified_loader :: "sig_env \<Rightarrow> ('c, 'm) wasm_host \<Rightarrow> string \<Rightarrow> proxy_config \<Rightarrow> 'c bundle_loader \<Rightarrow> bool" where
  "verified_loader se wh pk cfg b \<longleftrightarrow> pc_PolicyEngine cfg \<noteq> PolicyEngineRego \<and> pk \<noteq> '''' \<and> bl_publicKeyPEM b = pk \<and> loader_inv se wh b"

fun in_service :: "'m policy_instance \<Rightarrow> 'm backend" where
  "in_service (Direct b) = b"
| "in_service (Watched hw) = hw_current hw"

definition policy_verified :: "('c, 'm, 'n) boot_env \<Rightarrow> string \<Rightarrow> proxy_config \<Rightarrow> ('c, 'm, 'n) proxy_world \<Rightarrow> bool" where
  "policy_verified be pk cfg w \<longleftrightarrow> verified_backend (be_sig be) (be_host be) pk (in_service (px_policy w))
     \<and> verified_loader (be_sig be) (be_host be) pk cfg (px_loader w)"

lemma backend_Evaluate_verified:
  assumes "verified_backend se wh pk b" and "backend_Evaluate wh b i = (d, b')"
  shows "verified_backend se wh pk b'"
proof -
  from assms(1) obtain w where w: "b = WASMBackend w" "verified_engine se wh pk w" by (auto simp: verified_backend_def)
  obtain d1 w1 where e: "wasm_Evaluate wh w i = (d1, w1)" by fastforce
  from verified_engine.eval [OF w(2) e] show ?thesis using assms(2) w(1) e by (auto simp: backend_Evaluate_def verified_backend_def)
qed

interpretation proxied: hot_reload "loader_stat (be_files be)" "reload_backend be cfg" "backend_Evaluate (be_host be)" files_change
    "verified_backend (be_sig be) (be_host be) pk" "\<lambda>bn. verified_loader (be_sig be) (be_host be) pk cfg (fst bn)"
  for be :: "('c, 'm, 'n) boot_env" and cfg pk
proof
  fix bn :: "'c bundle_loader \<times> 'n" and r bn'
  assume w: "verified_loader (be_sig be) (be_host be) pk cfg (fst bn)" and "reload_backend be cfg bn = (r, bn')"
  moreover obtain x b1 n1 where x: "LoadBundle (be_files be) (be_sig be) (be_host be) (fst bn) (snd bn) (pc_PolicyBundlePath cfg) = (x, b1, n1)"
    by (meson prod_cases3)
  ultimately have "fst bn' = b1" and "\<And>e. r = Inr (Some e) \<Longrightarrow> \<exists>v. e = WASMBackend v \<and> x = Inr v"
    by (auto simp: reload_backend_def verified_loader_def split: sum.splits)
  with LoadBundle_verified [OF x] w
  show "verified_loader (be_sig be) (be_host be) pk cfg (fst bn') \<and> (\<forall>e. r = Inr (Some e) \<longrightarrow> verified_backend (be_sig be) (be_host be) pk e)"
    by (auto simp: verified_loader_def verified_backend_def)
qed (auto simp: loader_stat_def files_change_def intro: backend_Evaluate_verified split: prod.splits)

lemma instance_Evaluate_verified:
  "verified_backend se wh pk (in_service p) \<Longrightarrow> instance_Evaluate wh p i = (d, p') \<Longrightarrow> verified_backend se wh pk (in_service p')"
  by (auto simp: instance_Evaluate_def hw_Evaluate_def intro: backend_Evaluate_verified split: policy_instance.splits prod.splits)

interpretation bootstrapped: engine_invariant "route_engine (net_transport (ru_transport ru)) cfg (sharedPolicy (be_host be)) (slot_plugins ru (be_rl be) k) rc"
    "policy_verified be pk cfg"
  for be :: "('c, 'm, 'n) boot_env" and ru cfg k rc pk
proof
  show "policy_verified be pk cfg w'" if "policy_verified be pk cfg w"
    and "e_Resolver (route_engine (net_transport (ru_transport ru)) cfg (sharedPolicy (be_host be)) (slot_plugins ru (be_rl be) k) rc) w rq = (x, w')" for w rq x w'
    using that net_resolver_world [of "ru_transport ru" "route_resolver cfg rc" w rq x w'] by (auto simp: policy_verified_def route_engine_def)
  show "policy_verified be pk cfg w'" if "policy_verified be pk cfg w" and "h w rq p = (y, w')"
    and "Some h \<in> set (e_PipelinePlugins (route_engine (net_transport (ru_transport ru)) cfg (sharedPolicy (be_host be)) (slot_plugins ru (be_rl be) k) rc))" for h w rq p y w'
    using that slot_plugin_world by (auto simp: policy_verified_def route_engine_def slot_plugins_def dest!: slot_plugin_world)
  show "policy_verified be pk cfg w'" if "policy_verified be pk cfg w"
    and "e_Policy (route_engine (net_transport (ru_transport ru)) cfg (sharedPolicy (be_host be)) (slot_plugins ru (be_rl be) k) rc) w input = (z, w')" for w input z w'
    using that instance_Evaluate_verified by (auto simp: policy_verified_def route_engine_def sharedPolicy_def Let_def split: prod.splits)
qed


lemma buildPolicyEngine_verified:
  assumes "buildPolicyEngine be cfg n = (Inr p, b, n')" and "pc_PolicyEngine cfg = PolicyEngineWASM"
    and "pc_PolicyBundlePath cfg \<noteq> ''''" and "pc_BundlePublicKeyPath cfg \<noteq> ''''" and "pk \<noteq> ''''"
    and key: "\<And>m x m'. fo_read (be_files be) m (pc_BundlePublicKeyPath cfg) = (Inr x, m') \<Longrightarrow> x = pk"
  shows "verified_backend (be_sig be) (be_host be) pk (in_service p) \<and> verified_loader (be_sig be) (be_host be) pk cfg b"
proof -
  from assms obtain n1 eng b1 n2 where l: "LoadBundle (be_files be) (be_sig be) (be_host be) (NewBundleLoader (pc_PolicyFallbackAllow cfg) pk) n1 (pc_PolicyBundlePath cfg)
      = (Inr eng, b1, n2)" and m: "maybeWrapHotWatcher be cfg (WASMBackend eng) (b1, n2) = (p, b, n')"
    by (auto simp: buildPolicyEngine_def Let_def dest: key split: prod.splits sum.splits if_splits)
  have "in_service p = WASMBackend eng" and "b = b1"
    using m by (auto simp: maybeWrapHotWatcher_def NewHotWatcher_def loader_stat_def Let_def split: if_splits prod.splits sum.splits)
  then show ?thesis using LoadBundle_verified [OF l] assms(2,5)
    by (auto simp: verified_backend_def verified_loader_def NewBundleLoader_def loader_inv_def PolicyEngineWASM_def PolicyEngineRego_def)
qed

lemma buildProxyHandler_Inr:
  assumes "buildProxyHandler be ru cfg n = (Inr (srv, eng, w0), n')" and "pc_Routes cfg \<noteq> []"
  obtains reg n1 where "srv = build_server (net_transport (ru_transport ru)) (sharedPolicy (be_host be))
      (slot_plugins ru (be_rl be) (length (px_plugins w0))) (Some reg) cfg"
    and "buildPolicyEngine be cfg n1 = (Inr (px_policy w0), px_loader w0, px_net w0)"
  using assms by (auto simp: buildProxyHandler_def Let_def split: prod.splits option.splits sum.splits if_splits)

lemma poll_verified: "policy_verified be pk cfg w \<Longrightarrow> policy_verified be pk cfg (poll be cfg w)"
  using proxied.checkAndReload_good [of be cfg _ "(px_loader w, px_net w)"]
  by (fastforce simp: policy_verified_def poll_def split: policy_instance.splits prod.splits)

lemma proxy_step_verified:
  assumes "proxy_step be he cfg srv w w'" and "policy_verified be pk cfg w" and "pc_Routes cfg \<noteq> []"
    and srv: "srv = build_server (net_transport (ru_transport ru)) (sharedPolicy (be_host be)) (slot_plugins ru (be_rl be) k) reg cfg"
  shows "policy_verified be pk cfg w'"
proof -
  have rt: "\<exists>rc. ro_Engine rt = route_engine (net_transport (ru_transport ru)) cfg (sharedPolicy (be_host be)) (slot_plugins ru (be_rl be) k) rc"
    if "rt \<in> set (sv_routes srv)" for rt
    using that assms(3) by (auto simp: srv build_server_def NewWithRoutes_def Let_def)
  have h: "policy_verified be pk cfg v" if "rt \<in> set (sv_routes srv)" and "Handle (ro_Engine rt) w rq = (x, v, ms)" for rt rq x v ms
    using rt [OF that(1)] that(2) bootstrapped.Handle_inv [OF assms(2)] by auto
  have m: "rt \<in> set (sv_routes srv)" if "matchRoute srv a b = Some rt" for a b rt
    using matchRoute_Some [OF that] by (auto simp: best_route_def)
  from assms(1) show ?thesis
  proof cases
    case (request r out ms)
    then show ?thesis using assms(2)
      by (auto simp: handleProxy_def dest: h [OF m] split: option.splits sum.splits prod.splits if_splits)
  next
    case (call rt md m x ms)
    then show ?thesis using h by blast
  next
    case tick
    then show ?thesis using assms(2) poll_verified by blast
  qed (use assms(2) in \<open>auto simp: policy_verified_def policyStop_def hw_Stop_def split: policy_instance.splits\<close>)
qed

lemma proxy_reachable_verified:
  assumes "(proxy_step be he cfg srv)\<^sup>*\<^sup>* w w'" and "policy_verified be pk cfg w" and "pc_Routes cfg \<noteq> []"
    and "srv = build_server (net_transport (ru_transport ru)) (sharedPolicy (be_host be)) (slot_plugins ru (be_rl be) k) reg cfg"
  shows "policy_verified be pk cfg w'"
  using assms(1) by (induction rule: rtranclp_induct) (auto intro: proxy_step_verified [OF _ _ assms(3,4)] assms(2))


subsection \<open>Built-in plugins\<close>

definition builtin_registry :: "plugin_factory registry" where
  "builtin_registry = snd (RegisterBuiltins NewRegistry)"

lemma RegisterBuiltins_New: "RegisterBuiltins NewRegistry = (None, builtin_registry)"
  by (simp add: builtin_registry_def RegisterBuiltins_def Register_def NewRegistry_def ratelimit_Descriptor_def oidc_Descriptor_def Let_def)

lemma builtin_registrations: "map_of (rg_byID builtin_registry) =
    [''pipeline:ratelimit'' \<mapsto> \<lparr>rn_Descriptor = ratelimit_Descriptor, rn_Factory = Inr (Some (RateLimitPlugin rl_New)), rn_Enabled = True, rn_State = ''registered'', rn_Error = None\<rparr>,
     ''provider:oidc'' \<mapsto> \<lparr>rn_Descriptor = oidc_Descriptor, rn_Factory = Inr (Some (OIDCProvider NewOIDCPlugin)), rn_Enabled = True, rn_State = ''registered'', rn_Error = None\<rparr>]"
  by (rule ext) (simp add: builtin_registry_def RegisterBuiltins_def Register_def NewRegistry_def ratelimit_Descriptor_def oidc_Descriptor_def Let_def)

lemma forwarded_verified:
  assumes "buildProxyHandler be ru cfg n = (Inr (srv, eng, w0), n')" and "pc_Routes cfg \<noteq> []"
    and "pc_PolicyEngine cfg = PolicyEngineWASM" and "pc_PolicyBundlePath cfg \<noteq> ''''" and "pc_BundlePublicKeyPath cfg \<noteq> ''''"
    and "\<And>m x m'. fo_read (be_files be) m (pc_BundlePublicKeyPath cfg) = (Inr x, m') \<Longrightarrow> x = pk" and "pk \<noteq> ''''"
    and "(proxy_step be he cfg srv)\<^sup>*\<^sup>* w0 w" and "handleProxy he srv w r = (Forward out, w', ms)"
  shows "\<exists>rt rc req p b b' d. matchRoute srv (r_Host r) (r_Path r) = Some rt \<and> rc = ro_Config rt \<and> rc \<in> set (pc_Routes cfg)
    \<and> RequestFromHTTP (he_json he) r = Inr req
    \<and> (rt_RequireAuth rc \<longrightarrow> (\<exists>pr. p = Some pr \<and> vouched (net_transport (ru_transport ru)) (route_resolver cfg rc) w req pr))
    \<and> verified_engine (be_sig be) (be_host be) pk b
    \<and> wasm_Evaluate (be_host be) b (policy_input_of req p) = (Inr (Some d), b') \<and> dc_Allow d"
proof -
  obtain reg n1 where srv: "srv = build_server (net_transport (ru_transport ru)) (sharedPolicy (be_host be))
      (slot_plugins ru (be_rl be) (length (px_plugins w0))) (Some reg) cfg"
    and pol: "buildPolicyEngine be cfg n1 = (Inr (px_policy w0), px_loader w0, px_net w0)"
    using assms(1,2) by (rule buildProxyHandler_Inr)
  have v: "policy_verified be pk cfg w"
    using proxy_reachable_verified [OF assms(8) _ assms(2) srv, of pk] buildPolicyEngine_verified [OF pol assms(3-5,7,6)]
    by (simp add: policy_verified_def)
  let ?e = "route_engine (net_transport (ru_transport ru)) cfg (sharedPolicy (be_host be)) (slot_plugins ru (be_rl be) (length (px_plugins w0)))"
  from assms(9) obtain rt req resp w2 ms2 where m: "matchRoute srv (r_Host r) (r_Path r) = Some rt"
    and q: "RequestFromHTTP (he_json he) r = Inr req" and h: "Handle (ro_Engine rt) w req = (Inr resp, w2, ms2)" "rs_Allow resp"
    by (auto simp: handleProxy_def split: option.splits sum.splits prod.splits if_splits)
  from matchRoute_Some [OF m] have "rt \<in> set (sv_routes srv)" by (auto simp: best_route_def)
  with assms(2) obtain rc where rc: "rc \<in> set (pc_Routes cfg)" "ro_Engine rt = ?e rc" "rc = ro_Config rt"
    by (auto simp: srv build_server_def NewWithRoutes_def Let_def)
  from h obtain p w1 where p: "e_Resolver (?e rc) w req = (Inr p, w1)" "rt_RequireAuth rc \<longrightarrow> p \<noteq> None"
    unfolding rc(2) by (auto elim!: Handle_allow simp: route_engine_def)
  have deny: "\<forall>g v v1 d. Some g \<in> set (e_PipelinePlugins (?e rc)) \<and> g v req p = (Inr (Some d), v1) \<longrightarrow> \<not> dc_Allow d"
    by (auto simp: route_engine_def slot_plugins_def dest: slot_plugin_denies)
  obtain w3 w4 d where d: "policy_verified be pk cfg w3" "e_Policy (?e rc) w3 (policy_input_of req p) = (Inr (Some d), w4)" "dc_Allow d"
    using bootstrapped.allowed_inv [OF v h [unfolded rc(2)] deny p(1)] by blast
  from d(1) obtain b where b: "in_service (px_policy w3) = WASMBackend b" "verified_engine (be_sig be) (be_host be) pk b"
    by (auto simp: policy_verified_def verified_backend_def)
  then obtain b' where "wasm_Evaluate (be_host be) b (policy_input_of req p) = (Inr (Some d), b')"
    using d(2) by (cases "px_policy w3") (auto simp: route_engine_def sharedPolicy_def instance_Evaluate_def backend_Evaluate_def hw_Evaluate_def Let_def split: prod.splits)
  moreover have "\<exists>pr. p = Some pr \<and> vouched (net_transport (ru_transport ru)) (route_resolver cfg rc) w req pr" if "rt_RequireAuth rc"
    using p that by (fastforce simp: route_engine_def dest: auth_Resolve_vouched)
  ultimately show ?thesis using m rc(1,3) q b(2) d(3) by blast
qed

section \<open>Properties\<close>

text \<open>
  The proxy forwards on the word of a verified policy only: when the bootstrap has started the WASM backend
  with a bundle and a non-empty public key, then after any sequence of requests, gRPC calls, polls of the
  hot watcher, stops and changes of the files, a request is forwarded only if an engine instantiated from a bundle with a
  valid signature allowed it; and, where the matched route requires authentication, for the principal the auth service vouched
  for. The pipeline plugins never allow anything on their own.
\<close>

theorem proxy_allows_by_verified_policy:
  assumes "buildProxyHandler be ru cfg n = (Inr (srv, eng, w0), n')" and "pc_Routes cfg \<noteq> []"
    and "pc_PolicyEngine cfg = PolicyEngineWASM" and "pc_PolicyBundlePath cfg \<noteq> ''''" and "pc_BundlePublicKeyPath cfg \<noteq> ''''"
    and "\<And>m x m'. fo_read (be_files be) m (pc_BundlePublicKeyPath cfg) = (Inr x, m') \<Longrightarrow> x = pk" and "pk \<noteq> ''''"
    and "(proxy_step be he cfg srv)\<^sup>*\<^sup>* w0 w" and "handleProxy he srv w r = (Forward out, w', ms)"
  shows "\<exists>rt rc req p b b' d. matchRoute srv (r_Host r) (r_Path r) = Some rt \<and> rc = ro_Config rt \<and> rc \<in> set (pc_Routes cfg)
    \<and> RequestFromHTTP (he_json he) r = Inr req
    \<and> (rt_RequireAuth rc \<longrightarrow> (\<exists>pr. p = Some pr \<and> vouched (net_transport (ru_transport ru)) (route_resolver cfg rc) w req pr))
    \<and> verified_engine (be_sig be) (be_host be) pk b
    \<and> wasm_Evaluate (be_host be) b (policy_input_of req p) = (Inr (Some d), b') \<and> dc_Allow d"
  using assms by (rule forwarded_verified)



text \<open>A sample proxy over any outside state: constant files, an allowing policy, one rate limiter and one protected route.\<close>

definition boot_files :: "'n file_env" where
  "boot_files = \<lparr>fo_stat = (\<lambda>n p. (Inr 0, n)),
     fo_read = (\<lambda>n p. (Inr (if p = ''key'' then ''k'' else if p = ''b.sig'' then replicate 64 (CHR ''a'') else ''allow''), n)),
     fo_write = (\<lambda>n p d. (None, n)), fo_not_exist = (\<lambda>e. False)\<rparr>"

definition boot_sample :: "(bytes, bytes, 'n) boot_env" where
  "boot_sample = \<lparr>be_files = boot_files, be_sig = sample_se, be_host = sample_wh, be_prepare = (\<lambda>b. Inl (Err ''rego'')), be_conf = sample_ce,
     be_disc = (\<lambda>n. \<lparr>de_read = (\<lambda>p. Inr ''json''), de_unmarshal = (\<lambda>d. Inl (Err ''json'')), de_not_exist = (\<lambda>e. False), de_placeholder = manifest_factory\<rparr>),
     be_entries = (\<lambda>n d. []), be_marshal = (\<lambda>m. Inr ''''), be_rl = sample_re, be_rl_decode = (\<lambda>raw. Inr sample_limits),
     be_oidc_decode = (\<lambda>raw. Inl (Err ''oidc'')), be_order = (\<lambda>i xs. xs)\<rparr>"

definition boot_config :: "string \<Rightarrow> proxy_config" where
  "boot_config cookie = empty_config\<lparr>pc_CookieName := cookie, pc_Routes := [sample_route ''/api'' ''/api''], pc_PolicyEngine := ''wasm'',
     pc_PolicyBundlePath := ''b'', pc_BundlePublicKeyPath := ''key'', pc_PolicyReloadEnabled := True,
     pc_PipelinePlugins := [\<lparr>pe_ID = ''pipeline:ratelimit'', pe_Type = '''', pe_Raw = None\<rparr>]\<rparr>"

definition boot_runtime :: "'n transport \<Rightarrow> 'n runtime_env" where
  "boot_runtime tp = \<lparr>ru_transport = tp, ru_round = (\<lambda>x. x), ru_now = (\<lambda>n. 0)\<rparr>"

definition boot_request :: "string \<Rightarrow> string \<Rightarrow> http_request" where
  "boot_request cookie v = (sample_http [])\<lparr>r_Path := ''/api/x'', r_Cookies := [(cookie, v)]\<rparr>"

lemma boot_sel:
  "fo_stat boot_files n p = (Inr 0, n)" "fo_read boot_files n ''key'' = (Inr ''k'', n)"
  "be_files boot_sample = boot_files" "be_sig boot_sample = sample_se" "be_host boot_sample = sample_wh" "be_rl boot_sample = sample_re"
  "be_rl_decode boot_sample raw = Inr sample_limits"
  "pc_Routes (boot_config ck) = [sample_route ''/api'' ''/api'']" "pc_PolicyEngine (boot_config ck) = PolicyEngineWASM" "pc_PolicyBundlePath (boot_config ck) = ''b''"
  "pc_BundlePublicKeyPath (boot_config ck) = ''key''" "pc_PolicyReloadEnabled (boot_config ck)" "pc_PluginsManifestDir (boot_config ck) = ''''"
  "\<not> pc_PolicyFallbackAllow (boot_config ck)" "pc_CookieName (boot_config ck) = ck" "pc_AuthURL (boot_config ck) = ''''"
  "pc_PipelinePlugins (boot_config ck) = [\<lparr>pe_ID = ''pipeline:ratelimit'', pe_Type = '''', pe_Raw = None\<rparr>]"
  by (simp_all add: boot_files_def boot_sample_def boot_config_def empty_config_def PolicyEngineWASM_def)

lemma boot_load: "LoadBundle boot_files sample_se sample_wh (NewBundleLoader False ''k'') n ''b'' =
    (Inr \<lparr>wr_module = Some ''allow'', wr_fallback = False, wr_bundlePath = ''''\<rparr>, \<lparr>bl_cache = [(''b'', ''allow'', 0)], bl_fallback = False, bl_publicKeyPEM = ''k''\<rparr>, n)"
proof -
  have t: "TrimSpace ''k'' = ''k''" by code_simp
  show ?thesis
    by (simp add: LoadBundle_def boot_files_def NewBundleLoader_def compileBundle_def verifyBundleFile_def signaturePath_def SignatureSuffix_def
        verifyBundleSignature_def parseEd25519PublicKey_def t sample_se_def decodeSignature_def sample_wh_def instantiateEngine_def loadCompiled_def
        NewWASMRuntime_def Let_def)
qed

definition boot_world :: "'n \<Rightarrow> (bytes, bytes, 'n) proxy_world" where
  "boot_world n = \<lparr>px_policy = Watched \<lparr>hw_path = ''b'', hw_interval = 10000000000,
       hw_current = WASMBackend \<lparr>wr_module = Some ''allow'', wr_fallback = False, wr_bundlePath = ''''\<rparr>, hw_lastMod = 0, hw_stopped = False\<rparr>,
     px_loader = \<lparr>bl_cache = [(''b'', ''allow'', 0)], bl_fallback = False, bl_publicKeyPEM = ''k''\<rparr>, px_plugins = [rl_New\<lparr>rl_cfg := sample_limits\<rparr>], px_net = n\<rparr>"

lemma boot_policy: "buildPolicyEngine boot_sample (boot_config ck) n = (Inr (px_policy (boot_world n)), px_loader (boot_world n), n)"
  by (simp add: buildPolicyEngine_def boot_sel boot_load maybeWrapHotWatcher_def NewHotWatcher_def loader_stat_def Let_def boot_world_def
      PolicyReloadIntervalDuration_def DefaultPolicyReloadInterval_def) (simp add: boot_config_def empty_config_def)

lemma boot_pipeline: "buildPipelinePlugins boot_sample builtin_registry (pc_PipelinePlugins (boot_config ck)) = Inr (px_plugins (boot_world n))"
  by (simp add: boot_sel build_pipeline_plugin_def RegistrationFor_def builtin_registrations Configure_plugin_def sample_configured boot_world_def Let_def)

definition boot_server :: "'n transport \<Rightarrow> string \<Rightarrow> ((bytes, bytes, 'n) proxy_world, plugin_factory) server" where
  "boot_server tp ck = build_server (net_transport tp) (sharedPolicy sample_wh) (slot_plugins (boot_runtime tp) sample_re 1) (Some builtin_registry) (boot_config ck)"

lemma boot_handler: "\<exists>eng. buildProxyHandler boot_sample (boot_runtime tp) (boot_config ck) n = (Inr (boot_server tp ck, eng, boot_world n), n)"
proof -
  have "length (px_plugins (boot_world n)) = 1" "ru_transport (boot_runtime tp) = tp" "px_net (boot_world n) = n"
    by (simp_all add: boot_world_def boot_runtime_def)
  then show ?thesis
    by (simp add: buildProxyHandler_def RegisterBuiltins_New boot_policy boot_pipeline [of _ n] boot_sel(3-16) boot_server_def Let_def)
qed

lemma boot_poll: "poll boot_sample (boot_config ck) (boot_world n) = boot_world n"
  by (simp add: poll_def boot_world_def checkAndReload_def loader_stat_def boot_sel)

lemma boot_limit: "rl_Handle (ru_round (boot_runtime tp)) sample_re now (rl_New\<lparr>rl_cfg := sample_limits\<rparr>) rq pr
    = (None, snd (rl_Handle (\<lambda>x. x) sample_re now (rl_New\<lparr>rl_cfg := sample_limits\<rparr>) rq pr))"
  by (simp add: boot_runtime_def rl_Handle_def refill_def rl_bucket_def rl_capacity_def rl_New_def sample_limits_def Let_def Seconds_def time_sub_def)

abbreviation boot_engine :: "'n transport \<Rightarrow> string \<Rightarrow> (bytes, bytes, 'n) proxy_world default_engine" where
  "boot_engine tp ck \<equiv> route_engine (net_transport tp) (boot_config ck) (sharedPolicy sample_wh) (slot_plugins (boot_runtime tp) sample_re 1) (sample_route ''/api'' ''/api'')"

lemma boot_route: "matchRoute (boot_server tp ck) (r_Host (boot_request a b)) (r_Path (boot_request a b)) = Some \<lparr>ro_Config = sample_route ''/api'' ''/api'', ro_Engine = boot_engine tp ck\<rparr>"
  by (simp add: matchRoute_def boot_server_def build_server_def NewWithRoutes_def boot_sel boot_request_def hostMatches_def pathMatches_def
      HasPrefix_def sample_route_def Let_def)

text \<open>When the auth service resolves the cookie, the sample proxy forwards the request.\<close>

lemma boot_handle:
  assumes "rq_Cookies req = [(ck, v)]"
    and "ResolveConnector tp (NewAuthClient '''' ck) n v '''' = (Inr (Some out), n1)"
  shows "\<exists>resp w' ms. Handle (boot_engine tp ck) (boot_world n) req = (Inr resp, w', ms) \<and> rs_Allow resp \<and> rs_RedirectTo resp = ''''"
proof -
  have "ResolveConnector (net_transport tp) (NewAuthClient '''' ck) (boot_world n) v '''' = (Inr (Some out), boot_world n1)"
    using assms(2) by (auto simp: ResolveConnector_def net_transport_def boot_world_def Let_def split: option.splits prod.splits sum.splits if_splits)
  then have r: "e_Resolver (boot_engine tp ck) (boot_world n) req = (Inr (Some (resolveResponseToPrincipal out)), boot_world n1)"
    using assms(1) by (simp add: route_engine_def auth_Resolve_def route_resolver_def boot_sel connectorCookieName_def str_get_def sample_route_def)
  show ?thesis unfolding Handle_def r
    by (simp add: route_engine_def boot_sel sample_route_def decide_def slot_plugins_def slot_plugin_def boot_world_def
      boot_limit sharedPolicy_def instance_Evaluate_def hw_Evaluate_def backend_Evaluate_def wasm_Evaluate_def sample_wh_def Let_def)
qed

lemma boot_forwards:
  assumes "ResolveConnector tp (NewAuthClient '''' ck) n v '''' = (Inr (Some out), n1)"
  shows "\<exists>fwd w' ms. handleProxy sample_he0 (boot_server tp ck) (boot_world n) (boot_request ck v) = (Forward fwd, w', ms)"
proof -
  obtain req where q: "RequestFromHTTP (he_json sample_he0) (boot_request ck v) = Inr req" "rq_Cookies req = [(ck, v)]"
    by (simp add: RequestFromHTTP_def boot_request_def NormalizeRequest_def cookie_map_def Let_def split: prod.splits)
  have "rt_UpstreamURL (sample_route ''/api'' ''/api'') \<noteq> ''''" by (simp add: sample_route_def)
  with boot_handle [OF q(2) assms] q(1) show ?thesis by (auto simp: handleProxy_def boot_route simp del: One_nat_def)
qed

theorem proxy_allows_by_verified_policy_witness:
  "\<exists>eng out w' ms b. buildProxyHandler boot_sample (boot_runtime sample_tp) (boot_config ''sid'') 0 = (Inr (boot_server sample_tp ''sid'', eng, boot_world 0), 0)
     \<and> handleProxy sample_he0 (boot_server sample_tp ''sid'') (poll boot_sample (boot_config ''sid'') (boot_world 0)) (boot_request ''sid'' ''good'') = (Forward out, w', ms)
     \<and> verified_engine sample_se sample_wh ''k'' b"
proof -
  let ?cfg = "boot_config ''sid''" and ?s = "boot_server sample_tp ''sid''"
  obtain eng where h: "buildProxyHandler boot_sample (boot_runtime sample_tp) ?cfg 0 = (Inr (?s, eng, boot_world 0), 0)"
    using boot_handler [of sample_tp "''sid''" 0] by auto
  have "ResolveConnector sample_tp (NewAuthClient '''' ''sid'') 0 ''good'' '''' = (Inr (Some \<lparr>rr_AccessToken = ''at'', rr_Claims = Some [(''sub'', AStr ''u1'')], rr_TenantContext = None\<rparr>), 1)"
    by (simp add: ResolveConnector_def sample_tp_def resolve_cookie_def NewAuthClient_def)
  then obtain out w' ms where f: "handleProxy sample_he0 ?s (poll boot_sample ?cfg (boot_world 0)) (boot_request ''sid'' ''good'') = (Forward out, w', ms)"
    using boot_forwards boot_poll by metis
  have "(proxy_step boot_sample sample_he0 ?cfg ?s)\<^sup>*\<^sup>* (boot_world 0) (poll boot_sample ?cfg (boot_world 0))"
    by (intro r_into_rtranclp proxy_step.tick)
  from proxy_allows_by_verified_policy [OF h _ boot_sel(9) _ _ _ _ this f, of "''k''"] h f show ?thesis by (auto simp: boot_sel)
qed

section \<open>Further facts\<close>

text \<open>
  Each connector gets a client of its own: a provider plugin is built only for the built-in OIDC provider, and its client
  has the issuer, client id and redirect URI of the decoded connector configuration.
\<close>

lemma provider_plugin_own_client:
  assumes "buildProviderPlugin be cc = Inr p"
  shows "provider_id cc = ''provider:oidc'' \<and> (\<exists>out scopes. be_oidc_decode be (Some (providerCfg cc)) = Inr out \<and> scopes \<noteq> []
    \<and> p = Some (out\<lparr>oc_Scopes := scopes\<rparr>, NewClient (oc_Issuer out) (oc_ClientID out) (oc_ClientSecret out) (oc_RedirectURI out) (Some scopes) (oc_Audience out))
    \<and> oc_Issuer out \<noteq> '''' \<and> oc_ClientID out \<noteq> '''' \<and> oc_RedirectURI out \<noteq> '''')"
proof -
  have i: "provider_id cc = ''provider:oidc''"
    using assms by (auto simp: buildProviderPlugin_def RegisterBuiltins_New RegistrationFor_def builtin_registrations Let_def split: if_splits)
  with assms have e: "oidc_Configure NewOIDCPlugin (be_oidc_decode be (Some (providerCfg cc))) = (None, p)"
    by (auto simp: buildProviderPlugin_def RegisterBuiltins_New RegistrationFor_def builtin_registrations Let_def split: prod.splits option.splits)
  then obtain out where d: "be_oidc_decode be (Some (providerCfg cc)) = Inr out" by (auto simp: oidc_Configure_def split: sum.splits)
  let ?sc = "if oc_Scopes out = [] then [''openid'', ''profile''] else oc_Scopes out"
  have "p = Some (out\<lparr>oc_Scopes := ?sc\<rparr>, NewClient (oc_Issuer out) (oc_ClientID out) (oc_ClientSecret out) (oc_RedirectURI out) (Some ?sc) (oc_Audience out))
    \<and> oc_Issuer out \<noteq> '''' \<and> oc_ClientID out \<noteq> '''' \<and> oc_RedirectURI out \<noteq> ''''"
    using e d by (auto simp: oidc_Configure_def Let_def split: if_splits)
  with i d show ?thesis by (intro conjI exI [of _ out] exI [of _ ?sc]) auto
qed

lemma maybeWrap_key: "maybeWrapHotWatcher be (cfg\<lparr>pc_BundlePublicKeyPath := k\<rparr>) eng bn = maybeWrapHotWatcher be cfg eng bn"
  by (simp add: maybeWrapHotWatcher_def PolicyReloadIntervalDuration_def)

text \<open>With an empty key file a configured public key verifies nothing: the bundle is loaded as if no key were configured.\<close>

lemma empty_key_file_unverified:
  assumes "pc_PolicyEngine cfg = PolicyEngineWASM" and "fo_read (be_files be) n (pc_BundlePublicKeyPath cfg) = (Inr '''', n)"
  shows "buildPolicyEngine be cfg n = buildPolicyEngine be (cfg\<lparr>pc_BundlePublicKeyPath := ''''\<rparr>) n"
  using assms by (auto simp: buildPolicyEngine_def maybeWrap_key Let_def split: prod.splits sum.splits)

text \<open>The Rego backend ignores the public key.\<close>

lemma rego_bundle_unverified:
  "pc_PolicyEngine cfg = PolicyEngineRego \<Longrightarrow> buildPolicyEngine be (cfg\<lparr>pc_BundlePublicKeyPath := k\<rparr>) n = buildPolicyEngine be cfg n"
  by (simp add: buildPolicyEngine_def maybeWrap_key PolicyEngineWASM_def PolicyEngineRego_def Let_def split: prod.splits option.splits)


text \<open>After the shutdown no connection to the gRPC upstream is open, and a poll of the stopped watcher does nothing.\<close>

lemma proxy_shutdown_quiet:
  assumes "proxy_shutdown ge cfg s w = (s', w')" and "pc_GRPCListenAddr cfg \<noteq> ''''" and "\<And>v c. px_policy (snd (ge_Close ge v c)) = px_policy v"
  shows "(\<forall>f. gs_forwarder s' = Some f \<longrightarrow> fw_conn f = None) \<and> poll be cfg w' = w'"
proof -
  have "gs_forwarder s' = None \<or> (\<exists>f. gs_forwarder s' = Some f \<and> fw_conn f = None)" and p: "px_policy w' = px_policy (policyStop w)"
    using assms(1,2) assms(3) [of "policyStop w"]
    by (auto simp: proxy_shutdown_def fw_Close_def Let_def split: option.splits prod.splits if_splits) (metis snd_conv)+
  then show ?thesis by (auto simp: poll_def p policyStop_def hw_Stop_def split: policy_instance.splits)
qed

text \<open>A watched Rego engine reports itself as loaded from the configured path.\<close>

lemma watched_rego_loaded:
  assumes "buildPolicyEngine be cfg n = (Inr (Watched hw), b, n')" and "pc_PolicyEngine cfg = PolicyEngineRego" and "pc_PolicyBundlePath cfg \<noteq> ''''"
  shows "hw_Loaded hw \<and> hw_BundlePath hw = pc_PolicyBundlePath cfg"
  using assms by (auto simp: buildPolicyEngine_def maybeWrapHotWatcher_def NewHotWatcher_def rego_Load_def NewRegoEngine_def hw_Loaded_def hw_BundlePath_def
      backend_Loaded_def backend_BundlePath_def PolicyEngineWASM_def PolicyEngineRego_def loader_stat_def Let_def split: prod.splits option.splits sum.splits if_splits)

end
