(* ===== verification/Auth_Redirect.thy ===== *)
theory Auth_Redirect
  imports Go_Http
begin

text \<open>
  \<open>internal/auth/service/redirect.go\<close>: the check of redirect targets against the application's base
  URL and the allow-lists. The URL parser is an argument.
\<close>

section \<open>The check\<close>

text \<open>The loop over the allowed path prefixes.\<close>

definition prefix_allowed :: "string list \<Rightarrow> string \<Rightarrow> bool" where
  "prefix_allowed pfxs path = list_ex (\<lambda>p. p = ''/'' \<or> HasPrefix path p) pfxs"

definition sameOrigin :: "url_parser \<Rightarrow> string \<Rightarrow> string \<Rightarrow> bool" where
  "sameOrigin url_parse origin baseURL = (case url_parse (TrimSpace baseURL) of
     Inl e \<Rightarrow> False
   | Inr base \<Rightarrow> (if u_Scheme base = '''' \<or> u_Host base = '''' then False
                   else origin = u_Scheme base @ ''://'' @ u_Host base))"

definition ValidateRedirect :: "url_parser \<Rightarrow> string \<Rightarrow> string \<Rightarrow> string list \<Rightarrow> string list \<Rightarrow> string" where
  "ValidateRedirect url_parse redirectTo0 baseURL allowedOrigins allowedPathPrefixes =
     (let redirectTo = TrimSpace redirectTo0 in
      if redirectTo = '''' then baseURL
      else if HasPrefix redirectTo ''/'' then
        (if 1 < length redirectTo \<and> (redirectTo ! 1 = CHR ''/'' \<or> redirectTo ! 1 = BSL) then ''''
         else if \<not> (allowedPathPrefixes = [] \<or> prefix_allowed allowedPathPrefixes redirectTo) then ''''
         else TrimSuffix baseURL ''/'' @ redirectTo)
      else (case url_parse redirectTo of
          Inl e \<Rightarrow> ''''
        | Inr u \<Rightarrow>
            (if u_Scheme u \<noteq> ''https'' \<and> u_Scheme u \<noteq> ''http'' then ''''
             else (let origin = u_Scheme u @ ''://'' @ u_Host u in
               if \<not> (sameOrigin url_parse origin baseURL \<or> origin \<in> set allowedOrigins) then ''''
               else if allowedPathPrefixes \<noteq> [] \<and> \<not> prefix_allowed allowedPathPrefixes (u_Path u) then ''''
               else redirectTo))))"

section \<open>What a browser makes of the result\<close>

text \<open>
  The authority of an absolute \<open>http\<close> URL as a browser reads it: the text after \<open>://\<close> up to the
  first slash, backslash, question mark or hash. A reference without a scheme has an authority of its
  own only when it starts with two (back)slashes.
\<close>

definition auth_end :: "char \<Rightarrow> bool" where
  "auth_end c \<longleftrightarrow> c \<in> {CHR ''/'', BSL, CHR ''?'', CHR ''#''}"

definition authority :: "string \<Rightarrow> string" where
  "authority rest = takeWhile (\<lambda>c. \<not> auth_end c) rest"

definition is_local_path :: "string \<Rightarrow> bool" where
  "is_local_path p \<longleftrightarrow> HasPrefix p ''/'' \<and> \<not> (1 < length p \<and> (p ! 1 = CHR ''/'' \<or> p ! 1 = BSL))"

text \<open>The targets the allow-lists describe.\<close>

definition path_ok :: "string list \<Rightarrow> string \<Rightarrow> bool" where
  "path_ok pfxs path \<longleftrightarrow> pfxs = [] \<or> (\<exists>p \<in> set pfxs. p = ''/'' \<or> HasPrefix path p)"

definition target_allowed :: "url_parser \<Rightarrow> string \<Rightarrow> string list \<Rightarrow> string list \<Rightarrow> string \<Rightarrow> bool" where
  "target_allowed url_parse baseURL origins pfxs target \<longleftrightarrow>
     target = baseURL
     \<or> (\<exists>p. target = TrimSuffix baseURL ''/'' @ p \<and> is_local_path p \<and> path_ok pfxs p)
     \<or> (\<exists>u. url_parse target = Inr u \<and> u_Scheme u \<in> {''http'', ''https''} \<and> path_ok pfxs (u_Path u)
          \<and> (u_Scheme u @ ''://'' @ u_Host u \<in> set origins
             \<or> (\<exists>b. url_parse (TrimSpace baseURL) = Inr b \<and> u_Host b \<noteq> ''''
                  \<and> u_Scheme u @ ''://'' @ u_Host u = u_Scheme b @ ''://'' @ u_Host b)))"

lemma path_ok_iff: "path_ok pfxs path \<longleftrightarrow> pfxs = [] \<or> prefix_allowed pfxs path"
  by (auto simp: path_ok_def prefix_allowed_def list_ex_iff)

lemma ValidateRedirect_allowed:
  assumes "ValidateRedirect url_parse t baseURL origins pfxs \<noteq> ''''"
  shows "target_allowed url_parse baseURL origins pfxs (ValidateRedirect url_parse t baseURL origins pfxs)"
proof -
  consider "TrimSpace t = ''''" | "TrimSpace t \<noteq> ''''" "HasPrefix (TrimSpace t) ''/''"
    | "TrimSpace t \<noteq> ''''" "\<not> HasPrefix (TrimSpace t) ''/''" by blast
  then show ?thesis
  proof cases
    case 3
    with assms obtain u where p: "url_parse (TrimSpace t) = Inr u"
      by (cases "url_parse (TrimSpace t)") (simp_all add: ValidateRedirect_def)
    with 3 assms have r: "ValidateRedirect url_parse t baseURL origins pfxs = TrimSpace t"
      unfolding ValidateRedirect_def Let_def by (auto split del: if_split split: if_split_asm)
    from p 3 assms have u: "u_Scheme u = ''http'' \<or> u_Scheme u = ''https''" "path_ok pfxs (u_Path u)"
      and o1: "sameOrigin url_parse (u_Scheme u @ ''://'' @ u_Host u) baseURL \<or> u_Scheme u @ ''://'' @ u_Host u \<in> set origins"
      by (simp_all add: ValidateRedirect_def path_ok_iff Let_def split: if_splits) blast+
    from o1 have "u_Scheme u @ ''://'' @ u_Host u \<in> set origins \<or> (\<exists>b. url_parse (TrimSpace baseURL) = Inr b \<and> u_Host b \<noteq> ''''
        \<and> u_Scheme u @ ''://'' @ u_Host u = u_Scheme b @ ''://'' @ u_Host b)"
      unfolding sameOrigin_def by (auto split: sum.splits if_splits)
    with p u show ?thesis unfolding target_allowed_def r by blast
  qed (use assms in \<open>auto simp: ValidateRedirect_def target_allowed_def is_local_path_def path_ok_iff Let_def split: if_splits\<close>)
qed

text \<open>The authority of the base URL survives the appended local path.\<close>

lemma authority_append_local:
  assumes "is_local_path p"
  shows "authority (TrimSuffix b ''/'' @ p) = authority b"
proof -
  obtain q where p: "p = CHR ''/'' # q" using assms by (auto simp: is_local_path_def HasPrefix_def prefix_def)
  have "authority (a @ CHR ''/'' # q) = authority a" for a
    by (induction a) (auto simp: authority_def auth_end_def)
  moreover have "authority (a @ [CHR ''/'']) = authority a" for a
    by (induction a) (auto simp: authority_def auth_end_def)
  ultimately show ?thesis
    using p by (cases "suffix ''/'' b") (auto simp: TrimSuffix_def suffix_def)
qed

lemma TrimSuffix_base:
  assumes "host \<noteq> ''''"
  shows "TrimSuffix (scheme @ ''://'' @ host) ''/'' = scheme @ ''://'' @ TrimSuffix host ''/''"
proof (cases host rule: rev_cases)
  case (snoc ys c)
  show ?thesis
  proof (cases "c = CHR ''/''")
    case True
    have "TrimSuffix ((scheme @ ''://'' @ ys) @ ''/'') ''/'' = scheme @ ''://'' @ ys" by (rule TrimSuffix_append)
    with snoc True show ?thesis by simp
  qed (use snoc in \<open>auto simp: TrimSuffix_def suffix_def\<close>)
qed (use assms in simp)

section \<open>Properties\<close>

text \<open>
  C19. No open redirect: whatever target the client names, the result of \<open>ValidateRedirect\<close> is empty
  or allowed (the base URL, the base URL followed by a local path with an allowed prefix, or an
  absolute \<open>http(s)\<close> URL of the base's or an allowed origin with an allowed path prefix); and when
  the target starts with a slash, a browser that follows the result stays on the base URL's authority.
\<close>

theorem redirect_no_open_redirect:
  assumes "ValidateRedirect url_parse t baseURL origins pfxs = r" and "r \<noteq> ''''"
  shows "target_allowed url_parse baseURL origins pfxs r
    \<and> (HasPrefix (TrimSpace t) ''/'' \<and> baseURL = scheme @ ''://'' @ host \<and> host \<noteq> ''''
       \<longrightarrow> (\<exists>rest. r = scheme @ ''://'' @ rest \<and> authority rest = authority host))"
proof (intro conjI impI)
  show "target_allowed url_parse baseURL origins pfxs r"
    using assms ValidateRedirect_allowed by blast
next
  assume h: "HasPrefix (TrimSpace t) ''/'' \<and> baseURL = scheme @ ''://'' @ host \<and> host \<noteq> ''''"
  then have "TrimSpace t \<noteq> ''''" by (auto simp: HasPrefix_def)
  with h assms have "r = TrimSuffix baseURL ''/'' @ TrimSpace t" and "is_local_path (TrimSpace t)"
    by (auto simp: ValidateRedirect_def is_local_path_def Let_def split: if_splits)
  with h show "\<exists>rest. r = scheme @ ''://'' @ rest \<and> authority rest = authority host"
    using authority_append_local [of "TrimSpace t" host] TrimSuffix_base [of host scheme] by auto
qed

definition sample_url_parse :: url_parser where
  "sample_url_parse s =
     (if s = ''https://app.example.com'' then Inr \<lparr>u_Scheme = ''https'', u_Host = ''app.example.com'', u_Path = '''', u_RawQuery = ''''\<rparr>
      else if s = ''https://evil.example/app'' then Inr \<lparr>u_Scheme = ''https'', u_Host = ''evil.example'', u_Path = ''/app'', u_RawQuery = ''''\<rparr>
      else Inl (Err ''parse''))"

theorem redirect_no_open_redirect_witness:
  "(let v = (\<lambda>t. ValidateRedirect sample_url_parse t ''https://app.example.com'' [] [''/app'']) in
    v ''/app/home'' = ''https://app.example.com/app/home'' \<and> target_allowed sample_url_parse ''https://app.example.com'' [] [''/app''] (v ''/app/home'')
    \<and> v ''//evil.example'' = '''' \<and> v ''https://evil.example/app'' = '''')"
proof -
  let ?v = "\<lambda>t. ValidateRedirect sample_url_parse t ''https://app.example.com'' [] [''/app'']"
  have "?v ''/app/home'' = ''https://app.example.com/app/home''" by code_simp
  moreover have "?v ''//evil.example'' = ''''" "?v ''https://evil.example/app'' = ''''" by code_simp+
  ultimately show ?thesis using redirect_no_open_redirect [of sample_url_parse "''/app/home''" _ _ _ "?v ''/app/home''"] by simp
qed

text \<open>
  The path allow-list is a prefix of the unresolved path: with the prefix \<open>/app\<close> the target
  \<open>/app/../admin\<close> is accepted, which browsers resolve to \<open>/admin\<close>.
\<close>

lemma redirect_dot_segments:
  "ValidateRedirect url_parse ''/app/../admin'' ''https://app.example.com'' [] [''/app''] = ''https://app.example.com/app/../admin''"
  by code_simp

end
