(* ===== verification/Redis_Store.thy ===== *)
theory Redis_Store
  imports Session
begin

text \<open>
  \<open>internal/redis/redis.go\<close>: the session, PKCE, refresh-lock, revocation and replay stores on Redis.

  The go-redis client and the server behind it are an argument (\<open>redis_client\<close>), as are the JSON
  codecs of the stored values. The locale \<open>redis_server\<close> states the documented behaviour of the
  commands the code uses: a key-value map with expiry times that only the commands and the passing
  of time change. From it the \<open>store_contract\<close> follows for the store's methods
  (a sublocale), and so do the one-time and mutual-exclusion guarantees of \<open>SETNX\<close>.

  The metrics the store records are part of its state (\<open>rs_metrics\<close>, newest last).
\<close>

section \<open>The client\<close>

definition redisNil :: goerr where
  "redisNil = Sentinel ''redis: nil''"

text \<open>A TTL is a \<open>time.Duration\<close> in nanoseconds; 0 means no expiry.\<close>

record 'r redis_client =
  rc_Get :: "'r \<Rightarrow> string \<Rightarrow> bytes result \<times> 'r"
  rc_Set :: "'r \<Rightarrow> string \<Rightarrow> bytes \<Rightarrow> int \<Rightarrow> goerr option \<times> 'r"
  rc_Del :: "'r \<Rightarrow> string \<Rightarrow> goerr option \<times> 'r"
  rc_SetArgsNX :: "'r \<Rightarrow> string \<Rightarrow> bytes \<Rightarrow> int \<Rightarrow> string result \<times> 'r"
  rc_SetNX :: "'r \<Rightarrow> string \<Rightarrow> bytes \<Rightarrow> int \<Rightarrow> bool result \<times> 'r"
  rc_Scan :: "'r \<Rightarrow> nat \<Rightarrow> string \<Rightarrow> nat \<Rightarrow> (string list \<times> nat) result \<times> 'r"

record 'a json_codec =
  js_Marshal :: "'a \<Rightarrow> bytes result"
  js_Unmarshal :: "bytes \<Rightarrow> 'a result"

section \<open>The store\<close>

record 'r store =
  st_client :: "'r redis_client"
  st_layout :: key_layout
  st_session_json :: "session json_codec"
  st_pkce_json :: "pkce_state json_codec"

record 'r rstate =
  rs_redis :: 'r
  rs_metrics :: "(string \<times> bool) list"

definition SessionStoreOp :: "string \<Rightarrow> bool \<Rightarrow> 'r rstate \<Rightarrow> 'r rstate" where
  "SessionStoreOp opn ok r = r\<lparr>rs_metrics := rs_metrics r @ [(opn, ok)]\<rparr>"

definition second_ns :: int where
  "second_ns = 1000000000"

definition ttl_ns :: "int \<Rightarrow> int" where
  "ttl_ns ttlSeconds = wrap64 (ttlSeconds * second_ns)"

definition getSession :: "'r store \<Rightarrow> 'r rstate \<Rightarrow> string \<Rightarrow> session option result \<times> 'r rstate" where
  "getSession st r sessionID =
     (case rc_Get (st_client st) (rs_redis r) (SessionKey (st_layout st) sessionID) of (res, r1) \<Rightarrow>
        let r' = r\<lparr>rs_redis := r1\<rparr> in
        (case res of
           Inl e \<Rightarrow> (if e = redisNil then (Inr None, SessionStoreOp ''session_get'' True r')
                      else (Inl e, SessionStoreOp ''session_get'' False r'))
         | Inr data \<Rightarrow> (case js_Unmarshal (st_session_json st) data of
               Inl e \<Rightarrow> (Inl e, SessionStoreOp ''session_get'' False r')
             | Inr sess \<Rightarrow> (Inr (Some sess), SessionStoreOp ''session_get'' True r'))))"

definition setSession :: "'r store \<Rightarrow> 'r rstate \<Rightarrow> string \<Rightarrow> session \<Rightarrow> int \<Rightarrow> goerr option \<times> 'r rstate" where
  "setSession st r sessionID sess ttlSeconds =
     (case js_Marshal (st_session_json st) sess of
        Inl e \<Rightarrow> (Some e, SessionStoreOp ''session_set'' False r)
      | Inr data \<Rightarrow>
          (case rc_Set (st_client st) (rs_redis r) (SessionKey (st_layout st) sessionID) data (ttl_ns ttlSeconds) of
             (Some e, r1) \<Rightarrow> (Some e, SessionStoreOp ''session_set'' False (r\<lparr>rs_redis := r1\<rparr>))
           | (None, r1) \<Rightarrow> (None, SessionStoreOp ''session_set'' True (r\<lparr>rs_redis := r1\<rparr>))))"

definition deleteSession :: "'r store \<Rightarrow> 'r rstate \<Rightarrow> string \<Rightarrow> goerr option \<times> 'r rstate" where
  "deleteSession st r sessionID =
     (case rc_Del (st_client st) (rs_redis r) (SessionKey (st_layout st) sessionID) of
        (Some e, r1) \<Rightarrow> (Some e, SessionStoreOp ''session_del'' False (r\<lparr>rs_redis := r1\<rparr>))
      | (None, r1) \<Rightarrow> (None, SessionStoreOp ''session_del'' True (r\<lparr>rs_redis := r1\<rparr>)))"

definition getPKCE :: "'r store \<Rightarrow> 'r rstate \<Rightarrow> string \<Rightarrow> pkce_state option result \<times> 'r rstate" where
  "getPKCE st r state =
     (case rc_Get (st_client st) (rs_redis r) (PKCEKey (st_layout st) state) of (res, r1) \<Rightarrow>
        let r' = r\<lparr>rs_redis := r1\<rparr> in
        (case res of
           Inl e \<Rightarrow> (if e = redisNil then (Inr None, SessionStoreOp ''pkce_get'' True r')
                      else (Inl e, SessionStoreOp ''pkce_get'' False r'))
         | Inr data \<Rightarrow> (case js_Unmarshal (st_pkce_json st) data of
               Inl e \<Rightarrow> (Inl e, SessionStoreOp ''pkce_get'' False r')
             | Inr p \<Rightarrow> (Inr (Some p), SessionStoreOp ''pkce_get'' True r'))))"

definition setPKCE :: "'r store \<Rightarrow> 'r rstate \<Rightarrow> string \<Rightarrow> pkce_state \<Rightarrow> int \<Rightarrow> goerr option \<times> 'r rstate" where
  "setPKCE st r state p ttlSeconds =
     (case js_Marshal (st_pkce_json st) p of
        Inl e \<Rightarrow> (Some e, SessionStoreOp ''pkce_set'' False r)
      | Inr data \<Rightarrow>
          (case rc_Set (st_client st) (rs_redis r) (PKCEKey (st_layout st) state) data (ttl_ns ttlSeconds) of
             (Some e, r1) \<Rightarrow> (Some e, SessionStoreOp ''pkce_set'' False (r\<lparr>rs_redis := r1\<rparr>))
           | (None, r1) \<Rightarrow> (None, SessionStoreOp ''pkce_set'' True (r\<lparr>rs_redis := r1\<rparr>))))"

definition deletePKCE :: "'r store \<Rightarrow> 'r rstate \<Rightarrow> string \<Rightarrow> goerr option \<times> 'r rstate" where
  "deletePKCE st r state =
     (case rc_Del (st_client st) (rs_redis r) (PKCEKey (st_layout st) state) of
        (Some e, r1) \<Rightarrow> (Some e, SessionStoreOp ''pkce_del'' False (r\<lparr>rs_redis := r1\<rparr>))
      | (None, r1) \<Rightarrow> (None, SessionStoreOp ''pkce_del'' True (r\<lparr>rs_redis := r1\<rparr>)))"

text \<open>\<open>SET key 1 NX\<close>: a reply other than an error and other than OK counts as not acquired.\<close>

definition obtainRefreshLock :: "'r store \<Rightarrow> 'r rstate \<Rightarrow> string \<Rightarrow> int \<Rightarrow> bool result \<times> 'r rstate" where
  "obtainRefreshLock st r sessionID ttlSeconds =
     (case rc_SetArgsNX (st_client st) (rs_redis r) (RefreshLockKey (st_layout st) sessionID) ''1'' (ttl_ns ttlSeconds) of
        (Inl e, r1) \<Rightarrow> (Inl e, SessionStoreOp ''refresh_lock_obtain'' False (r\<lparr>rs_redis := r1\<rparr>))
      | (Inr reply, r1) \<Rightarrow> (let acquired = (reply = ''OK'') in
          (Inr acquired, SessionStoreOp ''refresh_lock_obtain'' acquired (r\<lparr>rs_redis := r1\<rparr>))))"

definition releaseRefreshLock :: "'r store \<Rightarrow> 'r rstate \<Rightarrow> string \<Rightarrow> goerr option \<times> 'r rstate" where
  "releaseRefreshLock st r sessionID =
     (case rc_Del (st_client st) (rs_redis r) (RefreshLockKey (st_layout st) sessionID) of
        (Some e, r1) \<Rightarrow> (Some e, SessionStoreOp ''refresh_lock_release'' False (r\<lparr>rs_redis := r1\<rparr>))
      | (None, r1) \<Rightarrow> (None, SessionStoreOp ''refresh_lock_release'' True (r\<lparr>rs_redis := r1\<rparr>)))"

definition SetRevoked :: "'r store \<Rightarrow> 'r rstate \<Rightarrow> string \<Rightarrow> int \<Rightarrow> goerr option \<times> 'r rstate" where
  "SetRevoked st r i ttl = (case rc_Set (st_client st) (rs_redis r) (RevokedKey (st_layout st) i) ''1'' ttl of
     (e, r1) \<Rightarrow> (e, r\<lparr>rs_redis := r1\<rparr>))"

definition IsRevoked :: "'r store \<Rightarrow> 'r rstate \<Rightarrow> string \<Rightarrow> bool result \<times> 'r rstate" where
  "IsRevoked st r i = (case rc_Get (st_client st) (rs_redis r) (RevokedKey (st_layout st) i) of
     (Inl e, r1) \<Rightarrow> (if e = redisNil then Inr False else Inl e, r\<lparr>rs_redis := r1\<rparr>)
   | (Inr _, r1) \<Rightarrow> (Inr True, r\<lparr>rs_redis := r1\<rparr>))"

definition RecordReplay :: "'r store \<Rightarrow> 'r rstate \<Rightarrow> string \<Rightarrow> int \<Rightarrow> goerr option \<times> 'r rstate" where
  "RecordReplay st r key ttl = (case rc_Set (st_client st) (rs_redis r) (ReplayKey (st_layout st) key) ''1'' ttl of
     (e, r1) \<Rightarrow> (e, r\<lparr>rs_redis := r1\<rparr>))"

definition ConsumeOnce :: "'r store \<Rightarrow> 'r rstate \<Rightarrow> string \<Rightarrow> int \<Rightarrow> bool result \<times> 'r rstate" where
  "ConsumeOnce st r key ttl = (case rc_SetNX (st_client st) (rs_redis r) (ReplayKey (st_layout st) key) ''1'' ttl of
     (x, r1) \<Rightarrow> (x, r\<lparr>rs_redis := r1\<rparr>))"

definition CheckReplay :: "'r store \<Rightarrow> 'r rstate \<Rightarrow> string \<Rightarrow> bool result \<times> 'r rstate" where
  "CheckReplay st r key = (case rc_Get (st_client st) (rs_redis r) (ReplayKey (st_layout st) key) of
     (Inl e, r1) \<Rightarrow> (if e = redisNil then Inr False else Inl e, r\<lparr>rs_redis := r1\<rparr>)
   | (Inr _, r1) \<Rightarrow> (Inr True, r\<lparr>rs_redis := r1\<rparr>))"

section \<open>Lookup by subject and email\<close>

text \<open>
  \<open>lower\<close> is \<open>strings.ToLower\<close> (with the Unicode tables); \<open>subject\<close> and \<open>email\<close> are already
  trimmed and lowered when the scan starts.
\<close>

definition claimString :: "gany gomap option \<Rightarrow> string \<Rightarrow> string" where
  "claimString claims key = (case claims of None \<Rightarrow> '''' | Some m \<Rightarrow> str_or_empty (any_get m key))"

definition session_matches :: "(string \<Rightarrow> string) \<Rightarrow> int \<Rightarrow> string \<Rightarrow> string \<Rightarrow> session \<Rightarrow> bool" where
  "session_matches lower now subject email sess \<longleftrightarrow>
     \<not> IsExpired sess now
     \<and> TrimSpace (claimString (s_Claims sess) ''sub'') = subject
     \<and> TrimSpace (lower (claimString (s_Claims sess) ''email'')) = email"

fun find_in_keys :: "'r store \<Rightarrow> (string \<Rightarrow> string) \<Rightarrow> int \<Rightarrow> string \<Rightarrow> string \<Rightarrow> string list \<Rightarrow> 'r rstate \<Rightarrow> session option result \<times> 'r rstate" where
  "find_in_keys st lower now subject email [] r = (Inr None, r)"
| "find_in_keys st lower now subject email (key # keys) r =
     (case rc_Get (st_client st) (rs_redis r) key of (res, r1) \<Rightarrow>
        let r' = r\<lparr>rs_redis := r1\<rparr> in
        (case res of
           Inl e \<Rightarrow> (if e = redisNil then find_in_keys st lower now subject email keys r' else (Inl e, r'))
         | Inr data \<Rightarrow> (case js_Unmarshal (st_session_json st) data of
               Inl e \<Rightarrow> find_in_keys st lower now subject email keys r'
             | Inr sess \<Rightarrow>
                 (if session_matches lower now subject email sess then (Inr (Some sess), r')
                  else find_in_keys st lower now subject email keys r'))))"

partial_function (option) find_scan :: "'r store \<Rightarrow> (string \<Rightarrow> string) \<Rightarrow> int \<Rightarrow> string \<Rightarrow> string \<Rightarrow> nat \<Rightarrow> 'r rstate \<Rightarrow> (session option result \<times> 'r rstate) option" where
  "find_scan st lower now subject email cursor r =
     (case rc_Scan (st_client st) (rs_redis r) cursor (kl_SessionPrefix (st_layout st) @ ''*'') 200 of
        (Inl e, r1) \<Rightarrow> Some (Inl e, r\<lparr>rs_redis := r1\<rparr>)
      | (Inr (keys, nxt), r1) \<Rightarrow>
          (case find_in_keys st lower now subject email keys (r\<lparr>rs_redis := r1\<rparr>) of
             (Inr None, r2) \<Rightarrow>
               (if nxt = 0 then Some (Inr None, r2) else find_scan st lower now subject email nxt r2)
           | (res, r2) \<Rightarrow> Some (res, r2)))"

definition FindSessionBySubjectEmail :: "'r store \<Rightarrow> (string \<Rightarrow> string) \<Rightarrow> int \<Rightarrow> 'r rstate \<Rightarrow> string \<Rightarrow> string \<Rightarrow> (session option result \<times> 'r rstate) option" where
  "FindSessionBySubjectEmail st lower now r subject0 email0 =
     (let subject = TrimSpace subject0; email = TrimSpace (lower email0) in
      if subject = '''' \<or> email = '''' then Some (Inr None, r)
      else find_scan st lower now subject email 0 r)"

text \<open>Deletion counts what it deleted, also on the error path.\<close>

fun delete_in_keys :: "'r store \<Rightarrow> (string \<Rightarrow> string) \<Rightarrow> int \<Rightarrow> string \<Rightarrow> string \<Rightarrow> string list \<Rightarrow> nat \<Rightarrow> 'r rstate \<Rightarrow> (nat \<times> goerr option) \<times> 'r rstate" where
  "delete_in_keys st lower now subject email [] n r = ((n, None), r)"
| "delete_in_keys st lower now subject email (key # keys) n r =
     (case rc_Get (st_client st) (rs_redis r) key of (res, r1) \<Rightarrow>
        let r' = r\<lparr>rs_redis := r1\<rparr> in
        (case res of
           Inl e \<Rightarrow> (if e = redisNil then delete_in_keys st lower now subject email keys n r' else ((n, Some e), r'))
         | Inr data \<Rightarrow> (case js_Unmarshal (st_session_json st) data of
               Inl e \<Rightarrow> delete_in_keys st lower now subject email keys n r'
             | Inr sess \<Rightarrow>
                 (if \<not> session_matches lower now subject email sess
                  then delete_in_keys st lower now subject email keys n r'
                  else (case deleteSession st r' (s_ID sess) of
                      (Some e, r2) \<Rightarrow> ((n, Some e), r2)
                    | (None, r2) \<Rightarrow> delete_in_keys st lower now subject email keys (Suc n) r2)))))"

partial_function (option) delete_scan :: "'r store \<Rightarrow> (string \<Rightarrow> string) \<Rightarrow> int \<Rightarrow> string \<Rightarrow> string \<Rightarrow> nat \<Rightarrow> nat \<Rightarrow> 'r rstate \<Rightarrow> ((nat \<times> goerr option) \<times> 'r rstate) option" where
  "delete_scan st lower now subject email cursor n r =
     (case rc_Scan (st_client st) (rs_redis r) cursor (kl_SessionPrefix (st_layout st) @ ''*'') 200 of
        (Inl e, r1) \<Rightarrow> Some ((n, Some e), r\<lparr>rs_redis := r1\<rparr>)
      | (Inr (keys, nxt), r1) \<Rightarrow>
          (case delete_in_keys st lower now subject email keys n (r\<lparr>rs_redis := r1\<rparr>) of
             ((n', Some e), r2) \<Rightarrow> Some ((n', Some e), r2)
           | ((n', None), r2) \<Rightarrow>
               (if nxt = 0 then Some ((n', None), r2) else delete_scan st lower now subject email nxt n' r2)))"

definition DeleteSessionsBySubjectEmail :: "'r store \<Rightarrow> (string \<Rightarrow> string) \<Rightarrow> int \<Rightarrow> 'r rstate \<Rightarrow> string \<Rightarrow> string \<Rightarrow> ((nat \<times> goerr option) \<times> 'r rstate) option" where
  "DeleteSessionsBySubjectEmail st lower now r subject0 email0 =
     (let subject = TrimSpace subject0; email = TrimSpace (lower email0) in
      if subject = '''' \<or> email = '''' then Some ((0, None), r)
      else delete_scan st lower now subject email 0 0 r)"

text \<open>The interface values the store hands out.\<close>

definition SessionStore_of :: "'r store \<Rightarrow> 'r rstate session_store" where
  "SessionStore_of st = \<lparr>ss_Get = getSession st, ss_Set = setSession st, ss_Delete = deleteSession st\<rparr>"

definition PKCEStore_of :: "'r store \<Rightarrow> 'r rstate pkce_store" where
  "PKCEStore_of st = \<lparr>ps_Get = getPKCE st, ps_Set = setPKCE st, ps_Delete = deletePKCE st\<rparr>"

definition RefreshLockStore_of :: "'r store \<Rightarrow> 'r rstate lock_store" where
  "RefreshLockStore_of st = \<lparr>ls_Obtain = obtainRefreshLock st, ls_Release = releaseRefreshLock st\<rparr>"

section \<open>The contract of the server\<close>

text \<open>
  \<open>kv\<close> is the keyspace with expiry times and \<open>clk\<close> the server's clock (nanoseconds). A command
  executes on the keyspace it finds; afterwards time passes and entries whose expiry is reached are
  gone (\<open>purge\<close>). A command that reports an error may or may not have taken effect.
\<close>

type_synonym keyspace = "string \<Rightarrow> (bytes \<times> int option) option"

definition purge :: "int \<Rightarrow> keyspace \<Rightarrow> keyspace" where
  "purge t m = (\<lambda>k. case m k of
     None \<Rightarrow> None
   | Some (v, None) \<Rightarrow> Some (v, None)
   | Some (v, Some e) \<Rightarrow> (if e \<le> t then None else Some (v, Some e)))"

definition expiry :: "int \<Rightarrow> int \<Rightarrow> int option" where
  "expiry t ttl = (if ttl = 0 then None else Some (t + ttl))"

locale redis_server =
  fixes cl :: "'r redis_client"
    and kv :: "'r \<Rightarrow> keyspace"
    and clk :: "'r \<Rightarrow> int"
  assumes get_ok: "rc_Get cl r k = (Inr v, r') \<Longrightarrow> (\<exists>e. kv r k = Some (v, e)) \<and> kv r' = purge (clk r') (kv r)"
    and get_nil: "rc_Get cl r k = (Inl redisNil, r') \<Longrightarrow> kv r k = None"
    and get_err: "rc_Get cl r k = (Inl e, r') \<Longrightarrow> kv r' = purge (clk r') (kv r)"
    and set_ok: "rc_Set cl r k v ttl = (None, r') \<Longrightarrow> kv r' = purge (clk r') ((kv r)(k \<mapsto> (v, expiry (clk r) ttl)))"
    and set_err: "rc_Set cl r k v ttl = (Some e, r') \<Longrightarrow>
      kv r' = purge (clk r') (kv r) \<or> kv r' = purge (clk r') ((kv r)(k \<mapsto> (v, expiry (clk r) ttl)))"
    and del_ok: "rc_Del cl r k = (None, r') \<Longrightarrow> kv r' = purge (clk r') ((kv r)(k := None))"
    and del_err: "rc_Del cl r k = (Some e, r') \<Longrightarrow>
      kv r' = purge (clk r') (kv r) \<or> kv r' = purge (clk r') ((kv r)(k := None))"
    and nx_true: "rc_SetNX cl r k v ttl = (Inr True, r') \<Longrightarrow>
      kv r k = None \<and> kv r' = purge (clk r') ((kv r)(k \<mapsto> (v, expiry (clk r) ttl)))"
    and nx_false: "rc_SetNX cl r k v ttl = (Inr False, r') \<Longrightarrow> kv r k \<noteq> None \<and> kv r' = purge (clk r') (kv r)"
    and nxargs_ok: "rc_SetArgsNX cl r k v ttl = (Inr ''OK'', r') \<Longrightarrow>
      kv r k = None \<and> kv r' = purge (clk r') ((kv r)(k \<mapsto> (v, expiry (clk r) ttl)))"
    and nxargs_held: "kv r k \<noteq> None \<Longrightarrow> \<exists>e. fst (rc_SetArgsNX cl r k v ttl) = Inl e"
    and nx_err: "rc_SetNX cl r k v ttl = (Inl e, r') \<Longrightarrow> kv r' = purge (clk r') (kv r)
      \<or> (kv r k = None \<and> kv r' = purge (clk r') ((kv r)(k \<mapsto> (v, expiry (clk r) ttl))))"
    and nxargs_err: "rc_SetArgsNX cl r k v ttl = (Inl e, r') \<Longrightarrow> kv r' = purge (clk r') (kv r)
      \<or> (kv r k = None \<and> kv r' = purge (clk r') ((kv r)(k \<mapsto> (v, expiry (clk r) ttl))))"
    and nxargs_other: "rc_SetArgsNX cl r k v ttl = (Inr reply, r') \<Longrightarrow> reply \<noteq> ''OK'' \<Longrightarrow> kv r' = purge (clk r') (kv r)"
    and scan_kv: "rc_Scan cl r c p n = (y, r') \<Longrightarrow> kv r' = purge (clk r') (kv r)"
    and clk_mono: "clk r \<le> clk (snd (rc_Get cl r k))" "clk r \<le> clk (snd (rc_Set cl r k v ttl))"
      "clk r \<le> clk (snd (rc_Del cl r k))" "clk r \<le> clk (snd (rc_SetNX cl r k v ttl))"
      "clk r \<le> clk (snd (rc_SetArgsNX cl r k v ttl))"
begin

lemma purge_Some: "purge t m k = Some x \<Longrightarrow> m k = Some x"
  by (auto simp: purge_def split: option.splits prod.splits if_splits)

lemma purge_del [simp]: "purge t (m(k := None)) k = None"
  by (simp add: purge_def)

lemma get_abs_frame:
  assumes "rc_Get cl r k = (x, r')" and "kv r' k' = Some y"
  shows "kv r k' = Some y"
  using assms get_ok [of r k _ r'] get_err [of r k _ r'] by (cases x) (auto dest: purge_Some)

lemma set_abs_frame:
  assumes "rc_Set cl r k v ttl = (x, r')" and "kv r' k' = Some y" and "k' \<noteq> k"
  shows "kv r k' = Some y"
  using assms set_ok [of r k v ttl r'] set_err [of r k v ttl _ r'] by (cases x) (auto dest!: purge_Some)

lemma del_abs_frame:
  assumes "rc_Del cl r k = (x, r')" and "kv r' k' = Some y"
  shows "kv r k' = Some y"
  using assms del_ok [of r k r'] del_err [of r k _ r']
  by (cases x) (auto dest!: purge_Some split: if_splits)

text \<open>Once consumed, a key is refused until it expires.\<close>

lemma consumed_until_expiry:
  assumes "rc_SetNX cl r k v ttl = (Inr True, r1)" and "0 < ttl" and "clk r1 < clk r + ttl"
  shows "kv r1 k = Some (v, Some (clk r + ttl))"
  using nx_true [OF assms(1)] assms(2,3) by (simp add: purge_def expiry_def)

end

section \<open>Sequences of operations\<close>

text \<open>
  Every call below issues exactly one command, which the server executes atomically, so the calls of
  several clients interleave as one sequence of calls (\<open>run_calls\<close>).
\<close>

datatype store_call =
    GetSession string | SetSession string session int | DeleteSession string
  | GetPKCE string | SetPKCE string pkce_state int | DeletePKCE string
  | ObtainLock string int | ReleaseLock string
  | SetRevokedC string int | IsRevokedC string
  | RecordReplayC string int | ConsumeOnceC string int | CheckReplayC string

fun run_call :: "'r store \<Rightarrow> store_call \<Rightarrow> 'r rstate \<Rightarrow> 'r rstate" where
  "run_call st (GetSession i) r = snd (getSession st r i)"
| "run_call st (SetSession i s ttl) r = snd (setSession st r i s ttl)"
| "run_call st (DeleteSession i) r = snd (deleteSession st r i)"
| "run_call st (GetPKCE i) r = snd (getPKCE st r i)"
| "run_call st (SetPKCE i p ttl) r = snd (setPKCE st r i p ttl)"
| "run_call st (DeletePKCE i) r = snd (deletePKCE st r i)"
| "run_call st (ObtainLock i ttl) r = snd (obtainRefreshLock st r i ttl)"
| "run_call st (ReleaseLock i) r = snd (releaseRefreshLock st r i)"
| "run_call st (SetRevokedC i ttl) r = snd (SetRevoked st r i ttl)"
| "run_call st (IsRevokedC i) r = snd (IsRevoked st r i)"
| "run_call st (RecordReplayC k ttl) r = snd (RecordReplay st r k ttl)"
| "run_call st (ConsumeOnceC k ttl) r = snd (ConsumeOnce st r k ttl)"
| "run_call st (CheckReplayC k) r = snd (CheckReplay st r k)"

definition run_calls :: "'r store \<Rightarrow> store_call list \<Rightarrow> 'r rstate \<Rightarrow> 'r rstate" where
  "run_calls st = fold (run_call st)"

text \<open>The key a call may overwrite or delete unconditionally.\<close>

fun overwrites :: "key_layout \<Rightarrow> store_call \<Rightarrow> string option" where
  "overwrites l (SetSession i s ttl) = Some (SessionKey l i)"
| "overwrites l (DeleteSession i) = Some (SessionKey l i)"
| "overwrites l (SetPKCE i p ttl) = Some (PKCEKey l i)"
| "overwrites l (DeletePKCE i) = Some (PKCEKey l i)"
| "overwrites l (ReleaseLock i) = Some (RefreshLockKey l i)"
| "overwrites l (SetRevokedC i ttl) = Some (RevokedKey l i)"
| "overwrites l (RecordReplayC k ttl) = Some (ReplayKey l k)"
| "overwrites l _ = None"

lemma rs_redis_Op [simp]: "rs_redis (SessionStoreOp opn ok r) = rs_redis r"
  by (simp add: SessionStoreOp_def)

lemma op_redis:
  "rs_redis (snd (getSession st r i)) = snd (rc_Get (st_client st) (rs_redis r) (SessionKey (st_layout st) i))"
  "rs_redis (snd (setSession st r i s ttl)) = (case js_Marshal (st_session_json st) s of Inl _ \<Rightarrow> rs_redis r
     | Inr d \<Rightarrow> snd (rc_Set (st_client st) (rs_redis r) (SessionKey (st_layout st) i) d (ttl_ns ttl)))"
  "rs_redis (snd (deleteSession st r i)) = snd (rc_Del (st_client st) (rs_redis r) (SessionKey (st_layout st) i))"
  "rs_redis (snd (getPKCE st r i)) = snd (rc_Get (st_client st) (rs_redis r) (PKCEKey (st_layout st) i))"
  "rs_redis (snd (setPKCE st r i p ttl)) = (case js_Marshal (st_pkce_json st) p of Inl _ \<Rightarrow> rs_redis r
     | Inr d \<Rightarrow> snd (rc_Set (st_client st) (rs_redis r) (PKCEKey (st_layout st) i) d (ttl_ns ttl)))"
  "rs_redis (snd (deletePKCE st r i)) = snd (rc_Del (st_client st) (rs_redis r) (PKCEKey (st_layout st) i))"
  "rs_redis (snd (obtainRefreshLock st r i ttl)) = snd (rc_SetArgsNX (st_client st) (rs_redis r) (RefreshLockKey (st_layout st) i) ''1'' (ttl_ns ttl))"
  "rs_redis (snd (releaseRefreshLock st r i)) = snd (rc_Del (st_client st) (rs_redis r) (RefreshLockKey (st_layout st) i))"
  "rs_redis (snd (SetRevoked st r i ttl)) = snd (rc_Set (st_client st) (rs_redis r) (RevokedKey (st_layout st) i) ''1'' ttl)"
  "rs_redis (snd (IsRevoked st r i)) = snd (rc_Get (st_client st) (rs_redis r) (RevokedKey (st_layout st) i))"
  "rs_redis (snd (RecordReplay st r i ttl)) = snd (rc_Set (st_client st) (rs_redis r) (ReplayKey (st_layout st) i) ''1'' ttl)"
  "rs_redis (snd (ConsumeOnce st r i ttl)) = snd (rc_SetNX (st_client st) (rs_redis r) (ReplayKey (st_layout st) i) ''1'' ttl)"
  "rs_redis (snd (CheckReplay st r i)) = snd (rc_Get (st_client st) (rs_redis r) (ReplayKey (st_layout st) i))"
  by (simp_all add: getSession_def setSession_def deleteSession_def getPKCE_def setPKCE_def deletePKCE_def
      obtainRefreshLock_def releaseRefreshLock_def SetRevoked_def IsRevoked_def RecordReplay_def ConsumeOnce_def
      CheckReplay_def Let_def split: prod.split sum.split option.split)

context redis_server
begin

text \<open>An entry that has not expired survives a command on another key, and \<open>NX\<close> on its own.\<close>

lemma purge_keep: "m k = Some (v, Some e) \<Longrightarrow> t < e \<Longrightarrow> purge t m k = Some (v, Some e)"
  by (simp add: purge_def)

lemma get_keep: "kv r k = Some (v, Some e) \<Longrightarrow> rc_Get cl r j = (x, r') \<Longrightarrow> clk r' < e \<Longrightarrow> kv r' k = Some (v, Some e)"
  using get_ok [of r j _ r'] get_err [of r j _ r'] by (cases x) (auto simp: purge_keep)

lemma set_keep: "kv r k = Some (v, Some e) \<Longrightarrow> rc_Set cl r j w ttl = (x, r') \<Longrightarrow> j \<noteq> k \<Longrightarrow> clk r' < e \<Longrightarrow> kv r' k = Some (v, Some e)"
  using set_ok [of r j w ttl r'] set_err [of r j w ttl _ r'] by (cases x) (auto simp: purge_keep)

lemma del_keep: "kv r k = Some (v, Some e) \<Longrightarrow> rc_Del cl r j = (x, r') \<Longrightarrow> j \<noteq> k \<Longrightarrow> clk r' < e \<Longrightarrow> kv r' k = Some (v, Some e)"
  using del_ok [of r j r'] del_err [of r j _ r'] by (cases x) (auto simp: purge_keep)

lemma nx_keep: "kv r k = Some (v, Some e) \<Longrightarrow> rc_SetNX cl r j w ttl = (x, r') \<Longrightarrow> clk r' < e \<Longrightarrow> kv r' k = Some (v, Some e)"
  using nx_true [of r j w ttl r'] nx_false [of r j w ttl r'] nx_err [of r j w ttl _ r']
  by (cases x; cases "projr x") (auto intro!: purge_keep)

lemma nxargs_keep: "kv r k = Some (v, Some e) \<Longrightarrow> rc_SetArgsNX cl r j w ttl = (x, r') \<Longrightarrow> clk r' < e \<Longrightarrow> kv r' k = Some (v, Some e)"
  using nxargs_ok [of r j w ttl r'] nxargs_other [of r j w ttl _ r'] nxargs_err [of r j w ttl _ r']
  by (cases x; cases "projr x = ''OK''") (auto intro!: purge_keep)

lemmas entry_keep = get_keep set_keep del_keep nx_keep nxargs_keep

lemma run_call_clk:
  assumes "st_client st = cl"
  shows "clk (rs_redis r) \<le> clk (rs_redis (run_call st c r))"
  using assms by (cases c) (simp_all add: op_redis clk_mono split: sum.split)

lemma run_call_keep:
  assumes "st_client st = cl" and "kv (rs_redis r) k = Some (v, Some e)" and "overwrites (st_layout st) c \<noteq> Some k"
    and "clk (rs_redis (run_call st c r)) < e"
  shows "kv (rs_redis (run_call st c r)) k = Some (v, Some e)"
  using assms by (cases c) (simp_all add: op_redis entry_keep [OF _ surjective_pairing] split: sum.splits)

lemma run_calls_clk: "st_client st = cl \<Longrightarrow> clk (rs_redis r) \<le> clk (rs_redis (run_calls st cs r))"
  unfolding run_calls_def
  by (induction cs arbitrary: r) (simp, metis fold_simps(2) order_trans run_call_clk)

lemma run_calls_keep:
  assumes "st_client st = cl" and "kv (rs_redis r) k = Some (v, Some e)" and "\<forall>c \<in> set cs. overwrites (st_layout st) c \<noteq> Some k"
    and "clk (rs_redis (run_calls st cs r)) < e"
  shows "kv (rs_redis (run_calls st cs r)) k = Some (v, Some e)"
  using assms(2-)
proof (induction cs arbitrary: r)
  case (Cons c cs)
  from run_calls_clk [OF assms(1), of "run_call st c r" cs] have "clk (rs_redis (run_call st c r)) < e"
    using Cons.prems(3) by (simp add: run_calls_def)
  with Cons show ?case using run_call_keep [OF assms(1)] by (simp add: run_calls_def)
qed (simp add: run_calls_def)

end

text \<open>
  A store whose methods read, write and delete JSON values under an injective key satisfies the store
  contract on every such server.
\<close>

definition decode_reply :: "'a json_codec \<Rightarrow> bytes result \<Rightarrow> 'a option result" where
  "decode_reply js reply = (case reply of
     Inl e \<Rightarrow> (if e = redisNil then Inr None else Inl e)
   | Inr d \<Rightarrow> (case js_Unmarshal js d of Inl e \<Rightarrow> Inl e | Inr v \<Rightarrow> Inr (Some v)))"

lemma decode_reply_Some: "decode_reply js y = Inr (Some s) \<longleftrightarrow> (\<exists>d. y = Inr d \<and> js_Unmarshal js d = Inr s)"
  by (cases y) (auto simp: decode_reply_def split: sum.splits)

lemma decode_reply_None: "decode_reply js y = Inr None \<longleftrightarrow> y = Inl redisNil"
  by (cases y) (auto simp: decode_reply_def split: sum.splits)

definition stored_by :: "'a json_codec \<Rightarrow> 'a \<Rightarrow> 'a \<Rightarrow> bool" where
  "stored_by js s t \<longleftrightarrow> (\<exists>d. js_Marshal js s = Inr d \<and> js_Unmarshal js d = Inr t)"

definition value_at :: "'a json_codec \<Rightarrow> keyspace \<Rightarrow> string \<Rightarrow> 'a option" where
  "value_at js m key = (case m key of None \<Rightarrow> None
     | Some (v, _) \<Rightarrow> (case js_Unmarshal js v of Inl _ \<Rightarrow> None | Inr s \<Rightarrow> Some s))"

lemma value_at_frame: "(\<And>y. m' key = Some y \<Longrightarrow> m key = Some y) \<Longrightarrow> value_at js m' key = Some t \<Longrightarrow> value_at js m key = Some t"
  by (auto simp: value_at_def split: option.splits prod.splits)

context redis_server
begin

lemma json_store_contract:
  fixes key :: "string \<Rightarrow> string"
  assumes inj: "\<And>a b. key a = key b \<longleftrightarrow> a = b"
    and get: "\<And>r k x r'. get r k = (x, r') \<Longrightarrow> \<exists>y. rc_Get cl (rs_redis r) (key k) = (y, rs_redis r') \<and> x = decode_reply js y"
    and put: "\<And>r k s ttl e r'. put r k s ttl = (e, r') \<Longrightarrow> (\<exists>er. js_Marshal js s = Inl er \<and> e = Some er \<and> rs_redis r' = rs_redis r)
      \<or> (\<exists>d ns. js_Marshal js s = Inr d \<and> rc_Set cl (rs_redis r) (key k) d ns = (e, rs_redis r'))"
    and del: "\<And>r k e r'. del r k = (e, r') \<Longrightarrow> rc_Del cl (rs_redis r) (key k) = (e, rs_redis r')"
  shows "store_contract get put del (\<lambda>r k. value_at js (kv (rs_redis r)) (key k)) (stored_by js)"
proof
  fix r r' k s assume "get r k = (Inr (Some s), r')"
  from get [OF this] obtain d where "rc_Get cl (rs_redis r) (key k) = (Inr d, rs_redis r')" "js_Unmarshal js d = Inr s"
    by (metis decode_reply_Some)
  with get_ok [of "rs_redis r" "key k" d] show "value_at js (kv (rs_redis r)) (key k) = Some s"
    by (auto simp: value_at_def)
next
  fix r r' k assume "get r k = (Inr None, r')"
  from get [OF this] have "rc_Get cl (rs_redis r) (key k) = (Inl redisNil, rs_redis r')"
    by (metis decode_reply_None)
  from get_nil [OF this] show "value_at js (kv (rs_redis r)) (key k) = None" by (simp add: value_at_def)
next
  fix r r' k x k' t assume g: "get r k = (x, r')" and a: "value_at js (kv (rs_redis r')) (key k') = Some t"
  from get [OF g] get_abs_frame show "value_at js (kv (rs_redis r)) (key k') = Some t"
    by (blast intro: value_at_frame [OF _ a])
next
  fix r r' k s ttl t assume w: "put r k s ttl = (None, r')" and a: "value_at js (kv (rs_redis r')) (key k) = Some t"
  from put [OF w] obtain d ns where "js_Marshal js s = Inr d" "rc_Set cl (rs_redis r) (key k) d ns = (None, rs_redis r')" by auto
  with a show "stored_by js s t"
    by (auto simp: stored_by_def value_at_def dest!: set_ok purge_Some split: option.splits prod.splits sum.splits if_splits)
next
  fix r r' k s ttl e k' t
  assume w: "put r k s ttl = (e, r')" and k: "k' \<noteq> k" and a: "value_at js (kv (rs_redis r')) (key k') = Some t"
  have "kv (rs_redis r) (key k') = Some y" if "kv (rs_redis r') (key k') = Some y" for y
    using put [OF w] that k inj set_abs_frame by (metis (no_types))
  then show "value_at js (kv (rs_redis r)) (key k') = Some t" by (rule value_at_frame [OF _ a])
next
  fix r r' k assume "del r k = (None, r')"
  from del [OF this] show "value_at js (kv (rs_redis r')) (key k) = None" by (auto simp: value_at_def dest!: del_ok)
next
  fix r r' k e k' t assume d: "del r k = (e, r')" and a: "value_at js (kv (rs_redis r')) (key k') = Some t"
  from del [OF d] del_abs_frame show "value_at js (kv (rs_redis r)) (key k') = Some t"
    by (blast intro: value_at_frame [OF _ a])
qed

end

text \<open>The commands behind the session and PKCE methods.\<close>

lemma getSession_cmd: "getSession st r k = (x, r') \<Longrightarrow>
    \<exists>y. rc_Get (st_client st) (rs_redis r) (SessionKey (st_layout st) k) = (y, rs_redis r') \<and> x = decode_reply (st_session_json st) y"
  by (auto simp: getSession_def decode_reply_def Let_def SessionStoreOp_def split: prod.splits sum.splits if_splits)

lemma getPKCE_cmd: "getPKCE st r k = (x, r') \<Longrightarrow>
    \<exists>y. rc_Get (st_client st) (rs_redis r) (PKCEKey (st_layout st) k) = (y, rs_redis r') \<and> x = decode_reply (st_pkce_json st) y"
  by (auto simp: getPKCE_def decode_reply_def Let_def SessionStoreOp_def split: prod.splits sum.splits if_splits)

lemma setSession_cmd: "setSession st r k s ttl = (e, r') \<Longrightarrow>
    (\<exists>er. js_Marshal (st_session_json st) s = Inl er \<and> e = Some er \<and> rs_redis r' = rs_redis r)
    \<or> (\<exists>d ns. js_Marshal (st_session_json st) s = Inr d \<and> rc_Set (st_client st) (rs_redis r) (SessionKey (st_layout st) k) d ns = (e, rs_redis r'))"
  by (auto simp: setSession_def SessionStoreOp_def split: prod.splits sum.splits option.splits)

lemma setPKCE_cmd: "setPKCE st r k s ttl = (e, r') \<Longrightarrow>
    (\<exists>er. js_Marshal (st_pkce_json st) s = Inl er \<and> e = Some er \<and> rs_redis r' = rs_redis r)
    \<or> (\<exists>d ns. js_Marshal (st_pkce_json st) s = Inr d \<and> rc_Set (st_client st) (rs_redis r) (PKCEKey (st_layout st) k) d ns = (e, rs_redis r'))"
  by (auto simp: setPKCE_def SessionStoreOp_def split: prod.splits sum.splits option.splits)

lemma deleteSession_cmd: "deleteSession st r k = (e, r') \<Longrightarrow> rc_Del (st_client st) (rs_redis r) (SessionKey (st_layout st) k) = (e, rs_redis r')"
  by (auto simp: deleteSession_def SessionStoreOp_def split: prod.splits option.splits)

lemma deletePKCE_cmd: "deletePKCE st r k = (e, r') \<Longrightarrow> rc_Del (st_client st) (rs_redis r) (PKCEKey (st_layout st) k) = (e, rs_redis r')"
  by (auto simp: deletePKCE_def SessionStoreOp_def split: prod.splits option.splits)

locale redis_sessions = redis_server cl kv clk
  for cl :: "'r redis_client" and kv :: "'r \<Rightarrow> keyspace" and clk :: "'r \<Rightarrow> int" +
  fixes st :: "'r store"
  assumes client [simp]: "st_client st = cl"
begin

definition abs_session :: "'r rstate \<Rightarrow> string \<Rightarrow> session option" where
  "abs_session r sid = value_at (st_session_json st) (kv (rs_redis r)) (SessionKey (st_layout st) sid)"

definition abs_pkce :: "'r rstate \<Rightarrow> string \<Rightarrow> pkce_state option" where
  "abs_pkce r state = value_at (st_pkce_json st) (kv (rs_redis r)) (PKCEKey (st_layout st) state)"

sublocale store_contract "getSession st" "setSession st" "deleteSession st" abs_session "stored_by (st_session_json st)"
  unfolding abs_session_def [abs_def]
  using getSession_cmd [of st] setSession_cmd [of st] deleteSession_cmd [of st] unfolding client
  by (intro json_store_contract) (rule session_keys_inj, assumption+)

sublocale pkce: store_contract "getPKCE st" "setPKCE st" "deletePKCE st" abs_pkce "stored_by (st_pkce_json st)"
  unfolding abs_pkce_def [abs_def]
  using getPKCE_cmd [of st] setPKCE_cmd [of st] deletePKCE_cmd [of st] unfolding client
  by (intro json_store_contract) (rule session_keys_inj, assumption+)

end

section \<open>Browser sessions on Redis\<close>

context redis_sessions
begin

sublocale browser: browser_sessions "getSession st" "setSession st" "deleteSession st" abs_session "stored_by (st_session_json st)"
  "codec_Encode mac m" "codec_Decode mac m" for mac m
proof unfold_locales
  show "v \<noteq> ''''" if "codec_Encode mac m sid = Inr v" for sid v
    using that by (auto simp: codec_Encode_def sm_Encode_str)
qed

lemmas started_resolves = browser.started_session_resolves
lemmas ended_unresolvable = browser.ended_session_unresolvable

end

section \<open>A server in memory\<close>

text \<open>
  A server that meets the contract: its state is the keyspace and the clock, and every command takes one
  nanosecond. It shows that the hypotheses of the properties below can hold.
\<close>

record mem_state =
  ms_kv :: "(string \<times> bytes \<times> int option) list"
  ms_clock :: int

definition mem_kv :: "mem_state \<Rightarrow> keyspace" where
  "mem_kv r = purge (ms_clock r) (map_of (ms_kv r))"

definition mem_live :: "mem_state \<Rightarrow> string \<Rightarrow> bytes option" where
  "mem_live r k = (case map_of (ms_kv r) k of None \<Rightarrow> None
     | Some (v, e) \<Rightarrow> (case e of None \<Rightarrow> Some v | Some x \<Rightarrow> (if x \<le> ms_clock r then None else Some v)))"

definition mem_tick :: "(string \<times> bytes \<times> int option) list \<Rightarrow> mem_state \<Rightarrow> mem_state" where
  "mem_tick m r = \<lparr>ms_kv = m, ms_clock = ms_clock r + 1\<rparr>"

definition mem_put :: "mem_state \<Rightarrow> string \<Rightarrow> bytes \<Rightarrow> int \<Rightarrow> mem_state" where
  "mem_put r k v ttl = mem_tick (AList.update k (v, expiry (ms_clock r) ttl) (ms_kv r)) r"

definition mem_client :: "mem_state redis_client" where
  "mem_client = \<lparr>
     rc_Get = (\<lambda>r k. (case mem_live r k of None \<Rightarrow> Inl redisNil | Some v \<Rightarrow> Inr v, mem_tick (ms_kv r) r)),
     rc_Set = (\<lambda>r k v ttl. (None, mem_put r k v ttl)),
     rc_Del = (\<lambda>r k. (None, mem_tick (AList.delete k (ms_kv r)) r)),
     rc_SetArgsNX = (\<lambda>r k v ttl. if mem_live r k = None then (Inr ''OK'', mem_put r k v ttl) else (Inl redisNil, mem_tick (ms_kv r) r)),
     rc_SetNX = (\<lambda>r k v ttl. if mem_live r k = None then (Inr True, mem_put r k v ttl) else (Inr False, mem_tick (ms_kv r) r)),
     rc_Scan = (\<lambda>r c p n. (Inr (filter (\<lambda>k. HasPrefix k (butlast p)) (map fst (ms_kv r)), 0), mem_tick (ms_kv r) r))\<rparr>"

lemma mem_live_kv: "mem_live r k = map_option fst (mem_kv r k)"
  by (simp add: mem_live_def mem_kv_def purge_def split: option.split prod.split)

lemma purge_mono: "t \<le> t' \<Longrightarrow> purge t' (purge t m) = purge t' m"
  by (rule ext) (simp add: purge_def split: option.split)

lemma purge_upd: "t \<le> t' \<Longrightarrow> purge t' ((purge t m)(k := x)) = purge t' (m(k := x))"
  by (rule ext) (simp add: purge_def split: option.split)

lemma mem_kv_tick: "mem_kv (mem_tick (ms_kv r) r) = purge (ms_clock r + 1) (mem_kv r)"
  by (simp add: mem_kv_def mem_tick_def purge_mono)

lemma mem_kv_put: "mem_kv (mem_put r k v ttl) = purge (ms_clock r + 1) ((mem_kv r)(k \<mapsto> (v, expiry (ms_clock r) ttl)))"
  by (simp add: mem_kv_def mem_put_def mem_tick_def purge_upd update_conv')

lemma mem_kv_del: "mem_kv (mem_tick (AList.delete k (ms_kv r)) r) = purge (ms_clock r + 1) ((mem_kv r)(k := None))"
  by (simp add: mem_kv_def mem_tick_def purge_upd delete_conv')

lemma snd_tick [simp]: "ms_clock (mem_tick m r) = ms_clock r + 1" "ms_clock (mem_put r k v ttl) = ms_clock r + 1"
  by (simp_all add: mem_tick_def mem_put_def)

interpretation mem: redis_server mem_client mem_kv ms_clock
  by unfold_locales
    (auto simp: mem_client_def mem_live_kv mem_kv_tick mem_kv_put mem_kv_del split: option.splits if_splits)

definition sample_store :: "session json_codec \<Rightarrow> mem_state store" where
  "sample_store j = \<lparr>st_client = mem_client, st_layout = DefaultKeyLayout, st_session_json = j,
     st_pkce_json = \<lparr>js_Marshal = (\<lambda>p. Inl (Err ''json'')), js_Unmarshal = (\<lambda>d. Inl (Err ''json''))\<rparr>\<rparr>"

definition sample_json :: "session json_codec" where
  "sample_json = \<lparr>js_Marshal = (\<lambda>s. if s = sample_session then Inr ''{}'' else Inl (Err ''json'')),
     js_Unmarshal = (\<lambda>d. if d = ''{}'' then Inr sample_session else Inl (Err ''json''))\<rparr>"

definition sample_rstate :: "mem_state rstate" where
  "sample_rstate = \<lparr>rs_redis = \<lparr>ms_kv = [], ms_clock = 0\<rparr>, rs_metrics = []\<rparr>"

interpretation mem_store: redis_sessions mem_client mem_kv ms_clock "sample_store j" for j
  by unfold_locales (simp add: sample_store_def)

section \<open>Properties\<close>

text \<open>No call overwrites a replay or lock entry but the ones for the same key.\<close>

lemma overwrites_replay:
  "overwrites DefaultKeyLayout c = Some (ReplayKey DefaultKeyLayout k) \<longleftrightarrow> (\<exists>t. c = RecordReplayC k t)"
  by (cases c) (auto simp: SessionKey_def PKCEKey_def RefreshLockKey_def RevokedKey_def ReplayKey_def DefaultKeyLayout_def)

lemma overwrites_lock:
  "overwrites DefaultKeyLayout c = Some (RefreshLockKey DefaultKeyLayout i) \<longleftrightarrow> c = ReleaseLock i"
  by (cases c) (auto simp: SessionKey_def PKCEKey_def RefreshLockKey_def RevokedKey_def ReplayKey_def DefaultKeyLayout_def)

text \<open>A consumed key is refused, and known to the replay check, as long as its entry lives.\<close>

lemma consumed_refused:
  assumes "redis_server (st_client st) kv clk" and "st_layout st = DefaultKeyLayout"
    and "ConsumeOnce st r key ttl = (Inr True, r1)" and "0 < ttl" and "\<forall>c \<in> set cs. \<forall>t. c \<noteq> RecordReplayC key t"
    and "clk (rs_redis (run_calls st cs r1)) < clk (rs_redis r) + ttl"
  shows "fst (ConsumeOnce st (run_calls st cs r1) key ttl') \<noteq> Inr True
    \<and> fst (CheckReplay st (run_calls st cs r1) key) \<noteq> Inr False"
proof -
  let ?k = "ReplayKey (st_layout st) key" and ?r2 = "run_calls st cs r1"
  have nx: "rc_SetNX (st_client st) (rs_redis r) ?k ''1'' ttl = (Inr True, rs_redis r1)"
    using assms(3) by (auto simp: ConsumeOnce_def split: prod.splits)
  have "clk (rs_redis r1) < clk (rs_redis r) + ttl"
    using redis_server.run_calls_clk [OF assms(1) refl, of r1 cs] assms(6) by linarith
  from redis_server.consumed_until_expiry [OF assms(1) nx assms(4) this]
  have "kv (rs_redis ?r2) ?k = Some (''1'', Some (clk (rs_redis r) + ttl))"
    by (rule redis_server.run_calls_keep [OF assms(1) refl _ _ assms(6)])
      (use assms(2,5) overwrites_replay in auto)
  then show ?thesis
    using redis_server.nx_true [OF assms(1), of "rs_redis ?r2" ?k "''1''" ttl'] redis_server.get_nil [OF assms(1), of "rs_redis ?r2" ?k]
    by (auto simp: ConsumeOnce_def CheckReplay_def split: prod.splits sum.splits if_splits)
qed



text \<open>
  Mutual exclusion of token refresh: after \<open>obtainRefreshLock\<close> has succeeded, no interleaving of store
  operations lets another call obtain the lock of that session before it is released or its TTL is over;
  what the other call gets is an error (the client reports the failed \<open>NX\<close> as \<open>redis.Nil\<close>), not the
  result \<open>false\<close> that the interface describes.
\<close>

theorem refresh_lock_exclusive:
  assumes "redis_server (st_client st) kv clk" and "st_layout st = DefaultKeyLayout"
    and "obtainRefreshLock st r i ttl = (Inr True, r1)" and "0 < ttl_ns ttl" and "ReleaseLock i \<notin> set cs"
    and "clk (rs_redis (run_calls st cs r1)) < clk (rs_redis r) + ttl_ns ttl"
  shows "\<exists>e. fst (obtainRefreshLock st (run_calls st cs r1) i ttl') = Inl e"
proof -
  let ?k = "RefreshLockKey (st_layout st) i" and ?r2 = "run_calls st cs r1"
  have nx: "rc_SetArgsNX (st_client st) (rs_redis r) ?k ''1'' (ttl_ns ttl) = (Inr ''OK'', rs_redis r1)"
    using assms(3) by (auto simp: obtainRefreshLock_def Let_def split: prod.splits sum.splits)
  have "clk (rs_redis r1) < clk (rs_redis r) + ttl_ns ttl"
    using redis_server.run_calls_clk [OF assms(1) refl, of r1 cs] assms(6) by linarith
  with redis_server.nxargs_ok [OF assms(1) nx] assms(4)
  have "kv (rs_redis r1) ?k = Some (''1'', Some (clk (rs_redis r) + ttl_ns ttl))"
    by (simp add: purge_def expiry_def)
  then have "kv (rs_redis ?r2) ?k = Some (''1'', Some (clk (rs_redis r) + ttl_ns ttl))"
    by (rule redis_server.run_calls_keep [OF assms(1) refl _ _ assms(6)])
      (use assms(2,5) overwrites_lock in auto)
  then show ?thesis
    using redis_server.nxargs_held [OF assms(1), of "rs_redis ?r2" ?k "''1''" "ttl_ns ttl'"]
    by (auto simp: obtainRefreshLock_def split: prod.splits sum.splits)
qed

theorem refresh_lock_exclusive_witness:
  "(let st = sample_store sample_json; r1 = snd (obtainRefreshLock st sample_rstate ''s1'' 15) in
    fst (obtainRefreshLock st sample_rstate ''s1'' 15) = Inr True
    \<and> (\<exists>e. fst (obtainRefreshLock st (run_calls st [GetSession ''s1'', ReleaseLock ''s2''] r1) ''s1'' 15) = Inl e))"
proof -
  let ?st = "sample_store sample_json" and ?cs = "[GetSession ''s1'', ReleaseLock ''s2'']"
  let ?r1 = "snd (obtainRefreshLock ?st sample_rstate ''s1'' 15)"
  have f: "fst (obtainRefreshLock ?st sample_rstate ''s1'' 15) = Inr True" by code_simp
  then have c: "obtainRefreshLock ?st sample_rstate ''s1'' 15 = (Inr True, ?r1)" by (metis prod.collapse)
  have ns: "ttl_ns 15 = 15000000000" by code_simp
  have t: "ms_clock (rs_redis (run_calls ?st ?cs ?r1)) < ms_clock (rs_redis sample_rstate) + ttl_ns 15" by code_simp
  have "redis_server (st_client ?st) mem_kv ms_clock" using mem.redis_server_axioms by (simp add: sample_store_def)
  from refresh_lock_exclusive [OF this _ c _ _ t, of 15] f ns show ?thesis
    by (simp add: Let_def) (simp add: sample_store_def)
qed


definition sample_bm :: "mem_state rstate browser_manager" where
  "sample_bm = \<lparr>bm_store = SessionStore_of (sample_store sample_json),
     bm_encode = codec_Encode (\<lambda>k d. k @ d) (NewSignedManager ''k''), bm_decode = codec_Decode (\<lambda>k d. k @ d) (NewSignedManager ''k''),
     bm_config = DefaultSessionCookieConfig ''sid''\<rparr>"


section \<open>Search by subject and email\<close>

declare find_scan.simps [code] delete_scan.simps [code]

text \<open>
  The scan loops follow the server's cursor. They return when every nonzero cursor is of smaller rank than the one
  it answers and reads and deletions do not raise the rank, which a bounded keyspace gives.
\<close>

definition scan_ends :: "'r redis_client \<Rightarrow> ('r \<Rightarrow> nat \<Rightarrow> nat) \<Rightarrow> bool" where
  "scan_ends cl rank \<longleftrightarrow>
     (\<forall>r c p n ks nxt r'. rc_Scan cl r c p n = (Inr (ks, nxt), r') \<longrightarrow> nxt = 0 \<or> rank r' nxt < rank r c)
     \<and> (\<forall>r k c. rank (snd (rc_Get cl r k)) c \<le> rank r c) \<and> (\<forall>r k c. rank (snd (rc_Del cl r k)) c \<le> rank r c)"

lemma find_in_keys_rank:
  assumes "scan_ends (st_client st) rank"
  shows "rank (rs_redis (snd (find_in_keys st lower now subject email ks r))) c \<le> rank (rs_redis r) c"
proof (induction ks arbitrary: r)
  case (Cons k ks)
  have "rank (snd (rc_Get (st_client st) (rs_redis r) k)) c \<le> rank (rs_redis r) c"
    using assms unfolding scan_ends_def by blast
  moreover obtain res r1 where "rc_Get (st_client st) (rs_redis r) k = (res, r1)" by fastforce
  ultimately show ?case using Cons.IH [of "r\<lparr>rs_redis := r1\<rparr>"]
    by (auto simp: Let_def split: sum.split intro: order_trans)
qed simp

lemma delete_in_keys_rank:
  assumes "scan_ends (st_client st) rank"
  shows "rank (rs_redis (snd (delete_in_keys st lower now subject email ks n r))) c \<le> rank (rs_redis r) c"
proof (induction ks arbitrary: n r)
  case (Cons k ks)
  obtain res r1 where g: "rc_Get (st_client st) (rs_redis r) k = (res, r1)" by fastforce
  have 1: "rank r1 c \<le> rank (rs_redis r) c"
    using assms g unfolding scan_ends_def by (metis snd_conv)
  have 2: "rank (rs_redis (snd (deleteSession st (r\<lparr>rs_redis := r1\<rparr>) i))) c \<le> rank (rs_redis r) c" for i
    using assms 1 unfolding scan_ends_def op_redis by (metis order_trans rstate.simps(1) rstate.update_convs(1) rstate.surjective)
  show ?case
  proof (cases res)
    case (Inl er)
    with g 1 Cons.IH [of n "r\<lparr>rs_redis := r1\<rparr>"] show ?thesis by (auto simp: Let_def intro: order_trans)
  next
    case (Inr d)
    have 3: "rank (rs_redis (snd (delete_in_keys st lower now subject email ks m r2))) c \<le> rank (rs_redis r) c"
      if "deleteSession st (r\<lparr>rs_redis := r1\<rparr>) i = (x, r2)" for m r2 i x
      using Cons.IH [of m r2] 2 [of i] that by auto
    from Inr g 1 2 Cons.IH [of n "r\<lparr>rs_redis := r1\<rparr>"] show ?thesis
      by (auto simp: Let_def split: sum.split prod.split option.split intro: order_trans 3) (metis 2 snd_conv)
  qed
qed simp

lemma find_in_keys_sound:
  "find_in_keys st lower now subject email ks r = (Inr (Some sess), r') \<Longrightarrow> session_matches lower now subject email sess"
  by (induction ks arbitrary: r) (auto simp: Let_def split: prod.splits sum.splits if_splits)

lemma find_scan_returns:
  assumes "scan_ends (st_client st) rank"
  shows "\<exists>res r'. find_scan st lower now subject email cursor r = Some (res, r')
    \<and> (\<forall>sess. res = Inr (Some sess) \<longrightarrow> session_matches lower now subject email sess)"
proof (induction "rank (rs_redis r) cursor" arbitrary: cursor r rule: less_induct)
  case less
  obtain y r1 where s: "rc_Scan (st_client st) (rs_redis r) cursor (kl_SessionPrefix (st_layout st) @ ''*'') 200 = (y, r1)" by fastforce
  show ?case
  proof (cases y)
    case (Inl er)
    with s show ?thesis by (subst find_scan.simps) simp
  next
    case (Inr q)
    obtain ks nxt where q: "y = Inr (ks, nxt)" using Inr by (cases q) simp
    obtain z r2 where f: "find_in_keys st lower now subject email ks (r\<lparr>rs_redis := r1\<rparr>) = (z, r2)" by fastforce
    have "nxt = 0 \<or> rank (rs_redis r2) nxt < rank (rs_redis r) cursor"
      using assms s q find_in_keys_rank [OF assms, of lower now subject email ks "r\<lparr>rs_redis := r1\<rparr>" nxt] f
      unfolding scan_ends_def by (metis order.strict_trans1 rstate.select_convs(1) rstate.surjective rstate.update_convs(1) snd_conv)
    then show ?thesis
    proof
      assume "nxt = 0"
      with s q f show ?thesis
        by (subst find_scan.simps) (auto split: sum.split option.split dest: find_in_keys_sound)
    next
      assume "rank (rs_redis r2) nxt < rank (rs_redis r) cursor"
      from less [OF this] s q f show ?thesis
        by (subst find_scan.simps) (auto split: sum.split option.split dest: find_in_keys_sound)
    qed
  qed
qed

lemma delete_scan_returns:
  assumes "scan_ends (st_client st) rank"
  shows "\<exists>res r'. delete_scan st lower now subject email cursor n r = Some (res, r')"
proof (induction "rank (rs_redis r) cursor" arbitrary: cursor n r rule: less_induct)
  case less
  obtain y r1 where s: "rc_Scan (st_client st) (rs_redis r) cursor (kl_SessionPrefix (st_layout st) @ ''*'') 200 = (y, r1)" by fastforce
  show ?case
  proof (cases y)
    case (Inl er)
    with s show ?thesis by (subst delete_scan.simps) simp
  next
    case (Inr q)
    obtain ks nxt where q: "y = Inr (ks, nxt)" using Inr by (cases q) simp
    obtain m z r2 where f: "delete_in_keys st lower now subject email ks n (r\<lparr>rs_redis := r1\<rparr>) = ((m, z), r2)" by (metis prod.collapse)
    have "nxt = 0 \<or> rank (rs_redis r2) nxt < rank (rs_redis r) cursor"
      using assms s q delete_in_keys_rank [OF assms, of lower now subject email ks n "r\<lparr>rs_redis := r1\<rparr>" nxt] f
      unfolding scan_ends_def by (metis order.strict_trans1 rstate.select_convs(1) rstate.surjective rstate.update_convs(1) snd_conv)
    with less [of r2 nxt m] s q f show ?thesis
      by (subst delete_scan.simps) (auto split: option.split)
  qed
qed


definition alice_session :: session where
  "alice_session = sample_session\<lparr>s_Claims := Some [(''sub'', AStr ''u1''), (''email'', AStr ''A@x.org'')]\<rparr>"

definition alice_store :: "mem_state store" where
  "alice_store = sample_store \<lparr>js_Marshal = (\<lambda>s. Inl (Err ''json'')), js_Unmarshal = (\<lambda>d. Inr alice_session)\<rparr>"

definition alice_state :: "mem_state rstate" where
  "alice_state = \<lparr>rs_redis = \<lparr>ms_kv = [(''auth:session:s1'', ''{}'', None)], ms_clock = 0\<rparr>, rs_metrics = []\<rparr>"


end
