(* ===== verification/Handoff.thy ===== *)
theory Handoff
  imports Redis_Store
begin

text \<open>
  \<open>internal/auth/handoff/handoff.go\<close>: signed one-time tickets that hand a session over to a browser.
  HMAC-SHA256 and the JSON codec of a ticket are arguments. A clock reading is a time in nanoseconds
  since the epoch; each call of the clock is an argument of its own.
\<close>

section \<open>Tickets\<close>

record ticket =
  tk_ConnectorID :: string
  tk_AuthoritativeID :: string
  tk_SessionRef :: string
  tk_IssuedAt :: int
  tk_ExpiresAt :: int
  tk_JTI :: string

type_synonym 'r once_store = "'r \<Rightarrow> string \<Rightarrow> int \<Rightarrow> bool result \<times> 'r"

record 'r issuer =
  is_secret :: bytes
  is_ttl :: int
  is_once :: "'r once_store option"

text \<open>Durations are \<open>int64\<close> nanoseconds; \<open>time.Until\<close> saturates.\<close>

definition DefaultTTL :: int where
  "DefaultTTL = 120 * second_ns"

definition Unix :: "int \<Rightarrow> int" where
  "Unix t = t div second_ns"

definition Until :: "int \<Rightarrow> int \<Rightarrow> int" where
  "Until t now = max (- (2 ^ 63)) (min (2 ^ 63 - 1) (t - now))"

definition NewIssuer :: "string \<Rightarrow> int \<Rightarrow> 'r once_store option \<Rightarrow> 'r issuer" where
  "NewIssuer secret ttl once = \<lparr>is_secret = secret, is_ttl = (if ttl \<le> 0 then DefaultTTL else ttl), is_once = once\<rparr>"

definition handoff_sign :: "macfun \<Rightarrow> 'r issuer \<Rightarrow> bytes \<Rightarrow> bytes" where
  "handoff_sign mac i data = mac (is_secret i) data"

definition Issue :: "macfun \<Rightarrow> ticket json_codec \<Rightarrow> 'r issuer \<Rightarrow> int \<Rightarrow> string \<Rightarrow> string \<Rightarrow> string \<Rightarrow> string \<Rightarrow> string result" where
  "Issue mac js i now connectorID authID sessionRef jti =
     (if sessionRef = '''' \<or> jti = '''' then Inl (Err ''handoff: session ref and jti are required'')
      else (let t = \<lparr>tk_ConnectorID = connectorID, tk_AuthoritativeID = authID, tk_SessionRef = sessionRef,
                     tk_IssuedAt = Unix now, tk_ExpiresAt = Unix (now + is_ttl i), tk_JTI = jti\<rparr>
            in case js_Marshal js t of
                 Inl e \<Rightarrow> Inl e
               | Inr payloadJSON \<Rightarrow>
                   (let payload = EncodeToString URLEnc payloadJSON; sig = handoff_sign mac i payload
                    in Inr (payload @ ''.'' @ EncodeToString URLEnc sig))))"

definition handoff_verify :: "macfun \<Rightarrow> ticket json_codec \<Rightarrow> 'r issuer \<Rightarrow> int \<Rightarrow> string \<Rightarrow> ticket result" where
  "handoff_verify mac js i now tick = (case SplitN2 (CHR ''.'') tick of
     None \<Rightarrow> Inl (Err ''handoff: malformed ticket'')
   | Some (payload, sigB64) \<Rightarrow> (case DecodeString URLEnc sigB64 of
       None \<Rightarrow> Inl (Err ''handoff: bad signature encoding'')
     | Some sig \<Rightarrow>
         (if sig \<noteq> handoff_sign mac i payload then Inl (Err ''handoff: invalid signature'')
          else (case DecodeString URLEnc payload of
              None \<Rightarrow> Inl (Err ''handoff: bad payload encoding'')
            | Some raw \<Rightarrow> (case js_Unmarshal js raw of
                Inl e \<Rightarrow> Inl (Err ''handoff: bad payload'')
              | Inr t \<Rightarrow> (if tk_ExpiresAt t < Unix now then Inl (Err ''handoff: ticket expired'') else Inr t))))))"

definition replay_ttl :: "ticket \<Rightarrow> int \<Rightarrow> int" where
  "replay_ttl t now =
     (let ttl = wrap64 (Until (tk_ExpiresAt t * second_ns) now + second_ns) in if ttl \<le> 0 then second_ns else ttl)"

definition Redeem :: "macfun \<Rightarrow> ticket json_codec \<Rightarrow> 'r issuer \<Rightarrow> int \<Rightarrow> int \<Rightarrow> 'r \<Rightarrow> string \<Rightarrow> ticket result \<times> 'r" where
  "Redeem mac js i now1 now2 r tick = (case handoff_verify mac js i now1 tick of
     Inl e \<Rightarrow> (Inl e, r)
   | Inr t \<Rightarrow> (case is_once i of
       None \<Rightarrow> (Inl (Err ''handoff: one-time store not configured''), r)
     | Some consume \<Rightarrow> (case consume r (''handoff:'' @ tk_JTI t) (replay_ttl t now2) of
         (Inl e, r1) \<Rightarrow> (Inl (Wrap ''handoff: replay check failed: '' e), r1)
       | (Inr False, r1) \<Rightarrow> (Inl (Err ''handoff: ticket already redeemed''), r1)
       | (Inr True, r1) \<Rightarrow> (Inr t, r1))))"

section \<open>Lemmas\<close>

lemma Unix_le_iff: "Unix now \<le> e \<longleftrightarrow> now < (e + 1) * second_ns"
proof -
  define m where "m = now mod 1000000000"
  have "now = Unix now * 1000000000 + m" "0 \<le> m" "m < 1000000000" by (simp_all add: Unix_def second_ns_def m_def)
  then show ?thesis unfolding second_ns_def distrib_right mult_1_left by (intro iffI) linarith+
qed

lemma handoff_verify_Inr:
  "handoff_verify mac js i now tick = Inr t \<longleftrightarrow>
     (\<exists>payload sigB64 raw. tick = payload @ CHR ''.'' # sigB64 \<and> CHR ''.'' \<notin> set payload
        \<and> DecodeString URLEnc sigB64 = Some (mac (is_secret i) payload)
        \<and> DecodeString URLEnc payload = Some raw \<and> js_Unmarshal js raw = Inr t \<and> Unix now \<le> tk_ExpiresAt t)"
proof
  assume "handoff_verify mac js i now tick = Inr t"
  then show "\<exists>payload sigB64 raw. tick = payload @ CHR ''.'' # sigB64 \<and> CHR ''.'' \<notin> set payload
        \<and> DecodeString URLEnc sigB64 = Some (mac (is_secret i) payload)
        \<and> DecodeString URLEnc payload = Some raw \<and> js_Unmarshal js raw = Inr t \<and> Unix now \<le> tk_ExpiresAt t"
    by (auto simp: handoff_verify_def handoff_sign_def not_less
        split: option.splits sum.splits if_splits) (metis SplitN2_Some)
qed (auto simp: handoff_verify_def handoff_sign_def)

lemma Redeem_Inr:
  assumes "Redeem mac js i now1 now2 r tick = (Inr t, r1)"
  obtains consume where "handoff_verify mac js i now1 tick = Inr t" and "is_once i = Some consume"
    and "consume r (''handoff:'' @ tk_JTI t) (replay_ttl t now2) = (Inr True, r1)"
  using assms by (auto simp: Redeem_def split: sum.splits option.splits prod.splits bool.splits)

text \<open>The replay entry of a ticket outlives the ticket, unless the saturation of \<open>time.Until\<close> is reached.\<close>

lemma replay_ttl_pos: "0 < replay_ttl t now"
  by (simp add: replay_ttl_def Let_def second_ns_def)

lemma replay_ttl_exact:
  assumes "Unix now \<le> tk_ExpiresAt t" and "tk_ExpiresAt t * second_ns - now < 2 ^ 63 - second_ns"
  shows "replay_ttl t now = (tk_ExpiresAt t + 1) * second_ns - now"
proof -
  let ?d = "tk_ExpiresAt t * second_ns - now"
  have d: "- second_ns < ?d" using assms(1) by (simp add: Unix_le_iff distrib_right)
  then have u: "Until (tk_ExpiresAt t * second_ns) now = ?d"
    using assms(2) by (simp add: Until_def second_ns_def)
  have "wrap64 (?d + second_ns) = ?d + second_ns"
    using d assms(2) by (intro wrap64_id) (simp add: in_int64_def second_ns_def)
  with u d show ?thesis by (simp add: replay_ttl_def distrib_right)
qed

section \<open>Properties\<close>

text \<open>
  C15. A redeemed ticket is authentic: \<open>Redeem\<close> returns a ticket only for a string whose signature
  is the MAC of its payload under the issuer's secret, whose payload decodes to the ticket, that is
  not expired at the time of the check, and whose id the one-time store reported as unused; without a
  one-time store nothing is redeemed, and on a store error neither.
\<close>

theorem handoff_redeem_authentic:
  assumes "Redeem mac js i now1 now2 r tick = (Inr t, r1)"
  shows "\<exists>payload sigB64 raw consume. tick = payload @ ''.'' @ sigB64 \<and> DecodeString URLEnc sigB64 = Some (mac (is_secret i) payload)
    \<and> DecodeString URLEnc payload = Some raw \<and> js_Unmarshal js raw = Inr t \<and> now1 < (tk_ExpiresAt t + 1) * second_ns
    \<and> is_once i = Some consume \<and> consume r (''handoff:'' @ tk_JTI t) (replay_ttl t now2) = (Inr True, r1)"
proof -
  obtain consume where "handoff_verify mac js i now1 tick = Inr t" and "is_once i = Some consume"
    and "consume r (''handoff:'' @ tk_JTI t) (replay_ttl t now2) = (Inr True, r1)"
    using assms by (rule Redeem_Inr)
  then show ?thesis unfolding handoff_verify_Inr Unix_le_iff by force
qed

definition sample_ticket :: ticket where
  "sample_ticket = \<lparr>tk_ConnectorID = ''tg'', tk_AuthoritativeID = ''555'', tk_SessionRef = ''s1'', tk_IssuedAt = 1000,
     tk_ExpiresAt = 1120, tk_JTI = ''j1''\<rparr>"

definition sample_ticket_json :: "ticket json_codec" where
  "sample_ticket_json = \<lparr>js_Marshal = (\<lambda>t. if t = sample_ticket then Inr ''{}'' else Inl (Err ''json'')),
     js_Unmarshal = (\<lambda>d. if d = ''{}'' then Inr sample_ticket else Inl (Err ''json''))\<rparr>"

definition sample_issuer :: "mem_state rstate issuer" where
  "sample_issuer = NewIssuer ''secret'' 0 (Some (ConsumeOnce (sample_store sample_json)))"

abbreviation sample_tick :: string where
  "sample_tick \<equiv> projr (Issue (\<lambda>k d. k @ d) sample_ticket_json sample_issuer 1000000000000 ''tg'' ''555'' ''s1'' ''j1'')"

lemma sample_redeem:
  "Redeem (\<lambda>k d. k @ d) sample_ticket_json sample_issuer 1050000000000 1050000000005 sample_rstate sample_tick
     = (Inr sample_ticket, snd (ConsumeOnce (sample_store sample_json) sample_rstate ''handoff:j1'' 70999999995))"
  by code_simp

theorem handoff_redeem_authentic_witness:
  "fst (Redeem (\<lambda>k d. k @ d) sample_ticket_json sample_issuer 1050000000000 1050000000005 sample_rstate sample_tick) = Inr sample_ticket
    \<and> (\<exists>payload sigB64. sample_tick = payload @ ''.'' @ sigB64 \<and> DecodeString URLEnc sigB64 = Some (''secret'' @ payload))"
proof -
  have "is_secret sample_issuer = ''secret''" by (simp add: sample_issuer_def NewIssuer_def)
  with handoff_redeem_authentic [OF sample_redeem] show ?thesis
    unfolding sample_redeem by auto
qed



text \<open>
  C39. Round trip: a ticket that \<open>Issue\<close> mints, redeemed by the same issuer before its expiry for the
  first time, gives the connector, identity and session it was issued for. The JSON codec is assumed
  to read back the ticket it has written.
\<close>

theorem handoff_roundtrip:
  assumes "Issue mac js i now connectorID authID sessionRef jti = Inr tick"
    and "\<And>t d. js_Marshal js t = Inr d \<Longrightarrow> js_Unmarshal js d = Inr t"
    and "Unix now1 \<le> Unix (now + is_ttl i)" and "is_once i = Some consume"
    and "\<And>ttl. fst (consume r (''handoff:'' @ jti) ttl) = Inr True"
  shows "\<exists>t r1. Redeem mac js i now1 now2 r tick = (Inr t, r1) \<and> tk_ConnectorID t = connectorID
    \<and> tk_AuthoritativeID t = authID \<and> tk_SessionRef t = sessionRef \<and> tk_JTI t = jti"
proof -
  let ?t = "\<lparr>tk_ConnectorID = connectorID, tk_AuthoritativeID = authID, tk_SessionRef = sessionRef,
    tk_IssuedAt = Unix now, tk_ExpiresAt = Unix (now + is_ttl i), tk_JTI = jti\<rparr>"
  from assms(1) obtain d where d: "js_Marshal js ?t = Inr d"
    and tick: "tick = EncodeToString URLEnc d @ CHR ''.'' # EncodeToString URLEnc (mac (is_secret i) (EncodeToString URLEnc d))"
    by (auto simp: Issue_def Let_def handoff_sign_def split: if_splits sum.splits)
  from tick assms(2) [OF d] assms(3) have "handoff_verify mac js i now1 tick = Inr ?t"
    by (simp add: handoff_verify_def handoff_sign_def)
  moreover obtain r1 where "consume r (''handoff:'' @ jti) (replay_ttl ?t now2) = (Inr True, r1)"
    using assms(5) by (metis prod.collapse)
  ultimately have "Redeem mac js i now1 now2 r tick = (Inr ?t, r1)" using assms(4) by (simp add: Redeem_def)
  then show ?thesis by auto
qed

theorem handoff_roundtrip_witness:
  "\<exists>tick t r1. Issue (\<lambda>k d. k @ d) sample_ticket_json sample_issuer 1000000000000 ''tg'' ''555'' ''s1'' ''j1'' = Inr tick
    \<and> Redeem (\<lambda>k d. k @ d) sample_ticket_json sample_issuer 1050000000000 1050000000005 sample_rstate tick = (Inr t, r1) \<and> tk_SessionRef t = ''s1''"
proof -
  have i: "Issue (\<lambda>k d. k @ d) sample_ticket_json sample_issuer 1000000000000 ''tg'' ''555'' ''s1'' ''j1'' = Inr sample_tick" by code_simp
  have o1: "is_once sample_issuer = Some (ConsumeOnce (sample_store sample_json))" "is_ttl sample_issuer = DefaultTTL"
    by (simp_all add: sample_issuer_def NewIssuer_def)
  have c: "fst (ConsumeOnce (sample_store sample_json) sample_rstate (''handoff:'' @ ''j1'') ttl) = Inr True" for ttl
    by (simp add: ConsumeOnce_def sample_store_def mem_client_def mem_live_def sample_rstate_def)
  have j: "js_Unmarshal sample_ticket_json d = Inr t" if "js_Marshal sample_ticket_json t = Inr d" for t d
    using that by (auto simp: sample_ticket_json_def split: if_splits)
  have "Unix 1050000000000 \<le> Unix (1000000000000 + is_ttl sample_issuer)" by code_simp
  from handoff_roundtrip [OF i j this o1(1) c] i show ?thesis by blast
qed

text \<open>
  Tickets and session cookies carry no label of their purpose: under the same secret a ticket verifies as
  a session cookie, whose session id is the JSON text of the ticket.
\<close>

lemma ticket_verifies_as_cookie:
  assumes "Issue mac js i now connectorID authID sessionRef jti = Inr tick"
  shows "\<exists>d. sm_Decode mac (NewSignedManager (is_secret i)) tick = Inr d"
proof -
  from assms obtain d where
    "tick = EncodeToString URLEnc d @ CHR ''.'' # EncodeToString URLEnc (mac (is_secret i) (EncodeToString URLEnc d))"
    by (auto simp: Issue_def Let_def handoff_sign_def split: if_splits sum.splits)
  then have "sm_Encode mac (NewSignedManager (is_secret i)) (AStr d) = Inr tick"
    by (simp add: sm_Encode_str signedSep_def NewSignedManager_def)
  then show ?thesis using manager.dec_enc by blast
qed

end
