(* ===== verification/Sdk.thy ===== *)
theory Sdk
  imports Token Session
begin

text \<open>
  \<open>pkg/sdk/context.go\<close> and the response types of \<open>pkg/auth/session.go\<close>: the shared auth context and the user
  object that \<open>/session\<close> and \<open>/me\<close> return.

  \<open>structpb.NewStruct\<close> is an argument: it fails on values that protobuf cannot represent, and its result is
  represented by the map that \<open>AsMap\<close> gives back.
\<close>

section \<open>Data\<close>

record session_user =
  su_Sub :: string
  su_Email :: string
  su_PreferredUsername :: string
  su_Name :: string
  su_Roles :: "string list"
  su_Groups :: "string list"
  su_IsAdmin :: bool
  su_TenantContext :: "gany gomap"
  su_Claims :: "gany gomap"

record session_response =
  sr_IsAuthenticated :: bool
  sr_User :: "session_user option"
  sr_SetCookie :: string

record proto_principal =
  pp_Subject :: string
  pp_Scopes :: "string list"
  pp_Roles :: "string list"
  pp_Claims :: "gany gomap"
  pp_TenantContext :: "gany gomap"
  pp_AccessToken :: string
  pp_ExpiresAt :: int

record proto_session =
  px_Id :: string
  px_AccessToken :: string
  px_RefreshToken :: string
  px_IdToken :: string
  px_ExpiresAt :: int
  px_Claims :: "gany gomap"
  px_TenantContext :: "gany gomap"

record auth_context =
  ax_Principal :: "proto_principal option"
  ax_Session :: "proto_session option"

type_synonym new_struct = "gany gomap \<Rightarrow> gany gomap result"

section \<open>Claims\<close>

definition cloneMap :: "gany gomap option \<Rightarrow> gany gomap" where
  "cloneMap m = (case m of None \<Rightarrow> [] | Some m' \<Rightarrow> m')"

definition stringFromMap :: "gany gomap \<Rightarrow> string \<Rightarrow> string" where
  "stringFromMap m key = str_or_empty (any_get m key)"

definition stringsFromAny :: "string list \<Rightarrow> string list" where
  "stringsFromAny values = filter (\<lambda>v. v \<noteq> '''') values"

fun stringSliceFromValue :: "gany \<Rightarrow> string list" where
  "stringSliceFromValue (AStrs values) = values"
| "stringSliceFromValue (AList values) = filter (\<lambda>s. s \<noteq> '''') (strs_of values)"
| "stringSliceFromValue _ = []"

text \<open>\<open>strings.Fields\<close>: the maximal runs without white space.\<close>

function fields_from :: "string \<Rightarrow> string \<Rightarrow> string list" where
  "fields_from acc s =
     (if s = [] then (if acc = [] then [] else [acc])
      else if 0 < lead_space s then (if acc = [] then [] else [acc]) @ fields_from [] (drop (lead_space s) s)
      else fields_from (acc @ [hd s]) (tl s))"
  by pat_completeness auto
termination
  by (relation "measure (length \<circ> snd)") auto

declare fields_from.simps [simp del]

definition Fields :: "string \<Rightarrow> string list" where
  "Fields s = fields_from [] s"

definition scopesFromClaims :: "gany gomap \<Rightarrow> string list" where
  "scopesFromClaims claims =
     (let parts = (case as_str (any_get claims ''scope'') of None \<Rightarrow> [] | Some raw \<Rightarrow> Fields raw)
      in if parts \<noteq> [] then parts else stringSliceFromValue (any_get claims ''scopes''))"

definition rolesFromClaims :: "gany gomap \<Rightarrow> string list" where
  "rolesFromClaims claims =
     (let roles = (case as_map (any_get claims ''realm_access'') of None \<Rightarrow> [] | Some r \<Rightarrow> stringSliceFromValue (any_get r ''roles''))
      in if roles \<noteq> [] then roles else stringSliceFromValue (any_get claims ''roles''))"

definition groupsFromClaims :: "gany gomap \<Rightarrow> string list" where
  "groupsFromClaims claims = stringSliceFromValue (any_get claims ''groups'')"

definition tenantContextToMap :: "tenant_context option \<Rightarrow> gany gomap" where
  "tenantContextToMap tc = (case tc of None \<Rightarrow> [] | Some t \<Rightarrow>
     map (\<lambda>(k, v). (k, AStr v)) (filter (\<lambda>kv. snd kv \<noteq> '''')
       [(''tenant_id'', tc_TenantID t), (''tenant_slug'', tc_TenantSlug t), (''status'', tc_Status t),
        (''locale'', tc_Locale t), (''timezone'', tc_Timezone t)]))"

section \<open>The auth context\<close>

definition principalFromSession :: "session \<Rightarrow> principal" where
  "principalFromSession sess = (let claims = cloneMap (s_Claims sess) in
     \<lparr>pr_Subject = stringFromMap claims ''sub'', pr_Scopes = scopesFromClaims claims, pr_Roles = rolesFromClaims claims,
      pr_Claims = Some claims, pr_ExpiresAt = s_ExpiresAt sess * 1000000000, pr_AccessToken = s_AccessToken sess,
      pr_TenantContext = Some (tenantContextToMap (s_TenantContext sess))\<rparr>)"

definition principalToProto :: "new_struct \<Rightarrow> principal option \<Rightarrow> proto_principal option result" where
  "principalToProto ns pri = (case pri of
     None \<Rightarrow> Inr None
   | Some p \<Rightarrow> (case ns (cloneMap (pr_Claims p)) of
       Inl e \<Rightarrow> Inl e
     | Inr claims \<Rightarrow> (case ns (cloneMap (pr_TenantContext p)) of
         Inl e \<Rightarrow> Inl e
       | Inr tenantContext \<Rightarrow> Inr (Some \<lparr>pp_Subject = pr_Subject p, pp_Scopes = pr_Scopes p, pp_Roles = pr_Roles p,
           pp_Claims = claims, pp_TenantContext = tenantContext, pp_AccessToken = pr_AccessToken p,
           pp_ExpiresAt = pr_ExpiresAt p div 1000000000\<rparr>))))"

definition sessionToProto :: "new_struct \<Rightarrow> session option \<Rightarrow> proto_session option result" where
  "sessionToProto ns sess = (case sess of
     None \<Rightarrow> Inr None
   | Some s \<Rightarrow> (case ns (cloneMap (s_Claims s)) of
       Inl e \<Rightarrow> Inl e
     | Inr claims \<Rightarrow> (case ns (tenantContextToMap (s_TenantContext s)) of
         Inl e \<Rightarrow> Inl e
       | Inr tenantContext \<Rightarrow> Inr (Some \<lparr>px_Id = s_ID s, px_AccessToken = s_AccessToken s, px_RefreshToken = s_RefreshToken s,
           px_IdToken = s_IDToken s, px_ExpiresAt = s_ExpiresAt s, px_Claims = claims, px_TenantContext = tenantContext\<rparr>))))"

definition AuthContextFromPrincipalAndSession :: "new_struct \<Rightarrow> principal option \<Rightarrow> session option \<Rightarrow> auth_context result" where
  "AuthContextFromPrincipalAndSession ns pri sess =
     (let p = (case (pri, sess) of (None, Some s) \<Rightarrow> Some (principalFromSession s) | _ \<Rightarrow> pri) in
      case principalToProto ns p of
        Inl e \<Rightarrow> Inl e
      | Inr pp \<Rightarrow> (case sessionToProto ns sess of
          Inl e \<Rightarrow> Inl e
        | Inr ps \<Rightarrow> Inr \<lparr>ax_Principal = pp, ax_Session = ps\<rparr>))"

definition AuthContextFromSession :: "new_struct \<Rightarrow> session option \<Rightarrow> auth_context result" where
  "AuthContextFromSession ns sess = AuthContextFromPrincipalAndSession ns None sess"

definition sessionUserFromAuthContext :: "auth_context \<Rightarrow> session_user option" where
  "sessionUserFromAuthContext ctx =
     (let pclaims = (case ax_Principal ctx of None \<Rightarrow> [] | Some p \<Rightarrow> pp_Claims p);
          claims = (if pclaims = [] then (case ax_Session ctx of None \<Rightarrow> [] | Some s \<Rightarrow> px_Claims s) else pclaims);
          ptenant = (case ax_Principal ctx of None \<Rightarrow> [] | Some p \<Rightarrow> pp_TenantContext p);
          tenantContext = (if ptenant = [] then (case ax_Session ctx of None \<Rightarrow> [] | Some s \<Rightarrow> px_TenantContext s) else ptenant);
          proles = stringsFromAny (case ax_Principal ctx of None \<Rightarrow> [] | Some p \<Rightarrow> pp_Roles p);
          roles = (if proles = [] then rolesFromClaims claims else proles);
          groups = groupsFromClaims claims;
          psub = (case ax_Principal ctx of None \<Rightarrow> '''' | Some p \<Rightarrow> pp_Subject p);
          sub = (if psub = '''' then stringFromMap claims ''sub'' else psub)
      in if sub = '''' \<and> claims = [] \<and> roles = [] \<and> groups = [] then None
         else Some \<lparr>su_Sub = sub, su_Email = stringFromMap claims ''email'',
                su_PreferredUsername = stringFromMap claims ''preferred_username'', su_Name = stringFromMap claims ''name'',
                su_Roles = roles, su_Groups = groups, su_IsAdmin = list_ex (\<lambda>r. r = ''admin'' \<or> r = ''administrator'') roles,
                su_TenantContext = tenantContext, su_Claims = claims\<rparr>)"

definition SessionResponseFromAuthContext :: "auth_context option \<Rightarrow> session_response" where
  "SessionResponseFromAuthContext ctx = (case ctx of
     None \<Rightarrow> \<lparr>sr_IsAuthenticated = False, sr_User = None, sr_SetCookie = ''''\<rparr>
   | Some x \<Rightarrow>
       (if ax_Principal x = None \<and> ax_Session x = None then \<lparr>sr_IsAuthenticated = False, sr_User = None, sr_SetCookie = ''''\<rparr>
        else (case sessionUserFromAuthContext x of
            None \<Rightarrow> \<lparr>sr_IsAuthenticated = False, sr_User = None, sr_SetCookie = ''''\<rparr>
          | Some u \<Rightarrow> \<lparr>sr_IsAuthenticated = True, sr_User = Some u, sr_SetCookie = ''''\<rparr>)))"

definition SessionUserFromSession :: "new_struct \<Rightarrow> session option \<Rightarrow> session_user option" where
  "SessionUserFromSession ns sess = (case sess of
     None \<Rightarrow> None
   | Some s \<Rightarrow> (case AuthContextFromSession ns (Some s) of
       Inl e \<Rightarrow> None
     | Inr ctx \<Rightarrow> sr_User (SessionResponseFromAuthContext (Some ctx))))"

section \<open>Properties\<close>

text \<open>
  The user object of a session says what its claims say: with claims that protobuf represents
  unchanged, a session with at least one claim has a user, whose subject, e-mail, groups and claims are the
  session's, whose roles are the claimed roles (empty strings aside), and who is an administrator exactly when
  one of the roles says so.
\<close>

theorem session_user_faithful:
  assumes "s_Claims s = Some m" and "m \<noteq> []" and "ns m = Inr m"
    and "ns (tenantContextToMap (s_TenantContext s)) = Inr (tenantContextToMap (s_TenantContext s))"
  shows "\<exists>u. SessionUserFromSession ns (Some s) = Some u \<and> su_Sub u = str_or_empty (any_get m ''sub'')
    \<and> su_Email u = str_or_empty (any_get m ''email'') \<and> su_Claims u = m \<and> su_Groups u = groupsFromClaims m
    \<and> set (su_Roles u) - {''''} = set (rolesFromClaims m) - {''''}
    \<and> (su_IsAdmin u \<longleftrightarrow> ''admin'' \<in> set (rolesFromClaims m) \<or> ''administrator'' \<in> set (rolesFromClaims m))"
proof -
  let ?t = "tenantContextToMap (s_TenantContext s)"
  have ctx: "AuthContextFromSession ns (Some s) = Inr \<lparr>ax_Principal = Some
      \<lparr>pp_Subject = stringFromMap m ''sub'', pp_Scopes = scopesFromClaims m, pp_Roles = rolesFromClaims m, pp_Claims = m,
       pp_TenantContext = ?t, pp_AccessToken = s_AccessToken s, pp_ExpiresAt = s_ExpiresAt s\<rparr>,
      ax_Session = Some \<lparr>px_Id = s_ID s, px_AccessToken = s_AccessToken s, px_RefreshToken = s_RefreshToken s,
       px_IdToken = s_IDToken s, px_ExpiresAt = s_ExpiresAt s, px_Claims = m, px_TenantContext = ?t\<rparr>\<rparr>"
    using assms by (simp add: AuthContextFromSession_def AuthContextFromPrincipalAndSession_def principalFromSession_def
        principalToProto_def sessionToProto_def cloneMap_def Let_def)
  have "set (stringsFromAny rs) = set rs - {''''}" for rs by (auto simp: stringsFromAny_def)
  then show ?thesis
    using ctx assms(2)
    by (auto simp: SessionUserFromSession_def SessionResponseFromAuthContext_def sessionUserFromAuthContext_def stringFromMap_def
        Let_def list_ex_iff)
qed

theorem session_user_faithful_witness:
  "\<exists>u. SessionUserFromSession Inr (Some (sample_session\<lparr>s_Claims := Some [(''sub'', AStr ''u1''), (''roles'', AList [AStr ''admin''])]\<rparr>)) = Some u
    \<and> su_Sub u = ''u1'' \<and> su_IsAdmin u"
proof -
  let ?m = "[(''sub'', AStr ''u1''), (''roles'', AList [AStr ''admin''])]"
  have "rolesFromClaims ?m = [''admin'']" by code_simp
  with session_user_faithful [of "sample_session\<lparr>s_Claims := Some ?m\<rparr>" ?m Inr] show ?thesis
    by (auto simp: any_get_def)
qed

end
