(* ===== verification/Auth_Service.thy ===== *)
theory Auth_Service
  imports Auth_Config Auth_Redirect Handoff Sdk Oidc
begin

text \<open>
  \<open>internal/auth/service/service.go\<close> over the request and response types of \<open>pkg/auth\<close>: login with PKCE,
  sessions, token refresh, logout, resolution for the proxy, tenant context and handoff tickets, for one or
  more connectors.

  The state \<open>'w\<close> is everything outside the service: the stores, the identity providers, the key-set source,
  the random source, the clock and the webhook receiver. The stores and providers are records of methods (Go
  interfaces); \<open>Redis_Store\<close> and \<open>Oidc\<close> give their implementations. The remaining outside functions are in
  \<open>auth_env\<close>. Every method returns its result, the new state and the metrics it records; spans and log lines
  have no effect on these and are left out. Clock readings are in nanoseconds.
\<close>

section \<open>Requests and responses (pkg/auth)\<close>

record session_request =
  sq_SessionCookie :: string
  sq_Connector :: string

record login_start_request =
  lq_Connector :: string
  lq_RedirectTo :: string
  lq_Prompt :: string

record login_end_request =
  eq_Connector :: string
  eq_Code :: string
  eq_State :: string
  eq_Error :: string
  eq_ErrorDescription :: string
  eq_Host :: string

record login_end_response =
  er_RedirectURL :: string
  er_SetCookieValue :: string
  er_ClearCookie :: bool

record refresh_request =
  fq_SessionCookie :: string
  fq_Connector :: string

record refresh_response =
  fr_SetCookieValue :: string
  fr_Refreshed :: bool

record logout_request =
  oq_SessionCookie :: string
  oq_Connector :: string
  oq_RedirectTo :: string
  oq_Origin :: string
  oq_Referer :: string

record logout_response =
  or_RedirectURL :: string
  or_ClearCookie :: bool

datatype metric =
    LoginStarted
  | LoginCompleted bool
  | ConnectorCallback string bool
  | RefreshCompleted bool
  | LogoutCompleted
  | HandoffIssued string bool
  | HandoffRedeemed string bool

section \<open>The service\<close>

record 'w provider =
  pv_AuthorizationURL :: "'w \<Rightarrow> string \<Rightarrow> string \<Rightarrow> string \<Rightarrow> (string \<times> string) list \<Rightarrow> string result \<times> 'w"
  pv_ExchangeCode :: "'w \<Rightarrow> string \<Rightarrow> string \<Rightarrow> string \<Rightarrow> provider_tokens result \<times> 'w"
  pv_Refresh :: "'w \<Rightarrow> string \<Rightarrow> provider_tokens result \<times> 'w"
  pv_EndSessionURL :: "'w \<Rightarrow> string \<Rightarrow> string \<Rightarrow> string result \<times> 'w"

type_synonym 'w finder = "'w \<Rightarrow> string \<Rightarrow> string \<Rightarrow> session option result \<times> 'w"

text \<open>\<open>Connector\<close>, the wiring passed to the constructors, and \<open>connector\<close>, the runtime state.\<close>

record 'w connector_wiring =
  cw_Config :: connector_config
  cw_Provider :: "'w provider option"
  cw_Sessions :: "'w session_store"
  cw_PKCE :: "'w pkce_store"
  cw_RefreshLock :: "'w lock_store"
  cw_Finder :: "'w finder option"

record 'w connector =
  cn_cfg :: connector_config
  cn_provider :: "'w provider"
  cn_sessions :: "'w session_store"
  cn_pkce :: "'w pkce_store"
  cn_refreshLock :: "'w lock_store"
  cn_finder :: "'w finder option"
  cn_cookieName :: string
  cn_cookieOpts :: cookie_options

record 'w service =
  sv_cfg :: auth_config
  sv_connectors :: "'w connector gomap"
  sv_defaultID :: string
  sv_encode :: "string \<Rightarrow> string result"
  sv_decode :: "string \<Rightarrow> string result"
  sv_handoff :: "'w issuer option"

record webhook_request =
  wh_URL :: string
  wh_Body :: bytes
  wh_Signature :: string

record 'w auth_env =
  ae_now :: "'w \<Rightarrow> int \<times> 'w"
  ae_rand :: "'w random"
  ae_sha :: "bytes \<Rightarrow> bytes"
  ae_mac :: macfun
  ae_url :: url_parser
  ae_jwks :: "'w jwks_getter option"
  ae_token :: "'w token_env"
  ae_FormatFloat :: "rat \<Rightarrow> string"
  ae_marshal :: "gany gomap \<Rightarrow> bytes"
  ae_post :: "'w \<Rightarrow> webhook_request \<Rightarrow> int result \<times> 'w"
  ae_struct :: new_struct
  ae_ticket_json :: "ticket json_codec"

definition connector_of :: "auth_config \<Rightarrow> 'w connector_wiring \<Rightarrow> 'w provider \<Rightarrow> 'w connector" where
  "connector_of cfg c p = \<lparr>cn_cfg = cw_Config c, cn_provider = p, cn_sessions = cw_Sessions c, cn_pkce = cw_PKCE c,
     cn_refreshLock = cw_RefreshLock c, cn_finder = cw_Finder c,
     cn_cookieName = or_default (cc_CookieName (cw_Config c)) (ac_CookieName cfg),
     cn_cookieOpts = \<lparr>co_Path = ''/'', co_Domain = ac_CookieDomain cfg, co_Secure = ac_CookieSecure cfg, co_HTTPOnly = True,
       co_SameSite = ac_CookieSameSite cfg, co_MaxAge = or_zero (cc_SessionTTLSeconds (cw_Config c)) (ac_SessionTTLSeconds cfg)\<rparr>\<rparr>"

fun add_connectors :: "'w connector_wiring list \<Rightarrow> 'w service \<Rightarrow> 'w service result" where
  "add_connectors [] s = Inr s"
| "add_connectors (c # cs) s = (case cw_Provider c of
     None \<Rightarrow> Inl (Err (''connector '' @ Quote (cc_ID (cw_Config c)) @ '': provider is required''))
   | Some p \<Rightarrow>
       (let i = or_default (cc_ID (cw_Config c)) ''default'';
            s1 = s\<lparr>sv_connectors := AList.update i (connector_of (sv_cfg s) c p) (sv_connectors s)\<rparr>
        in add_connectors cs (if cc_Default (cw_Config c) \<or> sv_defaultID s1 = '''' then s1\<lparr>sv_defaultID := i\<rparr> else s1)))"

definition newService :: "auth_config \<Rightarrow> 'w connector_wiring list \<Rightarrow> (string \<Rightarrow> string result) \<Rightarrow> (string \<Rightarrow> string result) \<Rightarrow> 'w service result" where
  "newService cfg cs enc dec = add_connectors cs
     \<lparr>sv_cfg = cfg, sv_connectors = [], sv_defaultID = '''', sv_encode = enc, sv_decode = dec, sv_handoff = None\<rparr>"

definition defaultConnectorConfig :: "auth_config \<Rightarrow> connector_config" where
  "defaultConnectorConfig cfg = (case DefaultConnector cfg of
     Some dc \<Rightarrow> dc
   | None \<Rightarrow> \<lparr>cc_ID = ''default'', cc_Default = True, cc_ProviderPluginID = ac_ProviderPluginID cfg, cc_OIDCIssuer = ac_OIDCIssuer cfg,
       cc_OIDCRedirectURI = ac_OIDCRedirectURI cfg, cc_OIDCClientID = ac_OIDCClientID cfg, cc_OIDCClientSecret = ac_OIDCClientSecret cfg,
       cc_OIDCScopes = ac_OIDCScopes cfg, cc_OIDCAudience = ac_OIDCAudience cfg, cc_OIDCClaimsSource = ac_OIDCClaimsSource cfg,
       cc_SessionRedisPrefix = ac_SessionRedisPrefix cfg, cc_CookieName = ac_CookieName cfg, cc_SessionTTLSeconds = ac_SessionTTLSeconds cfg,
       cc_SessionPKCETTLSeconds = ac_SessionPKCETTLSeconds cfg, cc_SessionRefreshLockTTLSeconds = ac_SessionRefreshLockTTLSeconds cfg,
       cc_ClaimMapping = no_mapping\<lparr>cm_AuthoritativeIDClaim := ''sub'', cm_IDKind := ''oidc_sub''\<rparr>\<rparr>)"

text \<open>The constructors validate the configuration, which may complete it.\<close>

definition NewService :: "auth_config \<Rightarrow> 'w session_store \<Rightarrow> 'w pkce_store \<Rightarrow> 'w lock_store \<Rightarrow> (string \<Rightarrow> string result) \<Rightarrow> (string \<Rightarrow> string result) \<Rightarrow> 'w provider option \<Rightarrow> 'w service result" where
  "NewService cfg sessions pkce lock enc dec provider = (case auth_Validate cfg of
     (Some e, _) \<Rightarrow> Inl e
   | (None, cfg1) \<Rightarrow>
       (if provider = None then Inl (Err ''provider is required'')
        else newService cfg1 [\<lparr>cw_Config = defaultConnectorConfig cfg1, cw_Provider = provider, cw_Sessions = sessions, cw_PKCE = pkce,
               cw_RefreshLock = lock, cw_Finder = None\<rparr>] enc dec))"

definition NewWithRuntimeStoreProvider :: "auth_config \<Rightarrow> ('w session_store \<times> 'w pkce_store \<times> 'w lock_store) option \<Rightarrow> (string \<Rightarrow> string result) \<Rightarrow> (string \<Rightarrow> string result) \<Rightarrow> 'w provider option \<Rightarrow> 'w service result" where
  "NewWithRuntimeStoreProvider cfg stores enc dec provider = (case stores of
     None \<Rightarrow> Inl (Err ''runtime stores are required'')
   | Some (sessions, pkce, lock) \<Rightarrow> NewService cfg sessions pkce lock enc dec provider)"

definition NewMultiConnector :: "auth_config \<Rightarrow> 'w connector_wiring list \<Rightarrow> (string \<Rightarrow> string result) \<Rightarrow> (string \<Rightarrow> string result) \<Rightarrow> 'w service result" where
  "NewMultiConnector cfg cs enc dec = (case auth_Validate cfg of
     (Some e, _) \<Rightarrow> Inl e
   | (None, cfg1) \<Rightarrow> (if cs = [] then Inl (Err ''at least one connector is required'') else newService cfg1 cs enc dec))"

definition conn :: "'w service \<Rightarrow> string \<Rightarrow> 'w connector result" where
  "conn s i0 = (let i = (if i0 = '''' then sv_defaultID s else i0) in
     case map_of (sv_connectors s) i of None \<Rightarrow> Inl (Err (''unknown connector '' @ Quote i)) | Some c \<Rightarrow> Inr c)"

definition ConnectorCookieName :: "'w service \<Rightarrow> string \<Rightarrow> string" where
  "ConnectorCookieName s i = (case conn s i of Inl e \<Rightarrow> ac_CookieName (sv_cfg s) | Inr c \<Rightarrow> cn_cookieName c)"

section \<open>Sessions and login\<close>

definition unauthenticated :: session_response where
  "unauthenticated = \<lparr>sr_IsAuthenticated = False, sr_User = None, sr_SetCookie = ''''\<rparr>"

definition sessionToUser :: "'w auth_env \<Rightarrow> session \<Rightarrow> session_user option" where
  "sessionToUser ae sess = SessionUserFromSession (ae_struct ae) (Some sess)"

text \<open>\<open>Session\<close> never returns an error.\<close>

definition Session_of :: "'w auth_env \<Rightarrow> 'w service \<Rightarrow> 'w \<Rightarrow> session_request \<Rightarrow> session_response \<times> 'w" where
  "Session_of ae s w req =
     (if sq_SessionCookie req = '''' then (unauthenticated, w)
      else (case conn s (sq_Connector req) of
          Inl e \<Rightarrow> (unauthenticated, w)
        | Inr c \<Rightarrow> (case sv_decode s (sq_SessionCookie req) of
            Inl e \<Rightarrow> (unauthenticated, w)
          | Inr sessionID \<Rightarrow> (case ss_Get (cn_sessions c) w sessionID of
              (Inr (Some sess), w1) \<Rightarrow> (\<lparr>sr_IsAuthenticated = True, sr_User = sessionToUser ae sess, sr_SetCookie = ''''\<rparr>, w1)
            | (_, w1) \<Rightarrow> (unauthenticated, w1)))))"

definition redirect_check :: "'w auth_env \<Rightarrow> 'w service \<Rightarrow> string \<Rightarrow> string" where
  "redirect_check ae s t = ValidateRedirect (ae_url ae) t (ac_AppBaseURL (sv_cfg s)) (ac_AllowedRedirectOrigins (sv_cfg s))
     (ac_AllowedRedirectPaths (sv_cfg s))"

definition ValidateRedirectURL :: "'w auth_env \<Rightarrow> 'w service \<Rightarrow> string \<Rightarrow> string" where
  "ValidateRedirectURL ae s t = (let v = redirect_check ae s t in if v = '''' then ac_AppBaseURL (sv_cfg s) else v)"

definition LoginStart :: "'w auth_env \<Rightarrow> 'w service \<Rightarrow> 'w \<Rightarrow> login_start_request \<Rightarrow> string result \<times> 'w \<times> metric list" where
  "LoginStart ae s w req = (case conn s (lq_Connector req) of
     Inl e \<Rightarrow> (Inl e, w, [LoginStarted])
   | Inr c \<Rightarrow>
       (let redirectTo = or_default (redirect_check ae s (lq_RedirectTo req)) (ac_AppBaseURL (sv_cfg s)) in
        case GeneratePKCE (ae_sha ae) (ae_rand ae) w of
          (Inl e, w1) \<Rightarrow> (Inl e, w1, [LoginStarted])
        | (Inr (verifier, challenge, nonce), w1) \<Rightarrow> (case GenerateState (ae_rand ae) w1 of
            (Inl e, w2) \<Rightarrow> (Inl e, w2, [LoginStarted])
          | (Inr state, w2) \<Rightarrow>
              (case ps_Set (cn_pkce c) w2 state \<lparr>pk_State = state, pk_CodeVerifier = verifier, pk_CodeChallenge = challenge,
                      pk_Nonce = nonce, pk_RedirectTo = redirectTo\<rparr> (cc_SessionPKCETTLSeconds (cn_cfg c)) of
                 (Some e, w3) \<Rightarrow> (Inl e, w3, [LoginStarted])
               | (None, w3) \<Rightarrow>
                   (let prompt = TrimSpace (lq_Prompt req); extra = (if prompt \<noteq> '''' then [(''prompt'', prompt)] else []) in
                    case pv_AuthorizationURL (cn_provider c) w3 state challenge nonce extra of
                      (r, w4) \<Rightarrow> (r, w4, [LoginStarted]))))))"

definition generateSessionID :: "'w auth_env \<Rightarrow> 'w \<Rightarrow> string result \<times> 'w" where
  "generateSessionID ae w = (case ae_rand ae w 32 of
     (Inl e, w1) \<Rightarrow> (Inl e, w1) | (Inr b, w1) \<Rightarrow> (Inr (EncodeToString RawURLEnc b), w1))"

definition getClaimString :: "gany gomap option \<Rightarrow> string \<Rightarrow> string" where
  "getClaimString m key = (case m of None \<Rightarrow> '''' | Some m' \<Rightarrow> str_or_empty (any_get m' key))"

definition claimToString :: "'w auth_env \<Rightarrow> gany \<Rightarrow> string" where
  "claimToString ae v = (case v of
     AStr x \<Rightarrow> x | ANumber x \<Rightarrow> x | AFloat x \<Rightarrow> ae_FormatFloat ae x | AInt64 x \<Rightarrow> Itoa x | AInt x \<Rightarrow> Itoa x | _ \<Rightarrow> '''')"

definition authoritativeID :: "'w auth_env \<Rightarrow> 'w connector \<Rightarrow> gany gomap option \<Rightarrow> string" where
  "authoritativeID ae c claims =
     (let key = cm_AuthoritativeIDClaim (cc_ClaimMapping (cn_cfg c)) in
      case claims of None \<Rightarrow> '''' | Some m \<Rightarrow> (if key = '''' \<or> key = ''sub'' then '''' else claimToString ae (any_get m key)))"

definition callPostLoginWebhook :: "'w auth_env \<Rightarrow> 'w service \<Rightarrow> 'w \<Rightarrow> string \<Rightarrow> string \<Rightarrow> string \<Rightarrow> string \<Rightarrow> gany gomap \<Rightarrow> string \<Rightarrow> goerr option \<times> 'w" where
  "callPostLoginWebhook ae s w webhookURL sessionID subject email claims host = (case ae_url ae webhookURL of
     Inl e \<Rightarrow> (Some (Wrap ''webhook: invalid URL: '' e), w)
   | Inr u \<Rightarrow>
       (if u_Scheme u \<noteq> ''https'' then (Some (Err (''webhook: URL scheme '' @ Quote (u_Scheme u) @ '' not allowed (must be https)'')), w)
        else (let data = ae_marshal ae [(''session_id'', AStr sessionID), (''subject'', AStr subject), (''email'', AStr email),
                    (''claims'', AMap claims), (''host'', AStr host)];
                  sig = concat (map hex_byte (ae_mac ae (ac_CookieSigningSecret (sv_cfg s)) data))
              in case ae_post ae w \<lparr>wh_URL = webhookURL, wh_Body = data, wh_Signature = ''sha256='' @ sig\<rparr> of
                   (Inl e, w1) \<Rightarrow> (Some e, w1)
                 | (Inr status, w1) \<Rightarrow>
                     (if status < 200 \<or> 300 \<le> status then (Some (Err (''webhook status '' @ Itoa status)), w1) else (None, w1)))))"

text \<open>\<open>int64\<close> seconds; the second clock reading is only taken when the provider gave no lifetime.\<close>

definition expires_at :: "'w auth_env \<Rightarrow> provider_tokens \<Rightarrow> 'w \<Rightarrow> int \<times> 'w" where
  "expires_at ae tr w = (case ae_now ae w of (t, w1) \<Rightarrow>
     (if pt_ExpiresIn tr \<le> 0 then (case ae_now ae w1 of (t', w2) \<Rightarrow> (Unix (t' + 3600 * second_ns), w2))
      else (wrap64 (Unix t + pt_ExpiresIn tr), w1)))"

definition id_audience :: "connector_config \<Rightarrow> string" where
  "id_audience k = or_default (cc_OIDCAudience k) (cc_OIDCClientID k)"

definition login_claims :: "'w auth_env \<Rightarrow> 'w connector \<Rightarrow> principal \<Rightarrow> gany gomap" where
  "login_claims ae c p =
     (let claims = (case pr_Claims p of None \<Rightarrow> [] | Some m \<Rightarrow> m);
          authID = or_default (authoritativeID ae c (pr_Claims p)) (pr_Subject p);
          kind = cm_IDKind (cc_ClaimMapping (cn_cfg c));
          c1 = AList.update ''sub'' (AStr authID) claims;
          c2 = (if kind \<noteq> '''' then AList.update ''authoritative_id_kind'' (AStr kind) c1 else c1)
      in if pr_Roles p \<noteq> [] then AList.update ''roles'' (AStrs (pr_Roles p)) c2 else c2)"

definition login_error :: "'w service \<Rightarrow> login_end_response" where
  "login_error s = \<lparr>er_RedirectURL = ac_AppBaseURL (sv_cfg s) @ ac_LoginErrorRedirectPath (sv_cfg s), er_SetCookieValue = '''', er_ClearCookie = True\<rparr>"

text \<open>The part of \<open>LoginEnd\<close> after the ID token was validated.\<close>

definition create_session :: "'w auth_env \<Rightarrow> 'w service \<Rightarrow> 'w connector \<Rightarrow> 'w \<Rightarrow> string \<Rightarrow> pkce_state \<Rightarrow> provider_tokens \<Rightarrow> principal \<Rightarrow> login_end_response result \<times> 'w" where
  "create_session ae s c w host p tr pri = (case expires_at ae tr w of (expiresAt, w1) \<Rightarrow>
     (let claims = login_claims ae c pri in
      case generateSessionID ae w1 of
        (Inl e, w2) \<Rightarrow> (Inl e, w2)
      | (Inr sessID, w2) \<Rightarrow>
          (case ss_Set (cn_sessions c) w2 sessID \<lparr>s_ID = sessID, s_AccessToken = pt_AccessToken tr, s_RefreshToken = pt_RefreshToken tr,
                  s_IDToken = pt_IDToken tr, s_ExpiresAt = expiresAt, s_Claims = Some claims, s_TenantContext = None\<rparr>
                  (cc_SessionTTLSeconds (cn_cfg c)) of
             (Some e, w3) \<Rightarrow> (Inl e, w3)
           | (None, w3) \<Rightarrow>
               (let w4 = (if ac_PostLoginWebhookURL (sv_cfg s) \<noteq> ''''
                          then snd (callPostLoginWebhook ae s w3 (ac_PostLoginWebhookURL (sv_cfg s)) sessID (pr_Subject pri)
                                 (getClaimString (Some claims) ''email'') claims host)
                          else w3)
                in case sv_encode s sessID of
                     Inl e \<Rightarrow> (Inl e, w4)
                   | Inr cookieValue \<Rightarrow> (Inr \<lparr>er_RedirectURL = ValidateRedirectURL ae s (pk_RedirectTo p), er_SetCookieValue = cookieValue,
                       er_ClearCookie = False\<rparr>, w4)))))"

definition login_end :: "'w auth_env \<Rightarrow> 'w service \<Rightarrow> 'w connector \<Rightarrow> 'w \<Rightarrow> login_end_request \<Rightarrow> login_end_response result \<times> 'w \<times> bool" where
  "login_end ae s c w req =
     (if eq_Error req \<noteq> '''' \<or> eq_State req = '''' \<or> eq_Code req = '''' then (Inr (login_error s), w, False)
      else (case ps_Get (cn_pkce c) w (eq_State req) of
          (Inr (Some p), w1) \<Rightarrow>
            (let w2 = snd (ps_Delete (cn_pkce c) w1 (eq_State req)) in
             case pv_ExchangeCode (cn_provider c) w2 (eq_Code req) (pk_CodeVerifier p) (cc_OIDCRedirectURI (cn_cfg c)) of
               (Inl e, w3) \<Rightarrow> (Inr (login_error s), w3, False)
             | (Inr tr, w3) \<Rightarrow>
                 (case ValidateIDToken (ae_token ae) w3 (pt_IDToken tr) (ae_jwks ae) (cc_OIDCIssuer (cn_cfg c))
                         (id_audience (cn_cfg c)) (pk_Nonce p) of
                    (Inl e, w4) \<Rightarrow> (Inr (login_error s), w4, False)
                  | (Inr pri, w4) \<Rightarrow> (case create_session ae s c w4 (eq_Host req) p tr pri of
                        (Inl e, w5) \<Rightarrow> (Inl e, w5, False)
                      | (Inr resp, w5) \<Rightarrow> (Inr resp, w5, True))))
        | (_, w1) \<Rightarrow> (Inr (login_error s), w1, False)))"

definition LoginEnd :: "'w auth_env \<Rightarrow> 'w service \<Rightarrow> 'w \<Rightarrow> login_end_request \<Rightarrow> login_end_response result \<times> 'w \<times> metric list" where
  "LoginEnd ae s w req = (case conn s (eq_Connector req) of
     Inl e \<Rightarrow> (Inl e, w, [LoginCompleted False])
   | Inr c \<Rightarrow> (case login_end ae s c w req of
       (r, w1, success) \<Rightarrow> (r, w1, [ConnectorCallback (cc_ID (cn_cfg c)) success, LoginCompleted success])))"

section \<open>Token refresh\<close>

definition applyRefreshedClaims :: "'w auth_env \<Rightarrow> 'w connector \<Rightarrow> session \<Rightarrow> gany gomap \<Rightarrow> session" where
  "applyRefreshedClaims ae c sess newClaims =
     (let prevSub = getClaimString (s_Claims sess) ''sub'';
          prevKind = getClaimString (s_Claims sess) ''authoritative_id_kind'';
          claim = cm_AuthoritativeIDClaim (cc_ClaimMapping (cn_cfg c));
          kind = cm_IDKind (cc_ClaimMapping (cn_cfg c));
          mapped = authoritativeID ae c (Some newClaims);
          authID = (if mapped \<noteq> '''' then mapped
                    else if claim \<noteq> '''' \<and> claim \<noteq> ''sub'' \<and> prevSub \<noteq> '''' then prevSub
                    else getClaimString (Some newClaims) ''sub'');
          c1 = (if authID \<noteq> '''' then AList.update ''sub'' (AStr authID) newClaims else newClaims);
          c2 = (if kind \<noteq> '''' then AList.update ''authoritative_id_kind'' (AStr kind) c1
                else if prevKind \<noteq> '''' then AList.update ''authoritative_id_kind'' (AStr prevKind) c1 else c1)
      in sess\<lparr>s_Claims := Some c2\<rparr>)"

text \<open>What \<open>Refresh\<close> and \<open>ensureFresh\<close> make of a session and the provider's new tokens.\<close>

definition refreshed_session :: "'w auth_env \<Rightarrow> 'w connector \<Rightarrow> session \<Rightarrow> provider_tokens \<Rightarrow> 'w \<Rightarrow> session \<times> 'w" where
  "refreshed_session ae c sess tr w = (case expires_at ae tr w of (expiresAt, w1) \<Rightarrow>
     (let s1 = sess\<lparr>s_AccessToken := pt_AccessToken tr, s_ExpiresAt := expiresAt,
                    s_RefreshToken := or_default (pt_RefreshToken tr) (s_RefreshToken sess)\<rparr> in
      if pt_IDToken tr = '''' then (s1, w1)
      else (let s2 = s1\<lparr>s_IDToken := pt_IDToken tr\<rparr> in
        case ValidateIDToken (ae_token ae) w1 (pt_IDToken tr) (ae_jwks ae) (cc_OIDCIssuer (cn_cfg c)) (id_audience (cn_cfg c)) '''' of
          (Inl e, w2) \<Rightarrow> (s2, w2)
        | (Inr pri, w2) \<Rightarrow> (case pr_Claims pri of None \<Rightarrow> (s2, w2) | Some m \<Rightarrow> (applyRefreshedClaims ae c s2 m, w2)))))"

definition store_refreshed :: "'w auth_env \<Rightarrow> 'w connector \<Rightarrow> string \<Rightarrow> session \<Rightarrow> 'w \<Rightarrow> session result \<times> 'w" where
  "store_refreshed ae c sessionID sess w = (case pv_Refresh (cn_provider c) w (s_RefreshToken sess) of
     (Inl e, w1) \<Rightarrow> (Inl (Wrap ''refresh failed: '' e), w1)
   | (Inr tr, w1) \<Rightarrow> (case refreshed_session ae c sess tr w1 of
       (sess', w2) \<Rightarrow> (case ss_Set (cn_sessions c) w2 sessionID sess' (cc_SessionTTLSeconds (cn_cfg c)) of
           (Some e, w3) \<Rightarrow> (Inl e, w3)
         | (None, w3) \<Rightarrow> (Inr sess', w3))))"

definition release_lock :: "'w connector \<Rightarrow> string \<Rightarrow> 'w \<Rightarrow> 'w" where
  "release_lock c sessionID w = snd (ls_Release (cn_refreshLock c) w sessionID)"

text \<open>The lock is released after the cookie was encoded, on every path that obtained it.\<close>

definition refresh_body :: "'w auth_env \<Rightarrow> 'w service \<Rightarrow> 'w connector \<Rightarrow> 'w \<Rightarrow> refresh_request \<Rightarrow> refresh_response result \<times> 'w" where
  "refresh_body ae s c w req =
     (if fq_SessionCookie req = '''' then (Inl (Err ''no session cookie''), w)
      else (case sv_decode s (fq_SessionCookie req) of
          Inl e \<Rightarrow> (Inl (Err ''invalid cookie''), w)
        | Inr sessionID \<Rightarrow> (case ss_Get (cn_sessions c) w sessionID of
            (Inr (Some sess), w1) \<Rightarrow>
              (if s_RefreshToken sess = '''' then (Inl (Err ''no refresh token''), w1)
               else (case ae_now ae w1 of (now, w2) \<Rightarrow>
                 (if \<not> NeedsRefresh sess (Unix now) (ac_SessionRefreshEarlySeconds (sv_cfg s))
                  then (Inr \<lparr>fr_SetCookieValue = '''', fr_Refreshed = False\<rparr>, w2)
                  else (case ls_Obtain (cn_refreshLock c) w2 sessionID (cc_SessionRefreshLockTTLSeconds (cn_cfg c)) of
                      (Inr True, w3) \<Rightarrow> (case store_refreshed ae c sessionID sess w3 of
                          (Inl e, w4) \<Rightarrow> (Inl e, release_lock c sessionID w4)
                        | (Inr sess', w4) \<Rightarrow> (case sv_encode s sessionID of
                              Inl e \<Rightarrow> (Inl e, release_lock c sessionID w4)
                            | Inr v \<Rightarrow> (Inr \<lparr>fr_SetCookieValue = v, fr_Refreshed = True\<rparr>, release_lock c sessionID w4)))
                    | (_, w3) \<Rightarrow> (Inr \<lparr>fr_SetCookieValue = '''', fr_Refreshed = False\<rparr>, w3)))))
          | (_, w1) \<Rightarrow> (Inl (Err ''session not found''), w1))))"

definition Refresh :: "'w auth_env \<Rightarrow> 'w service \<Rightarrow> 'w \<Rightarrow> refresh_request \<Rightarrow> refresh_response result \<times> 'w \<times> metric list" where
  "Refresh ae s w req = (case conn s (fq_Connector req) of
     Inl e \<Rightarrow> (Inl e, w, [RefreshCompleted False])
   | Inr c \<Rightarrow> (case refresh_body ae s c w req of
       (r, w1) \<Rightarrow> (r, w1, [RefreshCompleted (case r of Inl _ \<Rightarrow> False | Inr resp \<Rightarrow> fr_Refreshed resp)])))"

definition session_due :: "'w auth_env \<Rightarrow> 'w service \<Rightarrow> session \<Rightarrow> 'w \<Rightarrow> bool \<times> 'w" where
  "session_due ae s sess w =
     (if s_RefreshToken sess = '''' then (False, w)
      else (case ae_now ae w of (now, w1) \<Rightarrow> (NeedsRefresh sess (Unix now) (ac_SessionRefreshEarlySeconds (sv_cfg s)), w1)))"

definition reload :: "'w connector \<Rightarrow> 'w \<Rightarrow> string \<Rightarrow> session result \<times> 'w" where
  "reload c w sessionID = (case ss_Get (cn_sessions c) w sessionID of
     (Inr (Some sess), w1) \<Rightarrow> (Inr sess, w1) | (_, w1) \<Rightarrow> (Inl (Err ''session not found''), w1))"

definition ensureFresh :: "'w auth_env \<Rightarrow> 'w service \<Rightarrow> 'w connector \<Rightarrow> 'w \<Rightarrow> string \<Rightarrow> (session \<times> bool) result \<times> 'w" where
  "ensureFresh ae s c w sessionID =
     (if sessionID = '''' then (Inl (Err ''session id required''), w)
      else (case reload c w sessionID of
          (Inl e, w1) \<Rightarrow> (Inl e, w1)
        | (Inr sess, w1) \<Rightarrow> (case session_due ae s sess w1 of
            (False, w2) \<Rightarrow> (Inr (sess, False), w2)
          | (True, w2) \<Rightarrow> (case ls_Obtain (cn_refreshLock c) w2 sessionID (cc_SessionRefreshLockTTLSeconds (cn_cfg c)) of
              (Inl e, w3) \<Rightarrow> (Inl (Wrap ''refresh lock obtain failed: '' e), w3)
            | (Inr False, w3) \<Rightarrow> (case reload c w3 sessionID of
                (Inl e, w4) \<Rightarrow> (Inl e, w4) | (Inr sess1, w4) \<Rightarrow> (Inr (sess1, False), w4))
            | (Inr True, w3) \<Rightarrow> (case reload c w3 sessionID of
                (Inl e, w4) \<Rightarrow> (Inl e, release_lock c sessionID w4)
              | (Inr sess1, w4) \<Rightarrow> (case session_due ae s sess1 w4 of
                  (False, w5) \<Rightarrow> (Inr (sess1, False), release_lock c sessionID w5)
                | (True, w5) \<Rightarrow> (case store_refreshed ae c sessionID sess1 w5 of
                    (Inl e, w6) \<Rightarrow> (Inl e, release_lock c sessionID w6)
                  | (Inr sess2, w6) \<Rightarrow> (Inr (sess2, True), release_lock c sessionID w6))))))))"

definition EnsureFreshSessionForConnector :: "'w auth_env \<Rightarrow> 'w service \<Rightarrow> 'w \<Rightarrow> string \<Rightarrow> string \<Rightarrow> (session \<times> bool) result \<times> 'w" where
  "EnsureFreshSessionForConnector ae s w connectorID sessionID = (case conn s connectorID of
     Inl e \<Rightarrow> (Inl e, w) | Inr c \<Rightarrow> ensureFresh ae s c w sessionID)"

definition EnsureFreshSessionByID :: "'w auth_env \<Rightarrow> 'w service \<Rightarrow> 'w \<Rightarrow> string \<Rightarrow> (session \<times> bool) result \<times> 'w" where
  "EnsureFreshSessionByID ae s w sessionID = (case conn s '''' of
     Inl e \<Rightarrow> (Inl e, w) | Inr c \<Rightarrow> ensureFresh ae s c w sessionID)"

section \<open>Logout\<close>

text \<open>The CSRF check: the error, if the request is refused.\<close>

definition logout_csrf :: "auth_config \<Rightarrow> string \<Rightarrow> string \<Rightarrow> goerr option" where
  "logout_csrf cfg origin referer =
     (let baseURL = TrimSuffix (ac_AppBaseURL cfg) ''/'';
          allowed = list_ex (\<lambda>o1. origin = o1 \<or> referer = o1 \<or> referer = baseURL @ ''/'' \<or> HasPrefix referer (baseURL @ ''/''))
                      (ac_AllowedRedirectOrigins cfg)
      in if (origin \<noteq> '''' \<or> referer \<noteq> '''') \<and> \<not> allowed \<and> origin \<noteq> baseURL \<and> origin \<noteq> ''''
         then Some (Err ''csrf: origin not allowed'') else None)"

text \<open>The session id of the cookie, empty when it does not decode; the read and delete errors are dropped.\<close>

definition cookie_session :: "'w service \<Rightarrow> string \<Rightarrow> string" where
  "cookie_session s cookie = (if cookie = '''' then '''' else (case sv_decode s cookie of Inl _ \<Rightarrow> '''' | Inr sid \<Rightarrow> sid))"

definition end_session :: "'w connector \<Rightarrow> 'w \<Rightarrow> string \<Rightarrow> string \<times> 'w" where
  "end_session c w sessionID =
     (if sessionID = '''' then ('''', w)
      else (case ss_Get (cn_sessions c) w sessionID of
          (Inr (Some sess), w1) \<Rightarrow> (s_IDToken sess, snd (ss_Delete (cn_sessions c) w1 sessionID))
        | (_, w1) \<Rightarrow> ('''', w1)))"

definition Logout :: "'w auth_env \<Rightarrow> 'w service \<Rightarrow> 'w \<Rightarrow> logout_request \<Rightarrow> logout_response result \<times> 'w \<times> metric list" where
  "Logout ae s w req = (case conn s (oq_Connector req) of
     Inl e \<Rightarrow> (Inl e, w, [LogoutCompleted])
   | Inr c \<Rightarrow> (case logout_csrf (sv_cfg s) (oq_Origin req) (oq_Referer req) of
       Some e \<Rightarrow> (Inl e, w, [LogoutCompleted])
     | None \<Rightarrow>
         (let redirectTo = ValidateRedirectURL ae s (oq_RedirectTo req) in
          case end_session c w (cookie_session s (oq_SessionCookie req)) of
            (idTokenHint, w1) \<Rightarrow> (case pv_EndSessionURL (cn_provider c) w1 idTokenHint redirectTo of
                (Inr endURL, w2) \<Rightarrow> (Inr \<lparr>or_RedirectURL = (if endURL = '''' then redirectTo else endURL), or_ClearCookie = True\<rparr>, w2, [LogoutCompleted])
              | (Inl e, w2) \<Rightarrow> (Inr \<lparr>or_RedirectURL = redirectTo, or_ClearCookie = True\<rparr>, w2, [LogoutCompleted])))))"

section \<open>Resolution, tenant context and handoff\<close>

record resolved_session =
  rv_accessToken :: string
  rv_claims :: "gany gomap"
  rv_tenantContext :: "gany gomap option"
  rv_setCookieValue :: string

definition tenant_map :: "tenant_context \<Rightarrow> gany gomap" where
  "tenant_map t = [(''tenant_id'', AStr (tc_TenantID t)), (''tenant_slug'', AStr (tc_TenantSlug t)), (''status'', AStr (tc_Status t)),
     (''locale'', AStr (tc_Locale t)), (''timezone'', AStr (tc_Timezone t))]"

definition ResolveForConnector :: "'w auth_env \<Rightarrow> 'w service \<Rightarrow> 'w \<Rightarrow> string \<Rightarrow> string \<Rightarrow> resolved_session result \<times> 'w" where
  "ResolveForConnector ae s w connectorID sessionCookie =
     (if sessionCookie = '''' then (Inl (Err ''no session cookie''), w)
      else (case conn s connectorID of
          Inl e \<Rightarrow> (Inl e, w)
        | Inr c \<Rightarrow> (case sv_decode s sessionCookie of
            Inl e \<Rightarrow> (Inl (Err ''invalid cookie''), w)
          | Inr sessionID \<Rightarrow> (case ensureFresh ae s c w sessionID of
              (Inl e, w1) \<Rightarrow> (Inl e, w1)
            | (Inr (sess, refreshed), w1) \<Rightarrow>
                (case (if refreshed then sv_encode s sessionID else Inr '''') of
                   Inl e \<Rightarrow> (Inl e, w1)
                 | Inr cookieValue \<Rightarrow> (Inr \<lparr>rv_accessToken = s_AccessToken sess,
                     rv_claims = (case s_Claims sess of None \<Rightarrow> [] | Some m \<Rightarrow> m),
                     rv_tenantContext = map_option tenant_map (s_TenantContext sess), rv_setCookieValue = cookieValue\<rparr>, w1))))))"

definition Resolve :: "'w auth_env \<Rightarrow> 'w service \<Rightarrow> 'w \<Rightarrow> string \<Rightarrow> resolved_session result \<times> 'w" where
  "Resolve ae s w sessionCookie = ResolveForConnector ae s w '''' sessionCookie"

definition AttachTenantContextForConnector :: "'w service \<Rightarrow> 'w \<Rightarrow> string \<Rightarrow> string \<Rightarrow> tenant_context option \<Rightarrow> goerr option \<times> 'w" where
  "AttachTenantContextForConnector s w connectorID sessionID tc =
     (if sessionID = '''' \<or> tc = None then (Some (Err ''session_id and tenant_context required''), w)
      else (case conn s connectorID of
          Inl e \<Rightarrow> (Some e, w)
        | Inr c \<Rightarrow> (case ss_Get (cn_sessions c) w sessionID of
            (Inr (Some sess), w1) \<Rightarrow> ss_Set (cn_sessions c) w1 sessionID (sess\<lparr>s_TenantContext := tc\<rparr>) (cc_SessionTTLSeconds (cn_cfg c))
          | (_, w1) \<Rightarrow> (Some (Err ''session not found''), w1))))"

definition AttachTenantContext :: "'w service \<Rightarrow> 'w \<Rightarrow> string \<Rightarrow> tenant_context option \<Rightarrow> goerr option \<times> 'w" where
  "AttachTenantContext s w sessionID tc = AttachTenantContextForConnector s w '''' sessionID tc"

definition EnableHandoff :: "'w service \<Rightarrow> 'w once_store option \<Rightarrow> int \<Rightarrow> 'w service" where
  "EnableHandoff s once ttlSeconds = s\<lparr>sv_handoff := Some (NewIssuer (ac_CookieSigningSecret (sv_cfg s)) (ttl_ns ttlSeconds) once)\<rparr>"

definition HandoffEnabled :: "'w service \<Rightarrow> bool" where
  "HandoffEnabled s \<longleftrightarrow> sv_handoff s \<noteq> None"

definition IssueHandoff :: "'w auth_env \<Rightarrow> 'w service \<Rightarrow> 'w \<Rightarrow> string \<Rightarrow> string \<Rightarrow> string \<Rightarrow> string result \<times> 'w \<times> metric list" where
  "IssueHandoff ae s w connectorID subject email = (case sv_handoff s of
     None \<Rightarrow> (Inl (Err ''handoff not enabled''), w, [])
   | Some i \<Rightarrow> (case conn s connectorID of
       Inl e \<Rightarrow> (Inl e, w, [])
     | Inr c \<Rightarrow> (case cn_finder c of
         None \<Rightarrow> (Inl (Err (''handoff: connector '' @ Quote (cc_ID (cn_cfg c)) @ '' has no session finder'')), w, [])
       | Some find_session \<Rightarrow> (case find_session w subject email of
           (Inl e, w1) \<Rightarrow> (Inl (Wrap ''handoff: session lookup failed: '' e), w1, [])
         | (Inr None, w1) \<Rightarrow> (Inl (Err ''handoff: session not found''), w1, [])
         | (Inr (Some sess), w1) \<Rightarrow> (case generateSessionID ae w1 of
             (Inl e, w2) \<Rightarrow> (Inl e, w2, [])
           | (Inr jti, w2) \<Rightarrow> (case ae_now ae w2 of (now, w3) \<Rightarrow>
               (let r = Issue (ae_mac ae) (ae_ticket_json ae) i now (cc_ID (cn_cfg c)) (getClaimString (s_Claims sess) ''sub'') (s_ID sess) jti
                in (r, w3, [HandoffIssued (cc_ID (cn_cfg c)) (\<not> isl r)]))))))))"

text \<open>The second clock reading, of the replay TTL, is only taken for a ticket that verifies.\<close>

definition redeem_body :: "'w auth_env \<Rightarrow> 'w service \<Rightarrow> 'w issuer \<Rightarrow> 'w \<Rightarrow> string \<Rightarrow> string \<Rightarrow> (string \<times> string) result \<times> 'w" where
  "redeem_body ae s i w connectorID tick = (case ae_now ae w of (now1, w1) \<Rightarrow>
     (case (if isl (handoff_verify (ae_mac ae) (ae_ticket_json ae) i now1 tick) \<or> is_once i = None then (0, w1) else ae_now ae w1) of (now2, w2) \<Rightarrow>
     (case Redeem (ae_mac ae) (ae_ticket_json ae) i now1 now2 w2 tick of
        (Inl e, w3) \<Rightarrow> (Inl e, w3)
      | (Inr t, w3) \<Rightarrow>
          (if connectorID \<noteq> '''' \<and> tk_ConnectorID t \<noteq> connectorID then (Inl (Err ''handoff: connector mismatch''), w3)
           else (case conn s (tk_ConnectorID t) of
               Inl e \<Rightarrow> (Inl e, w3)
             | Inr c \<Rightarrow> (case ss_Get (cn_sessions c) w3 (tk_SessionRef t) of
                 (Inr (Some sess), w4) \<Rightarrow> (case sv_encode s (tk_SessionRef t) of
                     Inl e \<Rightarrow> (Inl e, w4)
                   | Inr v \<Rightarrow> (Inr (v, tk_ConnectorID t), w4))
               | (_, w4) \<Rightarrow> (Inl (Err ''handoff: session not found''), w4)))))))"

definition RedeemHandoff :: "'w auth_env \<Rightarrow> 'w service \<Rightarrow> 'w \<Rightarrow> string \<Rightarrow> string \<Rightarrow> (string \<times> string) result \<times> 'w \<times> metric list" where
  "RedeemHandoff ae s w connectorID tick = (case sv_handoff s of
     None \<Rightarrow> (Inl (Err ''handoff not enabled''), w, [])
   | Some i \<Rightarrow> (case redeem_body ae s i w connectorID tick of
       (r, w1) \<Rightarrow> (let label = (case r of Inl _ \<Rightarrow> '''' | Inr (_, k) \<Rightarrow> k) in
         (r, w1, [HandoffRedeemed (or_default label connectorID) (\<not> isl r)]))))"

section \<open>Lemmas\<close>

lemma create_session_Inr:
  assumes "create_session ae s c w host p tr pri = (Inr resp, w')"
  obtains sid expiresAt w1 w2 w3 where "generateSessionID ae w1 = (Inr sid, w2)"
    and "ss_Set (cn_sessions c) w2 sid \<lparr>s_ID = sid, s_AccessToken = pt_AccessToken tr, s_RefreshToken = pt_RefreshToken tr,
        s_IDToken = pt_IDToken tr, s_ExpiresAt = expiresAt, s_Claims = Some (login_claims ae c pri), s_TenantContext = None\<rparr>
        (cc_SessionTTLSeconds (cn_cfg c)) = (None, w3)"
    and "sv_encode s sid = Inr (er_SetCookieValue resp)" and "er_RedirectURL resp = ValidateRedirectURL ae s (pk_RedirectTo p)"
    and "\<not> er_ClearCookie resp"
  using assms by (auto simp: create_session_def Let_def split: prod.splits sum.splits option.splits)

lemma login_end_success:
  assumes "login_end ae s c w req = (Inr resp, w', True)"
  obtains p w1 tr w3 pri w4 where "eq_Error req = ''''" and "eq_Code req \<noteq> ''''"
    and "ps_Get (cn_pkce c) w (eq_State req) = (Inr (Some p), w1)"
    and "pv_ExchangeCode (cn_provider c) (snd (ps_Delete (cn_pkce c) w1 (eq_State req))) (eq_Code req) (pk_CodeVerifier p)
          (cc_OIDCRedirectURI (cn_cfg c)) = (Inr tr, w3)"
    and "ValidateIDToken (ae_token ae) w3 (pt_IDToken tr) (ae_jwks ae) (cc_OIDCIssuer (cn_cfg c)) (id_audience (cn_cfg c)) (pk_Nonce p) = (Inr pri, w4)"
    and "create_session ae s c w4 (eq_Host req) p tr pri = (Inr resp, w')"
  using assms by (auto simp: login_end_def Let_def split: prod.splits sum.splits option.splits if_splits)

lemma login_end_failure: "login_end ae s c w req = (Inr resp, w', False) \<Longrightarrow> resp = login_error s"
  by (auto simp: login_end_def Let_def split: prod.splits sum.splits option.splits if_splits)

lemma ValidateRedirectURL_allowed:
  "target_allowed (ae_url ae) (ac_AppBaseURL (sv_cfg s)) (ac_AllowedRedirectOrigins (sv_cfg s)) (ac_AllowedRedirectPaths (sv_cfg s))
     (ValidateRedirectURL ae s t)"
proof (cases "redirect_check ae s t = ''''")
  case True
  then show ?thesis by (simp add: ValidateRedirectURL_def target_allowed_def)
next
  case False
  then show ?thesis using ValidateRedirect_allowed unfolding ValidateRedirectURL_def redirect_check_def by (simp add: Let_def)
qed

text \<open>The claim \<open>sub\<close> of a new session: the mapped identity, or the token's subject.\<close>

lemma login_claims_sub:
  "any_get (login_claims ae c p) ''sub'' = AStr (or_default (authoritativeID ae c (pr_Claims p)) (pr_Subject p))"
  by (simp add: login_claims_def Let_def)

lemma login_claims_kind:
  "cm_IDKind (cc_ClaimMapping (cn_cfg c)) \<noteq> '''' \<Longrightarrow>
     any_get (login_claims ae c p) ''authoritative_id_kind'' = AStr (cm_IDKind (cc_ClaimMapping (cn_cfg c)))"
  by (simp add: login_claims_def Let_def)

lemma login_claims_other:
  "k \<notin> set [''sub'', ''authoritative_id_kind'', ''roles''] \<Longrightarrow>
     any_get (login_claims ae c p) k = (case pr_Claims p of None \<Rightarrow> ANil | Some m \<Rightarrow> any_get m k)"
  by (simp add: login_claims_def Let_def split: option.split)

section \<open>The world around a connector\<close>

text \<open>
  A step of the world keeps a store within bounds when it adds no entry to it. The locale \<open>auth_world\<close> states
  what the properties below rely on: the connector's stores satisfy the store contract, they do not interfere
  with each other, and the clock, the random source, the providers, the key sets and the webhook receiver do
  not write into them. \<open>Auth_World\<close> shows it for the Redis stores of the running service.
\<close>

definition keeps :: "('w \<Rightarrow> string \<Rightarrow> 'v option) \<Rightarrow> ('w \<Rightarrow> 'a \<times> 'w) \<Rightarrow> bool" where
  "keeps ab f \<longleftrightarrow> (\<forall>w k t. ab (snd (f w)) k = Some t \<longrightarrow> ab w k = Some t)"

lemma keepsD: "keeps ab f \<Longrightarrow> f w = (x, w1) \<Longrightarrow> ab w1 k = Some t \<Longrightarrow> ab w k = Some t"
  unfolding keeps_def by (metis snd_conv)

lemma keeps_snd: "keeps ab f \<Longrightarrow> ab (snd (f w)) k = Some t \<Longrightarrow> ab w k = Some t"
  unfolding keeps_def by blast

lemma keeps_None: "keeps ab f \<Longrightarrow> f w = (x, w1) \<Longrightarrow> ab w k = None \<Longrightarrow> ab w1 k = None"
  using keepsD by (cases "ab w1 k") fastforce+

text \<open>Keeping composes along the control flow of the methods.\<close>

lemma keeps_ret: "keeps ab (\<lambda>w. (x, w))"
  by (simp add: keeps_def)

lemma keeps_bind: "keeps ab f \<Longrightarrow> (\<And>x. keeps ab (g x)) \<Longrightarrow> keeps ab (\<lambda>w. case f w of (x, w1) \<Rightarrow> g x w1)"
  unfolding keeps_def by (metis case_prod_beta)

lemma keeps_sum: "(\<And>e. keeps ab (f e)) \<Longrightarrow> (\<And>x. keeps ab (g x)) \<Longrightarrow> keeps ab (\<lambda>w. case r of Inl e \<Rightarrow> f e w | Inr x \<Rightarrow> g x w)"
  by (cases r) simp_all

lemma keeps_option: "keeps ab f \<Longrightarrow> (\<And>x. keeps ab (g x)) \<Longrightarrow> keeps ab (\<lambda>w. case r of None \<Rightarrow> f w | Some x \<Rightarrow> g x w)"
  by (cases r) simp_all

lemma keeps_if: "keeps ab f \<Longrightarrow> keeps ab g \<Longrightarrow> keeps ab (\<lambda>w. if b then f w else g w)"
  by (cases b) simp_all

lemma keeps_prod: "(\<And>x y. keeps ab (f x y)) \<Longrightarrow> keeps ab (\<lambda>w. case p of (x, y) \<Rightarrow> f x y w)"
  by (cases p) simp

lemma keeps_cong: "(\<And>w. snd (f w) = snd (g w)) \<Longrightarrow> keeps ab g \<Longrightarrow> keeps ab f"
  unfolding keeps_def by metis

lemma keeps_if_snd: "keeps ab f \<Longrightarrow> keeps ab (\<lambda>w. (x, if b then snd (f w) else w))"
  by (cases b) (auto intro: keeps_cong [of _ f] keeps_ret)

lemmas keeps_rules = keeps_ret keeps_if keeps_option keeps_sum keeps_prod keeps_bind

locale auth_world =
  fixes ae :: "'w auth_env" and c :: "'w connector"
    and absP :: "'w \<Rightarrow> string \<Rightarrow> pkce_state option" and storedP :: "pkce_state \<Rightarrow> pkce_state \<Rightarrow> bool"
    and absS :: "'w \<Rightarrow> string \<Rightarrow> session option" and storedS :: "session \<Rightarrow> session \<Rightarrow> bool"
  assumes pkce_store: "store_contract (ps_Get (cn_pkce c)) (ps_Set (cn_pkce c)) (ps_Delete (cn_pkce c)) absP storedP"
    and session_store: "store_contract (ss_Get (cn_sessions c)) (ss_Set (cn_sessions c)) (ss_Delete (cn_sessions c)) absS storedS"
    and now_keeps: "keeps absP (ae_now ae)" "keeps absS (ae_now ae)"
    and rand_keeps: "keeps absP (\<lambda>w. ae_rand ae w n)" "keeps absS (\<lambda>w. ae_rand ae w n)"
    and jwks_keeps: "ae_jwks ae = Some g \<Longrightarrow> keeps absP (\<lambda>w. g w i)" "ae_jwks ae = Some g \<Longrightarrow> keeps absS (\<lambda>w. g w i)"
    and post_keeps: "keeps absP (\<lambda>w. ae_post ae w q)" "keeps absS (\<lambda>w. ae_post ae w q)"
    and exchange_keeps: "keeps absP (\<lambda>w. pv_ExchangeCode (cn_provider c) w a b d)" "keeps absS (\<lambda>w. pv_ExchangeCode (cn_provider c) w a b d)"
    and refresh_keeps: "keeps absS (\<lambda>w. pv_Refresh (cn_provider c) w a)"
    and endurl_keeps: "keeps absS (\<lambda>w. pv_EndSessionURL (cn_provider c) w a b)"
    and session_ops_keep: "keeps absP (\<lambda>w. ss_Set (cn_sessions c) w k v ttl)"
    and pkce_ops_keep: "keeps absS (\<lambda>w. ps_Get (cn_pkce c) w k)" "keeps absS (\<lambda>w. ps_Delete (cn_pkce c) w k)"
    and lock_ops_keep: "keeps absS (\<lambda>w. ls_Obtain (cn_refreshLock c) w k ttl)" "keeps absS (\<lambda>w. ls_Release (cn_refreshLock c) w k)"
begin

lemma expires_at_keeps: "keeps absP (expires_at ae tr)" "keeps absS (expires_at ae tr)"
  unfolding expires_at_def [abs_def] by (intro keeps_rules now_keeps)+

lemma generate_keeps: "keeps absP (generateSessionID ae)" "keeps absS (generateSessionID ae)"
  unfolding generateSessionID_def [abs_def] by (intro keeps_rules rand_keeps)+

lemma validate_keeps: "keeps absP (\<lambda>w. ValidateIDToken te w raw (ae_jwks ae) i aud nonce)" "keeps absS (\<lambda>w. ValidateIDToken te w raw (ae_jwks ae) i aud nonce)"
proof -
  have st: "snd (ValidateIDToken te w raw src i aud nonce) = snd (case src of None \<Rightarrow> (Inl (Err ''''), w) | Some g \<Rightarrow> g w i)" for w src
    by (auto simp: ValidateIDToken_def split: option.splits prod.splits sum.splits if_splits)
  have "keeps absP (\<lambda>w. case ae_jwks ae of None \<Rightarrow> (Inl (Err ''''), w) | Some g \<Rightarrow> g w i)"
    "keeps absS (\<lambda>w. case ae_jwks ae of None \<Rightarrow> (Inl (Err ''''), w) | Some g \<Rightarrow> g w i)"
    by (cases "ae_jwks ae"; simp add: keeps_ret jwks_keeps)+
  then show "keeps absP (\<lambda>w. ValidateIDToken te w raw (ae_jwks ae) i aud nonce)" "keeps absS (\<lambda>w. ValidateIDToken te w raw (ae_jwks ae) i aud nonce)"
    by (auto intro: keeps_cong [OF st])
qed

lemma webhook_keeps: "keeps absP (\<lambda>w. callPostLoginWebhook ae s w url sid sub email claims host)"
  unfolding callPostLoginWebhook_def [abs_def] Let_def by (intro keeps_rules post_keeps)

lemma create_session_keeps: "keeps absP (\<lambda>w. create_session ae s c w host p tr pri)"
  unfolding create_session_def [abs_def] Let_def
  by (intro keeps_rules keeps_if_snd expires_at_keeps generate_keeps session_ops_keep webhook_keeps)

text \<open>Once the callback has found its state and deleted it, the state is gone when the login ends.\<close>

lemma login_end_consumes:
  assumes "login_end ae s c w req = (r, w', b)" and "eq_Error req = ''''" and "eq_State req \<noteq> ''''" and "eq_Code req \<noteq> ''''"
    and "ps_Get (cn_pkce c) w (eq_State req) = (Inr (Some p), w1)" and "fst (ps_Delete (cn_pkce c) w1 (eq_State req)) = None"
  shows "absP w' (eq_State req) = None"
proof -
  let ?st = "eq_State req" and ?w2 = "snd (ps_Delete (cn_pkce c) w1 (eq_State req))"
  have "ps_Delete (cn_pkce c) w1 ?st = (None, ?w2)" using assms(6) by (metis prod.collapse)
  then have 2: "absP ?w2 ?st = None" by (rule store_contract.del_gone [OF pkce_store])
  obtain x w3 where 3: "pv_ExchangeCode (cn_provider c) ?w2 (eq_Code req) (pk_CodeVerifier p) (cc_OIDCRedirectURI (cn_cfg c)) = (x, w3)" by fastforce
  note n3 = keeps_None [OF exchange_keeps(1) 3 2]
  show ?thesis
  proof (cases x)
    case (Inl e)
    with assms 3 n3 show ?thesis by (auto simp: login_end_def Let_def)
  next
    case (Inr tr)
    obtain y w4 where 4: "ValidateIDToken (ae_token ae) w3 (pt_IDToken tr) (ae_jwks ae) (cc_OIDCIssuer (cn_cfg c)) (id_audience (cn_cfg c)) (pk_Nonce p) = (y, w4)"
      by fastforce
    note n4 = keeps_None [OF validate_keeps(1) 4 n3]
    show ?thesis
    proof (cases y)
      case (Inl e)
      with assms 3 4 n4 Inr show ?thesis by (auto simp: login_end_def Let_def)
    next
      case (Inr pri)
      obtain z w5 where 5: "create_session ae s c w4 (eq_Host req) p tr pri = (z, w5)" by fastforce
      have "w' = w5" using assms 3 4 5 \<open>x = Inr tr\<close> Inr by (auto simp: login_end_def Let_def split: sum.splits)
      with keeps_None [OF create_session_keeps 5 n4] show ?thesis by simp
    qed
  qed
qed

lemma login_end_unknown_state:
  assumes "absP w (eq_State req) = None"
  shows "\<exists>w'. login_end ae s c w req = (Inr (login_error s), w', False)"
proof -
  have "ps_Get (cn_pkce c) w (eq_State req) \<noteq> (Inr (Some p), w1)" for p w1
    using store_contract.get_hit [OF pkce_store, of w "eq_State req" p w1] assms by auto
  then show ?thesis
    by (cases "ps_Get (cn_pkce c) w (eq_State req)") (auto simp: login_end_def split: sum.splits option.splits)
qed

text \<open>A session that was ended stays unreachable.\<close>

lemma end_session_gone:
  assumes "end_session c w sid = (hint, w1)" and "\<And>w. \<exists>x. fst (ss_Get (cn_sessions c) w sid) = Inr x"
    and "\<And>w. fst (ss_Delete (cn_sessions c) w sid) = None" and "sid \<noteq> ''''"
  shows "absS w1 sid = None"
proof -
  obtain x w2 where g: "ss_Get (cn_sessions c) w sid = (Inr x, w2)" using assms(2) [of w] by (cases "ss_Get (cn_sessions c) w sid") auto
  show ?thesis
  proof (cases x)
    case None
    with g assms(1,4) have "w1 = w2" by (simp add: end_session_def)
    with store_contract.get_keeps_gone [OF session_store store_contract.get_miss [OF session_store g [unfolded None]] g] show ?thesis by simp
  next
    case (Some sess)
    with g assms(1,4) have "w1 = snd (ss_Delete (cn_sessions c) w2 sid)" by (simp add: end_session_def)
    then have "ss_Delete (cn_sessions c) w2 sid = (None, w1)" using assms(3) [of w2] by (metis prod.collapse)
    then show ?thesis by (rule store_contract.del_gone [OF session_store])
  qed
qed

lemma absent_unauthenticated:
  assumes "absS w sid = None" and "sv_decode s cookie = Inr sid" and "conn s i = Inr c"
  shows "fst (Session_of ae s w \<lparr>sq_SessionCookie = cookie, sq_Connector = i\<rparr>) = unauthenticated"
    and "\<exists>e. fst (ResolveForConnector ae s w i cookie) = Inl e"
proof -
  obtain x w1 where g: "ss_Get (cn_sessions c) w sid = (x, w1)" by fastforce
  have "x \<noteq> Inr (Some sess)" for sess using store_contract.get_hit [OF session_store, of w sid sess w1] g assms(1) by auto
  then show "fst (Session_of ae s w \<lparr>sq_SessionCookie = cookie, sq_Connector = i\<rparr>) = unauthenticated"
    using g assms(2,3) by (auto simp: Session_of_def split: sum.splits option.splits)
  show "\<exists>e. fst (ResolveForConnector ae s w i cookie) = Inl e"
    using g \<open>\<And>sess. x \<noteq> Inr (Some sess)\<close> assms(2,3)
    by (auto simp: ResolveForConnector_def ensureFresh_def reload_def split: sum.splits option.splits)
qed

end

end
