(* ===== verification/Auth_Frame.thy ===== *)
theory Auth_Frame
  imports Auth_Service
begin

text \<open>
  What the methods of the auth service leave alone. The locale \<open>connector_frame\<close> assumes a bound on a store for
  every primitive that a connector's methods call (none of them adds an entry to the store \<open>ab\<close>), and carries it
  through each method; \<open>run_service\<close> runs a sequence of calls of the service.
\<close>

section \<open>Methods that also return metrics\<close>

definition keepsm :: "('w \<Rightarrow> string \<Rightarrow> 'v option) \<Rightarrow> ('w \<Rightarrow> 'a \<times> 'w \<times> 'm) \<Rightarrow> bool" where
  "keepsm ab f \<longleftrightarrow> (\<forall>w k t. ab (fst (snd (f w))) k = Some t \<longrightarrow> ab w k = Some t)"

lemma keepsmD: "keepsm ab f \<Longrightarrow> ab (fst (snd (f w))) k = Some t \<Longrightarrow> ab w k = Some t"
  unfolding keepsm_def by blast

lemma keepsm_ret: "keepsm ab (\<lambda>w. (x, w, m))"
  by (simp add: keepsm_def)

lemma keepsm_bind: "keeps ab f \<Longrightarrow> (\<And>x. keepsm ab (g x)) \<Longrightarrow> keepsm ab (\<lambda>w. case f w of (x, w1) \<Rightarrow> g x w1)"
  unfolding keeps_def keepsm_def by (metis case_prod_beta)

lemma keepsm_bind3: "keepsm ab f \<Longrightarrow> (\<And>x m. keepsm ab (g x m)) \<Longrightarrow> keepsm ab (\<lambda>w. case f w of (x, w1, m) \<Rightarrow> g x m w1)"
  unfolding keepsm_def by (metis (mono_tags, lifting) case_prod_beta)

lemma keepsm_sum: "(\<And>e. keepsm ab (f e)) \<Longrightarrow> (\<And>x. keepsm ab (g x)) \<Longrightarrow> keepsm ab (\<lambda>w. case r of Inl e \<Rightarrow> f e w | Inr x \<Rightarrow> g x w)"
  by (cases r) simp_all

lemma keepsm_option: "keepsm ab f \<Longrightarrow> (\<And>x. r = Some x \<Longrightarrow> keepsm ab (g x)) \<Longrightarrow> keepsm ab (\<lambda>w. case r of None \<Rightarrow> f w | Some x \<Rightarrow> g x w)"
  by (cases r) simp_all

lemma keepsm_if: "keepsm ab f \<Longrightarrow> keepsm ab g \<Longrightarrow> keepsm ab (\<lambda>w. if b then f w else g w)"
  by (cases b) simp_all

lemma keepsm_prod: "(\<And>x y. keepsm ab (f x y)) \<Longrightarrow> keepsm ab (\<lambda>w. case p of (x, y) \<Rightarrow> f x y w)"
  by (cases p) simp

lemmas keepsm_rules = keepsm_ret keepsm_if keepsm_option keepsm_sum keepsm_prod keepsm_bind3 keepsm_bind

lemma keepsm_after:
  assumes "keeps ab f" and "keepsm ab g"
  shows "keepsm ab (\<lambda>w. g (snd (f w)))"
  unfolding keepsm_def using keeps_snd [OF assms(1)] keepsmD [OF assms(2)] by metis

lemma keeps_then: "keeps ab f \<Longrightarrow> keeps ab (\<lambda>w. (x, snd (f w)))"
  by (rule keeps_cong [of _ f]) simp_all

lemma keeps_option_eq:
  "keeps ab f \<Longrightarrow> (\<And>x. r = Some x \<Longrightarrow> keeps ab (g x)) \<Longrightarrow> keeps ab (\<lambda>w. case r of None \<Rightarrow> f w | Some x \<Rightarrow> g x w)"
  by (cases r) simp_all

lemma keeps_sum_eq:
  "(\<And>e. keeps ab (f e)) \<Longrightarrow> (\<And>x. r = Inr x \<Longrightarrow> keeps ab (g x)) \<Longrightarrow> keeps ab (\<lambda>w. case r of Inl e \<Rightarrow> f e w | Inr x \<Rightarrow> g x w)"
  by (cases r) simp_all

lemma keeps_bool: "keeps ab f \<Longrightarrow> keeps ab g \<Longrightarrow> keeps ab (\<lambda>w. case b of True \<Rightarrow> f w | False \<Rightarrow> g w)"
  by (cases b) simp_all

section \<open>The frame of a connector\<close>

locale connector_frame =
  fixes ae :: "'w auth_env" and c :: "'w connector" and ab :: "'w \<Rightarrow> string \<Rightarrow> 'v option"
  assumes env: "keeps ab (ae_now ae)" "keeps ab (\<lambda>w. ae_rand ae w n)" "keeps ab (\<lambda>w. ae_post ae w q)"
      "ae_jwks ae = Some g \<Longrightarrow> keeps ab (\<lambda>w. g w i)"
    and provider: "keeps ab (\<lambda>w. pv_AuthorizationURL (cn_provider c) w a b d x)" "keeps ab (\<lambda>w. pv_ExchangeCode (cn_provider c) w a b d)"
      "keeps ab (\<lambda>w. pv_Refresh (cn_provider c) w a)" "keeps ab (\<lambda>w. pv_EndSessionURL (cn_provider c) w a b)"
    and sessions: "keeps ab (\<lambda>w. ss_Get (cn_sessions c) w k)" "keeps ab (\<lambda>w. ss_Set (cn_sessions c) w k s ttl)"
      "keeps ab (\<lambda>w. ss_Delete (cn_sessions c) w k)"
    and logins: "keeps ab (\<lambda>w. ps_Get (cn_pkce c) w k)" "keeps ab (\<lambda>w. ps_Set (cn_pkce c) w k p ttl)" "keeps ab (\<lambda>w. ps_Delete (cn_pkce c) w k)"
    and locks: "keeps ab (\<lambda>w. ls_Obtain (cn_refreshLock c) w k ttl)" "keeps ab (\<lambda>w. ls_Release (cn_refreshLock c) w k)"
    and finder: "cn_finder c = Some find_session \<Longrightarrow> keeps ab (\<lambda>w. find_session w a b)"
begin

lemmas prims = env(1-3) provider sessions logins locks

lemma validate: "keeps ab (\<lambda>w. ValidateIDToken te w raw (ae_jwks ae) i aud nonce)"
proof -
  have st: "snd (ValidateIDToken te w raw src i aud nonce) = snd (case src of None \<Rightarrow> (Inl (Err ''''), w) | Some g \<Rightarrow> g w i)" for w src
    by (auto simp: ValidateIDToken_def split: option.splits prod.splits sum.splits if_splits)
  have "keeps ab (\<lambda>w. case ae_jwks ae of None \<Rightarrow> (Inl (Err ''''), w) | Some g \<Rightarrow> g w i)"
    by (cases "ae_jwks ae") (simp_all add: keeps_ret env)
  then show ?thesis by (rule keeps_cong [OF st])
qed

lemma expires: "keeps ab (expires_at ae tr)"
  unfolding expires_at_def [abs_def] by (intro keeps_rules env)

lemma new_id: "keeps ab (generateSessionID ae)"
  unfolding generateSessionID_def [abs_def] by (intro keeps_rules env)

lemma webhook: "keeps ab (\<lambda>w. callPostLoginWebhook ae s w url sid sub email claims host)"
  unfolding callPostLoginWebhook_def [abs_def] Let_def by (intro keeps_rules env)

lemma creation: "keeps ab (\<lambda>w. create_session ae s c w host p tr pri)"
  unfolding create_session_def [abs_def] Let_def
  by (intro keeps_rules keeps_if_snd expires new_id sessions webhook)

lemma refreshing: "keeps ab (\<lambda>w. store_refreshed ae c sid sess w)" "keeps ab (refreshed_session ae c sess tr)"
  unfolding store_refreshed_def [abs_def] refreshed_session_def [abs_def] Let_def
  by (intro keeps_rules prims expires validate)+

end

context connector_frame
begin

lemma login_callback: "keepsm ab (\<lambda>w. login_end ae s c w req)"
  unfolding login_end_def [abs_def] Let_def
  by (intro keepsm_rules prims validate creation keepsm_after [where f = "\<lambda>w. ps_Delete (cn_pkce c) w (eq_State req)"])

lemma release: "keeps ab (\<lambda>w. (x, release_lock c sid w))"
  unfolding release_lock_def by (rule keeps_then) (rule locks)

lemma fresh: "keeps ab (\<lambda>w. ensureFresh ae s c w sid)"
  unfolding ensureFresh_def [abs_def] reload_def session_due_def
  by (intro keeps_rules keeps_bool prims refreshing release)

lemma refreshes: "keeps ab (\<lambda>w. refresh_body ae s c w req)"
  unfolding refresh_body_def [abs_def]
  by (intro keeps_rules keeps_bool prims refreshing release)

lemma ending: "keeps ab (\<lambda>w. end_session c w sid)"
  unfolding end_session_def [abs_def] by (intro keeps_rules sessions keeps_then)

end

section \<open>Runs of the service\<close>

datatype service_call =
    CSession session_request
  | CLoginStart login_start_request
  | CLoginEnd login_end_request
  | CRefresh refresh_request
  | CLogout logout_request
  | CResolve string string
  | CEnsureFresh string string
  | CAttachTenant string string "tenant_context option"
  | CIssueHandoff string string string
  | CRedeemHandoff string string

fun run_service_call :: "'w auth_env \<Rightarrow> 'w service \<Rightarrow> service_call \<Rightarrow> 'w \<Rightarrow> 'w" where
  "run_service_call ae s (CSession req) w = snd (Session_of ae s w req)"
| "run_service_call ae s (CLoginStart req) w = fst (snd (LoginStart ae s w req))"
| "run_service_call ae s (CLoginEnd req) w = fst (snd (LoginEnd ae s w req))"
| "run_service_call ae s (CRefresh req) w = fst (snd (Refresh ae s w req))"
| "run_service_call ae s (CLogout req) w = fst (snd (Logout ae s w req))"
| "run_service_call ae s (CResolve i cookie) w = snd (ResolveForConnector ae s w i cookie)"
| "run_service_call ae s (CEnsureFresh i sid) w = snd (EnsureFreshSessionForConnector ae s w i sid)"
| "run_service_call ae s (CAttachTenant i sid tc) w = snd (AttachTenantContextForConnector s w i sid tc)"
| "run_service_call ae s (CIssueHandoff i subject email) w = fst (snd (IssueHandoff ae s w i subject email))"
| "run_service_call ae s (CRedeemHandoff i tick) w = fst (snd (RedeemHandoff ae s w i tick))"

definition run_service :: "'w auth_env \<Rightarrow> 'w service \<Rightarrow> service_call list \<Rightarrow> 'w \<Rightarrow> 'w" where
  "run_service ae s = fold (run_service_call ae s)"

text \<open>The connector a call names; redeeming a ticket reads the sessions of the connector in the ticket instead.\<close>

fun call_connector :: "service_call \<Rightarrow> string option" where
  "call_connector (CSession req) = Some (sq_Connector req)"
| "call_connector (CLoginStart req) = Some (lq_Connector req)"
| "call_connector (CLoginEnd req) = Some (eq_Connector req)"
| "call_connector (CRefresh req) = Some (fq_Connector req)"
| "call_connector (CLogout req) = Some (oq_Connector req)"
| "call_connector (CResolve i cookie) = Some i"
| "call_connector (CEnsureFresh i sid) = Some i"
| "call_connector (CAttachTenant i sid tc) = Some i"
| "call_connector (CIssueHandoff i subject email) = Some i"
| "call_connector (CRedeemHandoff i tick) = None"

lemma unknown_connector_call:
  assumes "call_connector call = Some i" and "conn s i = Inl e"
  shows "run_service_call ae s call w = w"
  using assms by (cases call)
    (auto simp: Session_of_def LoginStart_def LoginEnd_def Refresh_def Logout_def ResolveForConnector_def EnsureFreshSessionForConnector_def
      AttachTenantContextForConnector_def IssueHandoff_def split: option.splits)

context connector_frame
begin

lemma frame_session:
  assumes "conn s (sq_Connector req) = Inr c"
  shows "keeps ab (\<lambda>w. Session_of ae s w req)"
  unfolding Session_of_def [abs_def] assms sum.case
  by (intro keeps_rules prims)

lemma frame_login_start:
  assumes "conn s (lq_Connector req) = Inr c"
  shows "keepsm ab (\<lambda>w. LoginStart ae s w req)"
  unfolding LoginStart_def [abs_def] GeneratePKCE_def GenerateState_def Let_def assms sum.case
  by (intro keepsm_rules keeps_rules prims)

lemma frame_login_end:
  assumes "conn s (eq_Connector req) = Inr c"
  shows "keepsm ab (\<lambda>w. LoginEnd ae s w req)"
  unfolding LoginEnd_def [abs_def] assms sum.case
  by (intro keepsm_rules login_callback)

lemma frame_refresh:
  assumes "conn s (fq_Connector req) = Inr c"
  shows "keepsm ab (\<lambda>w. Refresh ae s w req)"
  unfolding Refresh_def [abs_def] assms sum.case
  by (intro keepsm_rules refreshes)

lemma frame_logout:
  assumes "conn s (oq_Connector req) = Inr c"
  shows "keepsm ab (\<lambda>w. Logout ae s w req)"
  unfolding Logout_def [abs_def] Let_def assms sum.case
  by (intro keepsm_rules prims ending)

lemma frame_resolve:
  assumes "conn s j = Inr c"
  shows "keeps ab (\<lambda>w. ResolveForConnector ae s w j cookie)"
  unfolding ResolveForConnector_def [abs_def] assms sum.case
  by (intro keeps_rules fresh)

lemma frame_ensure_fresh:
  assumes "conn s j = Inr c"
  shows "keeps ab (\<lambda>w. EnsureFreshSessionForConnector ae s w j sid)"
  unfolding EnsureFreshSessionForConnector_def [abs_def] assms sum.case
  by (intro keeps_rules fresh)

lemma frame_attach_tenant:
  assumes "conn s j = Inr c"
  shows "keeps ab (\<lambda>w. AttachTenantContextForConnector s w j sid tc)"
  unfolding AttachTenantContextForConnector_def [abs_def] assms sum.case
  by (intro keeps_rules prims)

lemma frame_issue_handoff:
  assumes "conn s j = Inr c"
  shows "keepsm ab (\<lambda>w. IssueHandoff ae s w j subject email)"
  unfolding IssueHandoff_def [abs_def] Let_def assms sum.case
  by (intro keepsm_rules prims new_id finder) assumption

lemma frame_call:
  assumes "call_connector call = Some i" and "conn s i = Inr c" and "ab (run_service_call ae s call w) k = Some t"
  shows "ab w k = Some t"
  using assms
  by (cases call)
    (simp_all, (blast dest: keeps_snd [OF frame_session] keepsmD [OF frame_login_start] keepsmD [OF frame_login_end] keepsmD [OF frame_refresh] keepsmD [OF frame_logout] keeps_snd [OF frame_resolve] keeps_snd [OF frame_ensure_fresh] keeps_snd [OF frame_attach_tenant] keepsmD [OF frame_issue_handoff])+)

end

text \<open>Redeeming a ticket marks it used and reads the session of the connector it names.\<close>

lemma redeem_frame:
  assumes "keeps ab (ae_now ae)"
    and once: "\<And>i consume k ttl. sv_handoff s = Some i \<Longrightarrow> is_once i = Some consume \<Longrightarrow> keeps ab (\<lambda>w. consume w k ttl)"
    and get: "\<And>j c k. conn s j = Inr c \<Longrightarrow> keeps ab (\<lambda>w. ss_Get (cn_sessions c) w k)"
  shows "keepsm ab (\<lambda>w. RedeemHandoff ae s w j tick)"
proof (cases "sv_handoff s")
  case None
  then show ?thesis by (simp add: RedeemHandoff_def keepsm_ret)
next
  case (Some i)
  have r: "keeps ab (\<lambda>w. Redeem mac js i now1 now2 w tick)" for mac js now1 now2
    unfolding Redeem_def by (intro keeps_ret keeps_sum keeps_option_eq keeps_bool keeps_bind once [OF Some]) assumption
  have "keeps ab (\<lambda>w. redeem_body ae s i w j tick)"
    unfolding redeem_body_def by (intro keeps_ret keeps_if keeps_option keeps_sum_eq keeps_bind assms(1) r get) assumption
  then show ?thesis unfolding RedeemHandoff_def Let_def Some option.case by (intro keepsm_rules)
qed

text \<open>A run of calls none of which may add to the store adds nothing to it.\<close>

lemma run_service_frame:
  assumes "\<And>call w k t. call \<in> set calls \<Longrightarrow> ab (run_service_call ae s call w) k = Some t \<Longrightarrow> ab w k = Some t"
    and "ab (run_service ae s calls w) k = Some t"
  shows "ab w k = Some t"
  using assms
proof (induction calls arbitrary: w)
  case (Cons call calls)
  have "ab (run_service ae s calls (run_service_call ae s call w)) k = Some t" using Cons.prems(2) by (simp add: run_service_def)
  from Cons.IH [OF _ this] Cons.prems(1) have "ab (run_service_call ae s call w) k = Some t" by (meson list.set_intros(2))
  with Cons.prems(1) show ?case by (meson list.set_intros(1))
qed (simp add: run_service_def)

section \<open>The connectors of a service\<close>

lemma add_connectors_map:
  assumes "add_connectors cws s = Inr s'" and "map_of (sv_connectors s') i = Some c"
  shows "map_of (sv_connectors s) i = Some c
    \<or> (\<exists>cw \<in> set cws. \<exists>p. cw_Provider cw = Some p \<and> i = or_default (cc_ID (cw_Config cw)) ''default'' \<and> c = connector_of (sv_cfg s) cw p)"
  using assms
proof (induction cws arbitrary: s)
  case (Cons cw cws)
  obtain p where p: "cw_Provider cw = Some p" using Cons.prems(1) by (cases "cw_Provider cw") auto
  let ?i = "or_default (cc_ID (cw_Config cw)) ''default''"
  let ?s = "s\<lparr>sv_connectors := AList.update ?i (connector_of (sv_cfg s) cw p) (sv_connectors s)\<rparr>"
  let ?s1 = "if cc_Default (cw_Config cw) \<or> sv_defaultID ?s = '''' then ?s\<lparr>sv_defaultID := ?i\<rparr> else ?s"
  have "add_connectors cws ?s1 = Inr s'" using Cons.prems(1) p by (simp add: Let_def)
  from Cons.IH [OF this Cons.prems(2)] p show ?case by (auto simp: update_conv' split: if_splits)
qed simp

lemma newService_conn:
  assumes "newService cfg cws enc dec = Inr s" and "conn s i = Inr c"
  obtains cw p where "cw \<in> set cws" and "cw_Provider cw = Some p"
    and "or_default (cc_ID (cw_Config cw)) ''default'' = (if i = '''' then sv_defaultID s else i)" and "c = connector_of cfg cw p"
  using assms add_connectors_map [of cws _ s "if i = '''' then sv_defaultID s else i" c]
  by (fastforce simp: newService_def conn_def Let_def split: option.splits)

end
