(* ===== verification/Auth_World.thy ===== *)
theory Auth_World
  imports Auth_Frame
begin

text \<open>
  The running auth service: \<open>cmd/accessgate-auth/main.go\<close> gives every connector its own Redis key prefix on one
  server, its own provider, and the handoff issuer the default connector's store. The world is the state of the
  Redis server with the store metrics, and the rest of the outside (\<open>gw_net\<close>), which the providers, the clock,
  the random source and the webhook act on.

  The locale \<open>auth_on_redis\<close> shows the contract \<open>auth_world\<close> for such a connector on every server that meets
  \<open>redis_server\<close>; the locale \<open>connector_frame\<close> carries a bound on a store through every method of the service,
  from which the separation of connectors follows.
\<close>

section \<open>The world\<close>

record ('r, 'n) gw =
  gw_store :: "'r rstate"
  gw_net :: 'n

definition on_store :: "('r rstate \<Rightarrow> 'a \<times> 'r rstate) \<Rightarrow> ('r, 'n) gw \<Rightarrow> 'a \<times> ('r, 'n) gw" where
  "on_store f w = (case f (gw_store w) of (x, r) \<Rightarrow> (x, w\<lparr>gw_store := r\<rparr>))"

definition on_net :: "('n \<Rightarrow> 'a \<times> 'n) \<Rightarrow> ('r, 'n) gw \<Rightarrow> 'a \<times> ('r, 'n) gw" where
  "on_net f w = (case f (gw_net w) of (x, n) \<Rightarrow> (x, w\<lparr>gw_net := n\<rparr>))"

definition gw_sessions :: "'r rstate session_store \<Rightarrow> ('r, 'n) gw session_store" where
  "gw_sessions st = \<lparr>ss_Get = (\<lambda>w k. on_store (\<lambda>r. ss_Get st r k) w), ss_Set = (\<lambda>w k v ttl. on_store (\<lambda>r. ss_Set st r k v ttl) w),
     ss_Delete = (\<lambda>w k. on_store (\<lambda>r. ss_Delete st r k) w)\<rparr>"

definition gw_pkce :: "'r rstate pkce_store \<Rightarrow> ('r, 'n) gw pkce_store" where
  "gw_pkce st = \<lparr>ps_Get = (\<lambda>w k. on_store (\<lambda>r. ps_Get st r k) w), ps_Set = (\<lambda>w k v ttl. on_store (\<lambda>r. ps_Set st r k v ttl) w),
     ps_Delete = (\<lambda>w k. on_store (\<lambda>r. ps_Delete st r k) w)\<rparr>"

definition gw_lock :: "'r rstate lock_store \<Rightarrow> ('r, 'n) gw lock_store" where
  "gw_lock st = \<lparr>ls_Obtain = (\<lambda>w k ttl. on_store (\<lambda>r. ls_Obtain st r k ttl) w), ls_Release = (\<lambda>w k. on_store (\<lambda>r. ls_Release st r k) w)\<rparr>"

definition gw_provider :: "'n provider \<Rightarrow> ('r, 'n) gw provider" where
  "gw_provider p = \<lparr>pv_AuthorizationURL = (\<lambda>w a b d e. on_net (\<lambda>n. pv_AuthorizationURL p n a b d e) w),
     pv_ExchangeCode = (\<lambda>w a b d. on_net (\<lambda>n. pv_ExchangeCode p n a b d) w), pv_Refresh = (\<lambda>w a. on_net (\<lambda>n. pv_Refresh p n a) w),
     pv_EndSessionURL = (\<lambda>w a b. on_net (\<lambda>n. pv_EndSessionURL p n a b) w)\<rparr>"

definition gw_env :: "'n auth_env \<Rightarrow> ('r, 'n) gw auth_env" where
  "gw_env e = \<lparr>ae_now = on_net (ae_now e), ae_rand = (\<lambda>w k. on_net (\<lambda>n. ae_rand e n k) w), ae_sha = ae_sha e, ae_mac = ae_mac e,
     ae_url = ae_url e, ae_jwks = map_option (\<lambda>g w i. on_net (\<lambda>n. g n i) w) (ae_jwks e),
     ae_token = \<lparr>te_now = (\<lambda>w. te_now (ae_token e) (gw_net w)), te_new_pub = te_new_pub (ae_token e),
       te_unmarshal_jwks = te_unmarshal_jwks (ae_token e), te_jwt_parse = te_jwt_parse (ae_token e)\<rparr>,
     ae_FormatFloat = ae_FormatFloat e, ae_marshal = ae_marshal e, ae_post = (\<lambda>w q. on_net (\<lambda>n. ae_post e n q) w),
     ae_struct = ae_struct e, ae_ticket_json = ae_ticket_json e\<rparr>"

section \<open>Wiring (cmd/accessgate-auth/main.go)\<close>

text \<open>
  The Redis client and the JSON codecs are shared; \<open>buildProviderPlugin\<close> is an argument that yields the
  configured provider of a connector (\<open>None\<close> when it fails). The finder is the store's search by subject and
  e-mail with \<open>strings.ToLower\<close> and the clock; a search whose scan never ends, which \<open>lookup_returns\<close>
  excludes for a server whose cursors end, is an error of its own here.
\<close>

record ('r, 'n) wiring =
  wi_client :: "'r redis_client"
  wi_session_json :: "session json_codec"
  wi_pkce_json :: "pkce_state json_codec"
  wi_provider :: "connector_config \<Rightarrow> 'n provider option"
  wi_lower :: "string \<Rightarrow> string"
  wi_now :: "'r rstate \<Rightarrow> int"

definition store_finder :: "('r, 'n) wiring \<Rightarrow> 'r store \<Rightarrow> 'r rstate \<Rightarrow> string \<Rightarrow> string \<Rightarrow> session option result \<times> 'r rstate" where
  "store_finder wi st r subject email = (case FindSessionBySubjectEmail st (wi_lower wi) (wi_now wi r) r subject email of
     None \<Rightarrow> (Inl (Err ''scan does not end''), r) | Some x \<Rightarrow> x)"

definition connector_store :: "('r, 'n) wiring \<Rightarrow> connector_config \<Rightarrow> 'r store" where
  "connector_store wi cc = \<lparr>st_client = wi_client wi, st_layout = connector_KeyLayout cc, st_session_json = wi_session_json wi,
     st_pkce_json = wi_pkce_json wi\<rparr>"

definition wire_connector :: "('r, 'n) wiring \<Rightarrow> connector_config \<Rightarrow> ('r, 'n) gw connector_wiring" where
  "wire_connector wi cc = (let st = connector_store wi cc in
     \<lparr>cw_Config = cc, cw_Provider = map_option gw_provider (wi_provider wi cc), cw_Sessions = gw_sessions (SessionStore_of st),
      cw_PKCE = gw_pkce (PKCEStore_of st), cw_RefreshLock = gw_lock (RefreshLockStore_of st),
      cw_Finder = Some (\<lambda>w a b. on_store (\<lambda>r. store_finder wi st r a b) w)\<rparr>)"

text \<open>The store of the connector marked default, else of the first.\<close>

definition default_store :: "('r, 'n) wiring \<Rightarrow> auth_config \<Rightarrow> 'r store option" where
  "default_store wi cfg = map_option (connector_store wi)
     (fold (\<lambda>cc d. if cc_Default cc \<or> d = None then Some cc else d) (ac_Connectors cfg) None)"

definition auth_main :: "macfun \<Rightarrow> ('r, 'n) wiring \<Rightarrow> auth_config \<Rightarrow> ('r, 'n) gw service result" where
  "auth_main mac wi cfg =
     (let m = NewSignedManager (ac_CookieSigningSecret cfg) in
      case NewMultiConnector cfg (map (wire_connector wi) (ac_Connectors cfg)) (\<lambda>sid. sm_Encode mac m (AStr sid)) (sm_Decode mac m) of
        Inl e \<Rightarrow> Inl e
      | Inr s \<Rightarrow> Inr (EnableHandoff s (map_option (\<lambda>st w k ttl. on_store (\<lambda>r. ConsumeOnce st r k ttl) w) (default_store wi cfg)) 0))"

section \<open>Keys that an operation leaves alone\<close>

lemma store_contract_gw:
  assumes "store_contract get put del ab stored"
  shows "store_contract (\<lambda>w k. on_store (\<lambda>r. get r k) w) (\<lambda>w k v ttl. on_store (\<lambda>r. put r k v ttl) w) (\<lambda>w k. on_store (\<lambda>r. del r k) w)
    (\<lambda>w. ab (gw_store w)) stored"
  using assms unfolding store_contract_def on_store_def by (clarsimp split: prod.splits)

text \<open>An operation spares a set of keys when no entry under them is new or changed after it.\<close>

definition spares :: "('r \<Rightarrow> keyspace) \<Rightarrow> string set \<Rightarrow> ('r rstate \<Rightarrow> 'a \<times> 'r rstate) \<Rightarrow> bool" where
  "spares kv K f \<longleftrightarrow> (\<forall>r k y. k \<in> K \<longrightarrow> kv (rs_redis (snd (f r))) k = Some y \<longrightarrow> kv (rs_redis r) k = Some y)"

definition at_keys :: "'a json_codec \<Rightarrow> ('r \<Rightarrow> keyspace) \<Rightarrow> (string \<Rightarrow> string) \<Rightarrow> ('r, 'n) gw \<Rightarrow> string \<Rightarrow> 'a option" where
  "at_keys js kv key w i = value_at js (kv (rs_redis (gw_store w))) (key i)"

lemma on_store_snd: "gw_store (snd (on_store f w)) = snd (f (gw_store w))"
  by (simp add: on_store_def split: prod.split)

lemma spares_keeps:
  assumes "spares kv K f" and "range key \<subseteq> K"
  shows "keeps (at_keys js kv key) (on_store f)"
proof -
  have k: "kv (rs_redis r) (key i) = Some y" if "kv (rs_redis (snd (f r))) (key i) = Some y" for r i y
    using assms that unfolding spares_def by blast
  show ?thesis unfolding keeps_def at_keys_def on_store_snd by (intro allI impI) (erule value_at_frame [rotated], erule k)
qed

lemma net_keeps: "keeps (at_keys js kv key) (on_net f)"
  by (simp add: keeps_def at_keys_def on_net_def split: prod.split)

context redis_server
begin

lemma nx_abs_frame:
  assumes "rc_SetNX cl r k v ttl = (x, r')" and "kv r' k' = Some y" and "k' \<noteq> k"
  shows "kv r k' = Some y"
proof (cases x)
  case (Inl e)
  with assms nx_err [of r k v ttl e r'] show ?thesis by (auto dest!: purge_Some)
next
  case (Inr b)
  with assms nx_true [of r k v ttl r'] nx_false [of r k v ttl r'] show ?thesis by (cases b) (auto dest!: purge_Some)
qed

lemma nxargs_abs_frame:
  assumes "rc_SetArgsNX cl r k v ttl = (x, r')" and "kv r' k' = Some y" and "k' \<noteq> k"
  shows "kv r k' = Some y"
proof (cases x)
  case (Inl e)
  with assms nxargs_err [of r k v ttl e r'] show ?thesis by (auto dest!: purge_Some)
next
  case (Inr b)
  with assms nxargs_ok [of r k v ttl r'] nxargs_other [of r k v ttl b r'] show ?thesis by (cases "b = ''OK''") (auto dest!: purge_Some)
qed

lemmas abs_frames = get_abs_frame [OF surjective_pairing] set_abs_frame [OF surjective_pairing] del_abs_frame [OF surjective_pairing]
  nx_abs_frame [OF surjective_pairing] nxargs_abs_frame [OF surjective_pairing]

lemma sparesI: "(\<And>r k y. k \<in> K \<Longrightarrow> kv (rs_redis (snd (f r))) k = Some y \<Longrightarrow> kv (rs_redis r) k = Some y) \<Longrightarrow> spares kv K f"
  unfolding spares_def by blast

lemma spares_ops:
  assumes [simp]: "st_client st = cl"
  shows "spares kv K (\<lambda>r. getSession st r i)" "spares kv K (\<lambda>r. deleteSession st r i)"
    and "spares kv K (\<lambda>r. getPKCE st r i)" "spares kv K (\<lambda>r. deletePKCE st r i)" "spares kv K (\<lambda>r. releaseRefreshLock st r i)"
    and "SessionKey (st_layout st) i \<notin> K \<Longrightarrow> spares kv K (\<lambda>r. setSession st r i s ttl)"
    and "PKCEKey (st_layout st) i \<notin> K \<Longrightarrow> spares kv K (\<lambda>r. setPKCE st r i p ttl)"
    and "RefreshLockKey (st_layout st) i \<notin> K \<Longrightarrow> spares kv K (\<lambda>r. obtainRefreshLock st r i ttl)"
    and "ReplayKey (st_layout st) i \<notin> K \<Longrightarrow> spares kv K (\<lambda>r. ConsumeOnce st r i ttl)"
  by (rule sparesI; simp add: op_redis split: sum.splits; erule abs_frames; metis)+

end

section \<open>The contract of a connector\<close>

text \<open>The sessions and pending logins of a connector.\<close>

definition sessions_at :: "('r, 'n) wiring \<Rightarrow> ('r \<Rightarrow> keyspace) \<Rightarrow> connector_config \<Rightarrow> ('r, 'n) gw \<Rightarrow> string \<Rightarrow> session option" where
  "sessions_at wi kv cc = at_keys (wi_session_json wi) kv (SessionKey (connector_KeyLayout cc))"

definition logins_at :: "('r, 'n) wiring \<Rightarrow> ('r \<Rightarrow> keyspace) \<Rightarrow> connector_config \<Rightarrow> ('r, 'n) gw \<Rightarrow> string \<Rightarrow> pkce_state option" where
  "logins_at wi kv cc = at_keys (wi_pkce_json wi) kv (PKCEKey (connector_KeyLayout cc))"

lemmas connector_keys = connector_KeyLayout_def key_layout_at_def SessionKey_def PKCEKey_def RefreshLockKey_def RevokedKey_def ReplayKey_def

lemma connector_store_sel [simp]:
  "st_client (connector_store wi cc) = wi_client wi" "st_layout (connector_store wi cc) = connector_KeyLayout cc"
  "st_session_json (connector_store wi cc) = wi_session_json wi" "st_pkce_json (connector_store wi cc) = wi_pkce_json wi"
  by (simp_all add: connector_store_def)

lemma wire_connector_sel [simp]:
  "cw_Config (wire_connector wi cc) = cc" "cw_Provider (wire_connector wi cc) = map_option gw_provider (wi_provider wi cc)"
  "cw_Sessions (wire_connector wi cc) = gw_sessions (SessionStore_of (connector_store wi cc))"
  "cw_PKCE (wire_connector wi cc) = gw_pkce (PKCEStore_of (connector_store wi cc))"
  "cw_RefreshLock (wire_connector wi cc) = gw_lock (RefreshLockStore_of (connector_store wi cc))"
  "cw_Finder (wire_connector wi cc) = Some (\<lambda>w a b. on_store (\<lambda>r. store_finder wi (connector_store wi cc) r a b) w)"
  by (simp_all add: wire_connector_def Let_def)

lemma connector_of_sel [simp]:
  "cn_cfg (connector_of cfg cw p) = cw_Config cw" "cn_provider (connector_of cfg cw p) = p" "cn_sessions (connector_of cfg cw p) = cw_Sessions cw"
  "cn_pkce (connector_of cfg cw p) = cw_PKCE cw" "cn_refreshLock (connector_of cfg cw p) = cw_RefreshLock cw" "cn_finder (connector_of cfg cw p) = cw_Finder cw"
  by (simp_all add: connector_of_def)

lemma gw_sel [simp]:
  "ss_Get (gw_sessions ss) w k = on_store (\<lambda>r. ss_Get ss r k) w" "ss_Set (gw_sessions ss) w k v ttl = on_store (\<lambda>r. ss_Set ss r k v ttl) w"
  "ss_Delete (gw_sessions ss) w k = on_store (\<lambda>r. ss_Delete ss r k) w"
  "ps_Get (gw_pkce ps) w k = on_store (\<lambda>r. ps_Get ps r k) w" "ps_Set (gw_pkce ps) w k q ttl = on_store (\<lambda>r. ps_Set ps r k q ttl) w"
  "ps_Delete (gw_pkce ps) w k = on_store (\<lambda>r. ps_Delete ps r k) w"
  "ls_Obtain (gw_lock ls) w k ttl = on_store (\<lambda>r. ls_Obtain ls r k ttl) w" "ls_Release (gw_lock ls) w k = on_store (\<lambda>r. ls_Release ls r k) w"
  "pv_AuthorizationURL (gw_provider p) w a b d x = on_net (\<lambda>n. pv_AuthorizationURL p n a b d x) w"
  "pv_ExchangeCode (gw_provider p) w a b d = on_net (\<lambda>n. pv_ExchangeCode p n a b d) w"
  "pv_Refresh (gw_provider p) w a = on_net (\<lambda>n. pv_Refresh p n a) w"
  "pv_EndSessionURL (gw_provider p) w a b = on_net (\<lambda>n. pv_EndSessionURL p n a b) w"
  by (simp_all add: gw_sessions_def gw_pkce_def gw_lock_def gw_provider_def)

lemma store_sel [simp]:
  "ss_Get (SessionStore_of st) = getSession st" "ss_Set (SessionStore_of st) = setSession st" "ss_Delete (SessionStore_of st) = deleteSession st"
  "ps_Get (PKCEStore_of st) = getPKCE st" "ps_Set (PKCEStore_of st) = setPKCE st" "ps_Delete (PKCEStore_of st) = deletePKCE st"
  "ls_Obtain (RefreshLockStore_of st) = obtainRefreshLock st" "ls_Release (RefreshLockStore_of st) = releaseRefreshLock st"
  by (simp_all add: SessionStore_of_def PKCEStore_of_def RefreshLockStore_of_def)

lemma gw_env_sel [simp]:
  "ae_now (gw_env e) = on_net (ae_now e)" "ae_rand (gw_env e) w n = on_net (\<lambda>m. ae_rand e m n) w" "ae_post (gw_env e) w q = on_net (\<lambda>m. ae_post e m q) w"
  "ae_jwks (gw_env e) = map_option (\<lambda>g w i. on_net (\<lambda>n. g n i) w) (ae_jwks e)"
  by (simp_all add: gw_env_def)

locale auth_on_redis = redis_server "wi_client wi" kv clk
  for wi :: "('r, 'n) wiring" and kv :: "'r \<Rightarrow> keyspace" and clk :: "'r \<Rightarrow> int" +
  fixes cfg :: auth_config and e :: "'n auth_env"
begin

abbreviation connector_at :: "connector_config \<Rightarrow> 'n provider \<Rightarrow> ('r, 'n) gw connector" where
  "connector_at cc p \<equiv> connector_of cfg (wire_connector wi cc) (gw_provider p)"

sublocale redis: redis_sessions "wi_client wi" kv clk "connector_store wi cc" for cc
  by unfold_locales simp

lemma session_contract: "store_contract (ss_Get (cn_sessions (connector_at cc p))) (ss_Set (cn_sessions (connector_at cc p)))
    (ss_Delete (cn_sessions (connector_at cc p))) (sessions_at wi kv cc) (stored_by (wi_session_json wi))"
  using store_contract_gw [OF redis.store_contract_axioms [of cc]]
  by (simp add: gw_sessions_def redis.abs_session_def [abs_def] sessions_at_def at_keys_def [abs_def])

lemma login_contract: "store_contract (ps_Get (cn_pkce (connector_at cc p))) (ps_Set (cn_pkce (connector_at cc p)))
    (ps_Delete (cn_pkce (connector_at cc p))) (logins_at wi kv cc) (stored_by (wi_pkce_json wi))"
  using store_contract_gw [OF redis.pkce.store_contract_axioms [of cc]]
  by (simp add: gw_pkce_def redis.abs_pkce_def [abs_def] logins_at_def at_keys_def [abs_def])

lemmas sparing = spares_ops [OF redis.client]

sublocale connector: auth_world "gw_env e" "connector_at cc p" "logins_at wi kv cc" "stored_by (wi_pkce_json wi)"
  "sessions_at wi kv cc" "stored_by (wi_session_json wi)" for cc p
  unfolding auth_world_def
  by (intro conjI allI session_contract login_contract)
    (auto simp: sessions_at_def logins_at_def connector_keys intro!: net_keeps spares_keeps [OF _ subset_refl] sparing)

lemmas connector_world = connector.auth_world_axioms

end

section \<open>Searching leaves the keys alone\<close>

context redis_server
begin

lemma find_in_keys_frame:
  assumes "st_client st = cl" and "kv (rs_redis (snd (find_in_keys st lower now subject email ks r))) k = Some y"
  shows "kv (rs_redis r) k = Some y"
  using assms(2)
proof (induction ks arbitrary: r)
  case (Cons key ks)
  obtain res r1 where g: "rc_Get cl (rs_redis r) key = (res, r1)" by fastforce
  have "kv r1 k = Some y"
    using Cons.prems Cons.IH [of "r\<lparr>rs_redis := r1\<rparr>"] g assms(1)
    by (auto simp: Let_def split: sum.splits if_splits)
  with get_abs_frame [OF g] show ?case by blast
qed simp

lemma find_scan_frame:
  assumes "find_scan st lower now subject email cursor r = Some q"
  shows "st_client st = cl \<Longrightarrow> kv (rs_redis (snd q)) k = Some y \<Longrightarrow> kv (rs_redis r) k = Some y"
proof (rule find_scan.raw_induct [where P = "\<lambda>st lower now subject email cursor r q. st_client st = cl \<longrightarrow>
      kv (rs_redis (snd q)) k = Some y \<longrightarrow> kv (rs_redis r) k = Some y", rule_format, OF _ assms])
  fix rec st lower now subject email cursor r q
  assume ih: "\<And>st lower now subject email cursor r q. rec st lower now subject email cursor r = Some q \<Longrightarrow> st_client st = cl \<Longrightarrow>
      kv (rs_redis (snd q)) k = Some y \<Longrightarrow> kv (rs_redis r) k = Some y"
    and body: "(case rc_Scan (st_client st) (rs_redis r) cursor (kl_SessionPrefix (st_layout st) @ ''*'') 200 of
        (Inl e, r1) \<Rightarrow> Some (Inl e, r\<lparr>rs_redis := r1\<rparr>)
      | (Inr (keys, nxt), r1) \<Rightarrow>
          (case find_in_keys st lower now subject email keys (r\<lparr>rs_redis := r1\<rparr>) of
             (Inr None, r2) \<Rightarrow> (if nxt = 0 then Some (Inr None, r2) else rec st lower now subject email nxt r2)
           | (res, r2) \<Rightarrow> Some (res, r2))) = Some q"
    and st: "st_client st = cl" and y: "kv (rs_redis (snd q)) k = Some y"
  obtain z r1 where s: "rc_Scan cl (rs_redis r) cursor (kl_SessionPrefix (st_layout st) @ ''*'') 200 = (z, r1)" by fastforce
  have "kv r1 k = Some y"
  proof (cases z)
    case (Inl e)
    with body y s st show ?thesis by auto
  next
    case (Inr p)
    obtain ks nxt where z: "z = Inr (ks, nxt)" using Inr by (cases p) simp
    obtain u r2 where f: "find_in_keys st lower now subject email ks (r\<lparr>rs_redis := r1\<rparr>) = (u, r2)" by fastforce
    have "q = (u, r2) \<or> rec st lower now subject email nxt r2 = Some q"
      using body [unfolded st s z prod.case sum.case f] by (cases u rule: sum.exhaust; cases "projr u") (auto split: if_splits)
    then have "kv (rs_redis r2) k = Some y"
    proof
      assume "rec st lower now subject email nxt r2 = Some q"
      from ih [OF this st y] show ?thesis .
    qed (use y in simp)
    with find_in_keys_frame [OF st, of lower now subject email ks "r\<lparr>rs_redis := r1\<rparr>" k y] f show ?thesis by simp
  qed
  with scan_kv [OF s] show "kv (rs_redis r) k = Some y" by (auto dest: purge_Some)
qed

end

context redis_server
begin

lemma spares_finder:
  assumes "st_client st = cl"
  shows "spares kv K (\<lambda>r. store_finder wi st r a b)"
  using find_scan_frame assms
  by (auto simp: spares_def store_finder_def FindSessionBySubjectEmail_def Let_def split: option.splits if_splits)

end

section \<open>Separation of the connectors\<close>

lemma owns_session: "owns_key k (SessionKey (connector_KeyLayout k) i)"
  and owns_pkce: "owns_key k (PKCEKey (connector_KeyLayout k) i)"
  and owns_lock: "owns_key k (RefreshLockKey (connector_KeyLayout k) i)"
  and owns_replay: "owns_key k (ReplayKey (connector_KeyLayout k) i)"
  unfolding owns_key_def Let_def by blast+

lemma replay_not_session: "ReplayKey (connector_KeyLayout k) i \<noteq> SessionKey (connector_KeyLayout k) j"
  by (simp add: connector_keys)

context auth_on_redis
begin

lemma frame_at:
  assumes "\<And>key. \<not> (owns_key j key \<and> owns_key k key)"
  shows "connector_frame (gw_env e) (connector_at j p) (sessions_at wi kv k)"
proof -
  have n: "x \<notin> range (SessionKey (connector_KeyLayout k))" if "owns_key j x" for x
    using assms [of x] that owns_session [of k] by auto
  show ?thesis
    by unfold_locales
      (auto simp: sessions_at_def intro!: net_keeps spares_keeps [OF _ subset_refl] sparing spares_finder n owns_session owns_pkce owns_lock)
qed

lemma reads_keep: "keeps (sessions_at wi kv k) (\<lambda>w. ss_Get (cn_sessions (connector_at j p)) w i)"
  by (auto simp: sessions_at_def intro!: spares_keeps [OF _ subset_refl] sparing)

lemma consume_keeps:
  assumes "j = k \<or> (\<forall>key. \<not> (owns_key j key \<and> owns_key k key))"
  shows "keeps (sessions_at wi kv k) (\<lambda>w. on_store (\<lambda>r. ConsumeOnce (connector_store wi j) r i ttl) w)"
proof -
  have "ReplayKey (connector_KeyLayout j) i \<notin> range (SessionKey (connector_KeyLayout k))"
    using assms owns_replay [of j i] owns_session [of k] replay_not_session [of k i] by auto
  then show ?thesis by (auto simp: sessions_at_def intro!: spares_keeps [OF _ subset_refl] sparing)
qed

end

text \<open>The contract of the running service, for every wiring of the connectors on the memory server.\<close>

interpretation running: auth_on_redis "wi\<lparr>wi_client := mem_client\<rparr>" mem_kv ms_clock cfg e
  for wi :: "(mem_state, 'n) wiring" and cfg :: auth_config and e :: "'n auth_env"
  using mem.redis_server_axioms by (simp add: auth_on_redis_def)

text \<open>What \<open>main\<close> builds.\<close>

lemma auth_main_conn:
  assumes "auth_main mac wi cfg = Inr s" and "conn s i = Inr c"
  obtains cfg' cc p where "cc \<in> set (ac_Connectors cfg)" and "wi_provider wi cc = Some p"
    and "or_default (cc_ID cc) ''default'' = (if i = '''' then sv_defaultID s else i)"
    and "c = connector_of cfg' (wire_connector wi cc) (gw_provider p)"
proof -
  let ?enc = "\<lambda>sid. sm_Encode mac (NewSignedManager (ac_CookieSigningSecret cfg)) (AStr sid)"
    and ?dec = "sm_Decode mac (NewSignedManager (ac_CookieSigningSecret cfg))"
  obtain s0 cfg' where n: "newService cfg' (map (wire_connector wi) (ac_Connectors cfg)) ?enc ?dec = Inr s0"
    and s: "sv_connectors s = sv_connectors s0" "sv_defaultID s = sv_defaultID s0"
    using assms(1) by (auto simp: auth_main_def Let_def NewMultiConnector_def EnableHandoff_def split: sum.splits prod.splits option.splits if_splits)
  have "conn s0 i = Inr c" using assms(2) unfolding conn_def s .
  from newService_conn [OF n this] obtain cw p where cw: "cw \<in> set (map (wire_connector wi) (ac_Connectors cfg))" "cw_Provider cw = Some p"
    "or_default (cc_ID (cw_Config cw)) ''default'' = (if i = '''' then sv_defaultID s0 else i)" "c = connector_of cfg' cw p" .
  then obtain cc where cc: "cc \<in> set (ac_Connectors cfg)" "cw = wire_connector wi cc" by auto
  with cw obtain p' where "wi_provider wi cc = Some p'" "p = gw_provider p'" by auto
  with cw cc s that show thesis by simp
qed

lemma auth_main_handoff:
  assumes "auth_main mac wi cfg = Inr s" and "sv_handoff s = Some i" and "is_once i = Some consume"
  obtains cc where "cc \<in> set (ac_Connectors cfg)" and "consume = (\<lambda>w k ttl. on_store (\<lambda>r. ConsumeOnce (connector_store wi cc) r k ttl) w)"
proof -
  have "fold (\<lambda>cc d. if cc_Default cc \<or> d = None then Some cc else d) ks d = Some cc \<Longrightarrow> cc \<in> set ks \<or> d = Some cc" for ks d cc
    by (induction ks arbitrary: d) (auto split: if_splits)
  then have d: "default_store wi cfg = Some st \<Longrightarrow> \<exists>cc \<in> set (ac_Connectors cfg). st = connector_store wi cc" for st
    unfolding default_store_def by fastforce
  obtain st where "default_store wi cfg = Some st" and "consume = (\<lambda>w k ttl. on_store (\<lambda>r. ConsumeOnce st r k ttl) w)"
    using assms by (auto simp: auth_main_def Let_def EnableHandoff_def NewIssuer_def split: sum.splits)
  with d that show thesis by blast
qed

end
