(* ===== verification/Auth_Http.thy ===== *)
theory Auth_Http
  imports Auth_World
begin

text \<open>
  \<open>internal/auth/httpserver/server.go\<close> and \<open>internal/auth/errormap/errormap.go\<close>: the routes of the auth service,
  its handlers, its cookies, and the wrappers for CORS and security headers.

  Arguments (\<open>web_env\<close>) are the URL parser, the form fields of a request body, the JSON encoder and decoders, the
  time format and the metrics handler. The mux matches the escaped path; it has answered unclean paths with a
  redirect before, so the model starts from clean ones. The interface value \<open>svc\<close> is a record of its methods together
  with the concrete service that the type assertions of the handlers look for (\<open>hs_concrete\<close>); the same holds of
  \<open>ping\<close> and the two lookup interfaces.
\<close>

section \<open>Status codes (errormap.go)\<close>

definition errBadRequest :: goerr where "errBadRequest = Sentinel ''bad request''"
definition errNotFound :: goerr where "errNotFound = Sentinel ''not found''"
definition errUnauthorized :: goerr where "errUnauthorized = Sentinel ''unauthorized''"

definition StatusFor :: "goerr option \<Rightarrow> int" where
  "StatusFor err = (case err of
     None \<Rightarrow> 200
   | Some e \<Rightarrow> (let s = err_msg e in
       if Contains s ''missing'' \<or> Contains s ''required'' then 400
       else if Contains s ''invalid'' \<or> Contains s ''redirect'' then 400
       else if Contains s ''not found'' \<or> Contains s ''NotFound'' then 404
       else if Contains s ''unauthorized'' \<or> Contains s ''Unauthorized'' then 401
       else if Contains s ''forbidden'' then 403
       else if err_is e errBadRequest then 400
       else if err_is e errNotFound then 404
       else if err_is e errUnauthorized then 401
       else 500))"

definition BadRequest :: "string \<Rightarrow> goerr" where
  "BadRequest msg = Join errBadRequest (Err msg)"

definition NotFound :: "string \<Rightarrow> goerr" where
  "NotFound msg = Join errNotFound (Err msg)"

definition Unauthorized :: "string \<Rightarrow> goerr" where
  "Unauthorized msg = Join errUnauthorized (Err msg)"

section \<open>Responses\<close>

record web_response =
  wr_Status :: int
  wr_Header :: header
  wr_SetCookie :: "string list"
  wr_Body :: bytes

definition reply :: "int \<Rightarrow> (string \<times> string) list \<Rightarrow> bytes \<Rightarrow> web_response" where
  "reply status hs body = \<lparr>wr_Status = status, wr_Header = map (\<lambda>(k, v). (k, [v])) hs, wr_SetCookie = [], wr_Body = body\<rparr>"

definition json_reply :: "int \<Rightarrow> bytes \<Rightarrow> web_response" where
  "json_reply status body = reply status [(''Content-Type'', ''application/json'')] body"

definition web_error :: "string \<Rightarrow> int \<Rightarrow> web_response" where
  "web_error msg code = reply code [(''Content-Type'', ''text/plain; charset=utf-8''), (''X-Content-Type-Options'', ''nosniff'')] (msg @ [NL])"

text \<open>\<open>path.Clean\<close>, with the parts collected in reverse.\<close>

fun clean_parts :: "bool \<Rightarrow> string list \<Rightarrow> string list \<Rightarrow> string list" where
  "clean_parts rooted acc [] = rev acc"
| "clean_parts rooted acc (p # ps) =
     (if p = '''' \<or> p = ''.'' then clean_parts rooted acc ps
      else if p = ''..'' then
        (case acc of
           a # as \<Rightarrow> (if a = ''..'' then clean_parts rooted (p # acc) ps else clean_parts rooted as ps)
         | [] \<Rightarrow> (if rooted then clean_parts rooted acc ps else clean_parts rooted [p] ps))
      else clean_parts rooted (p # acc) ps)"

definition path_Clean :: "string \<Rightarrow> string" where
  "path_Clean p =
     (let rooted = HasPrefix p ''/''; s = StrJoin ''/'' (clean_parts rooted [] (Split (CHR ''/'') p))
      in if rooted then ''/'' @ s else if s = '''' then ''.'' else s)"

definition hexEscapeNonASCII :: "string \<Rightarrow> string" where
  "hexEscapeNonASCII s = concat (map (\<lambda>c. if 128 \<le> (of_char c :: nat) then CHR ''%'' # hex_byte c else [c]) s)"

definition html_escape :: "string \<Rightarrow> string" where
  "html_escape s = concat (map (\<lambda>c. if c = CHR ''&'' then ''&amp;'' else if c = CHR ''<'' then ''&lt;'' else if c = CHR ''>'' then ''&gt;''
     else if c = DQ then ''&#34;'' else if c = CHR 0x27 then ''&#39;'' else [c]) s)"

text \<open>\<open>http.Redirect\<close>: a URL without scheme and host is resolved against the request path.\<close>

definition redirect_target :: "url_parser \<Rightarrow> http_request \<Rightarrow> string \<Rightarrow> string" where
  "redirect_target url_parse r target = (case url_parse target of
     Inl _ \<Rightarrow> target
   | Inr u \<Rightarrow>
       (if u_Scheme u \<noteq> '''' \<or> u_Host u \<noteq> '''' then target
        else (let oldpath = or_default (r_Path r) ''/'';
                  olddir = rev (dropWhile (\<lambda>c. c \<noteq> CHR ''/'') (rev oldpath));
                  t = (if HasPrefix target ''/'' then target else olddir @ target);
                  p = takeWhile (\<lambda>c. c \<noteq> CHR ''?'') t; query = drop (length p) t; cp = path_Clean p
              in (if suffix ''/'' p \<and> \<not> suffix ''/'' cp then cp @ ''/'' else cp) @ query)))"

definition web_redirect :: "url_parser \<Rightarrow> http_request \<Rightarrow> string \<Rightarrow> web_response" where
  "web_redirect url_parse r target =
     (let t = redirect_target url_parse r target; loc = (''Location'', hexEscapeNonASCII t) in
      if r_Method r = ''GET'' \<or> r_Method r = ''HEAD''
      then reply 302 [loc, (''Content-Type'', ''text/html; charset=utf-8'')]
        (if r_Method r = ''GET'' then ''<a href='' @ [DQ] @ html_escape t @ [DQ] @ ''>Found</a>.'' @ [NL, NL] else '''')
      else reply 302 [loc] '''')"

text \<open>\<open>Query().Get\<close>, \<open>FormValue\<close> and \<open>Cookie\<close>.\<close>

definition pairs_Get :: "(string \<times> string) list \<Rightarrow> string \<Rightarrow> string" where
  "pairs_Get ps k = (case map_of ps k of None \<Rightarrow> '''' | Some v \<Rightarrow> v)"

definition query_Get :: "http_request \<Rightarrow> string \<Rightarrow> string" where
  "query_Get r k = pairs_Get (query_pairs (r_RawQuery r)) k"

text \<open>\<open>url.PathEscape\<close> and \<open>url.PathUnescape\<close> (the mux keeps a segment that does not unescape).\<close>

definition segment_char :: "char \<Rightarrow> bool" where
  "segment_char c \<longleftrightarrow> unreserved c \<or> c \<in> set ''$&+=:@''"

definition PathEscape :: "string \<Rightarrow> string" where
  "PathEscape s = concat (map (\<lambda>c. if segment_char c then [c] else CHR ''%'' # map upper_char (hex_byte c)) s)"

fun PathUnescape :: "string \<Rightarrow> string option" where
  "PathUnescape [] = Some []"
| "PathUnescape (c # s) =
     (if c = CHR ''%'' then (case s of
          a # b # t \<Rightarrow> (case (hex_value a, hex_value b) of
              (Some x, Some y) \<Rightarrow> map_option (Cons (char_of (x * 16 + y))) (PathUnescape t)
            | _ \<Rightarrow> None)
        | _ \<Rightarrow> None)
      else map_option (Cons c) (PathUnescape s))"

definition segment_value :: "string \<Rightarrow> string" where
  "segment_value s = (case PathUnescape s of None \<Rightarrow> s | Some t \<Rightarrow> t)"

section \<open>The server\<close>

record 'w auth_api =
  as_Session :: "'w \<Rightarrow> session_request \<Rightarrow> session_response result \<times> 'w \<times> metric list"
  as_LoginStart :: "'w \<Rightarrow> login_start_request \<Rightarrow> string result \<times> 'w \<times> metric list"
  as_LoginEnd :: "'w \<Rightarrow> login_end_request \<Rightarrow> login_end_response result \<times> 'w \<times> metric list"
  as_Refresh :: "'w \<Rightarrow> refresh_request \<Rightarrow> refresh_response result \<times> 'w \<times> metric list"
  as_Logout :: "'w \<Rightarrow> logout_request \<Rightarrow> logout_response result \<times> 'w \<times> metric list"

definition api_of :: "'w auth_env \<Rightarrow> 'w service \<Rightarrow> 'w auth_api" where
  "api_of ae s = \<lparr>as_Session = (\<lambda>w q. case Session_of ae s w q of (r, w1) \<Rightarrow> (Inr r, w1, [])), as_LoginStart = LoginStart ae s,
     as_LoginEnd = LoginEnd ae s, as_Refresh = Refresh ae s, as_Logout = Logout ae s\<rparr>"

type_synonym 'w session_deleter = "'w \<Rightarrow> string \<Rightarrow> string \<Rightarrow> (nat \<times> goerr option) \<times> 'w"

record 'w auth_server =
  hs_svc :: "'w auth_api"
  hs_concrete :: "'w service option"
  hs_cfg :: auth_config
  hs_cookie :: string
  hs_ping :: "('w \<Rightarrow> goerr option \<times> 'w) option"
  hs_find :: "'w finder option"
  hs_delete :: "'w session_deleter option"
  hs_metricsHandler :: bool

text \<open>\<open>New\<close> on the concrete service and a store that implements all three lookup interfaces.\<close>

definition NewAuthServer :: "'w auth_env \<Rightarrow> 'w service \<Rightarrow> auth_config \<Rightarrow> ('w \<Rightarrow> goerr option \<times> 'w) \<times> 'w finder \<times> 'w session_deleter \<Rightarrow> bool \<Rightarrow> 'w auth_server" where
  "NewAuthServer ae s cfg store mh = (case store of (ping, find_session, delete_sessions) \<Rightarrow>
     \<lparr>hs_svc = api_of ae s, hs_concrete = Some s, hs_cfg = cfg, hs_cookie = ac_CookieName cfg, hs_ping = Some ping,
      hs_find = Some find_session, hs_delete = Some delete_sessions, hs_metricsHandler = mh\<rparr>)"

record lookup_body =
  lb_Subject :: string
  lb_Email :: string

record issue_body =
  ib_Connector :: string
  ib_Lookup :: lookup_body
  ib_RedirectTo :: string

record patch_body =
  pb_SessionID :: string
  pb_TenantContext :: "tenant_context option"

record token_body =
  tb_Lookup :: lookup_body
  tb_TokenUse :: string

record web_env =
  we_url :: url_parser
  we_form :: "http_request \<Rightarrow> (string \<times> string) list"
  we_encode :: "gany \<Rightarrow> bytes"
  we_rfc3339 :: "int \<Rightarrow> string"
  we_issue :: "bytes \<Rightarrow> issue_body result"
  we_patch :: "bytes \<Rightarrow> patch_body result"
  we_lookup :: "bytes \<Rightarrow> lookup_body result"
  we_token :: "bytes \<Rightarrow> token_body result"
  we_metrics :: web_response

definition FormValue :: "web_env \<Rightarrow> http_request \<Rightarrow> string \<Rightarrow> string" where
  "FormValue we r k = pairs_Get (we_form we r @ query_pairs (r_RawQuery r)) k"

definition body_of :: "http_request \<Rightarrow> bytes" where
  "body_of r = (case r_Body r of None \<Rightarrow> [] | Some b \<Rightarrow> b)"

section \<open>Cookies\<close>

definition getCookieFor :: "http_request \<Rightarrow> string \<Rightarrow> string" where
  "getCookieFor r name = pairs_Get (r_Cookies r) name"

definition connectorCookie :: "'w auth_server \<Rightarrow> string \<Rightarrow> string \<times> int" where
  "connectorCookie s connID = (case ConnectorByID (hs_cfg s) connID of
     None \<Rightarrow> (hs_cookie s, ac_SessionTTLSeconds (hs_cfg s))
   | Some cc \<Rightarrow> (or_default (cc_CookieName cc) (hs_cookie s), or_zero (cc_SessionTTLSeconds cc) (ac_SessionTTLSeconds (hs_cfg s))))"

record web_cookie_opts =
  wo_path :: string
  wo_domain :: string
  wo_maxAge :: int
  wo_secure :: bool
  wo_httpOnly :: bool
  wo_sameSite :: string

definition cookieOptsForName :: "auth_config \<Rightarrow> string \<Rightarrow> int \<Rightarrow> web_cookie_opts" where
  "cookieOptsForName cfg name maxAge =
     (let host = HasPrefix name ''__Host-'' in
      \<lparr>wo_path = ''/'', wo_domain = (if host then '''' else ac_CookieDomain cfg), wo_maxAge = maxAge,
       wo_secure = (host \<or> ac_CookieSecure cfg), wo_httpOnly = True,
       wo_sameSite = (case ac_CookieSameSite cfg of SameSiteStrict \<Rightarrow> ''Strict'' | SameSiteNone \<Rightarrow> ''None'' | _ \<Rightarrow> ''Lax'')\<rparr>)"

definition cookie_line :: "string \<Rightarrow> string \<Rightarrow> web_cookie_opts \<Rightarrow> string" where
  "cookie_line name value opts = name @ ''='' @ value @ ''; Path='' @ wo_path opts @ ''; Max-Age='' @ Itoa (wo_maxAge opts) @ ''; HttpOnly''
     @ (if wo_domain opts \<noteq> '''' then ''; Domain='' @ wo_domain opts else '''') @ (if wo_secure opts then ''; Secure'' else '''')
     @ ''; SameSite='' @ wo_sameSite opts"

definition add_cookies :: "string list \<Rightarrow> web_response \<Rightarrow> web_response" where
  "add_cookies ls resp = resp\<lparr>wr_SetCookie := ls @ wr_SetCookie resp\<rparr>"

definition writeSessionCookie :: "'w auth_server \<Rightarrow> string \<Rightarrow> int \<Rightarrow> string \<Rightarrow> web_response \<Rightarrow> web_response" where
  "writeSessionCookie s name maxAge value resp = add_cookies [cookie_line name value (cookieOptsForName (hs_cfg s) name maxAge)] resp"

definition clear_lines :: "auth_config \<Rightarrow> string \<Rightarrow> string list" where
  "clear_lines cfg name = (name @ ''=; Path=/; Max-Age=0; HttpOnly'')
     # (if ac_CookieSecure cfg \<or> HasPrefix name ''__Host-'' then [name @ ''=; Path=/; Max-Age=0; HttpOnly; Secure''] else [])"

definition clearCookie :: "'w auth_server \<Rightarrow> string \<Rightarrow> web_response \<Rightarrow> web_response" where
  "clearCookie s name resp = add_cookies (clear_lines (hs_cfg s) name) resp"

section \<open>Browser handlers\<close>

type_synonym 'w handler = "'w \<Rightarrow> http_request \<Rightarrow> web_response \<times> 'w \<times> metric list"

definition service_error :: "goerr \<Rightarrow> web_response" where
  "service_error e = web_error (err_msg e) (StatusFor (Some e))"

definition unauthorized_json :: web_response where
  "unauthorized_json = json_reply 401 (''{'' @ [DQ] @ ''error'' @ [DQ] @ '':'' @ [DQ] @ ''unauthorized'' @ [DQ] @ ''}'')"

definition handleLogin :: "web_env \<Rightarrow> 'w auth_server \<Rightarrow> string \<Rightarrow> 'w handler" where
  "handleLogin we s connID w r =
     (case as_LoginStart (hs_svc s) w \<lparr>lq_Connector = connID, lq_RedirectTo = query_Get r ''redirect_to'', lq_Prompt = TrimSpace (query_Get r ''prompt'')\<rparr> of
        (Inl e, w1, ms) \<Rightarrow> (service_error e, w1, ms)
      | (Inr target, w1, ms) \<Rightarrow> (web_redirect (we_url we) r target, w1, ms))"

definition callback_request :: "web_env \<Rightarrow> string \<Rightarrow> http_request \<Rightarrow> login_end_request" where
  "callback_request we connID r =
     (let get = (if query_Get r ''error'' = '''' \<and> query_Get r ''code'' = '''' then FormValue we r else query_Get r) in
      \<lparr>eq_Connector = connID, eq_Code = get ''code'', eq_State = get ''state'', eq_Error = get ''error'',
       eq_ErrorDescription = get ''error_description'', eq_Host = r_Host r\<rparr>)"

definition handleCallback :: "web_env \<Rightarrow> 'w auth_server \<Rightarrow> string \<Rightarrow> 'w handler" where
  "handleCallback we s connID w r = (case as_LoginEnd (hs_svc s) w (callback_request we connID r) of
     (Inl e, w1, ms) \<Rightarrow> (service_error e, w1, ms)
   | (Inr resp, w1, ms) \<Rightarrow> (case connectorCookie s connID of (name, maxAge) \<Rightarrow>
       (let out = web_redirect (we_url we) r (er_RedirectURL resp);
            out1 = (if er_SetCookieValue resp \<noteq> '''' then writeSessionCookie s name maxAge (er_SetCookieValue resp) out else out)
        in (if er_ClearCookie resp then clearCookie s name out1 else out1, w1, ms))))"

text \<open>The JSON object of a user: empty fields are omitted, as the tags say.\<close>

definition user_json :: "session_user \<Rightarrow> gany" where
  "user_json u = AMap ([(''sub'', AStr (su_Sub u))]
     @ (if su_Email u = '''' then [] else [(''email'', AStr (su_Email u))])
     @ (if su_PreferredUsername u = '''' then [] else [(''preferred_username'', AStr (su_PreferredUsername u))])
     @ (if su_Name u = '''' then [] else [(''name'', AStr (su_Name u))])
     @ (if su_Roles u = [] then [] else [(''roles'', AStrs (su_Roles u))])
     @ (if su_Groups u = [] then [] else [(''groups'', AStrs (su_Groups u))])
     @ (if su_IsAdmin u then [(''is_admin'', ABool True)] else [])
     @ (if su_TenantContext u = [] then [] else [(''tenant_context'', AMap (su_TenantContext u))])
     @ (if su_Claims u = [] then [] else [(''claims'', AMap (su_Claims u))]))"

definition handleSession :: "web_env \<Rightarrow> 'w auth_server \<Rightarrow> string \<Rightarrow> 'w handler" where
  "handleSession we s connID w r = (case connectorCookie s connID of (name, maxAge) \<Rightarrow>
     (case as_Session (hs_svc s) w \<lparr>sq_SessionCookie = getCookieFor r name, sq_Connector = connID\<rparr> of
        (Inl e, w1, ms) \<Rightarrow> (service_error e, w1, ms)
      | (Inr resp, w1, ms) \<Rightarrow>
          (let out = json_reply 200 (we_encode we (AMap [(''is_authenticated'', ABool (sr_IsAuthenticated resp)),
                 (''user'', case sr_User resp of None \<Rightarrow> ANil | Some u \<Rightarrow> user_json u)]))
           in (if sr_SetCookie resp \<noteq> '''' then writeSessionCookie s name maxAge (sr_SetCookie resp) out else out, w1, ms))))"

definition handleMe :: "web_env \<Rightarrow> 'w auth_server \<Rightarrow> string \<Rightarrow> 'w handler" where
  "handleMe we s connID w r = (case connectorCookie s connID of (name, _) \<Rightarrow>
     (case as_Session (hs_svc s) w \<lparr>sq_SessionCookie = getCookieFor r name, sq_Connector = connID\<rparr> of
        (Inl e, w1, ms) \<Rightarrow> (service_error e, w1, ms)
      | (Inr resp, w1, ms) \<Rightarrow>
          (case (sr_IsAuthenticated resp, sr_User resp) of
             (True, Some u) \<Rightarrow> (json_reply 200 (we_encode we (user_json u)), w1, ms)
           | _ \<Rightarrow> (unauthorized_json, w1, ms))))"

definition handleLogout :: "web_env \<Rightarrow> 'w auth_server \<Rightarrow> string \<Rightarrow> 'w handler" where
  "handleLogout we s connID w r = (case connectorCookie s connID of (name, _) \<Rightarrow>
     (case as_Logout (hs_svc s) w \<lparr>oq_SessionCookie = getCookieFor r name, oq_Connector = connID,
             oq_RedirectTo = or_default (query_Get r ''redirect_to'') (FormValue we r ''redirect_to''),
             oq_Origin = hdr_Get (r_Header r) ''Origin'', oq_Referer = hdr_Get (r_Header r) ''Referer''\<rparr> of
        (Inl e, w1, ms) \<Rightarrow> (service_error e, w1, ms)
      | (Inr resp, w1, ms) \<Rightarrow>
          (let out = web_redirect (we_url we) r (or_RedirectURL resp)
           in (if or_ClearCookie resp then clearCookie s name out else out, w1, ms))))"

definition handleRefresh :: "'w auth_server \<Rightarrow> string \<Rightarrow> 'w handler" where
  "handleRefresh s connID w r = (case connectorCookie s connID of (name, maxAge) \<Rightarrow>
     (case as_Refresh (hs_svc s) w \<lparr>fq_SessionCookie = getCookieFor r name, fq_Connector = connID\<rparr> of
        (Inl e, w1, ms) \<Rightarrow> (unauthorized_json, w1, ms)
      | (Inr resp, w1, ms) \<Rightarrow>
          (if fr_Refreshed resp \<and> fr_SetCookieValue resp \<noteq> ''''
           then (writeSessionCookie s name maxAge (fr_SetCookieValue resp) (reply 200 [] ''''), w1, ms)
           else (reply 200 [] '''', w1, ms))))"

definition not_available :: web_response where
  "not_available = web_error ''not available'' 501"

definition handleResolve :: "'w auth_env \<Rightarrow> web_env \<Rightarrow> 'w auth_server \<Rightarrow> 'w handler" where
  "handleResolve ae we s w r = (case hs_concrete s of
     None \<Rightarrow> (not_available, w, [])
   | Some svc \<Rightarrow>
       (let connID = query_Get r ''connector'' in case connectorCookie s connID of (name, maxAge) \<Rightarrow>
        (case ResolveForConnector ae svc w connID (getCookieFor r name) of
           (Inl e, w1) \<Rightarrow> (unauthorized_json, w1, [])
         | (Inr rv, w1) \<Rightarrow>
             (let out = json_reply 200 (we_encode we (AMap [(''access_token'', AStr (rv_accessToken rv)), (''claims'', AMap (rv_claims rv)),
                    (''tenant_context'', case rv_tenantContext rv of None \<Rightarrow> ANil | Some t \<Rightarrow> AMap t)]))
              in (if rv_setCookieValue rv \<noteq> '''' then writeSessionCookie s name maxAge (rv_setCookieValue rv) out else out, w1, [])))))"

section \<open>Handoff and administration\<close>

definition admin_ok :: "'w auth_server \<Rightarrow> http_request \<Rightarrow> bool" where
  "admin_ok s r \<longleftrightarrow> hdr_Get (r_Header r) ''X-Admin-Secret'' = ac_AdminSecret (hs_cfg s)"

definition forbidden_json :: web_response where
  "forbidden_json = json_reply 403 (''{'' @ [DQ] @ ''error'' @ [DQ] @ '':'' @ [DQ] @ ''forbidden'' @ [DQ] @ ''}'')"

definition incomplete :: "lookup_body \<Rightarrow> bool" where
  "incomplete l \<longleftrightarrow> lb_Subject l = '''' \<or> lb_Email l = ''''"

definition lookup_required :: web_response where
  "lookup_required = web_error ''lookup.subject and lookup.email required'' 400"

definition redeem_url :: "'w auth_server \<Rightarrow> issue_body \<Rightarrow> string \<Rightarrow> string" where
  "redeem_url s b tick = TrimSuffix (ac_AppBaseURL (hs_cfg s)) ''/'' @ ''/handoff/redeem''
     @ (if ib_Connector b \<noteq> '''' then ''/'' @ PathEscape (ib_Connector b) else '''') @ ''?''
     @ values_Encode ((if ib_RedirectTo b \<noteq> '''' then values_Set ''redirect_to'' (ib_RedirectTo b) else (\<lambda>q. q)) (values_Set ''ticket'' tick []))"

definition handleHandoffIssue :: "'w auth_env \<Rightarrow> web_env \<Rightarrow> 'w auth_server \<Rightarrow> 'w handler" where
  "handleHandoffIssue ae we s w r =
     (if \<not> admin_ok s r then (forbidden_json, w, [])
      else (case hs_concrete s of
          None \<Rightarrow> (not_available, w, [])
        | Some svc \<Rightarrow>
            (if \<not> HandoffEnabled svc then (not_available, w, [])
             else (case we_issue we (body_of r) of
                 Inl e \<Rightarrow> (web_error ''invalid json'' 400, w, [])
               | Inr b \<Rightarrow>
                   (if incomplete (ib_Lookup b) then (lookup_required, w, [])
                    else (case IssueHandoff ae svc w (ib_Connector b) (lb_Subject (ib_Lookup b)) (lb_Email (ib_Lookup b)) of
                        (Inl e, w1, ms) \<Rightarrow> (service_error e, w1, ms)
                      | (Inr tick, w1, ms) \<Rightarrow>
                          (json_reply 200 (we_encode we (AMap [(''ticket'', AStr tick), (''redeem_url'', AStr (redeem_url s b tick))])), w1, ms)))))))"

definition handleHandoffRedeem :: "'w auth_env \<Rightarrow> web_env \<Rightarrow> 'w auth_server \<Rightarrow> string \<Rightarrow> 'w handler" where
  "handleHandoffRedeem ae we s connID w r = (case hs_concrete s of
     None \<Rightarrow> (not_available, w, [])
   | Some svc \<Rightarrow>
       (if \<not> HandoffEnabled svc then (not_available, w, [])
        else if query_Get r ''ticket'' = '''' then (web_error ''missing ticket'' 400, w, [])
        else (case RedeemHandoff ae svc w connID (query_Get r ''ticket'') of
            (Inl e, w1, ms) \<Rightarrow> (web_redirect (we_url we) r (ac_AppBaseURL (hs_cfg s) @ ac_LoginErrorRedirectPath (hs_cfg s)), w1, ms)
          | (Inr (cookieValue, k), w1, ms) \<Rightarrow> (case connectorCookie s k of (name, maxAge) \<Rightarrow>
              (writeSessionCookie s name maxAge cookieValue
                 (web_redirect (we_url we) r (ValidateRedirectURL ae svc (query_Get r ''redirect_to''))), w1, ms)))))"

definition handlePatchSession :: "web_env \<Rightarrow> 'w auth_server \<Rightarrow> 'w handler" where
  "handlePatchSession we s w r =
     (if \<not> admin_ok s r then (forbidden_json, w, [])
      else (case hs_concrete s of
          None \<Rightarrow> (not_available, w, [])
        | Some svc \<Rightarrow>
            (if r_Method r \<noteq> ''PATCH'' \<and> r_Method r \<noteq> ''POST'' then (reply 405 [] '''', w, [])
             else (case we_patch we (body_of r) of
                 Inl e \<Rightarrow> (web_error ''invalid json'' 400, w, [])
               | Inr b \<Rightarrow>
                   (if pb_SessionID b = '''' \<or> pb_TenantContext b = None then (web_error ''session_id and tenant_context required'' 400, w, [])
                    else (case AttachTenantContext svc w (pb_SessionID b) (pb_TenantContext b) of
                        (Some e, w1) \<Rightarrow> (service_error e, w1, [])
                      | (None, w1) \<Rightarrow> (reply 200 [] '''', w1, [])))))))"

definition handleRevokeSession :: "web_env \<Rightarrow> 'w auth_server \<Rightarrow> 'w handler" where
  "handleRevokeSession we s w r =
     (if \<not> admin_ok s r then (forbidden_json, w, [])
      else (case hs_delete s of
          None \<Rightarrow> (not_available, w, [])
        | Some delete_sessions \<Rightarrow> (case we_lookup we (body_of r) of
            Inl e \<Rightarrow> (web_error ''invalid json'' 400, w, [])
          | Inr l \<Rightarrow>
              (if incomplete l then (lookup_required, w, [])
               else (case delete_sessions w (lb_Subject l) (lb_Email l) of
                   ((n, Some e), w1) \<Rightarrow> (web_error ''session delete failed'' 500, w1, [])
                 | ((n, None), w1) \<Rightarrow>
                     (json_reply 200 (we_encode we (AMap [(''revoked'', ABool (0 < n)), (''deleted_count'', AInt (int n))])), w1, []))))))"

definition token_json :: "web_env \<Rightarrow> session \<Rightarrow> gany" where
  "token_json we sess = AMap ([(''access_token'', AStr (s_AccessToken sess)), (''id_token'', AStr (s_IDToken sess)), (''scope'', AStr ''''),
     (''refresh_owner'', AStr (if s_RefreshToken sess = '''' then ''accessgate'' else ''platform-api'')),
     (''access_expires_at'', AStr (we_rfc3339 we (s_ExpiresAt sess)))]
     @ (if s_RefreshToken sess = '''' then [] else [(''refresh_token'', AStr (s_RefreshToken sess))]))"

definition no_delegated_token :: web_response where
  "no_delegated_token = json_reply 404 (''{'' @ [DQ] @ ''error'' @ [DQ] @ '':'' @ [DQ] @ ''no_active_delegated_token'' @ [DQ] @ ''}'')"

definition handleTokenHandoffUser :: "'w auth_env \<Rightarrow> web_env \<Rightarrow> 'w auth_server \<Rightarrow> 'w handler" where
  "handleTokenHandoffUser ae we s w r =
     (if \<not> admin_ok s r then (forbidden_json, w, [])
      else (case hs_find s of
          None \<Rightarrow> (not_available, w, [])
        | Some find_session \<Rightarrow> (case we_token we (body_of r) of
            Inl e \<Rightarrow> (web_error ''invalid json'' 400, w, [])
          | Inr b \<Rightarrow>
              (if incomplete (tb_Lookup b) then (lookup_required, w, [])
               else if tb_TokenUse b \<noteq> '''' \<and> tb_TokenUse b \<noteq> ''peoplespace_user_api'' then (web_error ''unsupported token_use'' 400, w, [])
               else (case find_session w (lb_Subject (tb_Lookup b)) (lb_Email (tb_Lookup b)) of
                   (Inl e, w1) \<Rightarrow> (web_error ''session lookup failed'' 500, w1, [])
                 | (Inr None, w1) \<Rightarrow> (no_delegated_token, w1, [])
                 | (Inr (Some sess), w1) \<Rightarrow>
                     (if s_AccessToken sess = '''' then (no_delegated_token, w1, [])
                      else (case hs_concrete s of
                          None \<Rightarrow> (json_reply 200 (we_encode we (token_json we sess)), w1, [])
                        | Some svc \<Rightarrow>
                            (if s_ID sess = '''' then (json_reply 200 (we_encode we (token_json we sess)), w1, [])
                             else (case EnsureFreshSessionByID ae svc w1 (s_ID sess) of
                                 (Inl e, w2) \<Rightarrow> (unauthorized_json, w2, [])
                               | (Inr (fresh, _), w2) \<Rightarrow> (json_reply 200 (we_encode we (token_json we fresh)), w2, []))))))))))"

definition authConfigSummary :: "'w auth_server \<Rightarrow> gany" where
  "authConfigSummary s = (let c = hs_cfg s in AMap
     [(''oidc_issuer'', AStr (ac_OIDCIssuer c)), (''oidc_redirect_uri'', AStr (ac_OIDCRedirectURI c)), (''cookie_name'', AStr (ac_CookieName c)),
      (''http_port'', AStr (ac_HTTPPort c)), (''redis_url_set'', ABool (ac_RedisURL c \<noteq> '''')), (''app_base_url'', AStr (ac_AppBaseURL c)),
      (''connectors'', AList (map (\<lambda>cc. AMap [(''id'', AStr (cc_ID cc)), (''default'', ABool (cc_Default cc)), (''oidc_issuer'', AStr (cc_OIDCIssuer cc)),
         (''oidc_redirect_uri'', AStr (cc_OIDCRedirectURI cc)), (''cookie_name'', AStr (cc_CookieName cc)),
         (''id_kind'', AStr (cm_IDKind (cc_ClaimMapping cc)))]) (ac_Connectors c)))])"

definition sessionStoreStatus :: "'w auth_server \<Rightarrow> 'w \<Rightarrow> gany \<times> 'w" where
  "sessionStoreStatus s w = (case hs_ping s of
     None \<Rightarrow> (AMap [(''status'', AStr ''unknown''), (''message'', AStr ''no pinger'')], w)
   | Some ping \<Rightarrow> (case ping w of
       (Some e, w1) \<Rightarrow> (AMap [(''status'', AStr ''error''), (''error'', AStr (err_msg e))], w1)
     | (None, w1) \<Rightarrow> (AMap [(''status'', AStr ''ok'')], w1)))"

definition auth_handleAdmin :: "web_env \<Rightarrow> 'w auth_server \<Rightarrow> 'w handler" where
  "auth_handleAdmin we s w r =
     (if \<not> admin_ok s r then (reply 403 [] '''', w, [])
      else (case sessionStoreStatus s w of (st, w1) \<Rightarrow>
        (json_reply 200 (we_encode we (AMap [(''config_summary'', authConfigSummary s), (''session_store'', st)])), w1, [])))"

definition plain_reply :: "int \<Rightarrow> string \<Rightarrow> web_response" where
  "plain_reply status body = reply status [(''Content-Type'', ''text/plain'')] body"

definition handleReadyz :: "'w auth_server \<Rightarrow> 'w handler" where
  "handleReadyz s w r = (case hs_ping s of
     None \<Rightarrow> (plain_reply 200 ''ok'', w, [])
   | Some ping \<Rightarrow> (case ping w of
       (Some e, w1) \<Rightarrow> (plain_reply 503 ''unhealthy'', w1, []) | (None, w1) \<Rightarrow> (plain_reply 200 ''ok'', w1, [])))"

section \<open>Routes and wrappers\<close>

datatype auth_endpoint =
    EHealthz | EReadyz | ELivez | EAdmin | EPatchSession | ERevokeSession | ETokenHandoffUser | EHandoffIssue | EMetrics
  | ELogin string | ECallback string | ESession string | EMe string | ELogout string | ERefresh string | EResolve | EHandoffRedeem string

type_synonym auth_pattern = "string \<times> string list \<times> (string \<Rightarrow> auth_endpoint)"

definition admin_routes :: "auth_pattern list" where
  "admin_routes = [(''GET'', [''admin''], \<lambda>_. EAdmin), (''PATCH'', [''internal'', ''session''], \<lambda>_. EPatchSession),
     (''POST'', [''internal'', ''session''], \<lambda>_. EPatchSession), (''POST'', [''internal'', ''session'', ''revoke''], \<lambda>_. ERevokeSession),
     (''POST'', [''internal'', ''token-handoff'', ''user''], \<lambda>_. ETokenHandoffUser), (''POST'', [''internal'', ''handoff'', ''issue''], \<lambda>_. EHandoffIssue)]"

definition public_routes :: "auth_pattern list" where
  "public_routes = [(''GET'', [''login''], ELogin), (''GET'', [''login'', ''{connector}''], ELogin),
     (''GET'', [''callback''], ECallback), (''POST'', [''callback''], ECallback),
     (''GET'', [''callback'', ''{connector}''], ECallback), (''POST'', [''callback'', ''{connector}''], ECallback),
     (''GET'', [''session''], ESession), (''GET'', [''session'', ''{connector}''], ESession),
     (''GET'', [''me''], EMe), (''GET'', [''me'', ''{connector}''], EMe),
     (''GET'', [''logout''], ELogout), (''POST'', [''logout''], ELogout),
     (''GET'', [''logout'', ''{connector}''], ELogout), (''POST'', [''logout'', ''{connector}''], ELogout),
     (''GET'', [''refresh''], ERefresh), (''GET'', [''refresh'', ''{connector}''], ERefresh),
     (''GET'', [''internal'', ''resolve''], \<lambda>_. EResolve),
     (''GET'', [''handoff'', ''redeem''], EHandoffRedeem), (''GET'', [''handoff'', ''redeem'', ''{connector}''], EHandoffRedeem)]"

definition auth_routes :: "'w auth_server \<Rightarrow> auth_pattern list" where
  "auth_routes s = [(''GET'', [''healthz''], \<lambda>_. EHealthz), (''GET'', [''readyz''], \<lambda>_. EReadyz), (''GET'', [''livez''], \<lambda>_. ELivez)]
     @ (if ac_AdminSecret (hs_cfg s) \<noteq> '''' then admin_routes else [])
     @ (if hs_metricsHandler s then [(''GET'', [''metrics''], \<lambda>_. EMetrics)] else [])
     @ public_routes"

text \<open>The mux: a wildcard takes one nonempty segment, a \<open>GET\<close> pattern also \<open>HEAD\<close>; \<open>path\<close> is the escaped path.\<close>

fun match_segments :: "string list \<Rightarrow> string list \<Rightarrow> string option" where
  "match_segments [] [] = Some ''''"
| "match_segments (p # ps) (x # xs) =
     (if p = ''{connector}'' then (if x = '''' then None else map_option (\<lambda>_. segment_value x) (match_segments ps xs))
      else if segment_value x = p then match_segments ps xs else None)"
| "match_segments _ _ = None"

definition path_segments :: "string \<Rightarrow> string list" where
  "path_segments path = drop 1 (Split (CHR ''/'') path)"

definition method_matches :: "string \<Rightarrow> string \<Rightarrow> bool" where
  "method_matches pat m \<longleftrightarrow> pat = m \<or> (pat = ''GET'' \<and> m = ''HEAD'')"

definition dispatch :: "auth_pattern list \<Rightarrow> string \<Rightarrow> string \<Rightarrow> auth_endpoint option" where
  "dispatch rs m path = map_option (\<lambda>(_, ps, f). f (the (match_segments ps (path_segments path))))
     (find (\<lambda>(pm, ps, _). method_matches pm m \<and> match_segments ps (path_segments path) \<noteq> None) rs)"

fun run_endpoint :: "'w auth_env \<Rightarrow> web_env \<Rightarrow> 'w auth_server \<Rightarrow> auth_endpoint \<Rightarrow> 'w handler" where
  "run_endpoint ae we s EHealthz w r = (plain_reply 200 ''ok'', w, [])"
| "run_endpoint ae we s EReadyz w r = handleReadyz s w r"
| "run_endpoint ae we s ELivez w r = (plain_reply 200 ''ok'', w, [])"
| "run_endpoint ae we s EAdmin w r = auth_handleAdmin we s w r"
| "run_endpoint ae we s EPatchSession w r = handlePatchSession we s w r"
| "run_endpoint ae we s ERevokeSession w r = handleRevokeSession we s w r"
| "run_endpoint ae we s ETokenHandoffUser w r = handleTokenHandoffUser ae we s w r"
| "run_endpoint ae we s EHandoffIssue w r = handleHandoffIssue ae we s w r"
| "run_endpoint ae we s EMetrics w r = (we_metrics we, w, [])"
| "run_endpoint ae we s (ELogin k) w r = handleLogin we s k w r"
| "run_endpoint ae we s (ECallback k) w r = handleCallback we s k w r"
| "run_endpoint ae we s (ESession k) w r = handleSession we s k w r"
| "run_endpoint ae we s (EMe k) w r = handleMe we s k w r"
| "run_endpoint ae we s (ELogout k) w r = handleLogout we s k w r"
| "run_endpoint ae we s (ERefresh k) w r = handleRefresh s k w r"
| "run_endpoint ae we s EResolve w r = handleResolve ae we s w r"
| "run_endpoint ae we s (EHandoffRedeem k) w r = handleHandoffRedeem ae we s k w r"

definition serve_mux :: "'w auth_env \<Rightarrow> web_env \<Rightarrow> 'w auth_server \<Rightarrow> string \<Rightarrow> 'w handler" where
  "serve_mux ae we s path w r = (case dispatch (auth_routes s) (r_Method r) path of
     Some ep \<Rightarrow> run_endpoint ae we s ep w r
   | None \<Rightarrow>
       (if list_ex (\<lambda>(_, ps, _). match_segments ps (path_segments path) \<noteq> None) (auth_routes s)
        then (web_error ''Method Not Allowed'' 405, w, []) else (web_error ''404 page not found'' 404, w, [])))"

text \<open>Headers set before the handler runs; what the handler sets replaces them.\<close>

definition under_headers :: "(string \<times> string) list \<Rightarrow> web_response \<Rightarrow> web_response" where
  "under_headers hs resp = resp\<lparr>wr_Header := fold (\<lambda>(k, v) h. AList.update k v h) (wr_Header resp) (map (\<lambda>(k, v). (k, [v])) hs)\<rparr>"

definition security_headers :: "(string \<times> string) list" where
  "security_headers = [(''Content-Security-Policy'', ''default-src '' @ [CHR 0x27] @ ''none'' @ [CHR 0x27]), (''X-Content-Type-Options'', ''nosniff''),
     (''X-Frame-Options'', ''DENY'')]"

definition cors_headers :: "string list \<Rightarrow> string \<Rightarrow> (string \<times> string) list" where
  "cors_headers origins origin = (if origin \<in> set origins then [(''Access-Control-Allow-Origin'', origin)] else [])
     @ [(''Access-Control-Allow-Credentials'', ''true''), (''Access-Control-Allow-Methods'', ''GET, POST, OPTIONS''),
        (''Access-Control-Allow-Headers'', ''Content-Type'')]"

definition cors :: "string list \<Rightarrow> 'w handler \<Rightarrow> 'w handler" where
  "cors origins nxt w r =
     (let hs = cors_headers origins (hdr_Get (r_Header r) ''Origin'') in
      if r_Method r = ''OPTIONS'' then (under_headers hs (reply 204 [] ''''), w, [])
      else (case nxt w r of (resp, w1, ms) \<Rightarrow> (under_headers hs resp, w1, ms)))"

definition securityHeaders :: "'w handler \<Rightarrow> 'w handler" where
  "securityHeaders nxt w r = (case nxt w r of (resp, w1, ms) \<Rightarrow> (under_headers security_headers resp, w1, ms))"

definition auth_Handler :: "'w auth_env \<Rightarrow> web_env \<Rightarrow> 'w auth_server \<Rightarrow> string \<Rightarrow> 'w handler" where
  "auth_Handler ae we s path = securityHeaders
     (if ac_CORSAllowedOrigins (hs_cfg s) \<noteq> [] then cors (ac_CORSAllowedOrigins (hs_cfg s)) (serve_mux ae we s path) else serve_mux ae we s path)"

section \<open>The running server (cmd/accessgate-auth/main.go)\<close>

definition store_deleter :: "('r, 'n) wiring \<Rightarrow> 'r store \<Rightarrow> 'r rstate \<Rightarrow> string \<Rightarrow> string \<Rightarrow> (nat \<times> goerr option) \<times> 'r rstate" where
  "store_deleter wi st r subject email = (case DeleteSessionsBySubjectEmail st (wi_lower wi) (wi_now wi r) r subject email of
     None \<Rightarrow> ((0, Some (Err ''scan does not end'')), r) | Some x \<Rightarrow> x)"

text \<open>The server shares the configuration with the service, which may have completed it.\<close>

definition auth_server_main :: "macfun \<Rightarrow> ('r, 'n) wiring \<Rightarrow> ('r rstate \<Rightarrow> goerr option \<times> 'r rstate) \<Rightarrow> 'n auth_env \<Rightarrow> auth_config \<Rightarrow> ('r, 'n) gw auth_server result" where
  "auth_server_main mac wi ping e cfg = (case auth_main mac wi cfg of
     Inl er \<Rightarrow> Inl er
   | Inr s \<Rightarrow> (case default_store wi cfg of
       None \<Rightarrow> Inl (Err ''at least one connector is required'')
     | Some st \<Rightarrow> Inr (NewAuthServer (gw_env e) s (sv_cfg s)
         (\<lambda>w. on_store ping w, \<lambda>w a b. on_store (\<lambda>r. store_finder wi st r a b) w, \<lambda>w a b. on_store (\<lambda>r. store_deleter wi st r a b) w) True)))"

section \<open>Lemmas\<close>

lemma match_literal: "''{connector}'' \<notin> set ps \<Longrightarrow> match_segments ps xs = (if map segment_value xs = ps then Some '''' else None)"
  by (induction ps xs rule: match_segments.induct) auto

lemma wr_simps [simp]:
  "wr_Status (reply st hs b) = st" "wr_SetCookie (reply st hs b) = []" "wr_Body (reply st hs b) = b"
  "wr_Status (under_headers hs resp) = wr_Status resp" "wr_SetCookie (under_headers hs resp) = wr_SetCookie resp" "wr_Body (under_headers hs resp) = wr_Body resp"
  "wr_SetCookie (add_cookies ls resp) = ls @ wr_SetCookie resp" "wr_Status (add_cookies ls resp) = wr_Status resp" "wr_Body (add_cookies ls resp) = wr_Body resp"
  by (simp_all add: reply_def under_headers_def add_cookies_def)

lemma no_cookies [simp]:
  "wr_SetCookie (json_reply st b) = []" "wr_SetCookie (web_error m st) = []" "wr_SetCookie (plain_reply st m) = []"
  "wr_SetCookie (web_redirect up r t) = []" "wr_SetCookie (service_error e) = []" "wr_SetCookie unauthorized_json = []"
  "wr_SetCookie forbidden_json = []" "wr_SetCookie not_available = []" "wr_SetCookie lookup_required = []" "wr_SetCookie no_delegated_token = []"
  by (simp_all add: json_reply_def web_error_def plain_reply_def web_redirect_def service_error_def unauthorized_json_def forbidden_json_def
      not_available_def lookup_required_def no_delegated_token_def Let_def)

lemma statuses [simp]:
  "wr_Status (json_reply st b) = st" "wr_Status (web_error m st) = st" "wr_Status forbidden_json = 403" "wr_Status unauthorized_json = 401"
  "wr_Status (web_redirect up r t) = 302"
  by (simp_all add: json_reply_def web_error_def forbidden_json_def unauthorized_json_def web_redirect_def Let_def)

text \<open>The wrappers change nothing but headers, unless they answer a preflight request themselves.\<close>

lemma auth_Handler_mux:
  assumes "r_Method r \<noteq> ''OPTIONS''"
  shows "\<exists>hs. auth_Handler ae we s path w r = (case serve_mux ae we s path w r of (resp, w1, ms) \<Rightarrow> (under_headers security_headers (hs resp), w1, ms))
    \<and> (\<forall>resp. wr_Status (hs resp) = wr_Status resp \<and> wr_SetCookie (hs resp) = wr_SetCookie resp \<and> wr_Body (hs resp) = wr_Body resp)"
proof (cases "ac_CORSAllowedOrigins (hs_cfg s) = []")
  case True
  then show ?thesis by (intro exI [of _ "\<lambda>x. x"]) (simp add: auth_Handler_def securityHeaders_def)
next
  case False
  let ?o = "cors_headers (ac_CORSAllowedOrigins (hs_cfg s)) (hdr_Get (r_Header r) ''Origin'')"
  from False assms show ?thesis
    by (intro exI [of _ "under_headers ?o"]) (simp add: auth_Handler_def securityHeaders_def cors_def Let_def split: prod.split)
qed

lemma match_head: "match_segments q xs \<noteq> None \<Longrightarrow> q \<noteq> [] \<Longrightarrow> hd q \<noteq> ''{connector}'' \<Longrightarrow> \<exists>x ys. xs = x # ys \<and> segment_value x = hd q"
  by (cases q; cases xs) (auto split: if_splits)

lemma public_heads:
  "(m, q, f) \<in> set public_routes \<Longrightarrow> q \<noteq> [] \<and> hd q \<notin> {''admin'', ''{connector}''} \<and> (hd q = ''internal'' \<longrightarrow> q = [''internal'', ''resolve''])"
  unfolding public_routes_def by (simp only: set_simps insert_iff empty_iff prod.inject) (elim disjE conjE; simp)

lemma admin_path_not_public:
  assumes "dispatch admin_routes m path \<noteq> None"
  shows "dispatch public_routes m' path = None" and "map segment_value (path_segments path) \<in> set (map (\<lambda>(_, ps, _). ps) admin_routes)"
proof -
  obtain ps where ps: "ps \<in> set (map (\<lambda>(_, ps, _). ps) admin_routes)" and m: "match_segments ps (path_segments path) \<noteq> None"
    using assms by (auto simp: dispatch_def find_Some_iff admin_routes_def split: if_splits)
  have "''{connector}'' \<notin> set ps" using ps by (auto simp: admin_routes_def)
  with m have e: "map segment_value (path_segments path) = ps" by (simp add: match_literal split: if_splits)
  with ps show "map segment_value (path_segments path) \<in> set (map (\<lambda>(_, ps, _). ps) admin_routes)" by simp
  have h: "hd ps \<in> {''admin'', ''internal''}" "ps \<noteq> [''internal'', ''resolve'']" using ps by (auto simp: admin_routes_def)
  have "match_segments q (path_segments path) = None" if "(pm, q, f) \<in> set public_routes" for pm q f
  proof (rule ccontr)
    assume n: "match_segments q (path_segments path) \<noteq> None"
    note q = public_heads [OF that]
    from match_head [OF n] q obtain x ys where "path_segments path = x # ys" "segment_value x = hd q" by blast
    with e have "hd ps = hd q" by auto
    with h(1) q have "q = [''internal'', ''resolve'']" by auto
    with n e h(2) show False by (simp add: match_literal split: if_splits)
  qed
  then show "dispatch public_routes m' path = None" by (auto simp: dispatch_def find_None_iff)
qed

lemma endpoint_guarded:
  assumes "ep \<in> {EAdmin, EPatchSession, ERevokeSession, ETokenHandoffUser, EHandoffIssue}" and "\<not> admin_ok s r"
  shows "\<exists>resp. run_endpoint ae we s ep w r = (resp, w, []) \<and> wr_Status resp = 403"
  using assms by (auto simp: auth_handleAdmin_def handlePatchSession_def handleRevokeSession_def handleTokenHandoffUser_def handleHandoffIssue_def)

lemma dispatch_append: "dispatch (rs @ rs') m path = (case dispatch rs m path of None \<Rightarrow> dispatch rs' m path | Some x \<Rightarrow> Some x)"
  by (induction rs) (auto simp: dispatch_def)

lemma dispatch_resolve: "dispatch (auth_routes s) ''GET'' ''/internal/resolve'' = Some EResolve"
proof -
  have "dispatch [(''GET'', [''healthz''], \<lambda>_. EHealthz), (''GET'', [''readyz''], \<lambda>_. EReadyz), (''GET'', [''livez''], \<lambda>_. ELivez)] ''GET'' ''/internal/resolve'' = None"
    "dispatch admin_routes ''GET'' ''/internal/resolve'' = None" "dispatch [(''GET'', [''metrics''], \<lambda>_. EMetrics)] ''GET'' ''/internal/resolve'' = None"
    "dispatch public_routes ''GET'' ''/internal/resolve'' = Some EResolve" "dispatch [] ''GET'' ''/internal/resolve'' = None"
    by code_simp+
  then show ?thesis unfolding auth_routes_def dispatch_append by simp
qed

lemma admin_dispatch:
  assumes "dispatch admin_routes m path = Some ep"
  shows "ep \<in> {EAdmin, EPatchSession, ERevokeSession, ETokenHandoffUser, EHandoffIssue}"
    and "dispatch (auth_routes s) m path = (if ac_AdminSecret (hs_cfg s) = '''' then None else Some ep)"
proof -
  show "ep \<in> {EAdmin, EPatchSession, ERevokeSession, ETokenHandoffUser, EHandoffIssue}"
    using assms by (auto simp: dispatch_def admin_routes_def split: if_splits)
  from assms have n: "dispatch admin_routes m path \<noteq> None" by simp
  note p = admin_path_not_public [OF n]
  have z: "dispatch [(''GET'', [''healthz''], \<lambda>_. EHealthz), (''GET'', [''readyz''], \<lambda>_. EReadyz), (''GET'', [''livez''], \<lambda>_. ELivez)] m path = None"
    "dispatch [(''GET'', [''metrics''], \<lambda>_. EMetrics)] m path = None"
    using p(2) by (auto simp: dispatch_def admin_routes_def match_literal)
  show "dispatch (auth_routes s) m path = (if ac_AdminSecret (hs_cfg s) = '''' then None else Some ep)"
    unfolding auth_routes_def dispatch_append z using assms p(1) [of m] z(2) by (simp add: dispatch_append dispatch_def [of "[]"])
qed

section \<open>Properties\<close>


definition sample_server :: "string \<Rightarrow> unit auth_server" where
  "sample_server secret = \<lparr>hs_svc = \<lparr>as_Session = (\<lambda>w q. (Inr unauthenticated, w, [])), as_LoginStart = (\<lambda>w q. (Inl (Err ''x''), w, [])),
       as_LoginEnd = (\<lambda>w q. (Inr \<lparr>er_RedirectURL = ''https://app.example.com'', er_SetCookieValue = ''v'', er_ClearCookie = False\<rparr>, w, [])),
       as_Refresh = (\<lambda>w q. (Inl (Err ''x''), w, [])), as_Logout = (\<lambda>w q. (Inl (Err ''x''), w, []))\<rparr>,
     hs_concrete = None, hs_cfg = (sample_auth_config [])\<lparr>ac_AdminSecret := secret, ac_CookieDomain := ''example.com''\<rparr>, hs_cookie = ''__Host-sid'', hs_ping = None,
     hs_find = None, hs_delete = None, hs_metricsHandler = False\<rparr>"

definition sample_web :: web_env where
  "sample_web = \<lparr>we_url = sample_url_parse, we_form = (\<lambda>r. []), we_encode = (\<lambda>v. ''{}''), we_rfc3339 = (\<lambda>t. ''''),
     we_issue = (\<lambda>b. Inl (Err ''json'')), we_patch = (\<lambda>b. Inl (Err ''json'')), we_lookup = (\<lambda>b. Inl (Err ''json'')), we_token = (\<lambda>b. Inl (Err ''json'')),
     we_metrics = reply 200 [] ''''\<rparr>"

definition sample_get :: "string \<Rightarrow> string \<Rightarrow> http_request" where
  "sample_get m path = \<lparr>r_Method = m, r_Host = ''app'', r_Path = path, r_RawQuery = '''', r_Header = [(''X-Admin-Secret'', [''guess''])], r_Cookies = [],
     r_Body = None, r_TLS = True, r_RemoteAddr = ''''\<rparr>"


text \<open>Every line that a handler adds is a session cookie of some connector, or clears one.\<close>

definition session_line :: "'w auth_server \<Rightarrow> string \<Rightarrow> bool" where
  "session_line s line \<longleftrightarrow> (\<exists>k name maxAge. connectorCookie s k = (name, maxAge)
     \<and> ((\<exists>value. line = cookie_line name value (cookieOptsForName (hs_cfg s) name maxAge)) \<or> line \<in> set (clear_lines (hs_cfg s) name)))"

lemma session_line_intros:
  "connectorCookie s k = (name, maxAge) \<Longrightarrow> session_line s (cookie_line name value (cookieOptsForName (hs_cfg s) name maxAge))"
  "connectorCookie s k = (name, maxAge) \<Longrightarrow> line \<in> set (clear_lines (hs_cfg s) name) \<Longrightarrow> session_line s line"
  unfolding session_line_def by blast+

lemma handler_lines:
  "\<forall>l \<in> set (wr_SetCookie (fst (handleLogin we s k w r))). session_line s l"
  "\<forall>l \<in> set (wr_SetCookie (fst (handleCallback we s k w r))). session_line s l"
  "\<forall>l \<in> set (wr_SetCookie (fst (handleSession we s k w r))). session_line s l"
  "\<forall>l \<in> set (wr_SetCookie (fst (handleMe we s k w r))). session_line s l"
  "\<forall>l \<in> set (wr_SetCookie (fst (handleLogout we s k w r))). session_line s l"
  "\<forall>l \<in> set (wr_SetCookie (fst (handleRefresh s k w r))). session_line s l"
  "\<forall>l \<in> set (wr_SetCookie (fst (handleResolve ae we s w r))). session_line s l"
  "\<forall>l \<in> set (wr_SetCookie (fst (handleHandoffRedeem ae we s k w r))). session_line s l"
  by (auto simp: handleLogin_def handleCallback_def handleSession_def handleMe_def handleLogout_def handleRefresh_def handleResolve_def
      handleHandoffRedeem_def writeSessionCookie_def clearCookie_def Let_def intro: session_line_intros split: prod.split sum.split option.split bool.split)

lemma admin_lines:
  "wr_SetCookie (fst (auth_handleAdmin we s w r)) = []" "wr_SetCookie (fst (handlePatchSession we s w r)) = []"
  "wr_SetCookie (fst (handleRevokeSession we s w r)) = []" "wr_SetCookie (fst (handleTokenHandoffUser ae we s w r)) = []"
  "wr_SetCookie (fst (handleHandoffIssue ae we s w r)) = []" "wr_SetCookie (fst (handleReadyz s w r)) = []"
  by (auto simp: auth_handleAdmin_def handlePatchSession_def handleRevokeSession_def handleTokenHandoffUser_def handleHandoffIssue_def handleReadyz_def
      Let_def split: prod.split sum.split option.split)

lemma mux_lines:
  assumes "wr_SetCookie (we_metrics we) = []"
  shows "\<forall>l \<in> set (wr_SetCookie (fst (serve_mux ae we s path w r))). session_line s l"
proof (cases "dispatch (auth_routes s) (r_Method r) path")
  case None
  then show ?thesis by (simp add: serve_mux_def)
next
  case (Some ep)
  have "\<forall>l \<in> set (wr_SetCookie (fst (run_endpoint ae we s ep w r))). session_line s l"
    using assms by (cases ep) (simp_all only: run_endpoint.simps admin_lines fst_conv no_cookies list.set ball_empty, (rule handler_lines)+)
  with Some show ?thesis by (simp add: serve_mux_def)
qed

lemma Handler_lines:
  assumes "wr_SetCookie (we_metrics we) = []" and "l \<in> set (wr_SetCookie (fst (auth_Handler ae we s path w r)))"
  shows "session_line s l"
proof -
  have "wr_SetCookie (fst (auth_Handler ae we s path w r)) \<in> {[], wr_SetCookie (fst (serve_mux ae we s path w r))}"
    by (auto simp: auth_Handler_def securityHeaders_def cors_def Let_def split: prod.split)
  with assms(2) mux_lines [OF assms(1)] show ?thesis by fastforce
qed

text \<open>
  C33. Session cookies are hardened: whatever the request, every \<open>Set-Cookie\<close> line of a response is a session cookie
  of some connector, under that connector's name and lifetime with path \<open>/\<close> and \<open>HttpOnly\<close>, or clears one; a
  cookie whose name starts with \<open>__Host-\<close> is always \<open>Secure\<close> and never has a domain, whatever the configuration
  says, as browsers require; with \<open>CookieSecure\<close> every session cookie is \<open>Secure\<close>.
\<close>

theorem session_cookies_hardened:
  assumes "wr_SetCookie (we_metrics we) = []" and "l \<in> set (wr_SetCookie (fst (auth_Handler ae we s path w r)))"
  shows "\<exists>k name maxAge. connectorCookie s k = (name, maxAge)
    \<and> (l = name @ ''=; Path=/; Max-Age=0; HttpOnly'' \<or> l = name @ ''=; Path=/; Max-Age=0; HttpOnly; Secure''
       \<or> (\<exists>val mid site. l = name @ ''='' @ val @ ''; Path=/; Max-Age='' @ Itoa maxAge @ ''; HttpOnly'' @ mid @ ''; SameSite='' @ site
           \<and> site \<in> {''Lax'', ''Strict'', ''None''}
           \<and> (if HasPrefix name ''__Host-'' then mid = ''; Secure''
              else mid = (if ac_CookieDomain (hs_cfg s) \<noteq> '''' then ''; Domain='' @ ac_CookieDomain (hs_cfg s) else '''')
                @ (if ac_CookieSecure (hs_cfg s) then ''; Secure'' else ''''))))"
proof -
  from Handler_lines [OF assms] obtain k name maxAge where k: "connectorCookie s k = (name, maxAge)"
    and l: "(\<exists>val. l = cookie_line name val (cookieOptsForName (hs_cfg s) name maxAge)) \<or> l \<in> set (clear_lines (hs_cfg s) name)"
    unfolding session_line_def by blast
  from l have "l = name @ ''=; Path=/; Max-Age=0; HttpOnly'' \<or> l = name @ ''=; Path=/; Max-Age=0; HttpOnly; Secure''
       \<or> (\<exists>val mid site. l = name @ ''='' @ val @ ''; Path=/; Max-Age='' @ Itoa maxAge @ ''; HttpOnly'' @ mid @ ''; SameSite='' @ site
           \<and> site \<in> {''Lax'', ''Strict'', ''None''}
           \<and> (if HasPrefix name ''__Host-'' then mid = ''; Secure''
              else mid = (if ac_CookieDomain (hs_cfg s) \<noteq> '''' then ''; Domain='' @ ac_CookieDomain (hs_cfg s) else '''')
                @ (if ac_CookieSecure (hs_cfg s) then ''; Secure'' else '''')))"
  proof
    assume "\<exists>val. l = cookie_line name val (cookieOptsForName (hs_cfg s) name maxAge)"
    then obtain val where v: "l = cookie_line name val (cookieOptsForName (hs_cfg s) name maxAge)" by blast
    let ?o = "cookieOptsForName (hs_cfg s) name maxAge"
    have site: "wo_sameSite ?o \<in> {''Lax'', ''Strict'', ''None''}" by (simp add: cookieOptsForName_def Let_def split: samesite.split)
    have "l = name @ ''='' @ val @ ''; Path=/; Max-Age='' @ Itoa maxAge @ ''; HttpOnly''
        @ ((if wo_domain ?o \<noteq> '''' then ''; Domain='' @ wo_domain ?o else '''') @ (if wo_secure ?o then ''; Secure'' else '''')) @ ''; SameSite='' @ wo_sameSite ?o"
      unfolding v by (simp add: cookie_line_def cookieOptsForName_def Let_def)
    then show ?thesis by (intro disjI2 exI conjI, assumption) (rule site, simp add: cookieOptsForName_def Let_def)
  qed (auto simp: clear_lines_def)
  with k show ?thesis by blast
qed

theorem session_cookies_hardened_witness:
  "\<forall>ae. \<exists>l val site. wr_SetCookie (fst (auth_Handler ae sample_web (sample_server '''') ''/callback'' () (sample_get ''GET'' ''/callback''))) = [l]
    \<and> l = ''__Host-sid='' @ val @ ''; Path=/; Max-Age=0; HttpOnly; Secure; SameSite='' @ site"
proof
  fix ae :: "unit auth_env"
  let ?l = "''__Host-sid=v; Path=/; Max-Age=0; HttpOnly; Secure; SameSite=Lax''"
  let ?r = "auth_Handler ae sample_web (sample_server '''') ''/callback'' () (sample_get ''GET'' ''/callback'')"
  have l: "wr_SetCookie (fst ?r) = [?l]" by code_simp
  have c: "connectorCookie (sample_server '''') k = (''__Host-sid'', 0)" for k
    by (simp add: connectorCookie_def sample_server_def sample_auth_config_def ConnectorByID_def DefaultConnector_def)
  have m: "wr_SetCookie (we_metrics sample_web) = []" by (simp add: sample_web_def)
  have "?l \<in> set (wr_SetCookie (fst ?r))" using l by simp
  from session_cookies_hardened [OF m this] c
  obtain val mid site where "?l = ''__Host-sid'' @ ''='' @ val @ ''; Path=/; Max-Age='' @ Itoa 0 @ ''; HttpOnly'' @ mid @ ''; SameSite='' @ site"
    and "mid = ''; Secure''" by (auto simp: HasPrefix_def)
  moreover have "Itoa 0 = ''0''" by code_simp
  ultimately show "\<exists>l val site. wr_SetCookie (fst ?r) = [l] \<and> l = ''__Host-sid='' @ val @ ''; Path=/; Max-Age=0; HttpOnly; Secure; SameSite='' @ site"
    using l by (intro exI [of _ ?l] exI [of _ val] exI [of _ site]) simp
qed

text \<open>
  The status of an error is first looked for in its text: an error built to be a 401 or a 404 is a 400 when its
  message happens to contain a word like \<open>invalid\<close> or \<open>required\<close>.
\<close>

lemma status_by_wording:
  "StatusFor (Some (Unauthorized ''invalid token'')) = 400" "StatusFor (Some (NotFound ''required session'')) = 400"
  "StatusFor (Some (Unauthorized ''x'')) = 401" "StatusFor (Some (NotFound ''x'')) = 404" "StatusFor (Some (BadRequest ''x'')) = 400"
  by code_simp+

text \<open>A cookie that was set with a domain is not cleared: the clearing lines never have one.\<close>

lemma clear_without_domain:
  "clear_lines (cfg\<lparr>ac_CookieDomain := d\<rparr>) name = clear_lines (cfg\<lparr>ac_CookieDomain := ''''\<rparr>) name"
  by (simp add: clear_lines_def)

end
