(* ===== verification/Auth_Theorems.thy ===== *)
theory Auth_Theorems
  imports Auth_Http
begin

text \<open>
  The properties of the auth service: the login flow, logout, resolution, refresh and the separation of connectors,
  on the running service of \<open>Auth_World\<close>. The witnesses run on a sample world: the memory server of
  \<open>Redis_Store\<close>, two connectors, and an outside whose state is the clock.
\<close>

section \<open>A sample world\<close>

definition world_config :: auth_config where
  "world_config = sample_auth_config [sample_connector ''web'' True, (sample_connector ''tg'' False)\<lparr>cc_OIDCAudience := ''web''\<rparr>]"

definition world_cfg :: auth_config where
  "world_cfg = projr (auth_Load (Inr world_config))"

definition world_tokens :: provider_tokens where
  "world_tokens = \<lparr>pt_AccessToken = ''at'', pt_RefreshToken = '''', pt_IDToken = ''tok'', pt_ExpiresIn = 60\<rparr>"

definition world_provider :: "int provider" where
  "world_provider = \<lparr>pv_AuthorizationURL = (\<lambda>n a b d x. (Inr (''https://idp/auth?state='' @ a), n)),
     pv_ExchangeCode = (\<lambda>n code verifier u. (if code = ''code'' \<and> verifier = ''ver'' then Inr world_tokens else Inl (Err ''invalid_grant''), n)),
     pv_Refresh = (\<lambda>n a. (Inr world_tokens, n)), pv_EndSessionURL = (\<lambda>n a b. (Inr '''', n))\<rparr>"

definition world_pkce :: pkce_state where
  "world_pkce = \<lparr>pk_State = ''st'', pk_CodeVerifier = ''ver'', pk_CodeChallenge = ''ch'', pk_Nonce = ''n1'', pk_RedirectTo = ''/''\<rparr>"

definition world_session :: session where
  "world_session = sample_session\<lparr>s_RefreshToken := ''''\<rparr>"

definition world_wiring :: "(mem_state, int) wiring" where
  "world_wiring = \<lparr>wi_client = mem_client, wi_session_json = \<lparr>js_Marshal = (\<lambda>s. Inr ''s''), js_Unmarshal = (\<lambda>d. Inr world_session)\<rparr>,
     wi_pkce_json = \<lparr>js_Marshal = (\<lambda>s. Inr ''p''), js_Unmarshal = (\<lambda>d. Inr world_pkce)\<rparr>, wi_provider = (\<lambda>cc. Some world_provider),
     wi_lower = (\<lambda>x. x), wi_now = (\<lambda>r. 0)\<rparr>"

definition world_env :: "int auth_env" where
  "world_env = \<lparr>ae_now = (\<lambda>n. (n, n)), ae_rand = (\<lambda>n k. (Inr (replicate k (CHR ''A'')), n)), ae_sha = (\<lambda>b. b), ae_mac = (\<lambda>k d. k @ d),
     ae_url = sample_url_parse, ae_jwks = Some (\<lambda>n i. (Inr ''jwks'', n)), ae_token = sample_te, ae_FormatFloat = (\<lambda>q. ''''),
     ae_marshal = (\<lambda>m. ''{}''), ae_post = (\<lambda>n q. (Inr 200, n)), ae_struct = (\<lambda>m. Inr m),
     ae_ticket_json = \<lparr>js_Marshal = (\<lambda>t. Inr ''t''), js_Unmarshal = (\<lambda>d. Inl (Err ''json''))\<rparr>\<rparr>"

definition world_service :: "(mem_state, int) gw service" where
  "world_service = projr (auth_main (\<lambda>k d. k @ d) world_wiring world_cfg)"

text \<open>One pending login of the connector \<open>tg\<close> and one session of the default connector.\<close>

definition world :: "(mem_state, int) gw" where
  "world = \<lparr>gw_store = \<lparr>rs_redis = \<lparr>ms_kv = [(''auth:tg:pkce:st'', ''p'', None), (''auth:session:s1'', ''s'', None)], ms_clock = 0\<rparr>, rs_metrics = []\<rparr>,
     gw_net = 5\<rparr>"

definition world_callback :: login_end_request where
  "world_callback = \<lparr>eq_Connector = ''tg'', eq_Code = ''code'', eq_State = ''st'', eq_Error = '''', eq_ErrorDescription = '''', eq_Host = ''app''\<rparr>"

lemma world_cfg: "auth_Load (Inr world_config) = Inr world_cfg"
proof -
  have "\<not> isl (auth_Load (Inr world_config))" by code_simp
  then show ?thesis unfolding world_cfg_def by (metis sum.collapse(2))
qed

lemma world_service: "auth_main (\<lambda>k d. k @ d) world_wiring world_cfg = Inr world_service"
proof -
  have "\<not> isl (auth_main (\<lambda>k d. k @ d) world_wiring world_cfg)" by code_simp
  then show ?thesis unfolding world_service_def by (metis sum.collapse(2))
qed

lemma world_conn: "map (\<lambda>i. map_sum id (cc_ID \<circ> cn_cfg) (conn world_service i)) [''tg'', '''', ''web''] = [Inr ''tg'', Inr ''web'', Inr ''web'']"
  by code_simp

section \<open>Properties\<close>


lemma state_single_use:
  assumes "auth_world ae c absP storedP absS storedS" and "conn s (eq_Connector req) = Inr c"
    and "LoginEnd ae s w req = (r, w1, ms)" and "eq_Error req = ''''" and "eq_State req \<noteq> ''''" and "eq_Code req \<noteq> ''''"
    and "ps_Get (cn_pkce c) w (eq_State req) = (Inr (Some p), v)" and "fst (ps_Delete (cn_pkce c) v (eq_State req)) = None"
    and "\<forall>t. absP w2 (eq_State req) = Some t \<longrightarrow> absP w1 (eq_State req) = Some t"
    and "eq_State req' = eq_State req" and "eq_Connector req' = eq_Connector req"
  shows "\<exists>w3 ms'. LoginEnd ae s w2 req' = (Inr (login_error s), w3, ms') \<and> LoginCompleted False \<in> set ms' \<and> LoginCompleted True \<notin> set ms'"
proof -
  from assms(2,3) obtain b where "login_end ae s c w req = (r, w1, b)" by (auto simp: LoginEnd_def split: prod.splits)
  from auth_world.login_end_consumes [OF assms(1) this assms(4-8)] assms(9) have "absP w2 (eq_State req') = None"
    using assms(10) by (cases "absP w2 (eq_State req)") auto
  from auth_world.login_end_unknown_state [OF assms(1) this, of s] assms(2,11) show ?thesis by (auto simp: LoginEnd_def)
qed

lemma logout_gone:
  assumes "auth_world ae c absP storedP absS storedS" and "conn s (oq_Connector req) = Inr c"
    and "Logout ae s w req = (Inr resp, w1, ms)" and "oq_SessionCookie req \<noteq> ''''" and "sv_decode s (oq_SessionCookie req) = Inr sid" and "sid \<noteq> ''''"
    and "\<And>w. \<exists>x. fst (ss_Get (cn_sessions c) w sid) = Inr x" and "\<And>w. fst (ss_Delete (cn_sessions c) w sid) = None"
    and "\<forall>t. absS w2 sid = Some t \<longrightarrow> absS w1 sid = Some t"
  shows "fst (Session_of ae s w2 \<lparr>sq_SessionCookie = oq_SessionCookie req, sq_Connector = oq_Connector req\<rparr>) = unauthenticated
    \<and> (\<exists>e. fst (ResolveForConnector ae s w2 (oq_Connector req) (oq_SessionCookie req)) = Inl e) \<and> or_ClearCookie resp"
proof -
  have cs: "cookie_session s (oq_SessionCookie req) = sid" using assms(4,5) by (simp add: cookie_session_def)
  obtain hint v where e: "end_session c w sid = (hint, v)" by fastforce
  obtain x where u: "pv_EndSessionURL (cn_provider c) v hint (ValidateRedirectURL ae s (oq_RedirectTo req)) = (x, w1)" and clear: "or_ClearCookie resp"
    using assms(2,3) cs e by (auto simp: Logout_def Let_def split: option.splits prod.splits sum.splits)
  have "absS v sid = None" by (rule auth_world.end_session_gone [OF assms(1) e assms(7,8,6)])
  from keeps_None [OF auth_world.endurl_keeps [OF assms(1)] u this] assms(9) have "absS w2 sid = None"
    by (cases "absS w2 sid") auto
  from auth_world.absent_unauthenticated [OF assms(1) this assms(5,2)] clear show ?thesis by blast
qed

lemma resolve_live:
  assumes "auth_world ae c absP storedP absS storedS" and "conn s i = Inr c" and "sv_decode s = sm_Decode mac m"
    and "ResolveForConnector ae s w i cookie = (Inr rv, w')"
  shows "\<exists>payload sig sid sess. cookie = payload @ ''.'' @ sig \<and> DecodeString URLEnc payload = Some sid
    \<and> (\<exists>key \<in> insert (sm_primary m) (set (sm_older m)). DecodeString URLEnc sig = Some (mac key payload))
    \<and> absS w sid = Some sess
    \<and> (s_RefreshToken sess = '''' \<longrightarrow> rv_accessToken rv = s_AccessToken sess \<and> rv_claims rv = cloneMap (s_Claims sess) \<and> rv_setCookieValue rv = '''')"
proof -
  from assms(2-4) obtain sid sess r where d: "sm_Decode mac m cookie = Inr sid"
    and f: "ensureFresh ae s c w sid = (Inr (sess, r), w')"
    and rv: "rv_accessToken rv = s_AccessToken sess" "rv_claims rv = cloneMap (s_Claims sess)" "\<not> r \<longrightarrow> rv_setCookieValue rv = ''''"
    by (auto simp: ResolveForConnector_def cloneMap_def split: if_splits sum.splits prod.splits)
  from f obtain sess0 w1 where g: "ss_Get (cn_sessions c) w sid = (Inr (Some sess0), w1)"
    and same: "s_RefreshToken sess0 = '''' \<longrightarrow> sess = sess0 \<and> \<not> r"
    by (auto simp: ensureFresh_def reload_def session_due_def split: if_splits sum.splits prod.splits option.splits)
  have "absS w sid = Some sess0" using store_contract.get_hit [OF auth_world.session_store [OF assms(1)] g] .
  moreover from d obtain payload sig where "cookie = payload @ CHR ''.'' # sig" "DecodeString URLEnc payload = Some sid"
    "\<exists>key \<in> insert (sm_primary m) (set (sm_older m)). DecodeString URLEnc sig = Some (mac key payload)"
    unfolding sm_Decode_Inr signedSep_def decodePayload_def by (auto split: option.splits)
  ultimately show ?thesis using rv same by force
qed

text \<open>Every connector of the running service meets the contract; the cookies carry the service's MAC.\<close>

lemma main_auth_world:
  assumes "redis_server (wi_client wi) kv clk" and "auth_main mac wi cfg = Inr s" and "conn s i = Inr c"
  shows "auth_world (gw_env e) c (logins_at wi kv (cn_cfg c)) (stored_by (wi_pkce_json wi)) (sessions_at wi kv (cn_cfg c)) (stored_by (wi_session_json wi))"
proof -
  from auth_main_conn [OF assms(2,3)] obtain cfg' cc p where c: "c = connector_of cfg' (wire_connector wi cc) (gw_provider p)" .
  have "auth_on_redis wi kv clk" using assms(1) by (rule auth_on_redis.intro)
  from auth_on_redis.connector_world [OF this] show ?thesis unfolding c by simp
qed

lemma main_codec:
  assumes "auth_main mac wi cfg = Inr s"
  shows "sv_decode s = sm_Decode mac (NewSignedManager (ac_CookieSigningSecret cfg))"
    and "sv_encode s = (\<lambda>sid. sm_Encode mac (NewSignedManager (ac_CookieSigningSecret cfg)) (AStr sid))"
proof -
  have a: "add_connectors cws s0 = Inr s1 \<Longrightarrow> sv_decode s1 = sv_decode s0 \<and> sv_encode s1 = sv_encode s0" for cws :: "('a, 'b) gw connector_wiring list" and s0 s1
    by (induction cws arbitrary: s0) (auto simp: Let_def split: option.splits if_splits)
  show "sv_decode s = sm_Decode mac (NewSignedManager (ac_CookieSigningSecret cfg))"
    and "sv_encode s = (\<lambda>sid. sm_Encode mac (NewSignedManager (ac_CookieSigningSecret cfg)) (AStr sid))"
    using assms by (auto simp: auth_main_def Let_def NewMultiConnector_def newService_def EnableHandoff_def dest!: a
        split: sum.splits prod.splits option.splits if_splits)
qed

text \<open>
  C13. A login state is used once: after a callback has found its state in the store and the store has
  reported the deletion, a later callback with the same state on the same connector creates no session and sends
  the browser to the error page, as long as no login was started with that state again.
\<close>

theorem login_state_single_use:
  assumes "redis_server (wi_client wi) kv clk" and "auth_main mac wi cfg = Inr s" and "conn s (eq_Connector req) = Inr c"
    and "LoginEnd (gw_env e) s w req = (r, w1, ms)" and "eq_Error req = ''''" and "eq_State req \<noteq> ''''" and "eq_Code req \<noteq> ''''"
    and "ps_Get (cn_pkce c) w (eq_State req) = (Inr (Some p), v)" and "fst (ps_Delete (cn_pkce c) v (eq_State req)) = None"
    and "logins_at wi kv (cn_cfg c) w2 (eq_State req) \<in> {None, logins_at wi kv (cn_cfg c) w1 (eq_State req)}"
    and "eq_State req' = eq_State req" and "eq_Connector req' = eq_Connector req"
  shows "\<exists>w3 ms'. LoginEnd (gw_env e) s w2 req' = (Inr (login_error s), w3, ms') \<and> LoginCompleted False \<in> set ms' \<and> LoginCompleted True \<notin> set ms'"
  by (rule state_single_use [OF main_auth_world [OF assms(1-3)] assms(3-9)]) (use assms(10-12) in auto)

text \<open>
  C14. Logout ends the session: after a logout with a session cookie, the same cookie authenticates nobody
  on that connector and resolves to nothing, provided the store answered its read and its delete and no session
  is stored under that id again. The browser's cookie is cleared.
\<close>

theorem logout_ends_session:
  assumes "redis_server (wi_client wi) kv clk" and "auth_main mac wi cfg = Inr s" and "conn s (oq_Connector req) = Inr c"
    and "Logout (gw_env e) s w req = (Inr resp, w1, ms)" and "oq_SessionCookie req \<noteq> ''''" and "sv_decode s (oq_SessionCookie req) = Inr sid" and "sid \<noteq> ''''"
    and "\<And>w. \<exists>x. fst (ss_Get (cn_sessions c) w sid) = Inr x" and "\<And>w. fst (ss_Delete (cn_sessions c) w sid) = None"
    and "sessions_at wi kv (cn_cfg c) w2 sid \<in> {None, sessions_at wi kv (cn_cfg c) w1 sid}"
  shows "fst (Session_of (gw_env e) s w2 \<lparr>sq_SessionCookie = oq_SessionCookie req, sq_Connector = oq_Connector req\<rparr>) = unauthenticated
    \<and> (\<exists>er. fst (ResolveForConnector (gw_env e) s w2 (oq_Connector req) (oq_SessionCookie req)) = Inl er) \<and> or_ClearCookie resp"
  by (rule logout_gone [OF main_auth_world [OF assms(1-3)] assms(3-9)]) (use assms(10) in auto)



text \<open>
  The subject of a refreshed ID token is not compared with the session's: without an identity claim of its
  own, a connector's session takes over whatever subject the new token names.
\<close>

lemma refresh_adopts_other_subject:
  assumes "cm_AuthoritativeIDClaim (cc_ClaimMapping (cn_cfg c)) = ''sub''" and "getClaimString (Some m) ''sub'' = other" and "other \<noteq> ''''"
  shows "getClaimString (s_Claims (applyRefreshedClaims ae c sess m)) ''sub'' = other"
  using assms by (simp add: applyRefreshedClaims_def authoritativeID_def Let_def getClaimString_def)

text \<open>A foreign referer without an origin passes the CSRF check of the logout.\<close>

lemma logout_csrf_referer_only: "logout_csrf cfg '''' referer = None"
  by (simp add: logout_csrf_def Let_def)

lemma redeem_keeps_sessions:
  assumes "redis_server (wi_client wi) kv clk" and "auth_main mac wi cfg = Inr s"
    and "\<And>j. j \<in> set (ac_Connectors cfg) \<Longrightarrow> j = k \<or> (\<forall>key. \<not> (owns_key j key \<and> owns_key k key))"
  shows "keepsm (sessions_at wi kv k) (\<lambda>w. RedeemHandoff (gw_env e) s w i tick)"
proof (rule redeem_frame)
  have l: "auth_on_redis wi kv clk" using assms(1) by (rule auth_on_redis.intro)
  show "keeps (sessions_at wi kv k) (ae_now (gw_env e))" by (simp add: sessions_at_def net_keeps)
  fix h consume key ttl assume "sv_handoff s = Some h" "is_once h = Some consume"
  from auth_main_handoff [OF assms(2) this] obtain cc where cc: "cc \<in> set (ac_Connectors cfg)"
    and "consume = (\<lambda>w k ttl. on_store (\<lambda>r. ConsumeOnce (connector_store wi cc) r k ttl) w)" .
  with auth_on_redis.consume_keeps [OF l assms(3) [OF cc], of key ttl]
  show "keeps (sessions_at wi kv k) (\<lambda>w. consume w key ttl)" by simp
next
  fix j c key assume "conn s j = Inr c"
  from auth_main_conn [OF assms(2) this] obtain cfg' cc p where "c = connector_of cfg' (wire_connector wi cc) (gw_provider p)" .
  moreover have "auth_on_redis wi kv clk" using assms(1) by (rule auth_on_redis.intro)
  ultimately show "keeps (sessions_at wi kv k) (\<lambda>w. ss_Get (cn_sessions c) w key)" using auth_on_redis.reads_keep by simp
qed


text \<open>
  C21. A login goes through: when the callback's state is pending, the provider exchanges the code and its ID token
  validates with the stored nonce, and the random source, the session store and the cookie codec work, \<open>LoginEnd\<close>
  returns a cookie and counts a completed login, whatever the post-login webhook answers.
\<close>

theorem login_completes:
  assumes "conn s (eq_Connector req) = Inr c" and "eq_Error req = ''''" and "eq_State req \<noteq> ''''" and "eq_Code req \<noteq> ''''"
    and "ps_Get (cn_pkce c) w (eq_State req) = (Inr (Some p), w1)"
    and "pv_ExchangeCode (cn_provider c) (snd (ps_Delete (cn_pkce c) w1 (eq_State req))) (eq_Code req) (pk_CodeVerifier p)
          (cc_OIDCRedirectURI (cn_cfg c)) = (Inr tr, w3)"
    and "ValidateIDToken (ae_token ae) w3 (pt_IDToken tr) (ae_jwks ae) (cc_OIDCIssuer (cn_cfg c)) (id_audience (cn_cfg c)) (pk_Nonce p) = (Inr pri, w4)"
    and "\<forall>w. \<exists>b. fst (ae_rand ae w 32) = Inr b" and "\<forall>w sid sess ttl. fst (ss_Set (cn_sessions c) w sid sess ttl) = None"
    and "\<forall>sid. \<exists>v. sv_encode s sid = Inr v"
  shows "\<exists>resp w' sid. LoginEnd ae s w req = (Inr resp, w', [ConnectorCallback (cc_ID (cn_cfg c)) True, LoginCompleted True])
    \<and> sv_encode s sid = Inr (er_SetCookieValue resp) \<and> \<not> er_ClearCookie resp"
proof -
  obtain expiresAt w5 where x: "expires_at ae tr w4 = (expiresAt, w5)" by fastforce
  obtain sid w6 where g: "generateSessionID ae w5 = (Inr sid, w6)"
  proof -
    obtain b w6 where "ae_rand ae w5 32 = (Inr b, w6)" using assms(8) by (metis prod.collapse)
    then have "generateSessionID ae w5 = (Inr (EncodeToString RawURLEnc b), w6)" by (simp add: generateSessionID_def)
    then show thesis by (rule that)
  qed
  let ?sess = "\<lparr>s_ID = sid, s_AccessToken = pt_AccessToken tr, s_RefreshToken = pt_RefreshToken tr, s_IDToken = pt_IDToken tr,
      s_ExpiresAt = expiresAt, s_Claims = Some (login_claims ae c pri), s_TenantContext = None\<rparr>"
  obtain w7 where st: "ss_Set (cn_sessions c) w6 sid ?sess (cc_SessionTTLSeconds (cn_cfg c)) = (None, w7)"
    using assms(9) by (metis prod.collapse)
  obtain v where v: "sv_encode s sid = Inr v" using assms(10) by blast
  have "\<exists>resp w'. create_session ae s c w4 (eq_Host req) p tr pri = (Inr resp, w') \<and> er_SetCookieValue resp = v \<and> \<not> er_ClearCookie resp"
    by (simp add: create_session_def x g st v Let_def)
  then show ?thesis using assms(1-7) v by (auto simp: LoginEnd_def login_end_def Let_def)
qed

section \<open>Witnesses\<close>

abbreviation wenv :: "(mem_state, int) gw auth_env" where
  "wenv \<equiv> gw_env world_env"

definition world_tg :: "(mem_state, int) gw connector" where
  "world_tg = projr (conn world_service ''tg'')"

definition world_web :: "(mem_state, int) gw connector" where
  "world_web = projr (conn world_service '''')"

lemma world_connectors: "conn world_service ''tg'' = Inr world_tg" "conn world_service '''' = Inr world_web"
proof -
  have "\<not> isl (conn world_service ''tg'')" "\<not> isl (conn world_service '''')" by code_simp+
  then show "conn world_service ''tg'' = Inr world_tg" "conn world_service '''' = Inr world_web"
    unfolding world_tg_def world_web_def by (metis sum.collapse(2))+
qed

lemma world_server: "redis_server (wi_client world_wiring) mem_kv ms_clock"
  using mem.redis_server_axioms by (simp add: world_wiring_def)

lemma world_keys_disjoint: "\<not> (owns_key (cn_cfg world_tg) key \<and> owns_key (cn_cfg world_web) key)"
proof (rule connector_keys_disjoint [OF world_cfg])
  show "\<forall>k \<in> set (ac_Connectors world_config). cc_SessionRedisPrefix k = ''''" by code_simp
  show "cn_cfg world_tg \<in> set (ac_Connectors world_cfg)" "cn_cfg world_web \<in> set (ac_Connectors world_cfg)"
    using auth_main_conn [OF world_service world_connectors(1)] auth_main_conn [OF world_service world_connectors(2)]
    by (metis connector_of_sel(1) wire_connector_sel(1))+
  show "cc_ID (cn_cfg world_tg) \<noteq> cc_ID (cn_cfg world_web)" by code_simp
  show "\<forall>i \<in> set (ac_Connectors world_cfg). \<not> cc_Default i \<longrightarrow> cc_ID i \<notin> set [''session'', ''pkce'', ''refresh_lock'', ''revoked'', ''replay'']" by code_simp
qed

text \<open>One connector of the running service leaves the sessions of the other alone.\<close>

interpretation apart: connector_frame "gw_env e" world_tg "sessions_at world_wiring mem_kv (cn_cfg world_web)" for e
proof -
  obtain cfg' cc p where c: "world_tg = connector_of cfg' (wire_connector world_wiring cc) (gw_provider p)"
    by (rule auth_main_conn [OF world_service world_connectors(1)])
  have "auth_on_redis world_wiring mem_kv ms_clock" using world_server by (rule auth_on_redis.intro)
  from auth_on_redis.frame_at [OF this, of cc "cn_cfg world_web"] world_keys_disjoint
  show "connector_frame (gw_env e) world_tg (sessions_at world_wiring mem_kv (cn_cfg world_web))" unfolding c by simp
qed

lemma world_login:
  obtains resp w' ms where "LoginEnd wenv world_service world world_callback = (Inr resp, w', ms)" and "er_SetCookieValue resp \<noteq> ''''"
proof -
  have "(case fst (LoginEnd wenv world_service world world_callback) of Inr resp \<Rightarrow> er_SetCookieValue resp \<noteq> '''' | Inl e \<Rightarrow> False)"
    by code_simp
  with that show thesis by (cases "LoginEnd wenv world_service world world_callback") (auto split: sum.splits)
qed

lemma world_pending:
  obtains v where "ps_Get (cn_pkce world_tg) world ''st'' = (Inr (Some world_pkce), v)" and "fst (ps_Delete (cn_pkce world_tg) v ''st'') = None"
proof -
  let ?g = "ps_Get (cn_pkce world_tg) world ''st''"
  have "fst ?g = Inr (Some world_pkce)" "fst (ps_Delete (cn_pkce world_tg) (snd ?g) ''st'') = None" by code_simp+
  with that [of "snd ?g"] show thesis by (metis prod.collapse)
qed

lemma world_store:
  "\<exists>x. fst (ss_Get (cn_sessions world_web) w k) = Inr x" "fst (ss_Delete (cn_sessions world_web) w k) = None"
  "fst (ss_Set (cn_sessions world_tg) w k s ttl) = None"
proof -
  obtain cfg' cc p where web: "world_web = connector_of cfg' (wire_connector world_wiring cc) (gw_provider p)"
    by (rule auth_main_conn [OF world_service world_connectors(2)])
  obtain cfg2 cc2 p2 where tg: "world_tg = connector_of cfg2 (wire_connector world_wiring cc2) (gw_provider p2)"
    by (rule auth_main_conn [OF world_service world_connectors(1)])
  note defs = on_store_def getSession_def setSession_def deleteSession_def world_wiring_def mem_client_def
  show "\<exists>x. fst (ss_Get (cn_sessions world_web) w k) = Inr x" "fst (ss_Delete (cn_sessions world_web) w k) = None"
    unfolding web by (auto simp: defs split: option.split)
  show "fst (ss_Set (cn_sessions world_tg) w k s ttl) = None" unfolding tg by (simp add: defs)
qed


theorem login_state_single_use_witness:
  "\<exists>w1 w3 ms'. w1 = fst (snd (LoginEnd wenv world_service world world_callback))
    \<and> LoginEnd wenv world_service w1 world_callback = (Inr (login_error world_service), w3, ms') \<and> LoginCompleted True \<notin> set ms'"
proof -
  obtain r w1 ms where r: "LoginEnd wenv world_service world world_callback = (r, w1, ms)" by (metis prod.collapse)
  obtain v where g: "ps_Get (cn_pkce world_tg) world ''st'' = (Inr (Some world_pkce), v)" "fst (ps_Delete (cn_pkce world_tg) v ''st'') = None"
    by (rule world_pending)
  have cb: "eq_Connector world_callback = ''tg''" "eq_Error world_callback = ''''" "eq_State world_callback = ''st''" "eq_Code world_callback = ''code''"
    by (simp_all add: world_callback_def)
  show ?thesis
    using login_state_single_use [OF world_server world_service, of world_callback world_tg world_env world r w1 ms world_pkce v w1 world_callback]
      world_connectors r g by (auto simp: cb)
qed

theorem logout_ends_session_witness:
  "\<exists>v resp w1 ms. sv_encode world_service ''s1'' = Inr v
    \<and> sr_IsAuthenticated (fst (Session_of wenv world_service world \<lparr>sq_SessionCookie = v, sq_Connector = ''''\<rparr>))
    \<and> Logout wenv world_service world \<lparr>oq_SessionCookie = v, oq_Connector = '''', oq_RedirectTo = '''', oq_Origin = '''', oq_Referer = ''''\<rparr> = (Inr resp, w1, ms)
    \<and> fst (Session_of wenv world_service w1 \<lparr>sq_SessionCookie = v, sq_Connector = ''''\<rparr>) = unauthenticated"
proof -
  let ?v = "projr (sv_encode world_service ''s1'')"
  let ?q = "\<lparr>oq_SessionCookie = ?v, oq_Connector = '''', oq_RedirectTo = '''', oq_Origin = '''', oq_Referer = ''''\<rparr>"
  have v: "sv_encode world_service ''s1'' = Inr ?v" "sv_decode world_service ?v = Inr ''s1''" "?v \<noteq> ''''" by code_simp+
  have a: "sr_IsAuthenticated (fst (Session_of wenv world_service world \<lparr>sq_SessionCookie = ?v, sq_Connector = ''''\<rparr>))" by code_simp
  have l: "\<not> isl (fst (Logout wenv world_service world ?q))" by code_simp
  obtain resp w1 ms where r: "Logout wenv world_service world ?q = (Inr resp, w1, ms)"
    using l by (metis prod.collapse sum.collapse(2))
  have c: "conn world_service (oq_Connector ?q) = Inr world_web" using world_connectors by simp
  have g: "\<exists>x. fst (ss_Get (cn_sessions world_web) w ''s1'') = Inr x" and d: "fst (ss_Delete (cn_sessions world_web) w ''s1'') = None" for w
    by (rule world_store)+
  from logout_ends_session [OF world_server world_service c r _ _ _ g d, of w1] v a r show ?thesis by auto
qed




theorem login_completes_witness:
  "\<exists>resp w'. LoginEnd wenv world_service world world_callback = (Inr resp, w', [ConnectorCallback (cc_ID (cn_cfg world_tg)) True, LoginCompleted True])"
proof -
  obtain w1 where g: "ps_Get (cn_pkce world_tg) world ''st'' = (Inr (Some world_pkce), w1)" by (rule world_pending)
  let ?x = "\<lambda>w1. pv_ExchangeCode (cn_provider world_tg) (snd (ps_Delete (cn_pkce world_tg) w1 ''st'')) ''code'' ''ver'' (cc_OIDCRedirectURI (cn_cfg world_tg))"
  let ?val = "\<lambda>w3. ValidateIDToken (ae_token wenv) w3 ''tok'' (ae_jwks wenv) (cc_OIDCIssuer (cn_cfg world_tg)) (id_audience (cn_cfg world_tg)) ''n1''"
  let ?g = "ps_Get (cn_pkce world_tg) world ''st''"
  have "fst (?x (snd ?g)) = Inr world_tokens" "\<not> isl (fst (?val (snd (?x (snd ?g)))))" by code_simp+
  with g obtain w3 pri w4 where x: "?x w1 = (Inr world_tokens, w3)" and v: "?val w3 = (Inr pri, w4)" by (metis prod.collapse snd_conv sum.collapse(2))
  have c: "conn world_service (eq_Connector world_callback) = Inr world_tg" using world_connectors by (simp add: world_callback_def)
  have rnd: "\<forall>w. \<exists>b. fst (ae_rand wenv w 32) = Inr b" by (simp add: on_net_def world_env_def)
  have enc: "\<forall>sid. \<exists>v. sv_encode world_service sid = Inr v" by (simp add: main_codec(2) [OF world_service] sm_Encode_str)
  have cb: "eq_Error world_callback = ''''" "eq_State world_callback = ''st''" "eq_Code world_callback = ''code''" by (simp_all add: world_callback_def)
  have pk: "pk_CodeVerifier world_pkce = ''ver''" "pk_Nonce world_pkce = ''n1''" "pt_IDToken world_tokens = ''tok''" by (simp_all add: world_pkce_def world_tokens_def)
  from login_completes [OF c, of world world_pkce w1 world_tokens w3 wenv pri w4] g x v rnd enc world_store(3) show ?thesis
    unfolding cb pk by blast
qed

end
