(* ===== verification/Gateway.thy ===== *)
theory Gateway
  imports Bootstrap Auth_Theorems
begin

text \<open>
  The two processes together: the proxy's auth client talks to the auth server of
  \<open>cmd/accessgate-auth\<close> over HTTP. The transport delivers the request the client builds to the server's handler and the
  server's status and body back, or fails; how the server parses a \<open>Cookie\<close> header and how the client decodes
  JSON are arguments.
\<close>

section \<open>The network between the processes\<close>

text \<open>The path and query of a URL below a base URL, and the request the server sees.\<close>

definition url_parts :: "string \<Rightarrow> string \<Rightarrow> string \<times> string" where
  "url_parts base u = (let rest = TrimPrefix u base in case SplitN2 (CHR ''?'') rest of None \<Rightarrow> (rest, '''') | Some (p, q) \<Rightarrow> (p, q))"

definition auth_request :: "(string \<Rightarrow> (string \<times> string) list) \<Rightarrow> string \<Rightarrow> string \<Rightarrow> string option \<Rightarrow> http_request" where
  "auth_request readCookies path query cookie = \<lparr>r_Method = ''GET'', r_Host = '''', r_Path = path, r_RawQuery = query,
     r_Header = (case cookie of None \<Rightarrow> [] | Some v \<Rightarrow> [(''Cookie'', [v])]), r_Cookies = (case cookie of None \<Rightarrow> [] | Some v \<Rightarrow> readCookies v),
     r_Body = None, r_TLS = False, r_RemoteAddr = ''''\<rparr>"

record 'w link =
  lk_base :: string
  lk_parse :: "string \<Rightarrow> (string \<times> string) list"
  lk_fails :: "'w \<Rightarrow> goerr option"
  lk_decode :: "bytes \<Rightarrow> resolve_response result"

definition auth_transport :: "'w auth_env \<Rightarrow> web_env \<Rightarrow> 'w auth_server \<Rightarrow> 'w link \<Rightarrow> 'w transport" where
  "auth_transport ae we srv lk = \<lparr>tp_NewRequest = (\<lambda>u. None),
     tp_Do = (\<lambda>w u ck. case lk_fails lk w of
         Some e \<Rightarrow> (Inl e, w)
       | None \<Rightarrow> (case url_parts (lk_base lk) u of (path, q) \<Rightarrow>
           (case auth_Handler ae we srv path w (auth_request (lk_parse lk) path q ck) of
              (resp, w1, ms) \<Rightarrow> (Inr (wr_Status resp, wr_Body resp), w1)))),
     tp_Decode = lk_decode lk\<rparr>"

section \<open>Lemmas\<close>

definition resolve_json :: "resolved_session \<Rightarrow> gany" where
  "resolve_json rv = AMap [(''access_token'', AStr (rv_accessToken rv)), (''claims'', AMap (rv_claims rv)),
     (''tenant_context'', case rv_tenantContext rv of None \<Rightarrow> ANil | Some t \<Rightarrow> AMap t)]"

text \<open>The resolve endpoint answers 401 where the service has an error, and otherwise 200 with the session.\<close>

lemma resolve_endpoint:
  assumes "hs_concrete srv = Some s" and "r_Method r = ''GET''"
    and "auth_Handler ae we srv ''/internal/resolve'' w r = (resp, w', ms)"
    and "i = query_Get r ''connector''" and "v = getCookieFor r (fst (connectorCookie srv i))"
  shows "case ResolveForConnector ae s w i v of (Inl e, w1) \<Rightarrow> wr_Status resp = 401 \<and> w' = w1
    | (Inr rv, w1) \<Rightarrow> wr_Status resp = 200 \<and> wr_Body resp = we_encode we (resolve_json rv) \<and> w' = w1"
proof -
  obtain hs where h: "auth_Handler ae we srv ''/internal/resolve'' w r =
      (case serve_mux ae we srv ''/internal/resolve'' w r of (resp, w1, ms) \<Rightarrow> (under_headers security_headers (hs resp), w1, ms))"
    and k: "\<And>resp. wr_Status (hs resp) = wr_Status resp \<and> wr_SetCookie (hs resp) = wr_SetCookie resp \<and> wr_Body (hs resp) = wr_Body resp"
    using auth_Handler_mux [of r ae we srv "''/internal/resolve''" w] assms(2) by auto
  obtain n m where c: "connectorCookie srv i = (n, m)" by fastforce
  have "serve_mux ae we srv ''/internal/resolve'' w r = handleResolve ae we srv w r"
    using assms(2) by (simp add: serve_mux_def dispatch_resolve)
  with h assms(1,3,4,5) c k show ?thesis
    by (auto simp: handleResolve_def unauthorized_json_def json_reply_def reply_def under_headers_def resolve_json_def writeSessionCookie_def add_cookies_def Let_def
        split: prod.splits sum.splits if_splits)
qed

text \<open>The query of the client's URL names the connector.\<close>

lemma url_parts_resolve: "url_parts base (base @ ''/internal/resolve'' @ (if i \<noteq> '''' then ''?connector='' @ QueryEscape i else ''''))
    = (''/internal/resolve'', if i \<noteq> '''' then ''connector='' @ QueryEscape i else '''')"
proof -
  have "SplitN2 (CHR ''?'') (''/internal/resolve'' @ CHR ''?'' # q) = Some (''/internal/resolve'', q)" for q
    by (rule SplitN2_append) simp
  moreover have "SplitN2 (CHR ''?'') ''/internal/resolve'' = None" by code_simp
  ultimately show ?thesis by (simp add: url_parts_def)
qed

lemma query_connector: "query_Get (auth_request p u (if i \<noteq> '''' then ''connector='' @ QueryEscape i else '''') ck) ''connector'' = i"
proof (cases "i = ''''")
  case False
  have "QueryEscape ''connector'' = ''connector''" by code_simp
  then have "encode_pairs [(''connector'', i)] = ''connector='' @ QueryEscape i" by (simp add: encode_pairs_def)
  with query_pairs_encode [of "[(''connector'', i)]"] False show ?thesis by (simp add: query_Get_def auth_request_def pairs_Get_def)
next
  case True
  then show ?thesis by (simp add: query_Get_def auth_request_def pairs_Get_def query_pairs_def parse_pair_def List.map_filter_simps)
qed


text \<open>
  The cookie the server finds: the client sends the session cookie under the client's own name, and the server looks
  for the name of the connector.
\<close>

definition seen_cookie :: "'w auth_server \<Rightarrow> auth_client \<Rightarrow> string \<Rightarrow> string \<Rightarrow> string" where
  "seen_cookie srv c v i = (if ac_cookieName c = fst (connectorCookie srv i) then v else '''')"

lemma resolve_through:
  assumes "hs_concrete srv = Some s" and "lk_base lk = ac_baseURL c"
    and "v \<noteq> '''' \<Longrightarrow> lk_parse lk (ac_cookieName c @ ''='' @ v) = [(ac_cookieName c, v)]"
  shows "ResolveConnector (auth_transport ae we srv lk) c w v i = (case lk_fails lk w of
      Some e \<Rightarrow> (Inl e, w)
    | None \<Rightarrow> (case ResolveForConnector ae s w i (seen_cookie srv c v i) of
        (Inl e, w1) \<Rightarrow> (Inr None, w1)
      | (Inr rv, w1) \<Rightarrow> (map_sum (\<lambda>e. e) Some (lk_decode lk (we_encode we (resolve_json rv))), w1)))"
proof (cases "lk_fails lk w")
  case None
  let ?r = "auth_request (lk_parse lk) ''/internal/resolve'' (if i \<noteq> '''' then ''connector='' @ QueryEscape i else '''') (resolve_cookie c v)"
  obtain resp w' ms where h: "auth_Handler ae we srv ''/internal/resolve'' w ?r = (resp, w', ms)" by (meson prod_cases3)
  have "getCookieFor ?r (fst (connectorCookie srv i)) = seen_cookie srv c v i"
    using assms(3) by (cases "v = ''''") (auto simp: getCookieFor_def auth_request_def resolve_cookie_def pairs_Get_def seen_cookie_def)
  then have "case ResolveForConnector ae s w i (seen_cookie srv c v i) of (Inl e, w1) \<Rightarrow> wr_Status resp = 401 \<and> w' = w1
    | (Inr rv, w1) \<Rightarrow> wr_Status resp = 200 \<and> wr_Body resp = we_encode we (resolve_json rv) \<and> w' = w1"
    by (intro resolve_endpoint [OF assms(1) _ h]) (simp_all add: query_connector, simp add: auth_request_def)
  moreover have "tp_Do (auth_transport ae we srv lk) w (resolve_url c i) (resolve_cookie c v) = (Inr (wr_Status resp, wr_Body resp), w')"
    unfolding auth_transport_def resolve_url_def transport.simps assms(2) url_parts_resolve using None h by simp
  moreover have "tp_NewRequest (auth_transport ae we srv lk) u = None" "tp_Decode (auth_transport ae we srv lk) = lk_decode lk" for u
    by (simp_all add: auth_transport_def)
  moreover obtain x w1 where "ResolveForConnector ae s w i (seen_cookie srv c v i) = (x, w1)" by fastforce
  ultimately show ?thesis using None unfolding ResolveConnector_def Let_def
    by (cases x) (simp_all split: sum.split)
qed (simp add: ResolveConnector_def auth_transport_def)


text \<open>The cookie value \<open>v\<close> carries a valid MAC and names the session \<open>sess\<close>, which is stored for the connector.\<close>

definition live_session :: "macfun \<Rightarrow> ('r, 'n) wiring \<Rightarrow> ('r \<Rightarrow> keyspace) \<Rightarrow> auth_config \<Rightarrow> ('r, 'n) gw service \<Rightarrow> ('r, 'n) gw \<Rightarrow> string \<Rightarrow> string \<Rightarrow> session \<Rightarrow> bool" where
  "live_session mac wi kv cfg s w i v sess \<longleftrightarrow> (\<exists>c payload sig sid. conn s i = Inr c \<and> v = payload @ ''.'' @ sig
     \<and> DecodeString URLEnc payload = Some sid \<and> DecodeString URLEnc sig = Some (mac (ac_CookieSigningSecret cfg) payload)
     \<and> sessions_at wi kv (cn_cfg c) w sid = Some sess)"


lemma server_main_concrete:
  assumes "auth_server_main mac wi ping e cfg = Inr srv"
  obtains s where "auth_main mac wi cfg = Inr s" and "hs_concrete srv = Some s"
  using assms by (auto simp: auth_server_main_def NewAuthServer_def split: sum.splits option.splits)

lemma normalized_sub: "str_or_empty (any_get (case normalizeClaims (Some m) of None \<Rightarrow> [] | Some m' \<Rightarrow> m') ''sub'') = str_or_empty (any_get m ''sub'')"
  by (simp add: normalizeClaims_def Let_def)

lemma vouched_net: "vouched (net_transport tp) ar w req p \<Longrightarrow> vouched tp ar (px_net w) req p"
  by (auto simp: vouched_def net_transport_def Let_def split: prod.splits)

text \<open>A principal the auth server has vouched for comes from a live session.\<close>

lemma vouched_live:
  assumes "redis_server (wi_client wi) kv clk" and "auth_main mac wi cfg = Inr s" and "hs_concrete srv = Some s"
    and base: "lk_base lk = ac_baseURL (ar_Client ar)" and v: "v = str_get (rq_Cookies req) (ar_CookieName ar)"
    and parse: "v \<noteq> '''' \<Longrightarrow> lk_parse lk (ac_cookieName (ar_Client ar) @ ''='' @ v) = [(ac_cookieName (ar_Client ar), v)]"
    and json: "\<And>rv out. lk_decode lk (we_encode we (resolve_json rv)) = Inr out \<Longrightarrow> rr_AccessToken out = rv_accessToken rv \<and> rr_Claims out = Some (rv_claims rv)"
    and "vouched (auth_transport (gw_env e) we srv lk) ar w req p"
  shows "\<exists>sess. live_session mac wi kv cfg s w (ar_ConnectorID ar) v sess
    \<and> (s_RefreshToken sess = '''' \<longrightarrow> pr_AccessToken p = s_AccessToken sess \<and> pr_Subject p = getClaimString (s_Claims sess) ''sub'')"
proof -
  let ?tp = "auth_transport (gw_env e) we srv lk"
  from assms(8) obtain out w1 where r: "ResolveConnector ?tp (ar_Client ar) w v (ar_ConnectorID ar) = (Inr (Some out), w1)" and p: "p = resolveResponseToPrincipal out"
    unfolding v by (auto simp: vouched_def ResolveConnector_def auth_transport_def Let_def)
  note t = resolve_through [OF assms(3) base, of v "gw_env e" we w "ar_ConnectorID ar", OF parse]
  from r obtain rv where rv: "ResolveForConnector (gw_env e) s w (ar_ConnectorID ar) (seen_cookie srv (ar_Client ar) v (ar_ConnectorID ar)) = (Inr rv, w1)"
    and out: "lk_decode lk (we_encode we (resolve_json rv)) = Inr out"
    unfolding t [simplified] by (auto split: option.splits prod.splits sum.splits) (auto simp: map_sum_def split: sum.splits)
  then have sc: "seen_cookie srv (ar_Client ar) v (ar_ConnectorID ar) = v"
    by (auto simp: seen_cookie_def ResolveForConnector_def split: if_splits)
  from rv obtain c where c: "conn s (ar_ConnectorID ar) = Inr c" by (auto simp: ResolveForConnector_def split: if_splits sum.splits)
  from resolve_live [OF main_auth_world [OF assms(1,2) c] c main_codec(1) [OF assms(2)] rv]
  obtain sess where "live_session mac wi kv cfg s w (ar_ConnectorID ar) v sess"
    and "s_RefreshToken sess = '''' \<longrightarrow> rv_accessToken rv = s_AccessToken sess \<and> rv_claims rv = cloneMap (s_Claims sess)"
    using c unfolding sc live_session_def by (auto simp: NewSignedManager_def)
  moreover have "pr_AccessToken p = rv_accessToken rv" "pr_Subject p = str_or_empty (any_get (rv_claims rv) ''sub'')"
    using json [OF out] normalized_sub by (simp_all add: p resolveResponseToPrincipal_def Let_def)
  ultimately show ?thesis by (auto simp: cloneMap_def getClaimString_def split: option.splits)
qed


text \<open>Where the server finds no cookie the client resolves nobody.\<close>

lemma unseen_cookie_unresolved:
  assumes "hs_concrete srv = Some s" and "lk_base lk = ac_baseURL c"
    and "v \<noteq> '''' \<Longrightarrow> lk_parse lk (ac_cookieName c @ ''='' @ v) = [(ac_cookieName c, v)]"
    and "seen_cookie srv c v i = ''''"
  shows "fst (ResolveConnector (auth_transport ae we srv lk) c w v i) = Inr None \<or> (\<exists>e. fst (ResolveConnector (auth_transport ae we srv lk) c w v i) = Inl e)"
  by (subst (1 2) resolve_through [OF assms(1,2)]) (use assms(3,4) in \<open>auto simp: ResolveForConnector_def split: option.splits\<close>)

text \<open>The resolver of a route of the bootstrap, with the client's own cookie name.\<close>

lemma route_resolver_sel:
  "ac_baseURL (ar_Client (route_resolver pcfg rc)) = TrimSuffix (pc_AuthURL pcfg) ''/''" "ac_cookieName (ar_Client (route_resolver pcfg rc)) = pc_CookieName pcfg"
  "ar_ConnectorID (route_resolver pcfg rc) = rt_ConnectorID rc" "ar_CookieName (route_resolver pcfg rc) = connectorCookieName pcfg (rt_ConnectorID rc)"
  by (simp_all add: route_resolver_def NewAuthClient_def)

text \<open>The principal of what the service reports of a session.\<close>

definition session_principal :: "resolved_session \<Rightarrow> principal" where
  "session_principal rv = resolveResponseToPrincipal
     \<lparr>rr_AccessToken = rv_accessToken rv, rr_Claims = Some (rv_claims rv), rr_TenantContext = rv_tenantContext rv\<rparr>"

section \<open>Properties\<close>


text \<open>
  C8. Resolving over HTTP refines the call of the service: for a connector whose cookie has the proxy's cookie name, the
  resolver of a route answers, while the network works and the JSON of the answer is read back, exactly what
  \<open>ResolveForConnector\<close> of the auth process returns for the cookie of the request: no principal for an error,
  and otherwise the principal of the session; and it leaves the same state behind.
\<close>

theorem remote_resolution_refines_service:
  assumes "auth_server_main mac wi ping e cfg = Inr srv" and "auth_main mac wi cfg = Inr s" and "lk_base lk = TrimSuffix (pc_AuthURL pcfg) ''/''"
    and "\<And>v. v \<noteq> '''' \<Longrightarrow> lk_parse lk (pc_CookieName pcfg @ ''='' @ v) = [(pc_CookieName pcfg, v)]"
    and "lk_fails lk w = None" and "fst (connectorCookie srv (rt_ConnectorID rc)) = pc_CookieName pcfg"
    and "v = str_get (rq_Cookies req) (connectorCookieName pcfg (rt_ConnectorID rc))"
    and "\<And>rv w1. ResolveForConnector (gw_env e) s w (rt_ConnectorID rc) v = (Inr rv, w1) \<Longrightarrow> lk_decode lk (we_encode we (resolve_json rv)) =
        Inr \<lparr>rr_AccessToken = rv_accessToken rv, rr_Claims = Some (rv_claims rv), rr_TenantContext = rv_tenantContext rv\<rparr>"
  shows "auth_Resolve (auth_transport (gw_env e) we srv lk) (route_resolver pcfg rc) w req =
      (case ResolveForConnector (gw_env e) s w (rt_ConnectorID rc) v of
         (Inl err, w1) \<Rightarrow> (Inr None, w1) | (Inr rv, w1) \<Rightarrow> (Inr (Some (session_principal rv)), w1))"
proof -
  have s: "hs_concrete srv = Some s" using server_main_concrete [OF assms(1)] assms(2) by (metis sum.inject(2))
  have c: "seen_cookie srv (ar_Client (route_resolver pcfg rc)) v (rt_ConnectorID rc) = v"
    using assms(6) by (simp add: seen_cookie_def route_resolver_sel)
  show ?thesis
    by (unfold auth_Resolve_def route_resolver_sel(3,4) assms(7) [symmetric], subst resolve_through [OF s])
      (use assms(3,4,5,8) c in \<open>auto simp: session_principal_def route_resolver_sel split: prod.splits sum.splits\<close>)
qed



definition gate_server :: "(mem_state, int) gw auth_server" where
  "gate_server = projr (auth_server_main (\<lambda>k d. k @ d) world_wiring (\<lambda>r. (None, r)) world_env world_cfg)"

lemma gate_server: "auth_server_main (\<lambda>k d. k @ d) world_wiring (\<lambda>r. (None, r)) world_env world_cfg = Inr gate_server"
proof -
  have "default_store world_wiring world_cfg \<noteq> None" by code_simp
  then show ?thesis by (auto simp: gate_server_def auth_server_main_def world_service)
qed

text \<open>The one answer the sample encoder knows.\<close>

definition gate_rv :: resolved_session where
  "gate_rv = \<lparr>rv_accessToken = s_AccessToken world_session, rv_claims = cloneMap (s_Claims world_session),
     rv_tenantContext = map_option tenant_map (s_TenantContext world_session), rv_setCookieValue = ''''\<rparr>"

definition gate_web :: web_env where
  "gate_web = sample_web\<lparr>we_encode := (\<lambda>v. if v = resolve_json gate_rv then ''ok'' else ''no'')\<rparr>"

definition gate_name :: string where
  "gate_name = fst (connectorCookie gate_server '''')"

definition gate_link :: "(mem_state, int) gw link" where
  "gate_link = \<lparr>lk_base = '''', lk_parse = (\<lambda>h. [(gate_name, drop (Suc (length gate_name)) h)]), lk_fails = (\<lambda>w. None),
     lk_decode = (\<lambda>b. if b = ''ok'' then Inr \<lparr>rr_AccessToken = rv_accessToken gate_rv, rr_Claims = Some (rv_claims gate_rv), rr_TenantContext = rv_tenantContext gate_rv\<rparr>
       else Inl (Err ''json''))\<rparr>"

definition gate_cookie :: string where
  "gate_cookie = projr (sv_encode world_service ''s1'')"

abbreviation gate_tp :: "(mem_state, int) gw transport" where
  "gate_tp \<equiv> auth_transport (gw_env world_env) gate_web gate_server gate_link"

lemma gate_resolves: "\<exists>w1. ResolveForConnector (gw_env world_env) world_service world '''' gate_cookie = (Inr gate_rv, w1)"
proof -
  have "map_sum (\<lambda>e. e) (\<lambda>rv. (rv_accessToken rv, rv_claims rv, rv_tenantContext rv, rv_setCookieValue rv)) (fst (ResolveForConnector (gw_env world_env) world_service world '''' gate_cookie))
      = Inr (rv_accessToken gate_rv, rv_claims gate_rv, rv_tenantContext gate_rv, rv_setCookieValue gate_rv)" by code_simp
  then show ?thesis by (cases "ResolveForConnector (gw_env world_env) world_service world '''' gate_cookie") (auto simp: map_sum_def split: sum.splits)
qed

lemma trim0: "TrimSuffix '''' ''/'' = ''''"
  by code_simp

lemma gate_answer: "\<exists>out w1. ResolveConnector gate_tp (NewAuthClient '''' gate_name) world gate_cookie '''' = (Inr (Some out), w1)"
proof -
  obtain w1 where r: "ResolveForConnector (gw_env world_env) world_service world '''' gate_cookie = (Inr gate_rv, w1)" using gate_resolves by blast
  have c: "hs_concrete gate_server = Some world_service"
    using server_main_concrete [OF gate_server] world_service by (metis sum.inject(2))
  have n: "ac_cookieName (NewAuthClient '''' gate_name) = gate_name" "ac_baseURL (NewAuthClient '''' gate_name) = ''''" by (simp_all add: NewAuthClient_def trim0)
  have s: "seen_cookie gate_server (NewAuthClient '''' gate_name) gate_cookie '''' = gate_cookie" unfolding seen_cookie_def n by (simp add: gate_name_def)
  have "ResolveConnector gate_tp (NewAuthClient '''' gate_name) world gate_cookie '''' = (Inr (Some \<lparr>rr_AccessToken = rv_accessToken gate_rv, rr_Claims = Some (rv_claims gate_rv), rr_TenantContext = rv_tenantContext gate_rv\<rparr>), w1)"
    by (subst resolve_through [OF c]) (simp_all add: n gate_link_def s r gate_web_def)
  then show ?thesis by blast
qed


lemma gate_lk: "lk_base gate_link = ''''" "lk_parse gate_link (gate_name @ CHR ''='' # v) = [(gate_name, v)]"
  by (simp_all add: gate_link_def)

lemma gate_json:
  assumes "lk_decode gate_link (we_encode gate_web (resolve_json rv)) = Inr out"
  shows "rr_AccessToken out = rv_accessToken rv \<and> rr_Claims out = Some (rv_claims rv)"
proof -
  from assms have "resolve_json rv = resolve_json gate_rv" and "rr_AccessToken out = rv_accessToken gate_rv" "rr_Claims out = Some (rv_claims gate_rv)"
    by (auto simp: gate_link_def gate_web_def split: if_splits)
  then show ?thesis by (simp add: resolve_json_def)
qed


theorem remote_resolution_refines_service_witness:
  "\<exists>w1. auth_Resolve gate_tp (route_resolver (boot_config gate_name) (sample_route ''/api'' ''/api'')) world
       (grpc_request '''' [] [] \<lparr>rq_Cookies := [(gate_name, gate_cookie)]\<rparr>) = (Inr (Some (session_principal gate_rv)), w1)"
proof -
  let ?rc = "sample_route ''/api'' ''/api''" and ?rq = "grpc_request '''' [] [] \<lparr>rq_Cookies := [(gate_name, gate_cookie)]\<rparr>"
  obtain w1 where r: "ResolveForConnector (gw_env world_env) world_service world '''' gate_cookie = (Inr gate_rv, w1)" using gate_resolves by blast
  have i: "rt_ConnectorID ?rc = ''''" "pc_CookieName (boot_config gate_name) = gate_name" "TrimSuffix (pc_AuthURL (boot_config gate_name)) ''/'' = ''''"
    by (simp_all add: sample_route_def boot_sel trim0)
  have d: "lk_decode gate_link (we_encode gate_web (resolve_json rv)) = Inr \<lparr>rr_AccessToken = rv_accessToken rv, rr_Claims = Some (rv_claims rv), rr_TenantContext = rv_tenantContext rv\<rparr>"
    if "ResolveForConnector (gw_env world_env) world_service world '''' gate_cookie = (Inr rv, w2)" for rv w2
    using that r by (simp add: gate_link_def gate_web_def)
  have "auth_Resolve gate_tp (route_resolver (boot_config gate_name) ?rc) world ?rq =
      (case ResolveForConnector (gw_env world_env) world_service world (rt_ConnectorID ?rc) gate_cookie of
         (Inl err, w1) \<Rightarrow> (Inr None, w1) | (Inr rv, w1) \<Rightarrow> (Inr (Some (session_principal rv)), w1))"
    by (rule remote_resolution_refines_service [OF gate_server world_service]) (unfold i, simp_all add: gate_lk gate_name_def [symmetric] d connectorCookieName_def str_get_def i(2), simp add: gate_link_def)
  then show ?thesis by (auto simp: i r)
qed

section \<open>Further facts\<close>

text \<open>
  A connector whose cookie is not named like the proxy's (the bootstrap derives \<open><name>_<id>\<close>) can never be resolved:
  the client sends the value under its own name.
\<close>

lemma connector_cookie_unresolved:
  assumes "auth_server_main mac wi ping e cfg = Inr srv" and "lk_base lk = TrimSuffix (pc_AuthURL pcfg) ''/''"
    and "\<And>v. v \<noteq> '''' \<Longrightarrow> lk_parse lk (pc_CookieName pcfg @ ''='' @ v) = [(pc_CookieName pcfg, v)]"
    and "fst (connectorCookie srv (rt_ConnectorID rc)) \<noteq> pc_CookieName pcfg"
  shows "\<not> (\<exists>p w'. auth_Resolve (auth_transport ae we srv lk) (route_resolver pcfg rc) w req = (Inr (Some p), w'))"
proof -
  obtain s where s: "hs_concrete srv = Some s" using assms(1) by (rule server_main_concrete)
  have "seen_cookie srv (ar_Client (route_resolver pcfg rc)) (str_get (rq_Cookies req) (connectorCookieName pcfg (rt_ConnectorID rc))) (rt_ConnectorID rc) = ''''"
    using assms(4) by (simp add: seen_cookie_def route_resolver_sel)
  from unseen_cookie_unresolved [OF s _ _ this, of lk ae we w] assms(2,3)
  show ?thesis by (auto simp: auth_Resolve_def route_resolver_sel split: sum.splits option.splits prod.splits)
qed

text \<open>A gRPC call on an engine that requires authentication never reaches the upstream: it carries no cookie.\<close>

lemma grpc_never_authenticated:
  assumes "auth_server_main mac wi ping e cfg = Inr srv" and "lk_base lk = TrimSuffix (pc_AuthURL pcfg) ''/''" and "rt_RequireAuth rc"
  shows "\<exists>err. fst (grpc_serve ge (newGRPCServer (engine_of (route_engine (auth_transport ae we srv lk) pcfg pol ps rc)) addr ins) w m md) = Inl err"
proof (rule ccontr)
  let ?e = "route_engine (auth_transport ae we srv lk) pcfg pol ps rc"
  assume n: "\<not> ?thesis"
  obtain s where s: "hs_concrete srv = Some s" using assms(1) by (rule server_main_concrete)
  obtain resp w1 ms where h: "Handle ?e w (buildRequest md m) = (Inr resp, w1, ms)" using Handle_total [of ?e w "buildRequest md m"] by blast
  have "rs_Allow resp"
  proof (rule ccontr)
    assume "\<not> rs_Allow resp"
    with engine_of_Handle [OF h] have "fst (grpc_serve ge (newGRPCServer (engine_of ?e) addr ins) w m md) = Inl (statusFromResponse (Some resp))"
      by (simp add: grpc_serve_def StreamServerInterceptor_def newGRPCServer_def)
    with n show False by blast
  qed
  with h assms(3) obtain p w2 where p: "e_Resolver ?e w (buildRequest md m) = (Inr (Some p), w2)" by (auto elim!: Handle_allow simp: route_engine_def)
  have "seen_cookie srv (ar_Client (route_resolver pcfg rc)) '''' (rt_ConnectorID rc) = ''''" by (simp add: seen_cookie_def)
  from unseen_cookie_unresolved [OF s _ _ this, of lk ae we w] assms(2) p show False
    by (auto simp: auth_Resolve_def route_engine_def route_resolver_sel buildRequest_def grpc_request_def str_get_def Let_def split: sum.splits option.splits prod.splits)
qed

end
