(* ===== verification/Mock_Idp.thy ===== *)
theory Mock_Idp
  imports Auth_Http Oidc
begin

text \<open>
  \<open>cmd/mockidp/main.go\<close>: the identity provider that the repository's end-to-end set-up runs against. It keeps the
  authorization codes and refresh tokens it has handed out and answers the discovery, authorize, token, logout
  and key-set endpoints. The random source, the clock, SHA-256, the RSA signature of the JWT library, the URL
  printer and the JSON encoder are arguments; a panic closes the connection, so a handler's answer is \<open>None\<close> then.
  The content type the HTTP server guesses for a body is not modelled.
\<close>

section \<open>Configuration\<close>

definition envOrDefault :: "(string \<Rightarrow> string) \<Rightarrow> string \<Rightarrow> string \<Rightarrow> string" where
  "envOrDefault getenv name def = (let v = TrimSpace (getenv name) in if v \<noteq> '''' then v else def)"

text \<open>\<open>fmt.Sscanf\<close> with \<open>%d\<close> on a trimmed string: an optional sign and decimal digits; the rest is ignored, and a value outside of \<open>int\<close> is an error.\<close>

definition digit :: "char \<Rightarrow> bool" where
  "digit c \<longleftrightarrow> CHR ''0'' \<le> c \<and> c \<le> CHR ''9''"

definition digits_value :: "string \<Rightarrow> int" where
  "digits_value ds = foldl (\<lambda>n c. n * 10 + (int (of_char c) - 48)) 0 ds"

definition scan_int :: "string \<Rightarrow> int option" where
  "scan_int s =
     (let neg = (case s of c # _ \<Rightarrow> c = CHR ''-'' | [] \<Rightarrow> False); t = (case s of c # t \<Rightarrow> if c = CHR ''-'' \<or> c = CHR ''+'' then t else s | [] \<Rightarrow> []);
          ds = takeWhile digit t; n = (if neg then - digits_value ds else digits_value ds)
      in if ds = [] \<or> \<not> in_int64 n then None else Some n)"

definition envOrDefaultInt :: "(string \<Rightarrow> string) \<Rightarrow> string \<Rightarrow> int \<Rightarrow> int" where
  "envOrDefaultInt getenv name def = (let v = TrimSpace (getenv name) in
     if v = '''' then def else (case scan_int v of None \<Rightarrow> def | Some n \<Rightarrow> n))"

record idp_config =
  ic_issuer :: string
  ic_authorizationEndpoint :: string
  ic_tokenEndpoint :: string
  ic_jwksURI :: string
  ic_endSessionEndpoint :: string
  ic_sub :: string
  ic_email :: string
  ic_expiresIn :: int
  ic_kid :: string

definition idp_config_of :: "(string \<Rightarrow> string) \<Rightarrow> idp_config" where
  "idp_config_of getenv = \<lparr>ic_issuer = envOrDefault getenv ''MOCKIDP_ISSUER'' ''http://mockidp:8082'',
     ic_authorizationEndpoint = envOrDefault getenv ''MOCKIDP_AUTHORIZATION_ENDPOINT'' ''http://localhost:8082/authorize'',
     ic_tokenEndpoint = envOrDefault getenv ''MOCKIDP_TOKEN_ENDPOINT'' ''http://mockidp:8082/token'',
     ic_jwksURI = envOrDefault getenv ''MOCKIDP_JWKS_URI'' ''http://mockidp:8082/jwks'',
     ic_endSessionEndpoint = envOrDefault getenv ''MOCKIDP_END_SESSION_ENDPOINT'' ''http://localhost:8082/logout'',
     ic_sub = envOrDefault getenv ''MOCKIDP_SUB'' ''test-user'', ic_email = envOrDefault getenv ''MOCKIDP_EMAIL'' ''u@example.com'',
     ic_expiresIn = envOrDefaultInt getenv ''MOCKIDP_EXPIRES_IN_SECONDS'' 10, ic_kid = envOrDefault getenv ''MOCKIDP_KID'' ''mock-kid''\<rparr>"

section \<open>State\<close>

record authCodeInfo =
  ai_CodeChallenge :: string
  ai_Nonce :: string
  ai_ClientID :: string
  ai_RedirectURI :: string
  ai_State :: string
  ai_CreatedAt :: int

record refreshInfo =
  ri_ClientID :: string

record 'n idp_state =
  id_authCodes :: "authCodeInfo gomap"
  id_refreshMap :: "refreshInfo gomap"
  id_net :: 'n

text \<open>\<open>ie_now\<close> in nanoseconds since 1970; \<open>ie_sign claims kid\<close> is the signed token, \<open>None\<close> where signing fails.\<close>

record 'n idp_env =
  ie_random :: "'n random"
  ie_now :: "'n \<Rightarrow> int \<times> 'n"
  ie_sha :: "bytes \<Rightarrow> bytes"
  ie_sign :: "gany gomap \<Rightarrow> string \<Rightarrow> string option"
  ie_url_string :: "url \<Rightarrow> string"
  ie_N :: bytes
  ie_E :: bytes

section \<open>Tokens\<close>

definition randomCode :: "'n idp_env \<Rightarrow> 'n \<Rightarrow> string option \<times> 'n" where
  "randomCode ie n = (case ie_random ie n 16 of
     (Inl e, n1) \<Rightarrow> (None, n1)
   | (Inr b, n1) \<Rightarrow> (Some (TrimSpace (EncodeToString RawURLEnc b)), n1))"

definition s256Challenge :: "(bytes \<Rightarrow> bytes) \<Rightarrow> string \<Rightarrow> string" where
  "s256Challenge sha verifier = EncodeToString RawURLEnc (sha verifier)"

definition id_claims :: "string \<Rightarrow> string \<Rightarrow> string \<Rightarrow> string \<Rightarrow> string \<Rightarrow> int \<Rightarrow> int \<Rightarrow> gany gomap" where
  "id_claims issuer audience nonce sub email notAfter iat =
     (let claims = [(''iss'', AStr issuer), (''aud'', AStr audience), (''sub'', AStr sub), (''exp'', AInt64 (notAfter div 1000000000)),
        (''iat'', AInt64 (iat div 1000000000)), (''email'', AStr email)]
      in if nonce \<noteq> '''' then AList.update ''nonce'' (AStr nonce) claims else claims)"

definition signIDToken :: "'n idp_env \<Rightarrow> string \<Rightarrow> string \<Rightarrow> string \<Rightarrow> string \<Rightarrow> string \<Rightarrow> int \<Rightarrow> string \<Rightarrow> 'n \<Rightarrow> string option \<times> 'n" where
  "signIDToken ie issuer audience nonce sub email notAfter kid n =
     (case ie_now ie n of (iat, n1) \<Rightarrow> (ie_sign ie (id_claims issuer audience nonce sub email notAfter iat) kid, n1))"

definition idp_token_json :: "string \<Rightarrow> string \<Rightarrow> string \<Rightarrow> int \<Rightarrow> gany" where
  "idp_token_json accessToken refreshToken idToken expiresIn = AMap [(''access_token'', AStr accessToken), (''refresh_token'', AStr refreshToken),
     (''id_token'', AStr idToken), (''expires_in'', AInt expiresIn), (''token_type'', AStr ''Bearer'')]"

text \<open>What both grants share: a new refresh token for the client, and an ID token that expires with the access token.\<close>

definition issue_tokens :: "web_env \<Rightarrow> 'n idp_env \<Rightarrow> idp_config \<Rightarrow> 'n idp_state \<Rightarrow> string \<Rightarrow> string \<Rightarrow> string \<Rightarrow> web_response option \<times> 'n idp_state" where
  "issue_tokens we ie ic st accessToken clientID nonce = (case randomCode ie (id_net st) of
     (None, n1) \<Rightarrow> (None, st\<lparr>id_net := n1\<rparr>)
   | (Some rc, n1) \<Rightarrow>
       (let refreshToken = ''refresh-'' @ rc; st1 = st\<lparr>id_refreshMap := AList.update refreshToken \<lparr>ri_ClientID = clientID\<rparr> (id_refreshMap st)\<rparr> in
        case ie_now ie n1 of (now, n2) \<Rightarrow>
        (case signIDToken ie (ic_issuer ic) clientID nonce (ic_sub ic) (ic_email ic) (now + wrap64 (ic_expiresIn ic * 1000000000)) (ic_kid ic) n2 of
           (None, n3) \<Rightarrow> (None, st1\<lparr>id_net := n3\<rparr>)
         | (Some idToken, n3) \<Rightarrow>
             (Some (json_reply 200 (we_encode we (idp_token_json accessToken refreshToken idToken (ic_expiresIn ic)))), st1\<lparr>id_net := n3\<rparr>))))"

definition handleAuthCodeToken :: "web_env \<Rightarrow> 'n idp_env \<Rightarrow> idp_config \<Rightarrow> 'n idp_state \<Rightarrow> http_request \<Rightarrow> web_response option \<times> 'n idp_state" where
  "handleAuthCodeToken we ie ic st r =
     (let code = FormValue we r ''code''; codeVerifier = FormValue we r ''code_verifier'' in
      case map_of (id_authCodes st) code of
        None \<Rightarrow> (Some (json_reply 400 (''{'' @ [DQ] @ ''error'' @ [DQ] @ '':'' @ [DQ] @ ''invalid_code'' @ [DQ] @ ''}'')), st)
      | Some info \<Rightarrow>
          (if s256Challenge (ie_sha ie) codeVerifier \<noteq> ai_CodeChallenge info
           then (Some (json_reply 400 (''{'' @ [DQ] @ ''error'' @ [DQ] @ '':'' @ [DQ] @ ''invalid_code_verifier'' @ [DQ] @ ''}'')), st)
           else issue_tokens we ie ic st (''access-'' @ code) (ai_ClientID info) (ai_Nonce info)))"

definition handleRefreshToken :: "web_env \<Rightarrow> 'n idp_env \<Rightarrow> idp_config \<Rightarrow> 'n idp_state \<Rightarrow> http_request \<Rightarrow> web_response option \<times> 'n idp_state" where
  "handleRefreshToken we ie ic st r =
     (let refreshToken = FormValue we r ''refresh_token'' in
      case map_of (id_refreshMap st) refreshToken of
        None \<Rightarrow> (Some (json_reply 400 (''{'' @ [DQ] @ ''error'' @ [DQ] @ '':'' @ [DQ] @ ''invalid_refresh_token'' @ [DQ] @ ''}'')), st)
      | Some info \<Rightarrow> issue_tokens we ie ic st (''access-refresh-'' @ refreshToken) (ri_ClientID info) '''')"

section \<open>Endpoints\<close>

definition discovery_doc :: "idp_config \<Rightarrow> gany" where
  "discovery_doc ic = AMap [(''issuer'', AStr (ic_issuer ic)), (''authorization_endpoint'', AStr (ic_authorizationEndpoint ic)),
     (''token_endpoint'', AStr (ic_tokenEndpoint ic)), (''jwks_uri'', AStr (ic_jwksURI ic)), (''end_session_endpoint'', AStr (ic_endSessionEndpoint ic))]"

definition idp_authorize :: "web_env \<Rightarrow> 'n idp_env \<Rightarrow> 'n idp_state \<Rightarrow> http_request \<Rightarrow> web_response option \<times> 'n idp_state" where
  "idp_authorize we ie st r =
     (if r_Method r \<noteq> ''GET'' then (Some (reply 405 [] ''''), st)
      else (let clientID = query_Get r ''client_id''; redirectURI = query_Get r ''redirect_uri''; state = query_Get r ''state'';
                codeChallenge = query_Get r ''code_challenge''; nonce = query_Get r ''nonce'' in
        if redirectURI = '''' \<or> state = '''' \<or> codeChallenge = '''' \<or> nonce = '''' then (Some (reply 400 [] ''missing required authorize params''), st)
        else (case randomCode ie (id_net st) of
            (None, n1) \<Rightarrow> (None, st\<lparr>id_net := n1\<rparr>)
          | (Some code, n1) \<Rightarrow> (case ie_now ie n1 of (now, n2) \<Rightarrow>
              (let st1 = st\<lparr>id_authCodes := AList.update code \<lparr>ai_CodeChallenge = codeChallenge, ai_Nonce = nonce, ai_ClientID = clientID,
                     ai_RedirectURI = redirectURI, ai_State = state, ai_CreatedAt = now\<rparr> (id_authCodes st), id_net := n2\<rparr> in
               case we_url we redirectURI of
                 Inl e \<Rightarrow> (Some (reply 400 [] ''''), st1)
               | Inr u \<Rightarrow>
                   (let qq = pairs_Set ''state'' state (pairs_Set ''code'' code (query_pairs (u_RawQuery u)))
                    in (Some (web_redirect (we_url we) r (ie_url_string ie (u\<lparr>u_RawQuery := values_Encode qq\<rparr>))), st1)))))))"

definition idp_token :: "web_env \<Rightarrow> 'n idp_env \<Rightarrow> idp_config \<Rightarrow> 'n idp_state \<Rightarrow> http_request \<Rightarrow> web_response option \<times> 'n idp_state" where
  "idp_token we ie ic st r =
     (if r_Method r \<noteq> ''POST'' then (Some (reply 405 [] ''''), st)
      else (let grantType = FormValue we r ''grant_type'' in
        if grantType = ''authorization_code'' then handleAuthCodeToken we ie ic st r
        else if grantType = ''refresh_token'' then handleRefreshToken we ie ic st r
        else (Some (json_reply 400 (''{'' @ [DQ] @ ''error'' @ [DQ] @ '':'' @ [DQ] @ ''unsupported_grant_type'' @ [DQ] @ ''}'')), st)))"

definition idp_jwks :: "web_env \<Rightarrow> 'n idp_env \<Rightarrow> idp_config \<Rightarrow> web_response" where
  "idp_jwks we ie ic = json_reply 200 (we_encode we (AMap [(''keys'', AList [AMap [(''kty'', AStr ''RSA''), (''use'', AStr ''sig''), (''alg'', AStr ''RS256''),
     (''kid'', AStr (ic_kid ic)), (''n'', AStr (EncodeToString RawURLEnc (ie_N ie))), (''e'', AStr (EncodeToString RawURLEnc (ie_E ie)))]])]))"

definition mockidp :: "web_env \<Rightarrow> 'n idp_env \<Rightarrow> idp_config \<Rightarrow> string \<Rightarrow> 'n idp_state \<Rightarrow> http_request \<Rightarrow> web_response option \<times> 'n idp_state" where
  "mockidp we ie ic path st r =
     (if path = ''/.well-known/openid-configuration'' then (Some (reply 200 [] (we_encode we (discovery_doc ic))), st)
      else if path = ''/authorize'' then idp_authorize we ie st r
      else if path = ''/token'' then idp_token we ie ic st r
      else if path = ''/logout'' then (Some (reply 200 [] ''ok''), st)
      else if path = ''/jwks'' then (Some (idp_jwks we ie ic), st)
      else (Some (web_error ''404 page not found'' 404), st))"


text \<open>The states and the requests handled so far, as pairs of a path and a request.\<close>

inductive idp_run :: "web_env \<Rightarrow> 'n idp_env \<Rightarrow> idp_config \<Rightarrow> (string \<times> http_request) list \<Rightarrow> 'n idp_state \<Rightarrow> bool"
  for we ie ic where
  start: "idp_run we ie ic [] \<lparr>id_authCodes = [], id_refreshMap = [], id_net = n\<rparr>"
| request: "idp_run we ie ic rs st \<Longrightarrow> mockidp we ie ic path st r = (resp, st') \<Longrightarrow> idp_run we ie ic (rs @ [(path, r)]) st'"

section \<open>Lemmas\<close>

text \<open>The authorization request a code comes from, and the request behind a refresh token.\<close>

definition authorized :: "(string \<times> http_request) list \<Rightarrow> authCodeInfo \<Rightarrow> bool" where
  "authorized rs info \<longleftrightarrow> (\<exists>a. (''/authorize'', a) \<in> set rs \<and> r_Method a = ''GET'' \<and> ai_CodeChallenge info = query_Get a ''code_challenge''
     \<and> ai_Nonce info = query_Get a ''nonce'' \<and> ai_ClientID info = query_Get a ''client_id'' \<and> ai_Nonce info \<noteq> '''' \<and> ai_CodeChallenge info \<noteq> '''')"

definition idp_inv :: "(string \<times> http_request) list \<Rightarrow> 'n idp_state \<Rightarrow> bool" where
  "idp_inv rs st \<longleftrightarrow> (\<forall>code info. map_of (id_authCodes st) code = Some info \<longrightarrow> authorized rs info)
     \<and> (\<forall>t ri. map_of (id_refreshMap st) t = Some ri \<longrightarrow> (\<exists>a. (''/authorize'', a) \<in> set rs \<and> r_Method a = ''GET'' \<and> ri_ClientID ri = query_Get a ''client_id''))"

lemma authorized_mono: "authorized rs info \<Longrightarrow> authorized (rs @ rs') info"
  by (auto simp: authorized_def)

lemma idp_inv_mono: "idp_inv rs st \<Longrightarrow> idp_inv (rs @ rs') (st\<lparr>id_net := n\<rparr>)"
  by (fastforce simp: idp_inv_def intro: authorized_mono)

lemma issue_tokens_cases:
  assumes "issue_tokens we ie ic st atok cid nonce = (resp, st')"
  obtains (panic) n where "resp = None" and "st' = st\<lparr>id_net := n\<rparr>"
  | (unsigned) rc n where "resp = None" and "st' = st\<lparr>id_refreshMap := AList.update (''refresh-'' @ rc) \<lparr>ri_ClientID = cid\<rparr> (id_refreshMap st), id_net := n\<rparr>"
  | (issued) rc n notAfter iat tok where "ie_sign ie (id_claims (ic_issuer ic) cid nonce (ic_sub ic) (ic_email ic) notAfter iat) (ic_kid ic) = Some tok"
      and "resp = Some (json_reply 200 (we_encode we (idp_token_json atok (''refresh-'' @ rc) tok (ic_expiresIn ic))))"
      and "st' = st\<lparr>id_refreshMap := AList.update (''refresh-'' @ rc) \<lparr>ri_ClientID = cid\<rparr> (id_refreshMap st), id_net := n\<rparr>"
  using assms by (auto simp: issue_tokens_def signIDToken_def Let_def split: prod.splits option.splits)

lemma issue_tokens_Some:
  assumes "issue_tokens we ie ic st atok cid nonce = (Some resp, st')"
  shows "\<exists>claims tok rt. ie_sign ie claims (ic_kid ic) = Some tok \<and> wr_Body resp = we_encode we (idp_token_json atok rt tok (ic_expiresIn ic))
    \<and> any_get claims ''iss'' = AStr (ic_issuer ic) \<and> any_get claims ''aud'' = AStr cid
    \<and> map_of claims ''nonce'' = (if nonce = '''' then None else Some (AStr nonce)) \<and> map_of (id_refreshMap st') rt = Some \<lparr>ri_ClientID = cid\<rparr>"
  using assms
proof (cases rule: issue_tokens_cases)
  case (issued rc n notAfter iat tok)
  then show ?thesis
    by (intro exI [of _ "id_claims (ic_issuer ic) cid nonce (ic_sub ic) (ic_email ic) notAfter iat"] exI [of _ tok] exI [of _ "''refresh-'' @ rc"])
      (simp add: json_reply_def reply_def id_claims_def any_get_def update_conv' Let_def)
qed simp_all

lemma issue_tokens_inv:
  assumes "issue_tokens we ie ic st atok cid nonce = (resp, st')" and "idp_inv rs st"
    and "\<exists>a. (''/authorize'', a) \<in> set rs \<and> r_Method a = ''GET'' \<and> cid = query_Get a ''client_id''"
  shows "idp_inv rs st'"
  using assms(1) by (cases rule: issue_tokens_cases) (use assms(2,3) in \<open>auto simp: idp_inv_def update_conv'\<close>)

lemma idp_inv_code: "idp_inv rs st \<Longrightarrow> map_of (id_authCodes st) code = Some info \<Longrightarrow> authorized rs info"
  by (simp add: idp_inv_def)

lemma idp_inv_refresh: "idp_inv rs st \<Longrightarrow> map_of (id_refreshMap st) t = Some ri
    \<Longrightarrow> \<exists>a. (''/authorize'', a) \<in> set rs \<and> r_Method a = ''GET'' \<and> ri_ClientID ri = query_Get a ''client_id''"
  by (simp add: idp_inv_def)

lemma authorized_client: "authorized rs info \<Longrightarrow> \<exists>a. (''/authorize'', a) \<in> set rs \<and> r_Method a = ''GET'' \<and> ai_ClientID info = query_Get a ''client_id''"
  by (auto simp: authorized_def)

lemma idp_authorize_state:
  assumes "idp_authorize we ie st r = (resp, st')"
  shows "(\<exists>n. st' = st\<lparr>id_net := n\<rparr>)
    \<or> (\<exists>code info n. st' = st\<lparr>id_authCodes := AList.update code info (id_authCodes st), id_net := n\<rparr> \<and> authorized [(''/authorize'', r)] info)"
proof (cases "r_Method r = ''GET'' \<and> query_Get r ''code_challenge'' \<noteq> '''' \<and> query_Get r ''nonce'' \<noteq> ''''")
  case False
  then have "st' = st" using assms by (auto simp: idp_authorize_def split: if_splits)
  then have "st' = st\<lparr>id_net := id_net st\<rparr>" by simp
  then show ?thesis by blast
next
  case True
  obtain c n1 where c: "randomCode ie (id_net st) = (c, n1)" by fastforce
  obtain now n2 where n: "ie_now ie n1 = (now, n2)" by fastforce
  let ?i = "\<lparr>ai_CodeChallenge = query_Get r ''code_challenge'', ai_Nonce = query_Get r ''nonce'', ai_ClientID = query_Get r ''client_id'',
    ai_RedirectURI = query_Get r ''redirect_uri'', ai_State = query_Get r ''state'', ai_CreatedAt = now\<rparr>"
  have "authorized [(''/authorize'', r)] ?i" using True by (simp add: authorized_def)
  moreover have "st' = st \<or> st' = st\<lparr>id_net := n1\<rparr> \<or> (\<exists>code. st' = st\<lparr>id_authCodes := AList.update code ?i (id_authCodes st), id_net := n2\<rparr>)"
  proof (cases "query_Get r ''redirect_uri'' = '''' \<or> query_Get r ''state'' = ''''")
    case False
    with assms True c n show ?thesis
      by (cases c; cases "we_url we (query_Get r ''redirect_uri'')") (simp_all add: idp_authorize_def Let_def, blast+)
  qed (use assms True in \<open>simp add: idp_authorize_def\<close>)
  moreover have "st = st\<lparr>id_net := id_net st\<rparr>" by simp
  ultimately show ?thesis by blast
qed

lemma idp_authorize_inv:
  assumes "idp_authorize we ie st r = (resp, st')" and "idp_inv rs st"
  shows "idp_inv (rs @ [(''/authorize'', r)]) st'"
  using idp_authorize_state [OF assms(1)]
proof (elim disjE exE conjE)
  fix n assume "st' = st\<lparr>id_net := n\<rparr>"
  with idp_inv_mono [OF assms(2)] show ?thesis by simp
next
  fix code info n assume "st' = st\<lparr>id_authCodes := AList.update code info (id_authCodes st), id_net := n\<rparr>" "authorized [(''/authorize'', r)] info"
  with idp_inv_mono [OF assms(2), of "[(''/authorize'', r)]" n] show ?thesis by (auto simp: idp_inv_def update_conv' authorized_def)
qed

lemma idp_token_inv:
  assumes "idp_token we ie ic st r = (resp, st')" and "idp_inv rs st"
  shows "idp_inv rs st'"
  using assms idp_inv_code [OF assms(2), THEN authorized_client] idp_inv_refresh [OF assms(2)]
  by (auto simp: idp_token_def handleAuthCodeToken_def handleRefreshToken_def Let_def split: if_splits option.splits
      elim!: issue_tokens_inv)

lemma idp_run_inv: "idp_run we ie ic rs st \<Longrightarrow> idp_inv rs st"
proof (induction rule: idp_run.induct)
  case (request rs st path r resp st')
  have m: "idp_inv (rs @ [(path, r)]) st'" if "idp_inv rs st'" using idp_inv_mono [OF that, of "[(path, r)]" "id_net st'"] by simp
  consider (a) "path = ''/authorize''" "idp_authorize we ie st r = (resp, st')" | (t) "idp_token we ie ic st r = (resp, st')" | (s) "st' = st"
    using request.hyps(2) by (auto simp: mockidp_def split: if_splits)
  then show ?case
  proof cases
    case a
    with idp_authorize_inv request.IH show ?thesis by blast
  next
    case t
    with idp_token_inv request.IH m show ?thesis by blast
  next
    case s
    with request.IH m show ?thesis by blast
  qed
qed (simp add: idp_inv_def)

section \<open>The client's requests\<close>

text \<open>\<open>ParseForm\<close> on a request with a form body, and the delivery of the OIDC client's requests to the endpoints the configuration names.\<close>

definition parse_form :: "http_request \<Rightarrow> (string \<times> string) list" where
  "parse_form r = (if r_Method r \<in> {''POST'', ''PUT'', ''PATCH''} \<and> hdr_Get (r_Header r) ''Content-Type'' = ''application/x-www-form-urlencoded''
     then query_pairs (body_of r) else [])"

definition client_request :: "http_out \<Rightarrow> http_request" where
  "client_request h = \<lparr>r_Method = ho_Method h, r_Host = '''', r_Path = '''', r_RawQuery = '''', r_Header = [(''Content-Type'', [ho_ContentType h])],
     r_Cookies = [], r_Body = Some (ho_Body h), r_TLS = False, r_RemoteAddr = ''''\<rparr>"

definition idp_deliver :: "web_env \<Rightarrow> 'n idp_env \<Rightarrow> idp_config \<Rightarrow> 'n idp_state \<Rightarrow> http_out \<Rightarrow> (int \<times> bytes result) result \<times> 'n idp_state" where
  "idp_deliver we ie ic st h =
     (let path = (if ho_URL h = ic_tokenEndpoint ic then ''/token''
        else if ho_URL h = ic_issuer ic @ ''/.well-known/openid-configuration'' then ''/.well-known/openid-configuration'' else ''/'') in
      case mockidp we ie ic path st (client_request h) of
        (None, st1) \<Rightarrow> (Inl (Err ''EOF''), st1)
      | (Some resp, st1) \<Rightarrow> (Inr (wr_Status resp, Inr (wr_Body resp)), st1))"

lemma form_of_post: "we_form we = parse_form \<Longrightarrow> FormValue we (client_request (post_form u body)) k = pairs_Get (sort_key fst body) k"
proof -
  assume f: "we_form we = parse_form"
  have "hdr_Get [(''Content-Type'', [v])] ''Content-Type'' = v" for v by (simp add: hdr_Get_def CanonicalHeaderKey_def token_char_def upper_char_def lower_char_def)
  moreover have "query_pairs '''' = []" by (simp add: query_pairs_def parse_pair_def List.map_filter_simps)
  ultimately show ?thesis using f
    by (simp add: FormValue_def parse_form_def client_request_def post_form_def body_of_def)
qed


text \<open>Fields of the forms the client posts.\<close>

lemma post_method: "r_Method (client_request (post_form u body)) = ''POST''"
  by (simp add: client_request_def post_form_def)

lemma form_field: "distinct (map fst body) \<Longrightarrow> pairs_Get (sort_key fst body) k = (case map_of body k of None \<Rightarrow> '''' | Some v \<Rightarrow> v)"
  by (simp add: pairs_Get_def map_of_sort)

lemma with_secret_field: "distinct (map fst body) \<Longrightarrow> k \<noteq> ''client_secret'' \<Longrightarrow> pairs_Get (sort_key fst (with_secret c body)) k = (case map_of body k of None \<Rightarrow> '''' | Some v \<Rightarrow> v)"
  by (subst form_field) (auto simp: with_secret_def values_Set_def distinct_update update_conv')

text \<open>The discovery document as the client decodes it, and what it makes of a token answer.\<close>

definition idp_discovery :: "idp_config \<Rightarrow> discovery" where
  "idp_discovery ic = \<lparr>ds_Issuer = ic_issuer ic, ds_AuthorizationEndpoint = ic_authorizationEndpoint ic, ds_TokenEndpoint = ic_tokenEndpoint ic,
     ds_EndSessionEndpoint = ic_endSessionEndpoint ic, ds_JWKSURI = ic_jwksURI ic, ds_RevocationEndpoint = ''''\<rparr>"

lemma idp_Discovery:
  assumes "oe_do oe = idp_deliver we ie ic" and "oe_discovery_json oe (we_encode we (discovery_doc ic)) = Inr (idp_discovery ic)"
    and "cl_issuer c = ic_issuer ic" and "ic_authorizationEndpoint ic \<noteq> ''''" and "ic_tokenEndpoint ic \<noteq> ''''"
    and "ic_tokenEndpoint ic \<noteq> ic_issuer ic @ ''/.well-known/openid-configuration''" and "os_discovery s = None"
  shows "Discovery oe c s = (Inr (idp_discovery ic), s\<lparr>os_discovery := Some (Inr (idp_discovery ic))\<rparr>)"
proof -
  have "fetchDiscovery oe c (os_net s) = (Inr (idp_discovery ic), os_net s)"
    using assms by (simp add: fetchDiscovery_def idp_deliver_def mockidp_def reply_def idp_discovery_def Let_def)
  then show ?thesis using assms(7) by (simp add: Discovery_def)
qed

lemma idp_authorize_redirects:
  assumes "r_Method r = ''GET''" and "query_Get r ''redirect_uri'' \<noteq> ''''" "query_Get r ''state'' \<noteq> ''''" "query_Get r ''code_challenge'' \<noteq> ''''" "query_Get r ''nonce'' \<noteq> ''''"
    and "we_url we (query_Get r ''redirect_uri'') = Inr u" and "\<And>n k. \<exists>b n'. ie_random ie n k = (Inr b, n')"
  shows "\<exists>code info n2. idp_authorize we ie st r = (Some (web_redirect (we_url we) r (ie_url_string ie
        (u\<lparr>u_RawQuery := values_Encode (pairs_Set ''state'' (query_Get r ''state'') (pairs_Set ''code'' code (query_pairs (u_RawQuery u))))\<rparr>))),
        st\<lparr>id_authCodes := AList.update code info (id_authCodes st), id_net := n2\<rparr>)
      \<and> ai_CodeChallenge info = query_Get r ''code_challenge'' \<and> ai_Nonce info = query_Get r ''nonce'' \<and> ai_ClientID info = query_Get r ''client_id''"
proof -
  obtain b n1 where b: "ie_random ie (id_net st) 16 = (Inr b, n1)" using assms(7) by blast
  obtain now n2 where n: "ie_now ie n1 = (now, n2)" by fastforce
  let ?code = "TrimSpace (EncodeToString RawURLEnc b)"
  let ?i = "\<lparr>ai_CodeChallenge = query_Get r ''code_challenge'', ai_Nonce = query_Get r ''nonce'', ai_ClientID = query_Get r ''client_id'',
    ai_RedirectURI = query_Get r ''redirect_uri'', ai_State = query_Get r ''state'', ai_CreatedAt = now\<rparr>"
  show ?thesis
    by (rule exI [of _ ?code], rule exI [of _ ?i], rule exI [of _ n2])
      (use assms(1-6) b n in \<open>simp add: idp_authorize_def randomCode_def Let_def\<close>)
qed

lemma issue_tokens_answers:
  assumes "\<And>n k. \<exists>b n'. ie_random ie n k = (Inr b, n')" and "\<And>claims. ie_sign ie claims (ic_kid ic) \<noteq> None"
  shows "\<exists>rt tok claims st'. issue_tokens we ie ic st atok cid nonce = (Some (json_reply 200 (we_encode we (idp_token_json atok rt tok (ic_expiresIn ic)))), st')
    \<and> ie_sign ie claims (ic_kid ic) = Some tok \<and> any_get claims ''iss'' = AStr (ic_issuer ic) \<and> any_get claims ''aud'' = AStr cid
    \<and> (nonce \<noteq> '''' \<longrightarrow> any_get claims ''nonce'' = AStr nonce)"
proof -
  obtain b n1 where b: "ie_random ie (id_net st) 16 = (Inr b, n1)" using assms(1) by blast
  obtain now n2 where n: "ie_now ie n1 = (now, n2)" by fastforce
  obtain iat n3 where i: "ie_now ie n2 = (iat, n3)" by fastforce
  let ?claims = "id_claims (ic_issuer ic) cid nonce (ic_sub ic) (ic_email ic) (now + wrap64 (ic_expiresIn ic * 1000000000)) iat"
  obtain tok where t: "ie_sign ie ?claims (ic_kid ic) = Some tok" using assms(2) by blast
  have "any_get ?claims ''iss'' = AStr (ic_issuer ic) \<and> any_get ?claims ''aud'' = AStr cid \<and> (nonce \<noteq> '''' \<longrightarrow> any_get ?claims ''nonce'' = AStr nonce)"
    by (simp add: id_claims_def any_get_def update_conv' Let_def)
  moreover have "\<exists>rt st'. issue_tokens we ie ic st atok cid nonce = (Some (json_reply 200 (we_encode we (idp_token_json atok rt tok (ic_expiresIn ic)))), st')"
    using b n i t by (auto simp: issue_tokens_def randomCode_def signIDToken_def Let_def)
  ultimately show ?thesis using t by blast
qed

section \<open>Properties\<close>

text \<open>
  What the mock provider signs: after any sequence of requests, a token answer of status 200 belongs to an earlier
  authorization request. The ID token in it is signed over claims with the provider's issuer and that request's
  client as audience; for the code grant the posted verifier hashes to the code challenge of that request and
  the nonce is the one of that request, and for the refresh grant the refresh token was handed out before and there is no nonce.
  The new refresh token stands for the same client.
\<close>

theorem mockidp_tokens_bound:
  assumes "idp_run we ie ic rs st" and "idp_token we ie ic st r = (Some resp, st')" and "wr_Status resp = 200"
  shows "\<exists>a claims tok rt access. (''/authorize'', a) \<in> set rs \<and> r_Method a = ''GET'' \<and> ie_sign ie claims (ic_kid ic) = Some tok
    \<and> wr_Body resp = we_encode we (idp_token_json access rt tok (ic_expiresIn ic))
    \<and> any_get claims ''iss'' = AStr (ic_issuer ic) \<and> any_get claims ''aud'' = AStr (query_Get a ''client_id'')
    \<and> (FormValue we r ''grant_type'' = ''authorization_code'' \<and> s256Challenge (ie_sha ie) (FormValue we r ''code_verifier'') = query_Get a ''code_challenge''
         \<and> any_get claims ''nonce'' = AStr (query_Get a ''nonce'')
       \<or> FormValue we r ''grant_type'' = ''refresh_token'' \<and> map_of (id_refreshMap st) (FormValue we r ''refresh_token'') \<noteq> None
         \<and> map_of claims ''nonce'' = None)
    \<and> map_of (id_refreshMap st') rt = Some \<lparr>ri_ClientID = query_Get a ''client_id''\<rparr>"
proof -
  note inv = idp_run_inv [OF assms(1)]
  have b: "wr_Status (json_reply 400 x) \<noteq> 200" "wr_Status (reply 405 [] '''') \<noteq> 200" for x by (simp_all add: json_reply_def reply_def)
  consider (code) info where "FormValue we r ''grant_type'' = ''authorization_code''" "map_of (id_authCodes st) (FormValue we r ''code'') = Some info"
      "s256Challenge (ie_sha ie) (FormValue we r ''code_verifier'') = ai_CodeChallenge info"
      "issue_tokens we ie ic st (''access-'' @ FormValue we r ''code'') (ai_ClientID info) (ai_Nonce info) = (Some resp, st')"
    | (refresh) info where "FormValue we r ''grant_type'' = ''refresh_token''" "map_of (id_refreshMap st) (FormValue we r ''refresh_token'') = Some info"
      "issue_tokens we ie ic st (''access-refresh-'' @ FormValue we r ''refresh_token'') (ri_ClientID info) '''' = (Some resp, st')"
    using assms(2,3) b by (auto simp: idp_token_def handleAuthCodeToken_def handleRefreshToken_def Let_def split: if_splits option.splits)
  then show ?thesis
  proof cases
    case code
    from idp_inv_code [OF inv code(2)] obtain a where a: "(''/authorize'', a) \<in> set rs" "r_Method a = ''GET''" "ai_CodeChallenge info = query_Get a ''code_challenge''"
      "ai_Nonce info = query_Get a ''nonce''" "ai_ClientID info = query_Get a ''client_id''" "ai_Nonce info \<noteq> ''''" by (auto simp: authorized_def)
    from issue_tokens_Some [OF code(4)] obtain claims tok rt where t: "ie_sign ie claims (ic_kid ic) = Some tok"
      "wr_Body resp = we_encode we (idp_token_json (''access-'' @ FormValue we r ''code'') rt tok (ic_expiresIn ic))"
      "any_get claims ''iss'' = AStr (ic_issuer ic)" "any_get claims ''aud'' = AStr (ai_ClientID info)"
      "map_of claims ''nonce'' = (if ai_Nonce info = '''' then None else Some (AStr (ai_Nonce info)))" "map_of (id_refreshMap st') rt = Some \<lparr>ri_ClientID = ai_ClientID info\<rparr>" by blast
    from t(5) a(6) have "any_get claims ''nonce'' = AStr (ai_Nonce info)" by (simp add: any_get_def)
    with a code(1,3) t(1-4,6) show ?thesis by metis
  next
    case refresh
    from idp_inv_refresh [OF inv refresh(2)] obtain a where a: "(''/authorize'', a) \<in> set rs" "r_Method a = ''GET''" "ri_ClientID info = query_Get a ''client_id''" by blast
    from issue_tokens_Some [OF refresh(3)] obtain claims tok rt where t: "ie_sign ie claims (ic_kid ic) = Some tok"
      "wr_Body resp = we_encode we (idp_token_json (''access-refresh-'' @ FormValue we r ''refresh_token'') rt tok (ic_expiresIn ic))"
      "any_get claims ''iss'' = AStr (ic_issuer ic)" "any_get claims ''aud'' = AStr (ri_ClientID info)"
      "map_of claims ''nonce'' = None" "map_of (id_refreshMap st') rt = Some \<lparr>ri_ClientID = ri_ClientID info\<rparr>" by auto
    from refresh(2) have "map_of (id_refreshMap st) (FormValue we r ''refresh_token'') \<noteq> None" by simp
    with a refresh(1) t show ?thesis by metis
  qed
qed

text \<open>
  C22. The code flow completes: let the OIDC client reach the mock provider and send the browser to the URL it built for a
  fresh PKCE pair. Then the provider redirects back with a code and the login's own state, and exchanging that code
  with the verifier returns tokens whose ID token is signed over claims with the provider's issuer, this client as audience and the nonce of
  this login. The JSON decoders are assumed to read back what the provider encodes, the form parser to read posted
  forms, and the random source and the signature not to fail.
\<close>

theorem oidc_code_flow_completes:
  assumes "GeneratePKCE (ie_sha ie) rnd w = (Inr (verifier, chal, nonce), w')" and "chal \<noteq> ''''" and "nonce \<noteq> ''''" and "state \<noteq> ''''"
    and "oe_do oe = idp_deliver we ie ic" and "we_form we = parse_form"
    and "oe_discovery_json oe (we_encode we (discovery_doc ic)) = Inr (idp_discovery ic)"
    and "\<And>access rt tok. oe_token_json oe (we_encode we (idp_token_json access rt tok (ic_expiresIn ic)))
          = Inr \<lparr>tr_AccessToken = access, tr_RefreshToken = rt, tr_IDToken = tok, tr_ExpiresIn = ic_expiresIn ic, tr_TokenType = ''Bearer''\<rparr>"
    and "\<And>n k. \<exists>b n'. ie_random ie n k = (Inr b, n')" and "\<And>claims. ie_sign ie claims (ic_kid ic) \<noteq> None"
    and "cl_issuer c = ic_issuer ic" and "ic_authorizationEndpoint ic \<noteq> ''''" and "ic_tokenEndpoint ic \<noteq> ''''"
    and "ic_tokenEndpoint ic \<noteq> ic_issuer ic @ ''/.well-known/openid-configuration''"
    and "cl_redirectURI c \<noteq> ''''" and "we_url we (cl_redirectURI c) = Inr u" and "os_discovery s = None"
    and "AuthURL oe c s state chal nonce = (Inr target, s1)" and "target = ic_authorizationEndpoint ic @ ''?'' @ r_RawQuery r" and "r_Method r = ''GET''"
  shows "\<exists>code q resp st1 tr s2 claims. idp_authorize we ie (os_net s1) r = (Some resp, st1)
    \<and> resp = web_redirect (we_url we) r (ie_url_string ie (u\<lparr>u_RawQuery := q\<rparr>))
    \<and> query_pairs q = sort_key fst (pairs_Set ''state'' state (pairs_Set ''code'' code (query_pairs (u_RawQuery u))))
    \<and> Exchange oe c (s1\<lparr>os_net := st1\<rparr>) code verifier = (Inr tr, s2)
    \<and> ie_sign ie claims (ic_kid ic) = Some (tr_IDToken tr) \<and> any_get claims ''iss'' = AStr (ic_issuer ic)
    \<and> any_get claims ''aud'' = AStr (cl_clientID c) \<and> any_get claims ''nonce'' = AStr nonce"
proof -
  have ch: "chal = s256Challenge (ie_sha ie) verifier"
    using assms(1) by (auto simp: GeneratePKCE_def s256Challenge_def Let_def split: prod.splits sum.splits)
  note d = idp_Discovery [OF assms(5,7,11-14,17)]
  have s1: "s1 = s\<lparr>os_discovery := Some (Inr (idp_discovery ic))\<rparr>" and q: "r_RawQuery r = values_Encode (auth_params c state chal nonce)"
    using assms(18,19) by (auto simp: AuthURL_def d idp_discovery_def)
  have g: "query_Get r k = v" if "(k, v) \<in> set (binding c state chal nonce)" for k v
    using auth_params_binding [OF that] by (simp add: query_Get_def q pairs_Get_def map_of_sort [OF auth_params_distinct])
  have p: "query_Get r ''redirect_uri'' = cl_redirectURI c" "query_Get r ''state'' = state" "query_Get r ''code_challenge'' = chal"
    "query_Get r ''nonce'' = nonce" "query_Get r ''client_id'' = cl_clientID c" by (rule g, simp add: binding_def)+
  obtain code info n2 where a: "idp_authorize we ie (os_net s1) r = (Some (web_redirect (we_url we) r (ie_url_string ie
        (u\<lparr>u_RawQuery := values_Encode (pairs_Set ''state'' state (pairs_Set ''code'' code (query_pairs (u_RawQuery u))))\<rparr>))),
        (os_net s1)\<lparr>id_authCodes := AList.update code info (id_authCodes (os_net s1)), id_net := n2\<rparr>)"
    and i: "ai_CodeChallenge info = chal" "ai_Nonce info = nonce" "ai_ClientID info = cl_clientID c"
    using idp_authorize_redirects [OF assms(20), of we u ie "os_net s1"] assms(2-4,9,15,16) unfolding p by metis
  let ?st = "(os_net s1)\<lparr>id_authCodes := AList.update code info (id_authCodes (os_net s1)), id_net := n2\<rparr>"
  obtain rt tok claims st' where t: "issue_tokens we ie ic ?st (''access-'' @ code) (cl_clientID c) nonce = (Some (json_reply 200 (we_encode we (idp_token_json (''access-'' @ code) rt tok (ic_expiresIn ic)))), st')"
    and cl: "ie_sign ie claims (ic_kid ic) = Some tok" "any_get claims ''iss'' = AStr (ic_issuer ic)" "any_get claims ''aud'' = AStr (cl_clientID c)"
      "any_get claims ''nonce'' = AStr nonce"
    using issue_tokens_answers [OF assms(9,10)] assms(3) by metis
  let ?body = "[(''grant_type'', ''authorization_code''), (''code'', code), (''redirect_uri'', cl_redirectURI c), (''client_id'', cl_clientID c), (''code_verifier'', verifier)]"
  have f: "FormValue we (client_request (post_form (ic_tokenEndpoint ic) (with_secret c ?body))) k = (case map_of ?body k of None \<Rightarrow> '''' | Some v \<Rightarrow> v)"
    if "k \<noteq> ''client_secret''" for k
    unfolding form_of_post [OF assms(6)] by (rule with_secret_field) (simp_all add: that)
  have "mockidp we ie ic ''/token'' ?st (client_request (post_form (ic_tokenEndpoint ic) (with_secret c ?body)))
      = issue_tokens we ie ic ?st (''access-'' @ code) (cl_clientID c) nonce"
    using f i ch by (simp add: mockidp_def idp_token_def handleAuthCodeToken_def post_method update_conv')
  then have x: "idp_deliver we ie ic ?st (post_form (ic_tokenEndpoint ic) (with_secret c ?body)) = (Inr (200, Inr (we_encode we (idp_token_json (''access-'' @ code) rt tok (ic_expiresIn ic)))), st')"
    using t by (simp add: idp_deliver_def post_form_def json_reply_def reply_def)
  have "Exchange oe c (s1\<lparr>os_net := ?st\<rparr>) code verifier = (oe_token_json oe (we_encode we (idp_token_json (''access-'' @ code) rt tok (ic_expiresIn ic))), s1\<lparr>os_net := st'\<rparr>)"
    using x by (simp add: Exchange_def Discovery_def s1 assms(5) idp_discovery_def read_tokens_def Let_def)
  with a cl assms(8) query_values_Encode show ?thesis by fastforce
qed


text \<open>A sample provider: constant random bytes, a signature that shows the nonce, and an encoding of token answers.\<close>

definition idp_sample_cfg :: idp_config where
  "idp_sample_cfg = idp_config_of (\<lambda>_. '''')"

definition idp_sample :: "nat idp_env" where
  "idp_sample = \<lparr>ie_random = (\<lambda>n k. (Inr ''abc'', Suc n)), ie_now = (\<lambda>n. (int n, n)), ie_sha = (\<lambda>b. b),
     ie_sign = (\<lambda>claims kid. Some (case any_get claims ''nonce'' of AStr s \<Rightarrow> kid @ ''.'' @ s | _ \<Rightarrow> kid)),
     ie_url_string = (\<lambda>u. u_Path u @ ''?'' @ u_RawQuery u), ie_N = ''n'', ie_E = ''e''\<rparr>"

definition idp_sample_encode :: "gany \<Rightarrow> bytes" where
  "idp_sample_encode v = (case v of AMap [(a, AStr ax), (_, AStr rt), (_, AStr tok), (_, AInt n), _] \<Rightarrow> encode_pairs [(ax, rt), (tok, '''')] | _ \<Rightarrow> ''doc'')"

definition idp_sample_web :: web_env where
  "idp_sample_web = sample_web\<lparr>we_url := (\<lambda>s. Inr \<lparr>u_Scheme = ''https'', u_Host = ''app'', u_Path = s, u_RawQuery = ''''\<rparr>), we_form := parse_form, we_encode := idp_sample_encode\<rparr>"

definition idp_sample_oe :: "nat idp_state oidc_env" where
  "idp_sample_oe = \<lparr>oe_do = idp_deliver idp_sample_web idp_sample idp_sample_cfg, oe_discovery_json = (\<lambda>_. Inr (idp_discovery idp_sample_cfg)),
     oe_token_json = (\<lambda>b. case query_pairs b of
        [(ax, rt), (tok, _)] \<Rightarrow> Inr \<lparr>tr_AccessToken = ax, tr_RefreshToken = rt, tr_IDToken = tok, tr_ExpiresIn = 10, tr_TokenType = ''Bearer''\<rparr>
      | _ \<Rightarrow> Inl (Err ''json'')),
     oe_url = (\<lambda>s. Inl (Err ''url'')), oe_url_string = (\<lambda>u. '''')\<rparr>"

definition idp_sample_client :: oidc_client where
  "idp_sample_client = NewClient ''http://mockidp:8082'' ''web'' '''' ''https://app/cb'' None ''''"

definition idp_sample_get :: "string \<Rightarrow> http_request" where
  "idp_sample_get q = \<lparr>r_Method = ''GET'', r_Host = '''', r_Path = ''/authorize'', r_RawQuery = q, r_Header = [], r_Cookies = [], r_Body = None, r_TLS = False, r_RemoteAddr = ''''\<rparr>"

abbreviation idp_sample_start :: "nat idp_state" where
  "idp_sample_start \<equiv> \<lparr>id_authCodes = [], id_refreshMap = [], id_net = 0\<rparr>"

theorem oidc_code_flow_completes_witness:
  "\<exists>verifier chal nonce q s1 code st1 tr s2.
     AuthURL idp_sample_oe idp_sample_client \<lparr>os_discovery = None, os_net = idp_sample_start\<rparr> ''st'' chal nonce = (Inr (''http://localhost:8082/authorize?'' @ q), s1)
   \<and> snd (idp_authorize idp_sample_web idp_sample (os_net s1) (idp_sample_get q)) = st1
   \<and> Exchange idp_sample_oe idp_sample_client (s1\<lparr>os_net := st1\<rparr>) code verifier = (Inr tr, s2) \<and> tr_IDToken tr = ''mock-kid.'' @ nonce"
proof -
  let ?rnd = "\<lambda>(n :: nat) (k :: nat). (Inr ''abc'', n)" and ?s = "\<lparr>os_discovery = None, os_net = idp_sample_start\<rparr>" and ?c = idp_sample_client and ?ic = idp_sample_cfg
  have "case GeneratePKCE (ie_sha idp_sample) ?rnd 0 of (Inr (v, c, x), n) \<Rightarrow> c \<noteq> '''' \<and> x \<noteq> '''' \<and> n = 0 | _ \<Rightarrow> False" by code_simp
  then obtain verifier chal nonce where k: "GeneratePKCE (ie_sha idp_sample) ?rnd 0 = (Inr (verifier, chal, nonce), 0)" "chal \<noteq> ''''" "nonce \<noteq> ''''"
    by (auto split: prod.splits sum.splits)
  let ?q = "values_Encode (auth_params ?c ''st'' chal nonce)"
  have ic: "ic_issuer ?ic = ''http://mockidp:8082''" "ic_authorizationEndpoint ?ic = ''http://localhost:8082/authorize''" "ic_tokenEndpoint ?ic = ''http://mockidp:8082/token''"
    "ic_expiresIn ?ic = 10" "ic_kid ?ic = ''mock-kid''" by (code_simp)+
  have c: "cl_issuer ?c = ''http://mockidp:8082''" "cl_redirectURI ?c = ''https://app/cb''" by code_simp+
  have j: "oe_token_json idp_sample_oe (we_encode idp_sample_web (idp_token_json access rt tok (ic_expiresIn ?ic)))
      = Inr \<lparr>tr_AccessToken = access, tr_RefreshToken = rt, tr_IDToken = tok, tr_ExpiresIn = ic_expiresIn ?ic, tr_TokenType = ''Bearer''\<rparr>" for access rt tok
    by (simp add: idp_sample_oe_def idp_sample_web_def idp_sample_encode_def idp_token_json_def ic)
  have sg: "ie_sign idp_sample claims kid = Some (case any_get claims ''nonce'' of AStr s \<Rightarrow> kid @ ''.'' @ s | _ \<Rightarrow> kid)" for claims kid by (simp add: idp_sample_def)
  have d: "Discovery idp_sample_oe ?c ?s = (Inr (idp_discovery ?ic), ?s\<lparr>os_discovery := Some (Inr (idp_discovery ?ic))\<rparr>)"
    by (rule idp_Discovery [where we = idp_sample_web and ie = idp_sample]) (simp_all add: ic c idp_sample_oe_def)
  have a: "AuthURL idp_sample_oe ?c ?s ''st'' chal nonce = (Inr (ic_authorizationEndpoint ?ic @ ''?'' @ ?q), ?s\<lparr>os_discovery := Some (Inr (idp_discovery ?ic))\<rparr>)"
    by (simp add: AuthURL_def d idp_discovery_def)
  have t: "ic_authorizationEndpoint ?ic @ ''?'' @ ?q = ic_authorizationEndpoint ?ic @ ''?'' @ r_RawQuery (idp_sample_get ?q)" by (simp add: idp_sample_get_def)
  have "\<exists>code q resp st1 tr s2 claims. idp_authorize idp_sample_web idp_sample (os_net (?s\<lparr>os_discovery := Some (Inr (idp_discovery ?ic))\<rparr>)) (idp_sample_get ?q) = (Some resp, st1)
    \<and> resp = web_redirect (we_url idp_sample_web) (idp_sample_get ?q) (ie_url_string idp_sample (\<lparr>u_Scheme = ''https'', u_Host = ''app'', u_Path = ''https://app/cb'', u_RawQuery = ''''\<rparr>\<lparr>u_RawQuery := q\<rparr>))
    \<and> query_pairs q = sort_key fst (pairs_Set ''state'' ''st'' (pairs_Set ''code'' code (query_pairs (u_RawQuery \<lparr>u_Scheme = ''https'', u_Host = ''app'', u_Path = ''https://app/cb'', u_RawQuery = ''''\<rparr>))))
    \<and> Exchange idp_sample_oe ?c (?s\<lparr>os_discovery := Some (Inr (idp_discovery ?ic)), os_net := st1\<rparr>) code verifier = (Inr tr, s2)
    \<and> ie_sign idp_sample claims (ic_kid ?ic) = Some (tr_IDToken tr) \<and> any_get claims ''iss'' = AStr (ic_issuer ?ic)
    \<and> any_get claims ''aud'' = AStr (cl_clientID ?c) \<and> any_get claims ''nonce'' = AStr nonce"
    by (rule oidc_code_flow_completes [OF k _ _ _ _ j _ _ _ _ _ _ _ _ _ a t])
      (simp_all add: ic c idp_sample_oe_def idp_sample_web_def idp_sample_def idp_sample_get_def)
  then obtain code st1 tr s2 claims where x: "st1 = snd (idp_authorize idp_sample_web idp_sample (os_net (?s\<lparr>os_discovery := Some (Inr (idp_discovery ?ic))\<rparr>)) (idp_sample_get ?q))"
    "Exchange idp_sample_oe ?c (?s\<lparr>os_discovery := Some (Inr (idp_discovery ?ic)), os_net := st1\<rparr>) code verifier = (Inr tr, s2)"
    "ie_sign idp_sample claims (ic_kid ?ic) = Some (tr_IDToken tr)" "any_get claims ''nonce'' = AStr nonce" by (elim exE conjE) (rule that, simp_all)
  from x(3,4) have "tr_IDToken tr = ''mock-kid.'' @ nonce" by (simp add: sg ic)
  with a [unfolded ic(2)] x(1,2) show ?thesis by (intro exI conjI) auto
qed


definition idp_sample_authorize :: http_request where
  "idp_sample_authorize = idp_sample_get ''client_id=web&redirect_uri=cb&state=st&code_challenge=YWJj&nonce=no''"

definition idp_sample_exchange :: http_request where
  "idp_sample_exchange = client_request (post_form '''' [(''grant_type'', ''authorization_code''), (''code'', ''YWJj''), (''code_verifier'', ''abc'')])"

definition idp_sample_state :: "nat idp_state" where
  "idp_sample_state = snd (mockidp idp_sample_web idp_sample idp_sample_cfg ''/authorize'' idp_sample_start idp_sample_authorize)"

lemma idp_sample_exchanged: "map_option wr_Status (fst (idp_token idp_sample_web idp_sample idp_sample_cfg idp_sample_state idp_sample_exchange)) = Some 200"
  by code_simp

theorem mockidp_tokens_bound_witness:
  "\<exists>rs resp st' claims tok. idp_run idp_sample_web idp_sample idp_sample_cfg rs idp_sample_state
     \<and> idp_token idp_sample_web idp_sample idp_sample_cfg idp_sample_state idp_sample_exchange = (Some resp, st')
     \<and> ie_sign idp_sample claims ''mock-kid'' = Some tok \<and> any_get claims ''nonce'' = AStr ''no''"
proof -
  obtain resp0 where m: "mockidp idp_sample_web idp_sample idp_sample_cfg ''/authorize'' idp_sample_start idp_sample_authorize = (resp0, idp_sample_state)"
    by (cases "mockidp idp_sample_web idp_sample idp_sample_cfg ''/authorize'' idp_sample_start idp_sample_authorize") (simp add: idp_sample_state_def)
  have r: "idp_run idp_sample_web idp_sample idp_sample_cfg [(''/authorize'', idp_sample_authorize)] idp_sample_state"
    using idp_run.request [OF idp_run.start m] by simp
  obtain resp st' where t: "idp_token idp_sample_web idp_sample idp_sample_cfg idp_sample_state idp_sample_exchange = (Some resp, st')" and s: "wr_Status resp = 200"
    using idp_sample_exchanged by (cases "idp_token idp_sample_web idp_sample idp_sample_cfg idp_sample_state idp_sample_exchange") auto
  have k: "ic_kid idp_sample_cfg = ''mock-kid''" and n: "query_Get idp_sample_authorize ''nonce'' = ''no''"
    and g: "FormValue idp_sample_web idp_sample_exchange ''grant_type'' \<noteq> ''refresh_token''" by code_simp+
  from mockidp_tokens_bound [OF r t s] n g k obtain claims tok where "ie_sign idp_sample claims ''mock-kid'' = Some tok" "any_get claims ''nonce'' = AStr ''no''"
    by auto
  with r t show ?thesis by blast
qed

end
