(* ===== verification/Tools.thy ===== *)
theory Tools
  imports Auth_Http Proxy_Config Policy
begin

text \<open>
  What surrounds the servers: the configuration loader (\<open>internal/configload/load.go\<close>) with the two \<open>loadConfig\<close>
  functions, \<open>cmd/validateconfig\<close>, \<open>cmd/renderconfig\<close>, the command line and the key generation of
  \<open>cmd/bundle-sign\<close>, and the health probe (\<open>internal/healthcheck\<close>).

  The go-config library, YAML and JSON, the schema validator, the flag parser, the HTTP client and the key and PEM
  functions of the Go library are arguments, as are the environment and the files. Paths are Unix paths.
\<close>

section \<open>Paths\<close>

text \<open>\<open>filepath.Join\<close> of a directory and two elements, \<open>filepath.Dir\<close> and \<open>filepath.Ext\<close>.\<close>

definition path_Join :: "string list \<Rightarrow> string" where
  "path_Join es = (let es = dropWhile (\<lambda>e. e = '''') es in if es = [] then '''' else path_Clean (StrJoin ''/'' es))"

definition path_Dir :: "string \<Rightarrow> string" where
  "path_Dir p = path_Clean (rev (dropWhile (\<lambda>c. c \<noteq> CHR ''/'') (rev p)))"

definition path_Ext :: "string \<Rightarrow> string" where
  "path_Ext p = (let base = rev (takeWhile (\<lambda>c. c \<noteq> CHR ''/'') (rev p)) in
     case SplitLast (CHR ''.'') base of None \<Rightarrow> '''' | Some (_, ext) \<Rightarrow> CHR ''.'' # ext)"

section \<open>Configuration loading (load.go)\<close>

text \<open>A field of the target struct: whether its type is a slice of strings, and its JSON tag.\<close>

definition commaListKeys :: "(bool \<times> string) list \<Rightarrow> string list" where
  "commaListKeys fs = map (\<lambda>(_, tag). ToLower (hd (Split (CHR '','') tag)))
     (filter (\<lambda>(is_list, tag). is_list \<and> hd (Split (CHR '','') tag) \<noteq> '''' \<and> hd (Split (CHR '','') tag) \<noteq> ''-'') fs)"

definition comma_value :: "gany \<Rightarrow> gany" where
  "comma_value v = (case v of
     AStr s \<Rightarrow> AList (map AStr (filter (\<lambda>t. t \<noteq> '''') (map TrimSpace (Split (CHR '','') s))))
   | _ \<Rightarrow> v)"

definition commaResolve :: "string list \<Rightarrow> gany gomap option \<Rightarrow> gany gomap option" where
  "commaResolve keys tree = (case tree of
     None \<Rightarrow> None
   | Some m \<Rightarrow> Some (if keys = [] then m else map (\<lambda>(k, v). (k, if ToLower k \<in> set keys then comma_value v else v)) m))"

datatype parser = YAML | JSON

definition parserForPath :: "goerr option \<Rightarrow> string \<Rightarrow> parser result" where
  "parserForPath yaml_new configPath = (let ext = ToLower (path_Ext configPath) in
     if ext = ''.yaml'' \<or> ext = ''.yml''
     then (case yaml_new of Some e \<Rightarrow> Inl (Wrap ''create yaml parser: '' e) | None \<Rightarrow> Inr YAML)
     else Inr JSON)"

text \<open>
  \<open>lo_run file resolver\<close> is the loader's \<open>Load\<close> with the file source, if any, before the environment: it merges
  both, passes the tree through the resolver and decodes it.
\<close>

record 'c loader_env =
  lo_yaml_new :: "goerr option"
  lo_run :: "(string \<times> parser) option \<Rightarrow> (gany gomap option \<Rightarrow> gany gomap option) \<Rightarrow> 'c result"
  lo_fields :: "(bool \<times> string) list"

definition LoadInto :: "'c loader_env \<Rightarrow> string \<Rightarrow> 'c result" where
  "LoadInto le configPath =
     (let run = (\<lambda>src. case lo_run le src (commaResolve (commaListKeys (lo_fields le))) of Inl e \<Rightarrow> Inl (Wrap ''load config: '' e) | Inr c \<Rightarrow> Inr c) in
      if configPath \<noteq> ''''
      then (case parserForPath (lo_yaml_new le) configPath of Inl e \<Rightarrow> Inl e | Inr p \<Rightarrow> run (Some (configPath, p)))
      else run None)"

text \<open>\<open>loadConfig\<close> of both processes: the first of the environment variables that is set names the file.\<close>

definition first_set :: "(string \<Rightarrow> string) \<Rightarrow> string list \<Rightarrow> string" where
  "first_set getenv names = (case dropWhile (\<lambda>v. v = '''') (map getenv names) of [] \<Rightarrow> '''' | v # _ \<Rightarrow> v)"

definition proxy_loadConfig :: "conf_env \<Rightarrow> proxy_config loader_env \<Rightarrow> (string \<Rightarrow> string) \<Rightarrow> proxy_config result" where
  "proxy_loadConfig ce le getenv = Load ce (LoadInto le (first_set getenv [''CONFIG_PATH'', ''PROXY_CONFIG'']))"

definition auth_loadConfig :: "auth_config loader_env \<Rightarrow> (string \<Rightarrow> string) \<Rightarrow> auth_config result" where
  "auth_loadConfig le getenv = auth_Load (LoadInto le (first_set getenv [''CONFIG_PATH'', ''AUTH_CONFIG'', ''AGENT_CONFIG'']))"

section \<open>cmd/validateconfig\<close>

definition normalizeBinary :: "string \<Rightarrow> string \<times> string" where
  "normalizeBinary s0 = (let s = TrimSpace (ToLower s0) in
     if s = ''agent'' then (''auth'', ''BINARY=agent is deprecated; use BINARY=auth'') else (s, ''''))"

text \<open>
  \<open>va_Getwd\<close>, \<open>va_exists\<close> (\<open>os.Stat\<close> without an error), \<open>va_read\<close>, the conversion from YAML and the schema validator, which
  answers an error or the list of violations for the URL of the schema and the document.
\<close>

record validate_env =
  va_Getwd :: "string result"
  va_exists :: "string \<Rightarrow> bool"
  va_Abs :: "string \<Rightarrow> string result"
  va_read :: "string \<Rightarrow> bytes result"
  va_yaml_to_json :: "bytes \<Rightarrow> bytes result"
  va_json :: "bytes \<Rightarrow> gany result"
  va_schema :: "string \<Rightarrow> gany \<Rightarrow> string list result"

definition schema_candidate :: "string \<Rightarrow> string \<Rightarrow> string" where
  "schema_candidate dir name = path_Join [dir, ''schemas'', name]"

text \<open>The walk to the root: a directory that is its own parent ends it.\<close>

partial_function (option) find_up :: "(string \<Rightarrow> bool) \<Rightarrow> string \<Rightarrow> string \<Rightarrow> string option option" where
  "find_up exists name dir =
     (if exists (schema_candidate dir name) then Some (Some (schema_candidate dir name))
      else if path_Dir dir = dir then Some None
      else find_up exists name (path_Dir dir))"

definition findSchemaPath :: "validate_env \<Rightarrow> string \<Rightarrow> string result option" where
  "findSchemaPath va binary =
     (let name = binary @ ''.schema.json'';
          missing = Inl (Err (''schema not found for '' @ Quote binary @ '' (expected schemas/'' @ name @ '')'')) in
      case va_Getwd va of
        Inl _ \<Rightarrow> Some missing
      | Inr wd \<Rightarrow> map_option (\<lambda>r. case r of None \<Rightarrow> missing | Some p \<Rightarrow> Inr p) (find_up (va_exists va) name wd))"

text \<open>\<open>url.URL.String\<close> of a file URL escapes the path as a whole.\<close>

definition path_char :: "char \<Rightarrow> bool" where
  "path_char c \<longleftrightarrow> unreserved c \<or> c \<in> set ''$&+,/:;=@''"

definition escape_path :: "string \<Rightarrow> string" where
  "escape_path s = concat (map (\<lambda>c. if path_char c then [c] else CHR ''%'' # map upper_char (hex_byte c)) s)"

definition fileURL :: "string \<Rightarrow> string" where
  "fileURL absPath =
     (let p0 = map (\<lambda>c. if c = CHR 0x5C then CHR ''/'' else c) absPath; p = (if HasPrefix p0 ''/'' then p0 else ''/'' @ p0)
      in ''file://'' @ escape_path p)"

definition mustAbs :: "validate_env \<Rightarrow> string \<Rightarrow> string" where
  "mustAbs va path = (case va_Abs va path of Inl _ \<Rightarrow> path | Inr a \<Rightarrow> a)"

definition validateAgainstSchema :: "validate_env \<Rightarrow> string \<Rightarrow> string \<Rightarrow> goerr option option" where
  "validateAgainstSchema va configPath binary = map_option (\<lambda>r. case r of
     Inl e \<Rightarrow> Some e
   | Inr schemaPath \<Rightarrow> (case va_read va configPath of
       Inl e \<Rightarrow> Some (Wrap ''read config for schema validation: '' e)
     | Inr configBytes \<Rightarrow> (case va_yaml_to_json va configBytes of
         Inl e \<Rightarrow> Some (Wrap ''parse config as json/yaml: '' e)
       | Inr jsonBytes \<Rightarrow> (case va_json va jsonBytes of
           Inl e \<Rightarrow> Some (Wrap ''decode config json: '' e)
         | Inr doc \<Rightarrow> (case va_schema va (fileURL (mustAbs va schemaPath)) doc of
             Inl e \<Rightarrow> Some (Wrap ''schema validation failed: '' e)
           | Inr [] \<Rightarrow> None
           | Inr msgs \<Rightarrow> Some (Err (''schema validation errors: '' @ StrJoin ''; '' msgs))))))) (findSchemaPath va binary)"

definition validate_run :: "validate_env \<Rightarrow> conf_env \<Rightarrow> proxy_config loader_env \<Rightarrow> auth_config loader_env \<Rightarrow> string \<Rightarrow> string \<Rightarrow> goerr option option" where
  "validate_run va ce ple ale configPath binary = map_option (\<lambda>r. case r of
     Some e \<Rightarrow> Some e
   | None \<Rightarrow>
       (if binary = ''auth'' then (case auth_Load (LoadInto ale configPath) of Inl e \<Rightarrow> Some e | Inr _ \<Rightarrow> None)
        else if binary = ''proxy'' then (case Load ce (LoadInto ple configPath) of Inl e \<Rightarrow> Some e | Inr _ \<Rightarrow> None)
        else Some (Err (''unknown BINARY='' @ Quote binary @ '' (use auth or proxy)'')))) (validateAgainstSchema va configPath binary)"

definition validate_target :: "(string \<Rightarrow> string) \<Rightarrow> string \<times> string" where
  "validate_target getenv =
     (let configPath = first_set getenv [''CONFIG_PATH'', ''AUTH_CONFIG'', ''AGENT_CONFIG'', ''PROXY_CONFIG''];
          binary = (if getenv ''BINARY'' = '''' \<and> configPath \<noteq> '''' then (if Contains configPath ''proxy'' then ''proxy'' else ''auth'') else getenv ''BINARY'')
      in (configPath, fst (normalizeBinary (if binary = '''' then ''auth'' else binary))))"

text \<open>The exit status.\<close>

definition validate_main :: "validate_env \<Rightarrow> conf_env \<Rightarrow> proxy_config loader_env \<Rightarrow> auth_config loader_env \<Rightarrow> (string \<Rightarrow> string) \<Rightarrow> nat option" where
  "validate_main va ce ple ale getenv = (case validate_target getenv of (configPath, binary) \<Rightarrow>
     if configPath = '''' then Some 2
     else map_option (\<lambda>r. if r = None then 0 else 1) (validate_run va ce ple ale configPath binary))"

section \<open>cmd/renderconfig\<close>

text \<open>The zero values of both configurations, and the printer of \<open>emitJSON\<close> (\<open>MarshalIndent\<close> and a write).\<close>

definition render_run :: "proxy_config \<Rightarrow> auth_config \<Rightarrow> (proxy_config \<Rightarrow> bytes result) \<Rightarrow> (auth_config \<Rightarrow> bytes result) \<Rightarrow> string \<Rightarrow> bytes result" where
  "render_run zero_proxy zero_auth marshal_proxy marshal_auth binary =
     (if binary = ''auth'' then marshal_auth (auth_ApplyDefaults zero_auth)
      else if binary = ''proxy'' then marshal_proxy (ApplyDefaults zero_proxy)
      else Inl (Err (''unknown BINARY='' @ Quote binary @ '' (use auth or proxy)'')))"

section \<open>cmd/bundle-sign: key generation and command line\<close>

text \<open>
  Key generation (public and private key), the encodings of the keys and PEM; \<open>ge_create\<close> opens a new file
  exclusively and writes it, with the error of the step that failed.
\<close>

datatype create_error = CreateFailed goerr | WriteFailed goerr

record 'n genkey_env =
  gk_GenerateKey :: "'n \<Rightarrow> (bytes \<times> bytes) result \<times> 'n"
  gk_pkcs8 :: "bytes \<Rightarrow> bytes result"
  gk_pkix :: "bytes \<Rightarrow> bytes result"
  gk_pem :: "string \<Rightarrow> bytes \<Rightarrow> bytes"
  gk_create :: "'n \<Rightarrow> string \<Rightarrow> bytes \<Rightarrow> create_error option \<times> 'n"

definition generateKeypair :: "'n file_env \<Rightarrow> 'n genkey_env \<Rightarrow> 'n \<Rightarrow> string \<Rightarrow> string \<Rightarrow> goerr option \<times> 'n" where
  "generateKeypair fo gk n privPath pubPath = (case gk_GenerateKey gk n of
     (Inl e, n1) \<Rightarrow> (Some (Wrap ''generate key: '' e), n1)
   | (Inr (pub, priv), n1) \<Rightarrow> (case gk_pkcs8 gk priv of
       Inl e \<Rightarrow> (Some (Wrap ''marshal private key: '' e), n1)
     | Inr privDER \<Rightarrow> (case gk_pkix gk pub of
         Inl e \<Rightarrow> (Some (Wrap ''marshal public key: '' e), n1)
       | Inr pubDER \<Rightarrow> (case gk_create gk n1 privPath (gk_pem gk ''PRIVATE KEY'' privDER) of
           (Some (CreateFailed e), n2) \<Rightarrow> (Some (Wrap (''create private key '' @ Quote privPath @ '' (refusing to overwrite): '') e), n2)
         | (Some (WriteFailed e), n2) \<Rightarrow> (Some (Wrap ''write private key: '' e), n2)
         | (None, n2) \<Rightarrow> (case fo_write fo n2 pubPath (gk_pem gk ''PUBLIC KEY'' pubDER) of
             (Some e, n3) \<Rightarrow> (Some (Wrap ''write public key: '' e), n3)
           | (None, n3) \<Rightarrow> (None, n3))))))"

definition parsePublicKeyPEM :: "sig_env \<Rightarrow> bytes \<Rightarrow> bytes result" where
  "parsePublicKeyPEM se data = (case se_pem se data of
     None \<Rightarrow> Inl (Err ''public key is not valid PEM'')
   | Some block \<Rightarrow> (case se_pkix se block of
       Inl e \<Rightarrow> Inl (Wrap ''parse PKIX public key: '' e)
     | Inr (Inl t) \<Rightarrow> Inl (Err (''public key is not Ed25519 (got '' @ t @ '')''))
     | Inr (Inr key) \<Rightarrow> Inr key))"

record sign_flags =
  sf_genkey :: bool
  sf_priv :: string
  sf_pub :: string
  sf_bundle :: string
  sf_out :: string

definition bundle_sign_run :: "'n file_env \<Rightarrow> key_env \<Rightarrow> 'n genkey_env \<Rightarrow> sign_flags result \<Rightarrow> 'n \<Rightarrow> goerr option \<times> 'n" where
  "bundle_sign_run fo ke gk parsed n = (case parsed of
     Inl e \<Rightarrow> (Some e, n)
   | Inr fs \<Rightarrow>
       (if sf_genkey fs then
          (if sf_priv fs = '''' \<or> sf_pub fs = '''' then (Some (Err ''-genkey requires -priv <out> and -pub <out>''), n)
           else generateKeypair fo gk n (sf_priv fs) (sf_pub fs))
        else if sf_priv fs = '''' \<or> sf_bundle fs = '''' then (Some (Err ''signing requires -priv <key.pem> and -bundle <path.wasm> (or use -genkey)''), n)
        else signBundle fo ke n (sf_priv fs) (sf_bundle fs) (if sf_out fs = '''' then defaultSignaturePath (sf_bundle fs) else sf_out fs)))"

section \<open>Health probe (healthcheck.go)\<close>

text \<open>\<open>hc_new\<close> builds the request, \<open>hc_do\<close> sends it and gives the status.\<close>

definition healthcheck_Run :: "(string \<Rightarrow> goerr option) \<Rightarrow> (string \<Rightarrow> int result) \<Rightarrow> (string \<Rightarrow> string) \<Rightarrow> string \<Rightarrow> string \<Rightarrow> string \<Rightarrow> goerr option" where
  "healthcheck_Run hc_new hc_do getenv portEnv defaultPort path =
     (let u = ''http://127.0.0.1:'' @ or_default (getenv portEnv) defaultPort @ path in
      case hc_new u of
        Some e \<Rightarrow> Some (Wrap ''build healthcheck request: '' e)
      | None \<Rightarrow> (case hc_do u of
          Inl e \<Rightarrow> Some (Wrap (''healthcheck GET '' @ u @ '': '') e)
        | Inr status \<Rightarrow> (if status < 200 \<or> 300 \<le> status then Some (Err (''healthcheck GET '' @ u @ '': unhealthy status '' @ Itoa status)) else None)))"

section \<open>Lemmas\<close>

subsection \<open>Paths\<close>

text \<open>The elements of a clean absolute path.\<close>

definition clean_segment :: "string \<Rightarrow> bool" where
  "clean_segment x \<longleftrightarrow> x \<noteq> '''' \<and> x \<noteq> ''.'' \<and> x \<noteq> ''..'' \<and> CHR ''/'' \<notin> set x"

definition abs_path :: "string list \<Rightarrow> string" where
  "abs_path segs = ''/'' @ StrJoin ''/'' segs"

lemma clean_parts_clean: "list_all clean_segment ps \<Longrightarrow> clean_parts rooted acc (ps @ qs) = clean_parts rooted (rev ps @ acc) qs"
  by (induction ps arbitrary: acc) (auto simp: clean_segment_def)

lemma StrJoin_snoc: "xs \<noteq> [] \<Longrightarrow> StrJoin sep (xs @ [x]) = StrJoin sep xs @ sep @ x"
  by (induction sep xs rule: StrJoin.induct) auto

lemma Split_abs: "list_all clean_segment segs \<Longrightarrow> segs \<noteq> [] \<Longrightarrow> Split (CHR ''/'') (''/'' @ StrJoin ''/'' segs @ ''/'') = '''' # segs @ ['''']"
  using Split_StrJoin [of "'''' # segs @ ['''']" "CHR ''/''"]
  by (cases segs) (auto simp: clean_segment_def list_all_iff StrJoin_snoc simp flip: append_Cons)

lemma path_Clean_root: "path_Clean ''/'' = ''/''"
  by code_simp

lemma path_Clean_slash:
  assumes "list_all clean_segment segs" and "segs \<noteq> []"
  shows "path_Clean (''/'' @ StrJoin ''/'' segs @ ''/'') = abs_path segs"
proof -
  have "clean_parts True [] ('''' # segs @ ['''']) = segs" using clean_parts_clean [OF assms(1), of True "[]" "['''']"] by simp
  then show ?thesis unfolding path_Clean_def Split_abs [OF assms] by (simp add: HasPrefix_def abs_path_def)
qed

lemma path_Dir_abs:
  assumes "list_all clean_segment (segs @ [x])"
  shows "path_Dir (abs_path (segs @ [x])) = abs_path segs"
proof -
  have x: "CHR ''/'' \<notin> set x" and s: "list_all clean_segment segs" using assms by (auto simp: clean_segment_def)
  have d: "rev (dropWhile (\<lambda>c. c \<noteq> CHR ''/'') (rev (p @ ''/'' @ x))) = p @ ''/''" for p
    using x by (simp add: dropWhile_append3 dropWhile_append)
  show ?thesis
  proof (cases "segs = []")
    case True
    then show ?thesis using d [of "''''"] by (simp add: path_Dir_def abs_path_def path_Clean_root)
  next
    case False
    then have "abs_path (segs @ [x]) = (''/'' @ StrJoin ''/'' segs) @ ''/'' @ x" by (simp add: abs_path_def StrJoin_snoc)
    then show ?thesis using d [of "''/'' @ StrJoin ''/'' segs"] path_Clean_slash [OF s False] by (simp add: path_Dir_def)
  qed
qed

lemma path_Dir_root: "path_Dir (abs_path []) = abs_path []"
  by code_simp


text \<open>The directories from a path up to the root, and the walk along them.\<close>

definition ancestors :: "string list \<Rightarrow> string list" where
  "ancestors segs = map (\<lambda>k. abs_path (take k segs)) (rev [0..<Suc (length segs)])"

lemma ancestors_snoc: "ancestors (segs @ [x]) = abs_path (segs @ [x]) # ancestors segs"
  by (simp add: ancestors_def)

lemma abs_path_inject: "list_all clean_segment (segs @ [x]) \<Longrightarrow> abs_path segs \<noteq> abs_path (segs @ [x])"
  by (cases "segs = []") (auto simp: abs_path_def StrJoin_snoc clean_segment_def)

lemma find_up_nearest:
  "list_all clean_segment segs \<Longrightarrow> find_up ex name (abs_path segs) =
     Some (map_option (\<lambda>d. schema_candidate d name) (List.find (\<lambda>d. ex (schema_candidate d name)) (ancestors segs)))"
proof (induction segs rule: rev_induct)
  case Nil
  show ?case by (subst find_up.simps) (simp add: path_Dir_root ancestors_def)
next
  case (snoc x segs)
  then have "find_up ex name (abs_path segs) = Some (map_option (\<lambda>d. schema_candidate d name) (List.find (\<lambda>d. ex (schema_candidate d name)) (ancestors segs)))" by simp
  with path_Dir_abs [OF snoc.prems] abs_path_inject [OF snoc.prems] show ?case
    by (subst find_up.simps) (simp add: ancestors_snoc)
qed

lemma schema_valid:
  assumes "validateAgainstSchema va configPath b = Some None"
  shows "\<exists>p data js doc. findSchemaPath va b = Some (Inr p) \<and> va_read va configPath = Inr data
    \<and> va_yaml_to_json va data = Inr js \<and> va_json va js = Inr doc \<and> va_schema va (fileURL (mustAbs va p)) doc = Inr []"
proof -
  from assms obtain r where f: "findSchemaPath va b = Some r" by (auto simp: validateAgainstSchema_def)
  with assms obtain p where p: "r = Inr p" by (cases r) (auto simp: validateAgainstSchema_def)
  with assms f obtain data where d: "va_read va configPath = Inr data" by (cases "va_read va configPath") (auto simp: validateAgainstSchema_def)
  with assms f p obtain js where j: "va_yaml_to_json va data = Inr js" by (cases "va_yaml_to_json va data") (auto simp: validateAgainstSchema_def)
  with assms f p d obtain doc where c: "va_json va js = Inr doc" by (cases "va_json va js") (auto simp: validateAgainstSchema_def)
  with assms f p d j have "va_schema va (fileURL (mustAbs va p)) doc = Inr []" by (auto simp: validateAgainstSchema_def split: sum.splits list.splits)
  with f p d j c show ?thesis by blast
qed

subsection \<open>Comma lists\<close>

lemma map_of_resolve: "map_of (map (\<lambda>(k, v). (k, if P k then f v else v)) m) k = (if P k then map_option f (map_of m k) else map_of m k)"
  by (induction m) auto

lemma string_slice_strs: "string_slice (map AStr xs) = Inr xs"
  by (induction xs) auto

lemma comma_value_splitTrim: "comma_value (AStr s) = AList (map AStr (splitTrim s (CHR '','')))"
  by (simp add: comma_value_def splitTrim_comma)

lemma comma_value_idem: "comma_value (comma_value v) = comma_value v"
  by (cases v) (simp_all add: comma_value_def)

subsection \<open>Key pairs\<close>

lemma generateKeypair_ok:
  assumes "generateKeypair fo gk n privPath pubPath = (None, n')"
  obtains pub priv privDER pubDER n1 n2 where "gk_GenerateKey gk n = (Inr (pub, priv), n1)" and "gk_pkcs8 gk priv = Inr privDER" and "gk_pkix gk pub = Inr pubDER"
    and "gk_create gk n1 privPath (gk_pem gk ''PRIVATE KEY'' privDER) = (None, n2)" and "fo_write fo n2 pubPath (gk_pem gk ''PUBLIC KEY'' pubDER) = (None, n')"
  using assms by (auto simp: generateKeypair_def split: prod.splits sum.splits option.splits create_error.splits)

section \<open>Properties\<close>

text \<open>
  The search for the schema ends, and finds the schema of the nearest directory: from any working directory it returns the
  candidate of the first directory on the way to the root that has one, and an error exactly if none has; so
  the validation always ends with an exit status.
\<close>

theorem schema_lookup_terminates:
  assumes "va_Getwd va = Inr (abs_path segs)" and "list_all clean_segment segs"
  shows "findSchemaPath va binary = Some (case List.find (\<lambda>d. va_exists va (schema_candidate d (binary @ ''.schema.json''))) (ancestors segs) of
       None \<Rightarrow> Inl (Err (''schema not found for '' @ Quote binary @ '' (expected schemas/'' @ binary @ ''.schema.json'' @ '')''))
     | Some d \<Rightarrow> Inr (schema_candidate d (binary @ ''.schema.json'')))
   \<and> (\<exists>status. validate_main va ce ple ale getenv = Some status \<and> status \<le> 2)"
proof -
  have f: "findSchemaPath va b = Some (case List.find (\<lambda>d. va_exists va (schema_candidate d (b @ ''.schema.json''))) (ancestors segs) of
       None \<Rightarrow> Inl (Err (''schema not found for '' @ Quote b @ '' (expected schemas/'' @ b @ ''.schema.json'' @ '')''))
     | Some d \<Rightarrow> Inr (schema_candidate d (b @ ''.schema.json'')))" for b
    using find_up_nearest [OF assms(2)] by (simp add: findSchemaPath_def assms(1) split: option.split)
  obtain p b where t: "validate_target getenv = (p, b)" by fastforce
  obtain r where "validate_run va ce ple ale p b = Some r" by (simp add: validate_run_def validateAgainstSchema_def f)
  then have "\<exists>status. validate_main va ce ple ale getenv = Some status \<and> status \<le> 2" by (simp add: validate_main_def t)
  with f show ?thesis by blast
qed

definition sample_va :: validate_env where
  "sample_va = \<lparr>va_Getwd = Inr ''/srv/app/cmd'', va_exists = (\<lambda>p. p = ''/srv/schemas/auth.schema.json''), va_Abs = Inr, va_read = (\<lambda>p. Inr ''cfg''),
     va_yaml_to_json = Inr, va_json = (\<lambda>b. Inr (AStr b)), va_schema = (\<lambda>u d. Inr (if u = ''file:///srv/schemas/auth.schema.json'' then [] else [''bad'']))\<rparr>"

lemma sample_va_sel: "va_Abs sample_va p = Inr p" "va_read sample_va p = Inr ''cfg''" "va_yaml_to_json sample_va b = Inr b" "va_json sample_va b = Inr (AStr b)"
  "va_schema sample_va u d = Inr (if u = ''file:///srv/schemas/auth.schema.json'' then [] else [''bad''])"
  by (simp_all add: sample_va_def)

theorem schema_lookup_terminates_witness:
  "findSchemaPath sample_va ''auth'' = Some (Inr ''/srv/schemas/auth.schema.json'')"
proof -
  have w: "va_Getwd sample_va = Inr (abs_path [''srv'', ''app'', ''cmd''])" by (simp add: sample_va_def abs_path_def)
  have c: "list_all clean_segment [''srv'', ''app'', ''cmd'']" by (simp add: clean_segment_def)
  have "List.find (\<lambda>d. va_exists sample_va (schema_candidate d ''auth.schema.json'')) (ancestors [''srv'', ''app'', ''cmd'']) = Some ''/srv''
    \<and> schema_candidate ''/srv'' ''auth.schema.json'' = ''/srv/schemas/auth.schema.json''" by code_simp
  with schema_lookup_terminates [OF w c, of "''auth''"] show ?thesis by simp
qed

text \<open>
  A configuration that validates is one the process loads: if \<open>validateconfig\<close> exits with status 0 for a
  \<open>CONFIG_PATH\<close>, the schema of the binary was found and not violated, and \<open>loadConfig\<close> of the binary it was validated for
  accepts the same file and environment.
\<close>

theorem validated_config_loads:
  assumes "validate_main va ce ple ale getenv = Some 0" and "getenv ''CONFIG_PATH'' \<noteq> ''''"
  shows "(\<exists>p data js doc. findSchemaPath va (snd (validate_target getenv)) = Some (Inr p) \<and> va_read va (getenv ''CONFIG_PATH'') = Inr data
      \<and> va_yaml_to_json va data = Inr js \<and> va_json va js = Inr doc \<and> va_schema va (fileURL (mustAbs va p)) doc = Inr [])
    \<and> (snd (validate_target getenv) = ''auth'' \<and> (\<exists>c. auth_loadConfig ale getenv = Inr c)
       \<or> snd (validate_target getenv) = ''proxy'' \<and> (\<exists>c. proxy_loadConfig ce ple getenv = Inr c))"
proof -
  have p: "fst (validate_target getenv) = getenv ''CONFIG_PATH''" "first_set getenv [''CONFIG_PATH'', ''PROXY_CONFIG''] = getenv ''CONFIG_PATH''"
    "first_set getenv [''CONFIG_PATH'', ''AUTH_CONFIG'', ''AGENT_CONFIG''] = getenv ''CONFIG_PATH''"
    using assms(2) by (simp_all add: validate_target_def first_set_def Let_def)
  obtain b where t: "validate_target getenv = (getenv ''CONFIG_PATH'', b)" using p(1) by (cases "validate_target getenv") auto
  with assms have r: "validate_run va ce ple ale (getenv ''CONFIG_PATH'') b = Some None"
    by (auto simp: validate_main_def split: if_splits)
  then have s: "validateAgainstSchema va (getenv ''CONFIG_PATH'') b = Some None" by (auto simp: validate_run_def split: option.splits)
  have "b = ''auth'' \<and> (\<exists>c. auth_loadConfig ale getenv = Inr c) \<or> b = ''proxy'' \<and> (\<exists>c. proxy_loadConfig ce ple getenv = Inr c)"
    using r s by (auto simp: validate_run_def auth_loadConfig_def proxy_loadConfig_def p split: if_splits sum.splits)
  with schema_valid [OF s] show ?thesis by (simp add: t)
qed



definition sample_ale :: "auth_config loader_env" where
  "sample_ale = \<lparr>lo_yaml_new = None, lo_run = (\<lambda>src res. if src = Some (''auth.yaml'', YAML) then Inr two_connectors else Inl (Err ''no file'')), lo_fields = [(True, ''oidc_scopes,omitempty'')]\<rparr>"

lemma sample_found: "findSchemaPath sample_va ''auth'' = Some (Inr ''/srv/schemas/auth.schema.json'')"
proof -
  let ?segs = "[''srv'', ''app'', ''cmd'']"
  have c: "list_all clean_segment ?segs" by (simp add: clean_segment_def)
  have "List.find (\<lambda>d. va_exists sample_va (schema_candidate d ''auth.schema.json'')) (ancestors ?segs) = Some ''/srv''
    \<and> schema_candidate ''/srv'' ''auth.schema.json'' = ''/srv/schemas/auth.schema.json''" by code_simp
  with find_up_nearest [OF c, of "va_exists sample_va" "''auth.schema.json''"]
  have "find_up (va_exists sample_va) ''auth.schema.json'' ''/srv/app/cmd'' = Some (Some ''/srv/schemas/auth.schema.json'')" by (simp add: abs_path_def)
  then show ?thesis by (simp add: findSchemaPath_def sample_va_def)
qed

theorem validated_config_loads_witness:
  "\<forall>ce ple. \<exists>c. validate_main sample_va ce ple sample_ale (\<lambda>v. if v = ''CONFIG_PATH'' then ''auth.yaml'' else '''') = Some 0
     \<and> auth_loadConfig sample_ale (\<lambda>v. if v = ''CONFIG_PATH'' then ''auth.yaml'' else '''') = Inr c"
proof (intro allI)
  fix ce ple
  let ?g = "\<lambda>v. if v = ''CONFIG_PATH'' then ''auth.yaml'' else ''''"
  have t: "validate_target ?g = (''auth.yaml'', ''auth'')" by code_simp
  have e: "ToLower (path_Ext ''auth.yaml'') = ''.yaml''" by code_simp
  have u: "fileURL ''/srv/schemas/auth.schema.json'' = ''file:///srv/schemas/auth.schema.json''" by code_simp
  have "LoadInto sample_ale ''auth.yaml'' = Inr two_connectors"
    by (simp add: LoadInto_def parserForPath_def e sample_ale_def)
  then have m: "validate_main sample_va ce ple sample_ale ?g = Some 0"
    by (simp add: validate_main_def t validate_run_def validateAgainstSchema_def sample_found loaded_sample mustAbs_def u sample_va_sel)
  from validated_config_loads [OF m] m t show "\<exists>c. validate_main sample_va ce ple sample_ale ?g = Some 0 \<and> auth_loadConfig sample_ale ?g = Inr c" by simp
qed



text \<open>
  C38. From key generation to the proxy: a key pair that \<open>bundle-sign -genkey\<close> has written, used to sign a bundle with the default
  output path, lets the proxy's verification of that bundle succeed with the public key file. The files are
  assumed to hold what was last written to them, PEM and the key encodings to be read back (the PEM block also after white space is trimmed),
  and signatures of a generated private key to verify under its public key.
\<close>

theorem genkey_sign_verify:
  assumes read: "\<And>n p. fo_read fo n p = (case view n p of Some d \<Rightarrow> Inr d | None \<Rightarrow> Inl (Err ''no file''), n)"
    and writes: "\<And>n p d n'. fo_write fo n p d = (None, n') \<Longrightarrow> view n' = (view n)(p \<mapsto> d)"
    and creates: "\<And>n p d n'. gk_create gk n p d = (None, n') \<Longrightarrow> view n' = (view n)(p \<mapsto> d)"
    and priv: "\<And>t d. ke_pem ke (gk_pem gk t d) = Some d" "\<And>k d. gk_pkcs8 gk k = Inr d \<Longrightarrow> ke_pkcs8 ke d = Inr (Inr k)"
    and pub: "\<And>t d. se_pem se (TrimSpace (gk_pem gk t d)) = Some d" "\<And>t d. TrimSpace (gk_pem gk t d) \<noteq> ''''" "\<And>k d. gk_pkix gk k = Inr d \<Longrightarrow> se_pkix se d = Inr (Inr k)"
    and keys: "\<And>n pub priv n' b. gk_GenerateKey gk n = (Inr (pub, priv), n') \<Longrightarrow> se_verify se pub b (ke_sign ke priv b) \<and> length (ke_sign ke priv b) = 64"
    and gen: "bundle_sign_run fo ke gk (Inr \<lparr>sf_genkey = True, sf_priv = kp, sf_pub = kq, sf_bundle = '''', sf_out = ''''\<rparr>) n = (None, n1)"
    and sign: "bundle_sign_run fo ke gk (Inr \<lparr>sf_genkey = False, sf_priv = kp, sf_pub = '''', sf_bundle = path, sf_out = ''''\<rparr>) n1 = (None, n2)"
    and wasm: "view n1 path = Some wasm" and names: "kp \<noteq> kq" "path @ ''.sig'' \<noteq> kq"
  shows "\<exists>pk. fo_read fo n2 kq = (Inr pk, n2) \<and> fst (verifyBundleFile fo se n2 pk path wasm) = None"
proof -
  from gen have "generateKeypair fo gk n kp kq = (None, n1)" by (simp add: bundle_sign_run_def split: if_splits)
  then obtain pub priv privDER pubDER m1 m2 where g: "gk_GenerateKey gk n = (Inr (pub, priv), m1)" "gk_pkcs8 gk priv = Inr privDER" "gk_pkix gk pub = Inr pubDER"
    "gk_create gk m1 kp (gk_pem gk ''PRIVATE KEY'' privDER) = (None, m2)" "fo_write fo m2 kq (gk_pem gk ''PUBLIC KEY'' pubDER) = (None, n1)"
    by (rule generateKeypair_ok)
  let ?pk = "gk_pem gk ''PUBLIC KEY'' pubDER"
  have v1: "view n1 kp = Some (gk_pem gk ''PRIVATE KEY'' privDER)" "view n1 kq = Some ?pk"
    using writes [OF g(5)] creates [OF g(4)] names(1) by simp_all
  have sb: "signBundle fo ke n1 kp path (defaultSignaturePath path) = (None, n2)" using sign by (simp add: bundle_sign_run_def split: if_splits)
  have l: "loadPrivateKey fo ke n1 kp = (Inr priv, n1)" using priv(1) priv(2) [OF g(2)] v1(1) by (simp add: loadPrivateKey_def read)
  have b: "fo_read fo n1 path = (Inr wasm, n1)" using wasm by (simp add: read)
  have w: "fo_write fo n1 (path @ ''.sig'') (EncodeToString StdEnc (ke_sign ke priv wasm) @ [NL]) = (None, n2)"
    using sb l b by (auto simp: signBundle_def defaultSignaturePath_def split: prod.splits option.splits)
  have k: "parseEd25519PublicKey se ?pk = Inr pub" using pub(1,2) pub(3) [OF g(3)] by (simp add: parseEd25519PublicKey_def)
  have "fst (verifyBundleFile fo se n2 ?pk path wasm) = None"
    by (rule signed_bundle_verifies [OF _ _ _ k l b sb]) (use keys [OF g(1)] writes in \<open>auto simp: read\<close>)
  moreover have "fo_read fo n2 kq = (Inr ?pk, n2)" using writes [OF w] v1(2) names(2) by (simp add: read)
  ultimately show ?thesis by blast
qed


text \<open>Sample files as a list of names and contents, and a key pair with a constant signature.\<close>

definition kit_files :: "bytes gomap file_env" where
  "kit_files = \<lparr>fo_stat = (\<lambda>n p. (Inr 0, n)), fo_read = (\<lambda>n p. (case map_of n p of Some d \<Rightarrow> Inr d | None \<Rightarrow> Inl (Err ''no file''), n)),
     fo_write = (\<lambda>n p d. (None, AList.update p d n)), fo_not_exist = (\<lambda>e. True)\<rparr>"

definition kit_keys :: "bytes gomap genkey_env" where
  "kit_keys = \<lparr>gk_GenerateKey = (\<lambda>n. (Inr (''pub'', ''priv''), n)), gk_pkcs8 = Inr, gk_pkix = Inr, gk_pem = (\<lambda>t d. CHR ''-'' # d @ [CHR ''-'']),
     gk_create = (\<lambda>n p d. if map_of n p = None then (None, AList.update p d n) else (Some (CreateFailed (Err ''exists'')), n))\<rparr>"

definition kit_ke :: key_env where
  "kit_ke = \<lparr>ke_pem = (\<lambda>p. Some (tl (butlast p))), ke_pkcs8 = (\<lambda>d. Inr (Inr d)), ke_sign = (\<lambda>k b. replicate 64 (CHR ''x''))\<rparr>"

definition kit_se :: sig_env where
  "kit_se = \<lparr>se_pem = (\<lambda>p. Some (tl (butlast p))), se_pkix = (\<lambda>d. Inr (Inr d)), se_verify = (\<lambda>k b s. s = replicate 64 (CHR ''x''))\<rparr>"

lemma TrimSpace_dashes: "TrimSpace (CHR ''-'' # d @ [CHR ''-'']) = CHR ''-'' # d @ [CHR ''-'']"
proof -
  have g: "graph_char (CHR ''-'')" by (simp add: graph_char_def)
  show ?thesis unfolding TrimSpace_def
    by (subst TrimLeftSpace.simps, subst TrimRightSpace.simps)
      (use lead_space_graph [OF g, of "d @ [CHR ''-'']"] trail_space_graph [OF g, of "CHR ''-'' # d"] in simp)
qed

theorem genkey_sign_verify_witness:
  "\<exists>n1 n2 pk. bundle_sign_run kit_files kit_ke kit_keys (Inr \<lparr>sf_genkey = True, sf_priv = ''k'', sf_pub = ''q'', sf_bundle = '''', sf_out = ''''\<rparr>) [(''b'', ''wasm'')] = (None, n1)
     \<and> bundle_sign_run kit_files kit_ke kit_keys (Inr \<lparr>sf_genkey = False, sf_priv = ''k'', sf_pub = '''', sf_bundle = ''b'', sf_out = ''''\<rparr>) n1 = (None, n2)
     \<and> fo_read kit_files n2 ''q'' = (Inr pk, n2) \<and> fst (verifyBundleFile kit_files kit_se n2 pk ''b'' ''wasm'') = None"
proof -
  let ?n1 = "[(''b'', ''wasm''), (''k'', ''-priv-''), (''q'', ''-pub-'')]"
  have g: "bundle_sign_run kit_files kit_ke kit_keys (Inr \<lparr>sf_genkey = True, sf_priv = ''k'', sf_pub = ''q'', sf_bundle = '''', sf_out = ''''\<rparr>) [(''b'', ''wasm'')] = (None, ?n1)"
    by (simp add: bundle_sign_run_def generateKeypair_def kit_files_def kit_keys_def)
  obtain n2 where s: "bundle_sign_run kit_files kit_ke kit_keys (Inr \<lparr>sf_genkey = False, sf_priv = ''k'', sf_pub = '''', sf_bundle = ''b'', sf_out = ''''\<rparr>) ?n1 = (None, n2)"
    by (simp add: bundle_sign_run_def signBundle_def loadPrivateKey_def kit_files_def kit_ke_def)
  have "\<exists>pk. fo_read kit_files n2 ''q'' = (Inr pk, n2) \<and> fst (verifyBundleFile kit_files kit_se n2 pk ''b'' ''wasm'') = None"
    by (rule genkey_sign_verify [where view = map_of, OF _ _ _ _ _ _ _ _ _ g s])
      (auto simp: kit_files_def kit_keys_def kit_ke_def kit_se_def TrimSpace_dashes update_conv' split: if_splits)
  with g s show ?thesis by blast
qed

end
