(* ===== verification/Schema_Gen.thy ===== *)
theory Schema_Gen
  imports Tools
begin

text \<open>
  \<open>cmd/schema/main.go\<close>: the generator of the JSON schemas against which \<open>cmd/validateconfig\<close> checks a
  configuration. It takes the schema that the go-config library derives from a Go type, closes every object, takes
  the fields that may be missing from the \<open>required\<close> lists and writes the result under \<open>schemas/\<close>.

  The library's generator, the JSON codec and the file system are arguments. A decoded document is a tree of
  its own, so the updates in place are functions on trees.
\<close>

record 'w schema_env =
  se_MkdirAll :: "'w \<Rightarrow> string \<Rightarrow> goerr option \<times> 'w"
  se_WriteFile :: "'w \<Rightarrow> string \<Rightarrow> bytes \<Rightarrow> goerr option \<times> 'w"
  se_auth :: "bytes result"
  se_proxy :: "bytes result"
  se_Unmarshal :: "bytes \<Rightarrow> gany result"
  se_UnmarshalMap :: "bytes \<Rightarrow> gany gomap option result"
  se_MarshalIndent :: "gany \<Rightarrow> bytes result"

definition optionalTopLevelFields :: "string list" where
  "optionalTopLevelFields = [''connectors'', ''routes'']"

definition is_optional :: "gany \<Rightarrow> bool" where
  "is_optional v = (case v of AStr s \<Rightarrow> s \<in> set optionalTopLevelFields | _ \<Rightarrow> False)"

definition close_object :: "gany gomap \<Rightarrow> gany gomap" where
  "close_object m =
     (if str_or_empty (any_get m ''type'') = ''object'' \<and> map_of m ''additionalProperties'' = None
      then AList.update ''additionalProperties'' (ABool False) m else m)"

definition prune_required :: "gany gomap \<Rightarrow> gany gomap" where
  "prune_required m = (case any_get m ''required'' of
     AList req \<Rightarrow> AList.update ''required'' (AList (filter (\<lambda>v. \<not> is_optional v) req)) m
   | _ \<Rightarrow> m)"

lemma set_update_cases: "(k, v) \<in> set (AList.update k' v' m) \<Longrightarrow> (k, v) \<in> set m \<or> v = v'"
  by (induction m) (auto split: if_splits)

lemma size_member: "(k, v) \<in> set m \<Longrightarrow> size (v :: gany) < size (AMap m)"
  by (induction m) auto

lemma size_item: "v \<in> set xs \<Longrightarrow> size (v :: gany) < size (AList xs)"
  by (induction xs) auto

lemma size_filter_list: "size_list f (filter p xs) \<le> size_list f xs"
  by (induction xs) auto

lemma map_of_any_get: "any_get m k = v \<Longrightarrow> v \<noteq> ANil \<Longrightarrow> (k, v) \<in> set m"
  by (auto simp: any_get_def dest: map_of_SomeD split: option.splits)

lemma size_close: "(k, v) \<in> set (close_object m) \<Longrightarrow> (k, v) \<in> set m \<or> v = ABool False"
  by (auto simp: close_object_def dest: set_update_cases split: if_splits)

lemma size_node: "(k, v) \<in> set (prune_required (close_object m)) \<Longrightarrow> size v < size (AMap m)"
proof -
  assume "(k, v) \<in> set (prune_required (close_object m))"
  then consider "(k, v) \<in> set (close_object m)"
    | req where "any_get (close_object m) ''required'' = AList req" "v = AList (filter (\<lambda>v. \<not> is_optional v) req)"
    by (auto simp: prune_required_def dest: set_update_cases split: gany.splits)
  then show ?thesis
  proof cases
    case 1
    then show ?thesis using size_close [OF 1] size_member [of k v m] by (auto intro: size_member)
  next
    case 2
    then have "(''required'', AList req) \<in> set m" using map_of_any_get [OF 2(1)] size_close by force
    then have "size (AList req) < size (AMap m)" by (rule size_member)
    with 2(2) size_filter_list [of size "\<lambda>v. \<not> is_optional v" req] show ?thesis by simp
  qed
qed

function (sequential) boundSchemaValue :: "gany \<Rightarrow> gany" where
  "boundSchemaValue (AMap m) = AMap (map (\<lambda>(k, v). (k, boundSchemaValue v)) (prune_required (close_object m)))"
| "boundSchemaValue (AList xs) = AList (map boundSchemaValue xs)"
| "boundSchemaValue v = v"
  by pat_completeness auto
termination
  by (relation "measure size") (auto simp del: gany.size intro: size_node size_item)

declare boundSchemaValue.simps(1) [simp del]

definition boundSchema :: "'w schema_env \<Rightarrow> bytes \<Rightarrow> bytes result" where
  "boundSchema se schemaBytes = (case se_Unmarshal se schemaBytes of Inl e \<Rightarrow> Inl e | Inr v \<Rightarrow> se_MarshalIndent se (boundSchemaValue v))"

definition relax_sub :: "string \<Rightarrow> gany gomap \<Rightarrow> gany gomap" where
  "relax_sub name itemProps = (case any_get itemProps name of
     AMap sub \<Rightarrow> AList.update name (AMap (AList.update ''required'' (AList []) sub)) itemProps
   | _ \<Rightarrow> itemProps)"

definition relax_items :: "string list \<Rightarrow> string list \<Rightarrow> gany gomap \<Rightarrow> gany gomap" where
  "relax_items required fullyOptional items =
     (let items1 = AList.update ''required'' (AList (map AStr required)) items in
      case any_get items1 ''properties'' of
        AMap itemProps \<Rightarrow> AList.update ''properties'' (AMap (fold relax_sub fullyOptional itemProps)) items1
      | _ \<Rightarrow> items1)"

definition relax_prop :: "string list \<Rightarrow> string \<times> string list \<Rightarrow> gany gomap \<Rightarrow> gany gomap" where
  "relax_prop fullyOptional pr props = (case any_get props (fst pr) of
     AMap arr \<Rightarrow> (case any_get arr ''items'' of
         AMap items \<Rightarrow> AList.update (fst pr) (AMap (AList.update ''items'' (AMap (relax_items (snd pr) fullyOptional items)) arr)) props
       | _ \<Rightarrow> props)
   | _ \<Rightarrow> props)"

definition relax_doc :: "string list gomap \<Rightarrow> string list \<Rightarrow> gany gomap \<Rightarrow> gany gomap" where
  "relax_doc requiredByProp fullyOptional doc = (case any_get doc ''properties'' of
     AMap props \<Rightarrow> AList.update ''properties'' (AMap (fold (relax_prop fullyOptional) requiredByProp props)) doc
   | _ \<Rightarrow> doc)"

definition relaxNested :: "'w schema_env \<Rightarrow> bytes \<Rightarrow> string list gomap \<Rightarrow> string list \<Rightarrow> bytes result" where
  "relaxNested se schemaBytes requiredByProp fullyOptional = (case se_UnmarshalMap se schemaBytes of
     Inl e \<Rightarrow> Inl e
   | Inr None \<Rightarrow> se_MarshalIndent se ANil
   | Inr (Some doc) \<Rightarrow> se_MarshalIndent se (AMap (relax_doc requiredByProp fullyOptional doc)))"

definition auth_required :: "string list gomap" where
  "auth_required = [(''connectors'', [''id'', ''oidc_issuer'', ''oidc_redirect_uri'', ''oidc_client_id''])]"

definition proxy_required :: "string list gomap" where
  "proxy_required = [(''routes'', [''id'', ''path_prefix'', ''upstream_url''])]"

text \<open>One schema: derived, closed, relaxed and written. The strings are those of the error messages.\<close>

definition generate_one :: "'w schema_env \<Rightarrow> 'w \<Rightarrow> bytes result \<Rightarrow> string \<Rightarrow> string list gomap \<Rightarrow> string list \<Rightarrow> goerr option \<times> 'w" where
  "generate_one se w gen who requiredByProp fullyOptional = (case gen of
     Inl e \<Rightarrow> (Some (Wrap (''generate schema for '' @ who @ '' config: '') e), w)
   | Inr b \<Rightarrow> (case boundSchema se b of
       Inl e \<Rightarrow> (Some (Wrap (''bound '' @ who @ '' schema: '') e), w)
     | Inr b1 \<Rightarrow> (case relaxNested se b1 requiredByProp fullyOptional of
         Inl e \<Rightarrow> (Some (Wrap (''relax '' @ who @ '' schema: '') e), w)
       | Inr b2 \<Rightarrow> (case se_WriteFile se w (path_Join [''schemas'', who @ ''.schema.json'']) b2 of
           (Some e, w1) \<Rightarrow> (Some (Wrap (''write '' @ who @ ''.schema.json: '') e), w1)
         | (None, w1) \<Rightarrow> (None, w1)))))"

definition generateSchemas :: "'w schema_env \<Rightarrow> 'w \<Rightarrow> goerr option \<times> 'w" where
  "generateSchemas se w = (case se_MkdirAll se w ''schemas'' of
     (Some e, w1) \<Rightarrow> (Some (Wrap ''create schemas dir: '' e), w1)
   | (None, w1) \<Rightarrow> (case generate_one se w1 (se_auth se) ''auth'' auth_required [''claim_mapping''] of
       (Some e, w2) \<Rightarrow> (Some e, w2)
     | (None, w2) \<Rightarrow> generate_one se w2 (se_proxy se) ''proxy'' proxy_required []))"

definition schema_main :: "'w schema_env \<Rightarrow> 'w \<Rightarrow> int \<times> 'w" where
  "schema_main se w = (case generateSchemas se w of (Some e, w1) \<Rightarrow> (1, w1) | (None, w1) \<Rightarrow> (0, w1))"

section \<open>Closed schemas\<close>

text \<open>Every object of the tree says what other fields it allows, and no list requires a field that may be missing.\<close>

fun schema_closed :: "gany \<Rightarrow> bool" where
  "schema_closed (AMap m) \<longleftrightarrow>
     (str_or_empty (any_get m ''type'') = ''object'' \<longrightarrow> map_of m ''additionalProperties'' \<noteq> None)
     \<and> (case any_get m ''required'' of AList req \<Rightarrow> list_all (\<lambda>v. \<not> is_optional v) req | _ \<Rightarrow> True)
     \<and> (\<forall>kv \<in> set m. schema_closed (snd kv))"
| "schema_closed (AList xs) \<longleftrightarrow> list_all schema_closed xs"
| "schema_closed v \<longleftrightarrow> True"

lemma any_get_map: "f ANil = ANil \<Longrightarrow> any_get (map (\<lambda>(k, v). (k, f v)) m) k = f (any_get m k)"
  by (induction m) (auto simp: any_get_def)

lemma map_of_prune_None: "map_of (prune_required m) k = None \<longleftrightarrow> map_of m k = None"
  by (auto simp: prune_required_def any_get_def update_conv' split: gany.splits option.splits)

lemma any_get_prune: "k \<noteq> ''required'' \<Longrightarrow> any_get (prune_required m) k = any_get m k"
  by (auto simp: prune_required_def split: gany.splits)

lemma any_get_close: "k \<noteq> ''additionalProperties'' \<Longrightarrow> any_get (close_object m) k = any_get m k"
  by (auto simp: close_object_def)

lemma str_bound [simp]: "str_or_empty (boundSchemaValue v) = str_or_empty v" "is_optional (boundSchemaValue v) = is_optional v"
  by (cases v; simp add: str_or_empty_def is_optional_def boundSchemaValue.simps)+

lemma bound_closed: "schema_closed (boundSchemaValue v)"
proof (induction v rule: boundSchemaValue.induct)
  case (1 m)
  let ?m = "prune_required (close_object m)"
  have "any_get ?m ''required'' = AList req \<Longrightarrow> list_all (\<lambda>v. \<not> is_optional v) req" for req
    by (auto simp: prune_required_def list_all_iff split: gany.splits)
  moreover have "map_of ?m ''additionalProperties'' \<noteq> None" if "str_or_empty (any_get m ''type'') = ''object''"
    using that by (auto simp: map_of_prune_None close_object_def update_conv')
  ultimately show ?case using 1
    by (auto simp: boundSchemaValue.simps any_get_map any_get_prune any_get_close map_of_map list_all_iff split: gany.splits)
      (auto elim!: boundSchemaValue.elims)
qed (auto simp: list_all_iff)

lemma update_same: "map_of m k = Some v \<Longrightarrow> AList.update k v m = m"
  by (induction m) (auto split: if_splits)

lemma closed_fixed: "schema_closed v \<Longrightarrow> boundSchemaValue v = v"
proof (induction v rule: schema_closed.induct)
  case (1 m)
  have c: "close_object m = m" using 1 by (auto simp: close_object_def)
  have "filter (\<lambda>v. \<not> is_optional v) req = req" if "any_get m ''required'' = AList req" for req
    using 1(2) that by (simp add: list_all_iff filter_id_conv)
  then have p: "prune_required m = m"
    by (auto simp: prune_required_def any_get_def intro!: update_same split: gany.splits option.splits)
  have "map (\<lambda>(k, v). (k, boundSchemaValue v)) m = m"
    using 1 by (intro map_idI) auto
  then show ?case by (simp add: boundSchemaValue.simps c p)
qed (auto simp: list_all_iff intro: map_idI)

lemma closed_get: "schema_closed (AMap m) \<Longrightarrow> schema_closed (any_get m k)"
  using map_of_SomeD [of m k] by (cases "map_of m k") (force simp: any_get_def)+

lemma closed_update:
  assumes "schema_closed (AMap m)" and "schema_closed v" and "k \<noteq> ''type''"
    and "k = ''required'' \<Longrightarrow> \<exists>req. v = AList req \<and> list_all (\<lambda>v. \<not> is_optional v) req"
  shows "schema_closed (AMap (AList.update k v m))"
  using assms by (auto simp: update_conv' dest: set_update_cases split: if_splits)

lemma closed_strings: "schema_closed (AList (map AStr xs))"
  by (simp add: list_all_iff)

lemma closed_relax_sub:
  assumes "schema_closed (AMap m)" and "name \<notin> {''type'', ''required''}"
  shows "schema_closed (AMap (relax_sub name m))"
proof (cases "any_get m name")
  case (AMap sub)
  with closed_get [OF assms(1), of name] have "schema_closed (AMap (AList.update ''required'' (AList []) sub))"
    by (intro closed_update) simp_all
  with assms have "schema_closed (AMap (AList.update name (AMap (AList.update ''required'' (AList []) sub)) m))"
    by (intro closed_update [of m]) blast+
  then show ?thesis unfolding relax_sub_def AMap gany.case .
qed (use assms in \<open>simp_all add: relax_sub_def\<close>)

lemma closed_relax_items:
  assumes "schema_closed (AMap m)" and "\<forall>r \<in> set required. r \<notin> set optionalTopLevelFields" and "\<forall>n \<in> set opts. n \<notin> {''type'', ''required''}"
  shows "schema_closed (AMap (relax_items required opts m))"
proof -
  let ?m = "AList.update ''required'' (AList (map AStr required)) m"
  have c: "schema_closed (AMap ?m)"
    using assms(1,2) by (intro closed_update closed_strings) (auto simp: list_all_iff is_optional_def)
  have f: "schema_closed (AMap (fold relax_sub opts ip))" if "schema_closed (AMap ip)" for ip
    using that assms(3) by (induction opts arbitrary: ip) (auto simp del: schema_closed.simps(1) intro: closed_relax_sub)
  show ?thesis
  proof (cases "any_get ?m ''properties''")
    case (AMap ip)
    have "schema_closed (AMap (AList.update ''properties'' (AMap (fold relax_sub opts ip)) ?m))"
      using c f [OF closed_get [OF c, of "''properties''", unfolded AMap]] by (rule closed_update) simp_all
    then show ?thesis unfolding relax_items_def Let_def AMap gany.case .
  qed (use c in \<open>simp_all del: schema_closed.simps(1) add: relax_items_def Let_def\<close>)
qed

lemma closed_relax_prop:
  assumes "schema_closed (AMap m)" and "\<forall>r \<in> set (snd pr). r \<notin> set optionalTopLevelFields" and "\<forall>n \<in> set opts. n \<notin> {''type'', ''required''}"
    and "fst pr \<notin> {''type'', ''required''}"
  shows "schema_closed (AMap (relax_prop opts pr m))"
proof (cases "\<exists>arr items. any_get m (fst pr) = AMap arr \<and> any_get arr ''items'' = AMap items")
  case True
  then obtain arr items where a: "any_get m (fst pr) = AMap arr" "any_get arr ''items'' = AMap items" by blast
  have c: "schema_closed (AMap arr)" using closed_get [OF assms(1), of "fst pr"] unfolding a(1) .
  have "schema_closed (AMap items)" using closed_get [OF c, of "''items''"] unfolding a(2) .
  then have i: "schema_closed (AMap (relax_items (snd pr) opts items))" by (rule closed_relax_items [OF _ assms(2,3)])
  have "schema_closed (AMap (AList.update ''items'' (AMap (relax_items (snd pr) opts items)) arr))" using c i by (rule closed_update) simp_all
  with assms(1) have "schema_closed (AMap (AList.update (fst pr) (AMap (AList.update ''items'' (AMap (relax_items (snd pr) opts items)) arr)) m))"
    by (rule closed_update) (use assms(4) in blast)+
  then show ?thesis unfolding relax_prop_def a gany.case .
next
  case False
  then have "relax_prop opts pr m = m" by (auto simp: relax_prop_def split: gany.splits)
  with assms(1) show ?thesis by simp
qed

definition relaxable :: "string list gomap \<Rightarrow> string list \<Rightarrow> bool" where
  "relaxable reqs opts \<longleftrightarrow> (\<forall>pr \<in> set reqs. fst pr \<notin> {''type'', ''required''} \<and> (\<forall>r \<in> set (snd pr). r \<notin> set optionalTopLevelFields))
     \<and> (\<forall>n \<in> set opts. n \<notin> {''type'', ''required''})"

lemma closed_relax_doc:
  assumes "schema_closed (AMap doc)" and "relaxable reqs opts"
  shows "schema_closed (AMap (relax_doc reqs opts doc))"
proof -
  have "schema_closed (AMap (fold (relax_prop opts) reqs ps))" if "schema_closed (AMap ps)" for ps
    using that assms(2)
  proof (induction reqs arbitrary: ps)
    case (Cons pr reqs)
    then have "schema_closed (AMap (relax_prop opts pr ps))" by (intro closed_relax_prop) (auto simp: relaxable_def)
    with Cons show ?case by (simp del: schema_closed.simps(1) add: relaxable_def)
  qed simp
  note f = this
  show ?thesis
  proof (cases "any_get doc ''properties''")
    case (AMap ps)
    have "schema_closed (AMap (AList.update ''properties'' (AMap (fold (relax_prop opts) reqs ps)) doc))"
      using assms(1) f [OF closed_get [OF assms(1), of "''properties''", unfolded AMap]] by (rule closed_update) simp_all
    then show ?thesis unfolding relax_doc_def AMap gany.case .
  qed (use assms(1) in \<open>simp_all del: schema_closed.simps(1) add: relax_doc_def\<close>)
qed

text \<open>The items of the array \<open>prop\<close> of a schema.\<close>

definition items_of :: "gany gomap \<Rightarrow> string \<Rightarrow> gany gomap option" where
  "items_of doc prop = (case any_get doc ''properties'' of
     AMap ps \<Rightarrow> (case any_get ps prop of AMap arr \<Rightarrow> as_map (any_get arr ''items'') | _ \<Rightarrow> None) | _ \<Rightarrow> None)"

lemma relax_items_required: "any_get (relax_items req opts m) ''required'' = AList (map AStr req)"
  by (auto simp: relax_items_def Let_def split: gany.splits)

lemma relax_doc_items:
  "items_of (relax_doc [(prop, req)] opts doc) prop = map_option (relax_items req opts) (items_of doc prop)"
  by (auto simp: items_of_def relax_doc_def relax_prop_def split: gany.splits)

section \<open>Properties\<close>

text \<open>
  The tool writes closed schemas: when it succeeds, both files hold a schema that the library derived, in which every
  object is closed and neither \<open>connectors\<close> nor \<open>routes\<close> is required, and an item of these arrays requires exactly the fields
  that the configuration has no default for.
\<close>

definition written_schema :: "'w schema_env \<Rightarrow> bytes \<Rightarrow> string \<Rightarrow> string list \<Rightarrow> bool" where
  "written_schema se b prop req \<longleftrightarrow> (\<exists>v. se_MarshalIndent se v = Inr b \<and> schema_closed v
     \<and> (\<forall>doc items. v = AMap doc \<longrightarrow> items_of doc prop = Some items \<longrightarrow> any_get items ''required'' = AList (map AStr req)))"

lemma generate_one_written:
  assumes "generate_one se w gen who [(prop, req)] opts = (None, w')" and "relaxable [(prop, req)] opts"
    and "\<And>v b doc. se_MarshalIndent se v = Inr b \<Longrightarrow> se_UnmarshalMap se b = Inr (Some doc) \<Longrightarrow> v = AMap doc"
  shows "\<exists>b. se_WriteFile se w (path_Join [''schemas'', who @ ''.schema.json'']) b = (None, w') \<and> written_schema se b prop req"
proof -
  obtain b0 b1 b where g: "boundSchema se b0 = Inr b1" "relaxNested se b1 [(prop, req)] opts = Inr b"
    "se_WriteFile se w (path_Join [''schemas'', who @ ''.schema.json'']) b = (None, w')"
    using assms(1) by (auto simp: generate_one_def split: sum.splits prod.splits option.splits)
  obtain v where v: "se_MarshalIndent se (boundSchemaValue v) = Inr b1" using g(1) by (auto simp: boundSchema_def split: sum.splits)
  have "written_schema se b prop req"
  proof (cases "se_UnmarshalMap se b1")
    case (Inr d)
    then show ?thesis
    proof (cases d)
      case None
      then show ?thesis using g(2) Inr by (auto simp: relaxNested_def written_schema_def intro!: exI [of _ ANil])
    next
      case (Some doc)
      with assms(3) [OF v] Inr have b: "boundSchemaValue v = AMap doc" by simp
      have "schema_closed (AMap (relax_doc [(prop, req)] opts doc))"
        using bound_closed [of v] unfolding b by (rule closed_relax_doc [OF _ assms(2)])
      moreover have "se_MarshalIndent se (AMap (relax_doc [(prop, req)] opts doc)) = Inr b" using g(2) Inr Some by (simp add: relaxNested_def)
      moreover have "any_get items ''required'' = AList (map AStr req)" if "items_of (relax_doc [(prop, req)] opts doc) prop = Some items" for items
        using that unfolding relax_doc_items by (auto simp: relax_items_required)
      ultimately show ?thesis unfolding written_schema_def by blast
    qed
  qed (use g(2) in \<open>simp add: relaxNested_def\<close>)
  with g(3) show ?thesis by blast
qed

theorem schemas_written_closed:
  assumes "schema_main se w = (0, w')"
    and "\<forall>v b doc. se_MarshalIndent se v = Inr b \<longrightarrow> se_UnmarshalMap se b = Inr (Some doc) \<longrightarrow> v = AMap doc"
  shows "\<exists>w1 w2 b1 b2. se_MkdirAll se w ''schemas'' = (None, w1)
    \<and> se_WriteFile se w1 ''schemas/auth.schema.json'' b1 = (None, w2)
    \<and> written_schema se b1 ''connectors'' [''id'', ''oidc_issuer'', ''oidc_redirect_uri'', ''oidc_client_id'']
    \<and> se_WriteFile se w2 ''schemas/proxy.schema.json'' b2 = (None, w') \<and> written_schema se b2 ''routes'' [''id'', ''path_prefix'', ''upstream_url'']"
proof -
  have j: "path_Join [''schemas'', ''auth.schema.json''] = ''schemas/auth.schema.json''" "path_Join [''schemas'', ''proxy.schema.json''] = ''schemas/proxy.schema.json''"
    by code_simp+
  have r: "relaxable auth_required [''claim_mapping'']" "relaxable proxy_required []"
    by (simp_all add: relaxable_def auth_required_def proxy_required_def optionalTopLevelFields_def)
  obtain w1 w2 where g: "se_MkdirAll se w ''schemas'' = (None, w1)" "generate_one se w1 (se_auth se) ''auth'' auth_required [''claim_mapping''] = (None, w2)"
    "generate_one se w2 (se_proxy se) ''proxy'' proxy_required [] = (None, w')"
    using assms(1) by (auto simp: schema_main_def generateSchemas_def split: prod.splits option.splits)
  from generate_one_written [OF g(2) [unfolded auth_required_def] r(1) [unfolded auth_required_def]] generate_one_written [OF g(3) [unfolded proxy_required_def] r(2) [unfolded proxy_required_def]]
    assms(2) g(1) show ?thesis by (simp add: j) blast
qed

section \<open>Witness\<close>

definition sample_schema :: gany where
  "sample_schema = AMap [(''type'', AStr ''object''), (''required'', AList [AStr ''connectors'', AStr ''http_port'']),
     (''properties'', AMap [(''connectors'', AMap [(''type'', AStr ''array''), (''items'', AMap [(''type'', AStr ''object''),
        (''required'', AList [AStr ''id'', AStr ''claim_mapping''])])])])]"

definition sample_schema_env :: "string list schema_env" where
  "sample_schema_env = \<lparr>se_MkdirAll = (\<lambda>w d. (None, w)), se_WriteFile = (\<lambda>w p b. (None, w @ [p])), se_auth = Inr ''raw'', se_proxy = Inr ''raw'',
     se_Unmarshal = (\<lambda>b. Inr sample_schema),
     se_UnmarshalMap = (\<lambda>b. if b = ''bound'' then Inr (as_map (boundSchemaValue sample_schema)) else Inl (Err ''json'')),
     se_MarshalIndent = (\<lambda>v. Inr (if v = boundSchemaValue sample_schema then ''bound'' else ''relaxed''))\<rparr>"

theorem schemas_written_closed_witness:
  "schema_main sample_schema_env [] = (0, [''schemas/auth.schema.json'', ''schemas/proxy.schema.json''])
    \<and> (\<exists>b. written_schema sample_schema_env b ''connectors'' [''id'', ''oidc_issuer'', ''oidc_redirect_uri'', ''oidc_client_id''])
    \<and> boundSchemaValue (boundSchemaValue sample_schema) = boundSchemaValue sample_schema"
proof -
  obtain m where m: "boundSchemaValue sample_schema = AMap m" by (simp add: sample_schema_def boundSchemaValue.simps)
  have r: "schema_main sample_schema_env [] = (0, [''schemas/auth.schema.json'', ''schemas/proxy.schema.json''])" by code_simp
  have "\<forall>v b doc. se_MarshalIndent sample_schema_env v = Inr b \<longrightarrow> se_UnmarshalMap sample_schema_env b = Inr (Some doc) \<longrightarrow> v = AMap doc"
    by (auto simp: sample_schema_env_def m split: if_splits)
  from schemas_written_closed [OF r this] r closed_fixed [OF bound_closed] show ?thesis by blast
qed

end
