(* ===== verification/Observability.thy ===== *)
theory Observability
  imports Auth_Service
begin

text \<open>
  \<open>pkg/observability\<close>: the Prometheus counters (\<open>metrics.go\<close>, \<open>prometheus.go\<close>), the logger (\<open>logger.go\<close>,
  \<open>stdlogger.go\<close>), the OpenTelemetry tracer (\<open>tracing.go\<close>, \<open>otel_tracer.go\<close>) and the bundle of the three
  (\<open>provider.go\<close>).

  The Prometheus and OpenTelemetry libraries, \<open>fmt.Sprint\<close> on values that are not strings, the lower-casing of
  attribute keys, the environment and the URL parser are arguments. The locale \<open>prometheus\<close> states what is
  documented of a vector: its series count on their own, and it panics (\<^const>\<open>None\<close>) on label values that do not fit.
\<close>

section \<open>Metrics (metrics.go, prometheus.go)\<close>

record ('c, 'g, 'r) prometheus_lib =
  pl_NewRegistry :: 'r
  pl_NewCounterVec :: "string \<Rightarrow> string \<Rightarrow> string list \<Rightarrow> 'c"
  pl_NewGaugeVec :: "string \<Rightarrow> string \<Rightarrow> string list \<Rightarrow> 'g"
  pl_MustRegister :: "'r \<Rightarrow> 'c list \<Rightarrow> 'g list \<Rightarrow> 'r option"
  pl_Inc :: "'c \<Rightarrow> string list \<Rightarrow> 'c option"
  pl_Set :: "'g \<Rightarrow> string list \<Rightarrow> rat \<Rightarrow> 'g option"

record ('c, 'g) PrometheusMetrics =
  pm_authDecisions :: 'c
  pm_jwksCache :: 'c
  pm_sessionStoreOps :: 'c
  pm_pluginHealth :: 'g
  pm_agentFlowOps :: 'c
  pm_callbacks :: 'c
  pm_handoff :: 'c
  pm_routeOutcomes :: 'c

text \<open>The handler that is returned too serves the registry.\<close>

definition NewPrometheusMetrics :: "('c, 'g, 'r) prometheus_lib \<Rightarrow> 'r option \<Rightarrow> (('c, 'g) PrometheusMetrics \<times> 'r) option" where
  "NewPrometheusMetrics pl reg0 =
     (let reg = (case reg0 of None \<Rightarrow> pl_NewRegistry pl | Some r \<Rightarrow> r);
          authDecisions = pl_NewCounterVec pl ''accessgate_auth_decisions_total'' ''Total auth decisions by result and status code.'' [''result'', ''status_code''];
          jwksCache = pl_NewCounterVec pl ''accessgate_jwks_cache_operations_total'' ''JWKS cache hits and misses by issuer.'' [''issuer'', ''result''];
          sessionStoreOps = pl_NewCounterVec pl ''accessgate_session_store_operations_total'' ''Session store get/set operations by operation and result.'' [''operation'', ''result''];
          pluginHealth = pl_NewGaugeVec pl ''accessgate_plugin_health_state'' ''Plugin health state (1=healthy, 0.5=degraded, 0=unhealthy/stopped).'' [''plugin_id''];
          agentFlowOps = pl_NewCounterVec pl ''accessgate_agent_flow_operations_total'' ''Agent login/refresh/logout flow outcomes by operation and result.'' [''operation'', ''result''];
          callbacks = pl_NewCounterVec pl ''accessgate_auth_callbacks_total'' ''OIDC callback (login completion) outcomes by connector and result.'' [''connector_id'', ''result''];
          handoff = pl_NewCounterVec pl ''accessgate_auth_handoff_total'' ''Handoff ticket issue/redeem outcomes by operation, connector, and result.'' [''operation'', ''connector_id'', ''result''];
          routeOutcomes = pl_NewCounterVec pl ''accessgate_proxy_route_outcomes_total'' ''Proxy request outcomes by route and outcome (allow/auth_failure/upstream_failure/route_miss).'' [''route'', ''outcome'']
      in map_option (\<lambda>r. (\<lparr>pm_authDecisions = authDecisions, pm_jwksCache = jwksCache, pm_sessionStoreOps = sessionStoreOps, pm_pluginHealth = pluginHealth,
             pm_agentFlowOps = agentFlowOps, pm_callbacks = callbacks, pm_handoff = handoff, pm_routeOutcomes = routeOutcomes\<rparr>, r))
           (pl_MustRegister pl reg [authDecisions, jwksCache, sessionStoreOps, agentFlowOps, callbacks, handoff, routeOutcomes] [pluginHealth]))"

definition okFail :: "bool \<Rightarrow> string" where
  "okFail success = (if success then ''ok'' else ''fail'')"

definition pluginHealthGaugeValue :: "string \<Rightarrow> rat" where
  "pluginHealthGaugeValue state = (if state = ''healthy'' then 1 else if state = ''degraded'' then 1 / 2 else 0)"

definition prom_AuthDecision :: "('c, 'g, 'r) prometheus_lib \<Rightarrow> bool \<Rightarrow> int \<Rightarrow> ('c, 'g) PrometheusMetrics \<Rightarrow> ('c, 'g) PrometheusMetrics option" where
  "prom_AuthDecision pl allow statusCode p =
     map_option (\<lambda>c. p\<lparr>pm_authDecisions := c\<rparr>) (pl_Inc pl (pm_authDecisions p) [if allow then ''allow'' else ''deny'', Itoa statusCode])"

definition prom_JWKSCacheHit :: "('c, 'g, 'r) prometheus_lib \<Rightarrow> string \<Rightarrow> ('c, 'g) PrometheusMetrics \<Rightarrow> ('c, 'g) PrometheusMetrics option" where
  "prom_JWKSCacheHit pl iss p = map_option (\<lambda>c. p\<lparr>pm_jwksCache := c\<rparr>) (pl_Inc pl (pm_jwksCache p) [iss, ''hit''])"

definition prom_JWKSCacheMiss :: "('c, 'g, 'r) prometheus_lib \<Rightarrow> string \<Rightarrow> ('c, 'g) PrometheusMetrics \<Rightarrow> ('c, 'g) PrometheusMetrics option" where
  "prom_JWKSCacheMiss pl iss p = map_option (\<lambda>c. p\<lparr>pm_jwksCache := c\<rparr>) (pl_Inc pl (pm_jwksCache p) [iss, ''miss''])"

definition prom_SessionStoreOp :: "('c, 'g, 'r) prometheus_lib \<Rightarrow> string \<Rightarrow> bool \<Rightarrow> ('c, 'g) PrometheusMetrics \<Rightarrow> ('c, 'g) PrometheusMetrics option" where
  "prom_SessionStoreOp pl operation success p =
     map_option (\<lambda>c. p\<lparr>pm_sessionStoreOps := c\<rparr>) (pl_Inc pl (pm_sessionStoreOps p) [operation, if success then ''ok'' else ''error''])"

definition prom_PluginHealthState :: "('c, 'g, 'r) prometheus_lib \<Rightarrow> string \<Rightarrow> string \<Rightarrow> ('c, 'g) PrometheusMetrics \<Rightarrow> ('c, 'g) PrometheusMetrics option" where
  "prom_PluginHealthState pl pluginID state p =
     map_option (\<lambda>g. p\<lparr>pm_pluginHealth := g\<rparr>) (pl_Set pl (pm_pluginHealth p) [pluginID] (pluginHealthGaugeValue state))"

definition prom_LoginStarted :: "('c, 'g, 'r) prometheus_lib \<Rightarrow> ('c, 'g) PrometheusMetrics \<Rightarrow> ('c, 'g) PrometheusMetrics option" where
  "prom_LoginStarted pl p = map_option (\<lambda>c. p\<lparr>pm_agentFlowOps := c\<rparr>) (pl_Inc pl (pm_agentFlowOps p) [''login_start'', ''ok''])"

definition prom_LoginCompleted :: "('c, 'g, 'r) prometheus_lib \<Rightarrow> bool \<Rightarrow> ('c, 'g) PrometheusMetrics \<Rightarrow> ('c, 'g) PrometheusMetrics option" where
  "prom_LoginCompleted pl success p =
     map_option (\<lambda>c. p\<lparr>pm_agentFlowOps := c\<rparr>) (pl_Inc pl (pm_agentFlowOps p) [''login_end'', if success then ''ok'' else ''fail''])"

definition prom_RefreshCompleted :: "('c, 'g, 'r) prometheus_lib \<Rightarrow> bool \<Rightarrow> ('c, 'g) PrometheusMetrics \<Rightarrow> ('c, 'g) PrometheusMetrics option" where
  "prom_RefreshCompleted pl success p =
     map_option (\<lambda>c. p\<lparr>pm_agentFlowOps := c\<rparr>) (pl_Inc pl (pm_agentFlowOps p) [''refresh'', if success then ''ok'' else ''fail''])"

definition prom_LogoutCompleted :: "('c, 'g, 'r) prometheus_lib \<Rightarrow> ('c, 'g) PrometheusMetrics \<Rightarrow> ('c, 'g) PrometheusMetrics option" where
  "prom_LogoutCompleted pl p = map_option (\<lambda>c. p\<lparr>pm_agentFlowOps := c\<rparr>) (pl_Inc pl (pm_agentFlowOps p) [''logout'', ''ok''])"

definition prom_ConnectorCallback :: "('c, 'g, 'r) prometheus_lib \<Rightarrow> string \<Rightarrow> bool \<Rightarrow> ('c, 'g) PrometheusMetrics \<Rightarrow> ('c, 'g) PrometheusMetrics option" where
  "prom_ConnectorCallback pl connectorID success p =
     map_option (\<lambda>c. p\<lparr>pm_callbacks := c\<rparr>) (pl_Inc pl (pm_callbacks p) [connectorID, okFail success])"

definition prom_HandoffIssued :: "('c, 'g, 'r) prometheus_lib \<Rightarrow> string \<Rightarrow> bool \<Rightarrow> ('c, 'g) PrometheusMetrics \<Rightarrow> ('c, 'g) PrometheusMetrics option" where
  "prom_HandoffIssued pl connectorID success p =
     map_option (\<lambda>c. p\<lparr>pm_handoff := c\<rparr>) (pl_Inc pl (pm_handoff p) [''issue'', connectorID, okFail success])"

definition prom_HandoffRedeemed :: "('c, 'g, 'r) prometheus_lib \<Rightarrow> string \<Rightarrow> bool \<Rightarrow> ('c, 'g) PrometheusMetrics \<Rightarrow> ('c, 'g) PrometheusMetrics option" where
  "prom_HandoffRedeemed pl connectorID success p =
     map_option (\<lambda>c. p\<lparr>pm_handoff := c\<rparr>) (pl_Inc pl (pm_handoff p) [''redeem'', connectorID, okFail success])"

definition prom_ProxyRouteOutcome :: "('c, 'g, 'r) prometheus_lib \<Rightarrow> string \<Rightarrow> string \<Rightarrow> ('c, 'g) PrometheusMetrics \<Rightarrow> ('c, 'g) PrometheusMetrics option" where
  "prom_ProxyRouteOutcome pl rt outcome p = map_option (\<lambda>c. p\<lparr>pm_routeOutcomes := c\<rparr>) (pl_Inc pl (pm_routeOutcomes p) [rt, outcome])"

text \<open>
  A measurement is a call of the interfaces \<open>Metrics\<close> and \<open>ConnectorMetrics\<close>; those of the auth service are the
  values of \<^typ>\<open>metric\<close>. \<open>NopMetrics\<close> discards them.
\<close>

datatype measurement =
    MDecision bool int
  | MCacheHit string
  | MCacheMiss string
  | MStoreOp string bool
  | MHealth string string
  | MService metric
  | MRouteOutcome string string

datatype ('c, 'g) metrics_sink = NopMetrics | Prometheus "('c, 'g) PrometheusMetrics"

fun prom_service :: "('c, 'g, 'r) prometheus_lib \<Rightarrow> metric \<Rightarrow> ('c, 'g) PrometheusMetrics \<Rightarrow> ('c, 'g) PrometheusMetrics option" where
  "prom_service pl LoginStarted = prom_LoginStarted pl"
| "prom_service pl (LoginCompleted b) = prom_LoginCompleted pl b"
| "prom_service pl (ConnectorCallback c b) = prom_ConnectorCallback pl c b"
| "prom_service pl (RefreshCompleted b) = prom_RefreshCompleted pl b"
| "prom_service pl LogoutCompleted = prom_LogoutCompleted pl"
| "prom_service pl (HandoffIssued c b) = prom_HandoffIssued pl c b"
| "prom_service pl (HandoffRedeemed c b) = prom_HandoffRedeemed pl c b"

fun prom_observe :: "('c, 'g, 'r) prometheus_lib \<Rightarrow> measurement \<Rightarrow> ('c, 'g) PrometheusMetrics \<Rightarrow> ('c, 'g) PrometheusMetrics option" where
  "prom_observe pl (MDecision b n) = prom_AuthDecision pl b n"
| "prom_observe pl (MCacheHit i) = prom_JWKSCacheHit pl i"
| "prom_observe pl (MCacheMiss i) = prom_JWKSCacheMiss pl i"
| "prom_observe pl (MStoreOp x b) = prom_SessionStoreOp pl x b"
| "prom_observe pl (MHealth i st) = prom_PluginHealthState pl i st"
| "prom_observe pl (MService m) = prom_service pl m"
| "prom_observe pl (MRouteOutcome r x) = prom_ProxyRouteOutcome pl r x"

definition sink_observe :: "('c, 'g, 'r) prometheus_lib \<Rightarrow> measurement \<Rightarrow> ('c, 'g) metrics_sink \<Rightarrow> ('c, 'g) metrics_sink option" where
  "sink_observe pl m s = (case s of NopMetrics \<Rightarrow> Some NopMetrics | Prometheus p \<Rightarrow> map_option Prometheus (prom_observe pl m p))"

primrec sink_run :: "('c, 'g, 'r) prometheus_lib \<Rightarrow> measurement list \<Rightarrow> ('c, 'g) metrics_sink \<Rightarrow> ('c, 'g) metrics_sink option" where
  "sink_run pl [] s = Some s"
| "sink_run pl (m # ms) s = Option.bind (sink_observe pl m s) (sink_run pl ms)"

section \<open>Logging (logger.go, stdlogger.go)\<close>

record std_logger =
  lg_pre :: "gany list"

definition NewStdLogger :: std_logger where
  "NewStdLogger = \<lparr>lg_pre = []\<rparr>"

definition quoteIfNeeded :: "string \<Rightarrow> string" where
  "quoteIfNeeded s =
     (if \<not> list_ex (\<lambda>c. c \<in> set [CHR 0x20, CHR 0x09, NL, DQ, BSL]) s then s
      else [DQ] @ ReplaceChar DQ [BSL, DQ] (ReplaceChar BSL [BSL, BSL] s) @ [DQ])"

definition formatKey :: "(gany \<Rightarrow> string) \<Rightarrow> gany \<Rightarrow> string" where
  "formatKey sprint k = (case k of AStr s \<Rightarrow> s | _ \<Rightarrow> sprint k)"

definition formatValue :: "(gany \<Rightarrow> string) \<Rightarrow> gany \<Rightarrow> string" where
  "formatValue sprint v = (case v of AStr s \<Rightarrow> quoteIfNeeded s | _ \<Rightarrow> quoteIfNeeded (sprint v))"

fun appendKeyvals :: "(gany \<Rightarrow> string) \<Rightarrow> string \<Rightarrow> gany list \<Rightarrow> string" where
  "appendKeyvals sprint buf (k # v # kvs) =
     appendKeyvals sprint ((if buf \<noteq> [] then buf @ '' '' else buf) @ formatKey sprint k @ ''='' @ formatValue sprint v) kvs"
| "appendKeyvals sprint buf _ = buf"

text \<open>The line that is given to \<open>log.Logger\<close>.\<close>

definition emit :: "(gany \<Rightarrow> string) \<Rightarrow> std_logger \<Rightarrow> string \<Rightarrow> string \<Rightarrow> gany list \<Rightarrow> string" where
  "emit sprint l level msg keyvals =
     (let buf = ''level='' @ level @ '' '' @ ''msg='' @ formatValue sprint (AStr msg);
          buf1 = (if lg_pre l \<noteq> [] then appendKeyvals sprint buf (lg_pre l) else buf)
      in if keyvals \<noteq> [] then appendKeyvals sprint buf1 keyvals else buf1)"

datatype log_level = Info | Warn | Error

fun level_name :: "log_level \<Rightarrow> string" where
  "level_name Info = ''info''"
| "level_name Warn = ''warn''"
| "level_name Error = ''error''"

definition log_With :: "std_logger \<Rightarrow> gany list \<Rightarrow> std_logger" where
  "log_With l keyvals = l\<lparr>lg_pre := lg_pre l @ keyvals\<rparr>"

datatype logger = NopLogger | StdLogger std_logger

text \<open>What a call of \<open>Info\<close>, \<open>Warn\<close> or \<open>Error\<close> writes, and \<open>With\<close>, through the interface.\<close>

fun logger_write :: "(gany \<Rightarrow> string) \<Rightarrow> log_level \<Rightarrow> logger \<Rightarrow> string \<Rightarrow> gany list \<Rightarrow> string list" where
  "logger_write sprint lv NopLogger msg kvs = []"
| "logger_write sprint lv (StdLogger l) msg kvs = [emit sprint l (level_name lv) msg kvs]"

fun logger_With :: "logger \<Rightarrow> gany list \<Rightarrow> logger" where
  "logger_With NopLogger kvs = NopLogger"
| "logger_With (StdLogger l) kvs = StdLogger (log_With l kvs)"

section \<open>Tracing (tracing.go, otel_tracer.go)\<close>

definition maxAttributeLen :: nat where "maxAttributeLen = 256"

text \<open>The arguments of a span, by their dynamic type; \<open>OtherV\<close> carries what \<open>fmt.Sprint\<close> prints.\<close>

datatype span_arg = StrV string | BytesV bytes | BoolV bool | IntV int | Int64V int | Uint64V int | FloatV rat | OtherV string

datatype attribute = StringAttr string string | BoolAttr string bool | Int64Attr string int | Float64Attr string rat

definition isSensitiveKey :: "(string \<Rightarrow> string) \<Rightarrow> string \<Rightarrow> bool" where
  "isSensitiveKey lower k = list_ex (Contains (lower k))
     [''password'', ''passwd'', ''secret'', ''token'', ''bearer'', ''credential'', ''authorization'', ''apikey'', ''api_key'', ''api-key'']"

definition clip :: "string \<Rightarrow> string" where
  "clip s = (if maxAttributeLen < length s then take maxAttributeLen s @ [CHR 0xE2, CHR 0x80, CHR 0xA6] else s)"

fun attributeFromAny :: "string \<Rightarrow> span_arg \<Rightarrow> attribute" where
  "attributeFromAny k (StrV s) = StringAttr k (clip s)"
| "attributeFromAny k (BytesV s) = StringAttr k (clip s)"
| "attributeFromAny k (BoolV b) = BoolAttr k b"
| "attributeFromAny k (IntV i) = Int64Attr k i"
| "attributeFromAny k (Int64V i) = Int64Attr k i"
| "attributeFromAny k (Uint64V i) = Int64Attr k (wrap64 i)"
| "attributeFromAny k (FloatV x) = Float64Attr k x"
| "attributeFromAny k (OtherV s) = StringAttr k (clip s)"

fun keyvalsToAttributes :: "(string \<Rightarrow> string) \<Rightarrow> span_arg list \<Rightarrow> attribute list" where
  "keyvalsToAttributes lower (k # v # kvs) =
     (case k of
        StrV s \<Rightarrow> (if TrimSpace s = '''' \<or> isSensitiveKey lower s then [] else [attributeFromAny s v])
      | _ \<Rightarrow> []) @ keyvalsToAttributes lower kvs"
| "keyvalsToAttributes lower _ = []"

record ('x, 'p) otlp_lib =
  ol_http :: "string \<Rightarrow> bool \<Rightarrow> 'x option \<times> goerr option"
  ol_grpc :: "string \<Rightarrow> bool \<Rightarrow> 'x option \<times> goerr option"
  ol_NewTracerProvider :: "string \<Rightarrow> 'x \<Rightarrow> 'p"

text \<open>\<open>OtelTracer\<close> carries the provider (which is installed and which \<open>shutdown\<close> shuts down) and the tracer's name.\<close>

datatype 'p tracer = NopTracer | OtelTracer 'p string

definition otlp_target :: "url_parser \<Rightarrow> string \<Rightarrow> string \<times> string" where
  "otlp_target url_Parse endpoint = (case url_Parse endpoint of
     Inr u \<Rightarrow> if u_Host u \<noteq> '''' then (u_Host u, u_Scheme u) else (endpoint, '''')
   | Inl _ \<Rightarrow> (endpoint, ''''))"

definition NewOTLPTracerFromEnvWithShutdown :: "('x, 'p) otlp_lib \<Rightarrow> url_parser \<Rightarrow> (string \<Rightarrow> string) \<Rightarrow> 'p tracer \<times> 'p option" where
  "NewOTLPTracerFromEnvWithShutdown ol url_Parse getenv =
     (let endpoint = TrimSpace (getenv ''OTEL_EXPORTER_OTLP_ENDPOINT'') in
      if endpoint = '''' then (NopTracer, None)
      else (let protocol = or_default (TrimSpace (getenv ''OTEL_EXPORTER_OTLP_PROTOCOL'')) ''grpc'';
                serviceName = or_default (TrimSpace (getenv ''OTEL_SERVICE_NAME'')) ''accessgate'';
                (hostport, scheme) = otlp_target url_Parse endpoint;
                new = (if ToLower protocol \<in> set [''http/protobuf'', ''http''] then ol_http ol else ol_grpc ol)
            in case new hostport (scheme = ''http'') of
                 (Some exporter, None) \<Rightarrow> (let tp = ol_NewTracerProvider ol serviceName exporter in (OtelTracer tp serviceName, Some tp))
               | _ \<Rightarrow> (NopTracer, None)))"

definition NewOTLPTracerFromEnv :: "('x, 'p) otlp_lib \<Rightarrow> url_parser \<Rightarrow> (string \<Rightarrow> string) \<Rightarrow> 'p tracer" where
  "NewOTLPTracerFromEnv ol url_Parse getenv = fst (NewOTLPTracerFromEnvWithShutdown ol url_Parse getenv)"

text \<open>The span a tracer starts: its name and attributes, or none.\<close>

fun StartSpan :: "(string \<Rightarrow> string) \<Rightarrow> 'p tracer \<Rightarrow> string \<Rightarrow> span_arg list \<Rightarrow> ('p \<times> string \<times> attribute list) option" where
  "StartSpan lower NopTracer name kvs = None"
| "StartSpan lower (OtelTracer tp sn) name kvs = Some (tp, name, keyvalsToAttributes lower kvs)"

section \<open>The bundle (provider.go)\<close>

record ('c, 'g, 'p) observability_provider =
  op_Logger :: logger
  op_Metrics :: "('c, 'g) metrics_sink"
  op_Tracer :: "'p tracer"

definition NewProvider :: "logger option \<Rightarrow> ('c, 'g) metrics_sink option \<Rightarrow> 'p tracer option \<Rightarrow> ('c, 'g, 'p) observability_provider" where
  "NewProvider lg ms tr =
     \<lparr>op_Logger = (case lg of None \<Rightarrow> NopLogger | Some l \<Rightarrow> l),
      op_Metrics = (case ms of None \<Rightarrow> NopMetrics | Some m \<Rightarrow> m),
      op_Tracer = (case tr of None \<Rightarrow> NopTracer | Some t \<Rightarrow> t)\<rparr>"

section \<open>Counting\<close>

text \<open>The counters, and the counter and labels a measurement goes to; the health of a plugin is a gauge.\<close>

datatype counter = AuthDecisions | JwksCache | SessionStoreOps | AgentFlowOps | Callbacks | HandoffTotal | RouteOutcomes

fun counter_of :: "counter \<Rightarrow> ('c, 'g) PrometheusMetrics \<Rightarrow> 'c" where
  "counter_of AuthDecisions = pm_authDecisions"
| "counter_of JwksCache = pm_jwksCache"
| "counter_of SessionStoreOps = pm_sessionStoreOps"
| "counter_of AgentFlowOps = pm_agentFlowOps"
| "counter_of Callbacks = pm_callbacks"
| "counter_of HandoffTotal = pm_handoff"
| "counter_of RouteOutcomes = pm_routeOutcomes"

fun counted_as :: "measurement \<Rightarrow> (counter \<times> string list) option" where
  "counted_as (MDecision b n) = Some (AuthDecisions, [if b then ''allow'' else ''deny'', Itoa n])"
| "counted_as (MCacheHit i) = Some (JwksCache, [i, ''hit''])"
| "counted_as (MCacheMiss i) = Some (JwksCache, [i, ''miss''])"
| "counted_as (MStoreOp x b) = Some (SessionStoreOps, [x, if b then ''ok'' else ''error''])"
| "counted_as (MHealth i st) = None"
| "counted_as (MService LoginStarted) = Some (AgentFlowOps, [''login_start'', ''ok''])"
| "counted_as (MService (LoginCompleted b)) = Some (AgentFlowOps, [''login_end'', okFail b])"
| "counted_as (MService (RefreshCompleted b)) = Some (AgentFlowOps, [''refresh'', okFail b])"
| "counted_as (MService LogoutCompleted) = Some (AgentFlowOps, [''logout'', ''ok''])"
| "counted_as (MService (ConnectorCallback c b)) = Some (Callbacks, [c, okFail b])"
| "counted_as (MService (HandoffIssued c b)) = Some (HandoffTotal, [''issue'', c, okFail b])"
| "counted_as (MService (HandoffRedeemed c b)) = Some (HandoffTotal, [''redeem'', c, okFail b])"
| "counted_as (MRouteOutcome r x) = Some (RouteOutcomes, [r, x])"

fun labels_of :: "measurement \<Rightarrow> string list" where
  "labels_of (MHealth i st) = [i]"
| "labels_of m = (case counted_as m of Some (c, ls) \<Rightarrow> ls | None \<Rightarrow> [])"

lemma nat_digits_inj: "nat_digits m = nat_digits n \<Longrightarrow> m = n"
proof (induction m arbitrary: n rule: nat_digits.induct)
  case (1 m)
  have len: "length (nat_digits k) = 1 \<longleftrightarrow> k < 10" for k
    by (subst nat_digits.simps) simp
  have d: "a mod 10 = b mod 10" if "char_of (48 + a mod 10) = (char_of (48 + b mod 10) :: char)" for a b :: nat
    using arg_cong [OF that, of "of_char :: char \<Rightarrow> nat"] by (simp add: mod_less)
  show ?case
  proof (cases "m < 10")
    case True
    then have "n < 10" using len [of m] len [of n] 1(2) by simp
    then show ?thesis using True 1(2) d [of m n] by (simp add: nat_digits.simps [of m] nat_digits.simps [of n])
  next
    case False
    then have "\<not> n < 10" using len [of m] len [of n] 1(2) by simp
    with False 1(2) have e: "nat_digits (m div 10) = nat_digits (n div 10)" "char_of (48 + m mod 10) = (char_of (48 + n mod 10) :: char)"
      by (simp_all add: nat_digits.simps [of m] nat_digits.simps [of n])
    show ?thesis using 1(1) [OF False e(1)] d [OF e(2)] by (metis div_mult_mod_eq)
  qed
qed

lemma Itoa_inj: "Itoa i = Itoa j \<Longrightarrow> i = j"
proof -
  have m: "CHR ''-'' # s \<noteq> nat_digits n" for s n
  proof
    assume "CHR ''-'' # s = nat_digits n"
    then have "CHR ''-'' \<in> set (nat_digits n)" by (metis list.set_intros(1))
    from nat_digits_digits [OF this] show False by simp
  qed
  show "Itoa i = Itoa j \<Longrightarrow> i = j"
    using m m [symmetric] by (cases "i < 0"; cases "j < 0") (auto simp: Itoa_def dest!: nat_digits_inj)
qed

lemma counted_as_inj:
  assumes "counted_as m = Some k" and "counted_as m' = Some k"
  shows "m = m'"
  using assms
  by (cases m rule: counted_as.cases; simp; cases m' rule: counted_as.cases; clarsimp simp: okFail_def dest!: Itoa_inj split: if_split_asm)
text \<open>
  The documented behaviour of the library: a vector counts every combination of label values on its own, for as many
  values as it was made with, all of them acceptable (\<open>ok\<close>); registering works for collectors of
  different names that a fresh registry does not know.
\<close>

locale prometheus =
  fixes pl :: "('c, 'g, 'r) prometheus_lib"
    and arity :: "'c \<Rightarrow> nat" and cval :: "'c \<Rightarrow> string list \<Rightarrow> nat" and cname :: "'c \<Rightarrow> string"
    and garity :: "'g \<Rightarrow> nat" and gval :: "'g \<Rightarrow> string list \<Rightarrow> rat option" and gname :: "'g \<Rightarrow> string"
    and ok :: "string \<Rightarrow> bool"
  assumes counter_new: "arity (pl_NewCounterVec pl n h ls) = length ls" "cval (pl_NewCounterVec pl n h ls) xs = 0"
      "cname (pl_NewCounterVec pl n h ls) = n"
    and gauge_new: "garity (pl_NewGaugeVec pl n h ls) = length ls" "gname (pl_NewGaugeVec pl n h ls) = n"
    and inc: "length xs = arity c \<Longrightarrow> list_all ok xs \<Longrightarrow>
        \<exists>c'. pl_Inc pl c xs = Some c' \<and> arity c' = arity c \<and> cval c' = (cval c)(xs := Suc (cval c xs))"
    and set': "length xs = garity g \<Longrightarrow> list_all ok xs \<Longrightarrow>
        \<exists>g'. pl_Set pl g xs v = Some g' \<and> garity g' = garity g \<and> gval g' = (gval g)(xs \<mapsto> v)"
    and register: "distinct (map cname cs @ map gname gs) \<Longrightarrow> \<exists>r. pl_MustRegister pl (pl_NewRegistry pl) cs gs = Some r"
begin

definition fits :: "('c, 'g) PrometheusMetrics \<Rightarrow> bool" where
  "fits p \<longleftrightarrow> arity (pm_authDecisions p) = 2 \<and> arity (pm_jwksCache p) = 2 \<and> arity (pm_sessionStoreOps p) = 2
     \<and> arity (pm_agentFlowOps p) = 2 \<and> arity (pm_callbacks p) = 2 \<and> arity (pm_handoff p) = 3 \<and> arity (pm_routeOutcomes p) = 2
     \<and> garity (pm_pluginHealth p) = 1"

lemma fresh: "\<exists>p r. NewPrometheusMetrics pl None = Some (p, r) \<and> fits p \<and> (\<forall>c xs. cval (counter_of c p) xs = 0)"
proof -
  have "cval (counter_of c p) xs = 0" if "NewPrometheusMetrics pl None = Some (p, r)" for p r c xs
    using that by (cases c) (auto simp: NewPrometheusMetrics_def Let_def counter_new)
  moreover have "\<exists>p r. NewPrometheusMetrics pl None = Some (p, r) \<and> fits p"
    unfolding NewPrometheusMetrics_def Let_def option.case
    using register by (force simp: fits_def counter_new gauge_new)
  ultimately show ?thesis by blast
qed

lemma observe:
  assumes "fits p" and "list_all ok (labels_of m)"
  shows "\<exists>p'. prom_observe pl m p = Some p' \<and> fits p'
    \<and> (\<forall>c xs. cval (counter_of c p') xs = cval (counter_of c p) xs + (if counted_as m = Some (c, xs) then 1 else 0))"
proof -
  note defs = prom_AuthDecision_def prom_JWKSCacheHit_def prom_JWKSCacheMiss_def prom_SessionStoreOp_def prom_PluginHealthState_def
    prom_LoginStarted_def prom_LoginCompleted_def prom_RefreshCompleted_def prom_LogoutCompleted_def prom_ConnectorCallback_def
    prom_HandoffIssued_def prom_HandoffRedeemed_def prom_ProxyRouteOutcome_def
  have sel: "(\<forall>c xs. P c xs) \<longleftrightarrow> (\<forall>xs. P AuthDecisions xs \<and> P JwksCache xs \<and> P SessionStoreOps xs \<and> P AgentFlowOps xs
      \<and> P Callbacks xs \<and> P HandoffTotal xs \<and> P RouteOutcomes xs)" for P
    by (metis counter.exhaust)
  show ?thesis
  proof (cases "counted_as m")
    case None
    then obtain i st where m: "m = MHealth i st" by (cases m rule: counted_as.cases) auto
    from set' [of "[i]" "pm_pluginHealth p" "pluginHealthGaugeValue st"] assms show ?thesis
      by (auto simp: m fits_def defs sel)
  next
    case (Some k)
    then obtain c xs where k: "counted_as m = Some (c, xs)" by (cases k) auto
    have "length xs = arity (counter_of c p)" "list_all ok xs"
      using k assms by (cases m rule: counted_as.cases; auto simp: fits_def)+
    from inc [OF this] obtain v where "pl_Inc pl (counter_of c p) xs = Some v" "arity v = arity (counter_of c p)"
      "cval v = (cval (counter_of c p))(xs := Suc (cval (counter_of c p) xs))" by blast
    then show ?thesis using k assms(1)
      by (cases m rule: counted_as.cases) (auto simp: fits_def defs sel okFail_def)
  qed
qed

lemma run:
  assumes "fits p" and "list_all (\<lambda>m. list_all ok (labels_of m)) ms"
  shows "\<exists>p'. sink_run pl ms (Prometheus p) = Some (Prometheus p') \<and> fits p'
    \<and> (\<forall>c xs. cval (counter_of c p') xs = cval (counter_of c p) xs + count_list (map counted_as ms) (Some (c, xs)))"
  using assms
proof (induction ms arbitrary: p)
  case (Cons m ms)
  from observe [of p m] Cons.prems obtain q where q: "prom_observe pl m p = Some q" "fits q"
    "\<forall>c xs. cval (counter_of c q) xs = cval (counter_of c p) xs + (if counted_as m = Some (c, xs) then 1 else 0)" by auto
  from Cons.IH [OF q(2)] Cons.prems(2) q show ?case by (auto simp: sink_observe_def)
qed simp

lemma counts_measurements:
  assumes "NewPrometheusMetrics pl None = Some (p0, r)" and "list_all (\<lambda>m. list_all ok (labels_of m)) ms" and "counted_as m = Some (c, xs)"
  shows "\<exists>p. sink_run pl ms (Prometheus p0) = Some (Prometheus p) \<and> cval (counter_of c p) xs = count_list ms m"
proof -
  have "count_list (map counted_as ms) (Some (c, xs)) = count_list ms m"
    using assms(3) by (induction ms) (auto dest: counted_as_inj)
  with run [of p0 ms] fresh assms(1,2) show ?thesis by auto
qed

end
text \<open>A library that keeps its vectors as lists.\<close>

type_synonym 'v sample_vec = "string \<times> nat \<times> (string list \<times> 'v) list"

definition sample_prometheus :: "(nat sample_vec, rat sample_vec, string list) prometheus_lib" where
  "sample_prometheus = \<lparr>pl_NewRegistry = [], pl_NewCounterVec = (\<lambda>n h ls. (n, length ls, [])), pl_NewGaugeVec = (\<lambda>n h ls. (n, length ls, [])),
     pl_MustRegister = (\<lambda>r cs gs. if distinct (map fst cs @ map fst gs @ r) then Some (map fst cs @ map fst gs @ r) else None),
     pl_Inc = (\<lambda>(n, k, m) xs. if length xs = k then Some (n, k, AList.update xs (Suc (case map_of m xs of None \<Rightarrow> 0 | Some v \<Rightarrow> v)) m) else None),
     pl_Set = (\<lambda>(n, k, m) xs v. if length xs = k then Some (n, k, AList.update xs v m) else None)\<rparr>"

definition sample_cval :: "nat sample_vec \<Rightarrow> string list \<Rightarrow> nat" where
  "sample_cval c xs = (case map_of (snd (snd c)) xs of None \<Rightarrow> 0 | Some v \<Rightarrow> v)"

interpretation counting: prometheus sample_prometheus "\<lambda>c. fst (snd c)" sample_cval fst "\<lambda>g. fst (snd g)" "\<lambda>g. map_of (snd (snd g))" fst "\<lambda>l. True"
  by unfold_locales (auto simp: sample_prometheus_def sample_cval_def update_conv' fun_eq_iff)

section \<open>What the log and the spans carry\<close>

text \<open>A reader of log lines: \<open>key=value\<close> fields with a space between, a value quoted or without spaces.\<close>

fun unquote :: "string \<Rightarrow> (string \<times> string) option" where
  "unquote [] = None"
| "unquote (c # s) =
     (if c = DQ then Some ([], s)
      else if c = BSL then (case s of [] \<Rightarrow> None | d # t \<Rightarrow> map_option (\<lambda>(v, r). (d # v, r)) (unquote t))
      else map_option (\<lambda>(v, r). (c # v, r)) (unquote s))"

definition read_value :: "string \<Rightarrow> (string \<times> string) option" where
  "read_value s = (case s of
     c # t \<Rightarrow> if c = DQ then unquote t else Some (takeWhile (\<lambda>x. x \<noteq> CHR '' '') s, dropWhile (\<lambda>x. x \<noteq> CHR '' '') s)
   | [] \<Rightarrow> Some ([], []))"

definition read_field :: "string \<Rightarrow> ((string \<times> string) \<times> string) option" where
  "read_field s = (case SplitN2 (CHR ''='') s of
     None \<Rightarrow> None
   | Some (k, t) \<Rightarrow> map_option (\<lambda>(v, r). ((k, v), r)) (read_value t))"

function read_line :: "string \<Rightarrow> (string \<times> string) list option" where
  "read_line s = (case read_field s of
     None \<Rightarrow> None
   | Some (f, []) \<Rightarrow> Some [f]
   | Some (f, c # r) \<Rightarrow> (if c = CHR '' '' \<and> length r < length s then map_option (Cons f) (read_line r) else None))"
  by pat_completeness auto
termination by (relation "measure length") auto

declare read_line.simps [simp del]

fun keyval_pairs :: "'a list \<Rightarrow> ('a \<times> 'a) list" where
  "keyval_pairs (k # v # kvs) = (k, v) # keyval_pairs kvs"
| "keyval_pairs _ = []"

definition printed :: "(gany \<Rightarrow> string) \<Rightarrow> gany \<Rightarrow> string" where
  "printed sprint v = (case v of AStr s \<Rightarrow> s | _ \<Rightarrow> sprint v)"

definition log_fields :: "(gany \<Rightarrow> string) \<Rightarrow> gany list \<Rightarrow> (string \<times> string) list" where
  "log_fields sprint kvs = map (\<lambda>(k, v). (printed sprint k, printed sprint v)) (keyval_pairs kvs)"

definition print_field :: "string \<times> string \<Rightarrow> string" where
  "print_field f = fst f @ ''='' @ quoteIfNeeded (snd f)"

lemma unquote_escape: "unquote (ReplaceChar DQ [BSL, DQ] (ReplaceChar BSL [BSL, BSL] s) @ DQ # r) = Some (s, r)"
  by (induction s) (auto simp: ReplaceChar_def DQ_def BSL_def)

lemma read_value_quote: "r = [] \<or> hd r = CHR '' '' \<Longrightarrow> read_value (quoteIfNeeded v @ r) = Some (v, r)"
proof (cases "list_ex (\<lambda>c. c \<in> set [CHR 0x20, CHR 0x09, NL, DQ, BSL]) v")
  case True
  then have "quoteIfNeeded v = DQ # ReplaceChar DQ [BSL, DQ] (ReplaceChar BSL [BSL, BSL] v) @ [DQ]"
    by (simp add: quoteIfNeeded_def)
  then show ?thesis using unquote_escape [of v r] by (simp add: read_value_def)
next
  case False
  then have v: "quoteIfNeeded v = v" "\<forall>c \<in> set v. c \<noteq> CHR '' '' \<and> c \<noteq> DQ" by (auto simp: quoteIfNeeded_def list_ex_iff)
  assume "r = [] \<or> hd r = CHR '' ''"
  then have r: "takeWhile (\<lambda>x. x \<noteq> CHR '' '') r = []" "dropWhile (\<lambda>x. x \<noteq> CHR '' '') r = r" "r = [] \<or> hd r \<noteq> DQ"
    by (cases r; simp add: DQ_def)+
  have "takeWhile (\<lambda>x. x \<noteq> CHR '' '') (v @ r) = v" "dropWhile (\<lambda>x. x \<noteq> CHR '' '') (v @ r) = r"
    using v(2) r(1,2) by (simp_all add: takeWhile_append dropWhile_append)
  moreover have "v @ r = [] \<or> hd (v @ r) \<noteq> DQ" using v(2) r(3) by (cases v) auto
  ultimately show ?thesis unfolding v(1) by (cases "v @ r") (simp_all add: read_value_def)
qed

lemma read_field_print:
  assumes "CHR ''='' \<notin> set (fst f)" and "r = [] \<or> hd r = CHR '' ''"
  shows "read_field (print_field f @ r) = Some (f, r)"
  using assms read_value_quote [OF assms(2), of "snd f"] by (simp add: read_field_def print_field_def)

lemma read_line_print:
  assumes "fs \<noteq> []" and "\<forall>f \<in> set fs. CHR ''='' \<notin> set (fst f)"
  shows "read_line (StrJoin '' '' (map print_field fs)) = Some fs"
  using assms
proof (induction fs rule: induct_list012)
  case (2 f)
  with read_field_print [of f "[]"] show ?case by (subst read_line.simps) simp
next
  case (3 f g fs)
  let ?r = "StrJoin '' '' (map print_field (g # fs))"
  from 3 read_field_print [of f "'' '' @ ?r"] have "read_field (print_field f @ '' '' @ ?r) = Some (f, CHR '' '' # ?r)" by simp
  with 3 show ?case by (subst read_line.simps) simp
qed simp

lemma StrJoin_append: "xs \<noteq> [] \<Longrightarrow> ys \<noteq> [] \<Longrightarrow> StrJoin s (xs @ ys) = StrJoin s xs @ s @ StrJoin s ys"
  by (induction xs rule: induct_list012) (auto simp: neq_Nil_conv)

lemma appendKeyvals_join:
  "fs \<noteq> [] \<Longrightarrow> appendKeyvals sprint (StrJoin '' '' (map print_field fs)) kvs = StrJoin '' '' (map print_field (fs @ log_fields sprint kvs))"
proof (induction kvs arbitrary: fs rule: induct_list012)
  case (3 k v kvs)
  let ?f = "(printed sprint k, printed sprint v)"
  have ne: "StrJoin '' '' (map print_field fs) \<noteq> []" using 3(3) by (cases fs rule: remdups_adj.cases) (auto simp: print_field_def)
  have "formatKey sprint k @ ''='' @ formatValue sprint v = print_field ?f"
    by (auto simp: print_field_def formatKey_def formatValue_def printed_def split: gany.splits)
  with ne 3(1) [of "fs @ [?f]"] 3(3) show ?case by (simp add: log_fields_def StrJoin_append)
qed (simp_all add: log_fields_def)
lemma keyvalsToAttributes_pairs:
  "keyvalsToAttributes lower kvs = concat (map (\<lambda>(k, v). case k of
     StrV s \<Rightarrow> if TrimSpace s = '''' \<or> isSensitiveKey lower s then [] else [attributeFromAny s v] | _ \<Rightarrow> []) (keyval_pairs kvs))"
  by (induction kvs rule: keyval_pairs.induct) simp_all

lemma clip_bound: "length (clip s) \<le> maxAttributeLen + 3"
  by (simp add: clip_def)

fun attr_key :: "attribute \<Rightarrow> string" where
  "attr_key (StringAttr k s) = k"
| "attr_key (BoolAttr k b) = k"
| "attr_key (Int64Attr k i) = k"
| "attr_key (Float64Attr k x) = k"

lemma attr_key_from [simp]: "attr_key (attributeFromAny k v) = k"
  by (cases v) simp_all

section \<open>Properties\<close>

text \<open>
  The counters count: after any sequence of measurements with acceptable labels nothing has panicked, and the counter and
  labels of a measurement show how often exactly this measurement was made.
\<close>

theorem metrics_counted:
  assumes "prometheus pl arity cval cname garity gval gname ok" and "NewPrometheusMetrics pl None = Some (p0, r)"
    and "list_all (\<lambda>m. list_all ok (labels_of m)) ms" and "counted_as m = Some (c, xs)"
  shows "\<exists>p. sink_run pl ms (Prometheus p0) = Some (Prometheus p) \<and> cval (counter_of c p) xs = count_list ms m"
  using assms(2-) by (rule prometheus.counts_measurements [OF assms(1)])

text \<open>
  A log line can be read back: with keys without an equals sign a line determines the level, the message and the fields
  of the logger and the call, whatever characters the values hold.
\<close>

theorem log_line_readable:
  assumes "\<forall>f \<in> set (log_fields sprint (lg_pre l) @ log_fields sprint kvs). CHR ''='' \<notin> set (fst f)"
  shows "logger_write sprint lv (StdLogger l) msg kvs = [line] \<Longrightarrow>
    read_line line = Some ([(''level'', level_name lv), (''msg'', msg)] @ log_fields sprint (lg_pre l) @ log_fields sprint kvs)"
proof -
  let ?fs = "[(''level'', level_name lv), (''msg'', msg)]"
  have lq: "quoteIfNeeded (level_name lv) = level_name lv" by (cases lv) (simp_all add: quoteIfNeeded_def NL_def DQ_def BSL_def)
  have "''level='' @ level_name lv @ '' '' @ ''msg='' @ formatValue sprint (AStr msg) = StrJoin '' '' (map print_field ?fs)"
    by (simp add: print_field_def formatValue_def lq)
  then have e: "emit sprint l (level_name lv) msg kvs = StrJoin '' '' (map print_field (?fs @ log_fields sprint (lg_pre l) @ log_fields sprint kvs))"
    using appendKeyvals_join [of ?fs sprint "lg_pre l"] appendKeyvals_join [of "?fs @ log_fields sprint (lg_pre l)" sprint kvs]
      appendKeyvals_join [of ?fs sprint kvs]
    by (cases "lg_pre l = []"; cases "kvs = []") (simp_all add: emit_def log_fields_def)
  have "read_line (emit sprint l (level_name lv) msg kvs) = Some (?fs @ log_fields sprint (lg_pre l) @ log_fields sprint kvs)"
    unfolding e using assms by (intro read_line_print) auto
  then show "logger_write sprint lv (StdLogger l) msg kvs = [line] \<Longrightarrow>
    read_line line = Some ([(''level'', level_name lv), (''msg'', msg)] @ log_fields sprint (lg_pre l) @ log_fields sprint kvs)" by simp
qed

text \<open>
  Spans carry no secrets by name: an exported attribute has a key that is not blank and holds none of the sensitive
  words, its value comes from the argument after that key, and a text is cut at 256 bytes.
\<close>

theorem span_attributes_clean:
  assumes "StartSpan lower tr name kvs = Some (tp, n, attrs)" and "a \<in> set attrs"
  shows "TrimSpace (attr_key a) \<noteq> '''' \<and> \<not> isSensitiveKey lower (attr_key a)
    \<and> (\<exists>v. (StrV (attr_key a), v) \<in> set (keyval_pairs kvs) \<and> a = attributeFromAny (attr_key a) v)
    \<and> (\<forall>k s. a = StringAttr k s \<longrightarrow> length s \<le> 259)"
proof -
  obtain sn where "tr = OtelTracer tp sn" "attrs = keyvalsToAttributes lower kvs" using assms(1) by (cases tr) auto
  with assms(2) obtain k v where kv: "(StrV k, v) \<in> set (keyval_pairs kvs)" "TrimSpace k \<noteq> ''''" "\<not> isSensitiveKey lower k" "a = attributeFromAny k v"
    by (auto simp: keyvalsToAttributes_pairs split: span_arg.splits if_splits)
  moreover have "\<forall>k' s. attributeFromAny k v = StringAttr k' s \<longrightarrow> length s \<le> 259"
    using clip_bound by (cases v) (auto simp: maxAttributeLen_def)
  ultimately show ?thesis by auto
qed

text \<open>Tracing is off without an endpoint, and a plain connection is made only to an endpoint with the scheme \<open>http\<close>.\<close>

lemma otlp_off: "TrimSpace (getenv ''OTEL_EXPORTER_OTLP_ENDPOINT'') = '''' \<Longrightarrow> NewOTLPTracerFromEnv ol url_Parse getenv = NopTracer"
  by (simp add: NewOTLPTracerFromEnv_def NewOTLPTracerFromEnvWithShutdown_def)

lemma otlp_insecure:
  assumes "\<And>h. fst (ol_http ol h False) = None" "\<And>h. fst (ol_grpc ol h False) = None"
    and "NewOTLPTracerFromEnv ol url_Parse getenv = OtelTracer tp n"
  shows "\<exists>u. url_Parse (TrimSpace (getenv ''OTEL_EXPORTER_OTLP_ENDPOINT'')) = Inr u \<and> u_Scheme u = ''http''"
proof (rule ccontr)
  assume "\<not> ?thesis"
  then have "snd (otlp_target url_Parse (TrimSpace (getenv ''OTEL_EXPORTER_OTLP_ENDPOINT''))) \<noteq> ''http''"
    by (auto simp: otlp_target_def split: sum.splits)
  with assms show False
    by (auto simp: NewOTLPTracerFromEnv_def NewOTLPTracerFromEnvWithShutdown_def Let_def split: prod.splits if_splits option.splits) (metis fst_conv option.distinct(1))+
qed

text \<open>
  Every connector name that a client puts into the path of a redemption becomes a label: a refused redemption is
  counted under the name it came with.
\<close>

lemma refused_redemption_label:
  assumes "RedeemHandoff ae s w connectorID tick = (Inl e, w', ms)" and "sv_handoff s \<noteq> None"
  shows "map (counted_as \<circ> MService) ms = [Some (HandoffTotal, [''redeem'', connectorID, ''fail''])]"
  using assms by (auto simp: RedeemHandoff_def Let_def or_default_def okFail_def split: prod.splits)

text \<open>A line break in a message stays in the line; a key that \<open>With\<close> got without a value takes the next key as its value.\<close>

lemma log_newline_kept: "NL \<in> set msg \<Longrightarrow> NL \<in> set (emit sprint l level msg [])"
proof -
  assume "NL \<in> set msg"
  moreover have "set s \<subseteq> set (quoteIfNeeded s)" for s
    by (auto simp: quoteIfNeeded_def ReplaceChar_def)
  moreover have "set buf \<subseteq> set (appendKeyvals sprint buf kvs)" for buf kvs
    by (induction sprint buf kvs rule: appendKeyvals.induct) auto
  ultimately show ?thesis by (force simp: emit_def formatValue_def Let_def)
qed

lemma log_dangling_key:
  "emit sprint (log_With (log_With NewStdLogger [AStr ''tenant'']) [AStr ''user'', AStr ''u1'']) ''info'' ''hi'' [] = ''level=info msg=hi tenant=user''"
  by (simp add: emit_def log_With_def NewStdLogger_def formatKey_def formatValue_def quoteIfNeeded_def NL_def DQ_def BSL_def)
section \<open>Witnesses\<close>

definition sample_metrics :: "(nat sample_vec, rat sample_vec) PrometheusMetrics" where
  "sample_metrics = fst (the (NewPrometheusMetrics sample_prometheus None))"

theorem metrics_counted_witness:
  "\<exists>p. sink_run sample_prometheus [MDecision True 200, MDecision False 403, MHealth ''rl'' ''degraded'', MDecision True 200] (Prometheus sample_metrics) = Some (Prometheus p)
    \<and> sample_cval (counter_of AuthDecisions p) [''allow'', ''200''] = 2"
proof -
  let ?ms = "[MDecision True 200, MDecision False 403, MHealth ''rl'' ''degraded'', MDecision True 200]"
  obtain r where n: "NewPrometheusMetrics sample_prometheus None = Some (sample_metrics, r)"
    using counting.fresh by (auto simp: sample_metrics_def)
  have "Itoa 200 = ''200''" by code_simp
  then have c: "counted_as (MDecision True 200) = Some (AuthDecisions, [''allow'', ''200''])" by simp
  have "count_list ?ms (MDecision True 200) = 2" by simp
  moreover have "list_all (\<lambda>m. list_all (\<lambda>l. True) (labels_of m)) ?ms" by simp
  ultimately show ?thesis using metrics_counted [OF counting.prometheus_axioms n _ c, of ?ms] by metis
qed

theorem log_line_readable_witness:
  "read_line (emit (\<lambda>v. ''?'') (log_With NewStdLogger [AStr ''svc'', AStr ''auth'']) ''warn'' ''bad code'' [AStr ''path'', AStr ''a=b c''])
    = Some [(''level'', ''warn''), (''msg'', ''bad code''), (''svc'', ''auth''), (''path'', ''a=b c'')]"
proof -
  let ?l = "log_With NewStdLogger [AStr ''svc'', AStr ''auth'']" and ?k = "[AStr ''path'', AStr ''a=b c'']"
  have k: "\<forall>f \<in> set (log_fields (\<lambda>v. ''?'') (lg_pre ?l) @ log_fields (\<lambda>v. ''?'') ?k). CHR ''='' \<notin> set (fst f)"
    by (simp add: log_fields_def printed_def log_With_def NewStdLogger_def)
  show ?thesis
    using log_line_readable [OF k, of Warn "''bad code''"] by (simp add: log_fields_def printed_def log_With_def NewStdLogger_def)
qed

theorem span_attributes_clean_witness:
  "StartSpan ToLower (OtelTracer () ''accessgate'') ''auth.login'' [StrV ''connector'', StrV ''web'', StrV ''id_Token'', StrV ''x'']
      = Some ((), ''auth.login'', [StringAttr ''connector'' ''web'']) \<and> \<not> isSensitiveKey ToLower ''connector''"
proof -
  have s: "StartSpan ToLower (OtelTracer () ''accessgate'') ''auth.login'' [StrV ''connector'', StrV ''web'', StrV ''id_Token'', StrV ''x'']
      = Some ((), ''auth.login'', [StringAttr ''connector'' ''web''])" by code_simp
  from span_attributes_clean [OF s, of "StringAttr ''connector'' ''web''"] s show ?thesis by simp
qed

end
