(* ===== verification/Spec2Isabelle.thy ===== *)
theory Spec2Isabelle
  imports Gateway Mock_Idp Schema_Gen Observability Tools Redis_Store Token Graphql Policy Authz Plugin_Registry Plugin_Discovery Proxy_Config Proxy_Client Proxy_Http Rate_Limit
begin

text \<open>
  A verification library for AccessGate (under \<open>src/\<close>), an authentication service and an authorizing reverse
  proxy. The theories model the Go sources function by function and prove what makes them correct, from the cookie
  codec up to the two processes running together.

  \<^bold>\<open>The program.\<close> \<open>accessgate-auth\<close> logs browsers in at OIDC providers (one connector each), keeps the sessions in
  Redis under one key prefix per connector, hands out signed session cookies and one-time handoff tickets, and
  tells the proxy whom a cookie stands for. \<open>accessgate-proxy\<close> matches a request to a route, asks the auth service
  for the principal, runs pipeline plugins (such as the rate limiter) and a policy (Rego, or a signed WASM bundle
  that a watcher reloads), and forwards an allowed request, over HTTP or gRPC, with identity headers of its own.
  Around them are a plugin registry with manifest discovery, a mock identity provider and command-line tools.

  \<^bold>\<open>How the model is written.\<close> A Go struct is a record, an interface value a record of its methods, an error
  the left side of a sum, a nil pointer or map \<^const>\<open>None\<close>, a map an association list whose order is the iteration
  order of \<open>range\<close>. Whatever the code changes is passed as a state and returned: the store, the network, the files,
  the clock, the plugins' own state. Metrics are part of the results. A library outside the repository, a file
  system, a cipher or a remote server is an argument of the definitions that use it; what the proofs need of it is a
  hypothesis of the theorem or an assumption of a locale, and every theorem with hypotheses has a witness that
  discharges them at a concrete input.

  \<^bold>\<open>The theories\<close>, from the bottom:

  \<^item> \<open>Go_Prelude\<close>, \<open>Go_Utf8\<close>, \<open>Go_Base64\<close>, \<open>Go_Http\<close>: the parts of the Go language and its library in use (strings,
    maps, \<open>any\<close>, UTF-8, JSON strings, base64, header maps, URLs, the reverse proxy's rewriting), with the
    lemmas all components share.
  \<^item> \<open>Cookie\<close> (\<open>pkg/cookie\<close>), \<open>Session\<close> (\<open>pkg/session\<close>, \<open>internal/session\<close>), \<open>Redis_Store\<close> (\<open>internal/redis\<close>):
    a cookie is accepted exactly with a valid MAC; the Redis store refines a map with expiry; a key is consumed
    once in every interleaving of store calls; searches over \<open>SCAN\<close> return; a started session is what its cookie
    resolves to until it is ended.
  \<^item> \<open>Token\<close> (\<open>pkg/token\<close>), \<open>Sdk\<close> (\<open>pkg/sdk\<close>, \<open>pkg/auth/session.go\<close>), \<open>Oidc\<close> (\<open>pkg/oidc\<close>,
    \<open>internal/plugins/oidcprovider\<close>): ID tokens, keys and the key-set cache; the identity context; PKCE, discovery, the
    authorization URL, exchange, refresh and revocation. A principal stands for a signed, unexpired token of the
    issuer with the expected audience and nonce; the authorization URL binds this login's values.
  \<^item> \<open>Handoff\<close> (\<open>internal/auth/handoff\<close>), \<open>Auth_Redirect\<close> (\<open>service/redirect.go\<close>), \<open>Auth_Config\<close>
    (\<open>internal/auth/config\<close>): tickets are authentic, single-use and redeem to what was issued; no open redirect; an
    accepted configuration has distinct connectors with one default and disjoint key prefixes.
  \<^item> \<open>Auth_Service\<close> (\<open>internal/auth/service/service.go\<close>), \<open>Auth_Frame\<close>, \<open>Auth_World\<close> (the wiring of
    \<open>cmd/accessgate-auth/main.go\<close>), \<open>Auth_Http\<close> (\<open>internal/auth/httpserver\<close>, \<open>errormap\<close>), \<open>Auth_Theorems\<close>: all
    operations of the service and its endpoints. A session comes only from a pending login with a validated token; the
    state is used once; logout ends the session; refresh keeps the identity; connectors do not touch each other's
    sessions; admin endpoints need the secret; cookies are hardened; a login goes through when the outside answers.
  \<^item> \<open>Policy\<close> (\<open>internal/policy\<close>, \<open>cmd/bundle-sign/sign.go\<close>), \<open>Graphql\<close> (\<open>internal/graphql\<close>), \<open>Authz\<close>
    (\<open>internal/authz\<close>): both engines fail closed; only verified bundles serve in every interleaving of polls, requests
    and file changes; documents parse to their operation; a request is allowed only for a resolved principal by a
    plugin or the policy; identity headers cannot be forged; failures have their statuses.
  \<^item> \<open>Plugin_Registry\<close>, \<open>Plugin_Discovery\<close> (\<open>internal/plugin\<close>), \<open>Rate_Limit\<close> (\<open>internal/plugins/ratelimit\<close>): the
    registry's indexes agree after any sequence of operations; the startup order exists exactly when the graph allows it;
    discovery adds verified manifests only; at most burst plus rate times time requests of a key pass.
  \<^item> \<open>Proxy_Config\<close> (\<open>internal/proxy/config\<close>), \<open>Proxy_Client\<close> (\<open>internal/proxy\<close>), \<open>Proxy_Http\<close>
    (\<open>internal/proxy/httpserver\<close>), \<open>Grpc\<close> (\<open>internal/grpc\<close>, \<open>cmd/accessgate-proxy/grpcserver.go\<close>): loaded
    configurations are sound; the longest prefix wins; only vouched requests are forwarded; a gRPC call reaches the
    upstream only when allowed, and its two copying goroutines pass every frame unchanged and in order.
  \<^item> \<open>Bootstrap\<close> (\<open>cmd/accessgate-proxy\<close>, \<open>internal/plugins/register\<close>), \<open>Gateway\<close>: the proxy as its \<open>main\<close> builds it,
    and the proxy talking to the auth server of \<open>Auth_World\<close>. Resolution over HTTP refines the service's own
    call, and a request forwarded on a protected route carries a cookie whose session the auth server has stored, and
    was allowed by a verified policy for that session's principal.
  \<^item> \<open>Mock_Idp\<close> (\<open>cmd/mockidp\<close>), \<open>Tools\<close> (\<open>internal/configload\<close>, \<open>internal/healthcheck\<close>, \<open>cmd/validateconfig\<close>,
    \<open>cmd/renderconfig\<close>, \<open>cmd/bundle-sign\<close>, both \<open>loadConfig\<close>): the code flow completes against the mock
    provider; generated keys sign bundles that the proxy verifies; comma lists of the environment agree with those of files.
  \<^item> \<open>Schema_Gen\<close> (\<open>cmd/schema\<close>), \<open>Observability\<close> (\<open>pkg/observability\<close>): the written schemas close every object and
    require what has no default; every counter shows how often exactly its measurement was made; a log line can be read
    back; spans carry no attribute with a sensitive name.

  \<^bold>\<open>Interfaces.\<close> \<open>cookie_codec\<close> (signed cookies), \<open>store_contract\<close> and \<open>browser_sessions\<close> (session and PKCE
  stores), \<open>redis_server\<close> (the documented behaviour of the Redis commands) with \<open>redis_sessions\<close> over it,
  \<open>auth_world\<close>, \<open>auth_on_redis\<close> and \<open>connector_frame\<close> (a connector and its stores), \<open>hot_reload\<close> (a
  loader behind the watcher), \<open>engine_invariant\<close> (what the proxy's requests keep), \<open>frame_pump\<close> (a copying
  goroutine) and \<open>prometheus\<close> (the documented behaviour of counter vectors). Each is interpreted on the model's definitions where these are provided: \<open>signed\<close> and \<open>manager\<close>,
  \<open>mem\<close> and \<open>mem_store\<close> (the store over a memory server, which shows that \<open>redis_server\<close> can be met), \<open>running\<close> and
  \<open>apart\<close>, \<open>bundles\<close> and \<open>proxied\<close>, \<open>bootstrapped\<close>, \<open>c2u\<close> and \<open>u2c\<close>, \<open>counting\<close>.

  \<^bold>\<open>Concurrency.\<close> What a mutex or a Redis command makes atomic is one step, and the theorems range over all
  sequences of steps: store calls of several clients, requests and polls of the watcher, requests to the rate limiter.
  The gRPC director is a step relation whose steps are the returns of the stream operations of both goroutines.

  \<^bold>\<open>Bounds.\<close> No definition has fuel. Loops over lists are structural; \<open>TrimSpace\<close>, \<open>runes\<close>, \<open>json_escape\<close>,
  \<open>nextToken\<close>, \<open>fields_from\<close> and \<open>read_line\<close> end because the rest of the string gets shorter, \<open>boundSchemaValue\<close> because the tree gets smaller, \<open>kahn\<close> because every plugin leaves the
  queue once for each edge into it. \<open>find_scan\<close>, \<open>delete_scan\<close> and \<open>find_up\<close> may run for ever on a server whose
  cursors never end or a parent function without a fixed point: they are partial functions, and it is proved that they
  return when the scan ends and for Unix paths. 64-bit sums of values that the code does not control wrap (\<open>wrap64\<close>);
  float arithmetic of the rate limiter is rational with the rounding as an argument.

  \<^bold>\<open>Not modelled\<close>: \<open>internal/testutil\<close> and the generator of test bundles (helpers of tests), the generated protobuf
  code, and of the two \<open>main\<close> functions the listening, the signals and the printing of errors. The calls that log or open
  a span are left out of the modelled functions: they have no influence on a result.
\<close>

end
